(* ===== verification/Prelude.thy ===== *)
theory Prelude
  imports Main "HOL-Library.AList" "HOL-Library.Char_ord" "HOL-Library.List_Lexorder"
    "HOL-Library.Sublist" "HOL-Library.Word"
begin

section \<open>Prelude: the part of Go and of its standard library the sources use\<close>

text \<open>
  Shared by every component: Go strings as byte lists (\<^typ>\<open>string\<close>), the functions of
  packages \<open>strings\<close> and \<open>strconv\<close> that the sources call, Go maps as association lists
  (a \<open>nil\<close> map reads like an empty one, so both are \<open>[]\<close>; where the code tells them apart the
  field is an \<open>option\<close>), and Go errors as values.  An error keeps its format string, its
  non-error arguments and the error it wraps with \<open>%w\<close>, so \<open>errors.Is\<close> is a walk along the
  chain.  Times and durations are \<^typ>\<open>int\<close> nanoseconds.
\<close>

named_theorems go_strings "characterisations of the string functions"

type_synonym smap = "(string \<times> string) list"
type_synonym duration = int
type_synonym timestamp = int

text \<open>
  A \<open>time.Duration\<close> is an \<open>int64\<close> of nanoseconds: \<open>wrap64\<close> is its arithmetic, and
  \<open>time_Sub\<close> the saturating difference of two instants.
\<close>

definition wrap64 :: "int \<Rightarrow> int" where
  "wrap64 x = (x + 2 ^ 63) mod 2 ^ 64 - 2 ^ 63"

definition time_Sub :: "timestamp \<Rightarrow> timestamp \<Rightarrow> duration" where
  "time_Sub t u = max (- (2 ^ 63)) (min (2 ^ 63 - 1) (t - u))"

abbreviation Second :: duration where "Second \<equiv> 1000000000"
abbreviation Minute :: duration where "Minute \<equiv> 60 * Second"

lemma wrap64_id: "- (2 ^ 63) \<le> x \<Longrightarrow> x < 2 ^ 63 \<Longrightarrow> wrap64 x = x"
  unfolding wrap64_def by (subst mod_pos_pos_trivial) simp_all

subsection \<open>Errors\<close>

datatype api_error = NotFound | AlreadyExists | OtherApiError string

datatype go_error =
    ErrSentinel string
  | ErrApi api_error
  | Errorf string "string list" "go_error option"

text \<open>\<open>errors.Is\<close>: does the chain of wrapped errors hold \<open>target\<close>?\<close>

primrec errors_Is :: "go_error \<Rightarrow> go_error \<Rightarrow> bool" where
  "errors_Is (ErrSentinel n) target = (ErrSentinel n = target)"
| "errors_Is (ErrApi a) target = (ErrApi a = target)"
| "errors_Is (Errorf f args w) target =
     (Errorf f args w = target \<or> (case map_option (\<lambda>e. errors_Is e target) w of None \<Rightarrow> False | Some b \<Rightarrow> b))"

lemma errors_Is_Errorf_Some [simp]:
  "errors_Is (Errorf f args (Some e)) (ErrSentinel n) = errors_Is e (ErrSentinel n)"
  by simp

lemma errors_Is_Errorf_None [simp]: "\<not> errors_Is (Errorf f args None) (ErrSentinel n)"
  by simp

subsection \<open>Package strings\<close>

definition HasPrefix :: "string \<Rightarrow> string \<Rightarrow> bool" where
  "HasPrefix s p = prefix p s"

definition HasSuffix :: "string \<Rightarrow> string \<Rightarrow> bool" where
  "HasSuffix s p = suffix p s"

definition TrimSuffix :: "string \<Rightarrow> string \<Rightarrow> string" where
  "TrimSuffix s p = (if HasSuffix s p then take (length s - length p) s else s)"

definition Contains :: "string \<Rightarrow> string \<Rightarrow> bool" where
  "Contains s sub = sublist sub s"

definition ContainsAny :: "string \<Rightarrow> string \<Rightarrow> bool" where
  "ContainsAny s chars = list_ex (\<lambda>c. c \<in> set chars) s"

fun Index :: "string \<Rightarrow> string \<Rightarrow> nat option" where
  "Index [] sub = (if sub = [] then Some 0 else None)"
| "Index (c # t) sub = (if prefix sub (c # t) then Some 0 else map_option Suc (Index t sub))"

fun IndexByte :: "string \<Rightarrow> char \<Rightarrow> nat option" where
  "IndexByte [] c = None"
| "IndexByte (x # xs) c = (if x = c then Some 0 else map_option Suc (IndexByte xs c))"

definition LastIndexByte :: "string \<Rightarrow> char \<Rightarrow> nat option" where
  "LastIndexByte s c = map_option (\<lambda>i. length s - 1 - i) (IndexByte (rev s) c)"

text \<open>\<open>strings.Cut\<close> with a one-byte separator: the text before and after its first occurrence.\<close>

definition Cut :: "string \<Rightarrow> char \<Rightarrow> (string \<times> string) option" where
  "Cut s c = map_option (\<lambda>i. (take i s, drop (Suc i) s)) (IndexByte s c)"

fun Split :: "char \<Rightarrow> string \<Rightarrow> string list" where
  "Split c [] = [[]]"
| "Split c (x # xs) =
     (if x = c then [] # Split c xs
      else case Split c xs of [] \<Rightarrow> [[x]] | y # ys \<Rightarrow> (x # y) # ys)"

fun Join :: "string list \<Rightarrow> string \<Rightarrow> string" where
  "Join [] sep = []"
| "Join [x] sep = x"
| "Join (x # y # ys) sep = x @ sep @ Join (y # ys) sep"

definition isSpace :: "char \<Rightarrow> bool" where
  "isSpace c = (c \<in> {CHR '' '', CHR 0x09, CHR 0x0A, CHR 0x0B, CHR 0x0C, CHR 0x0D})"

definition TrimSpace :: "string \<Rightarrow> string" where
  "TrimSpace s = rev (dropWhile isSpace (rev (dropWhile isSpace s)))"

subsection \<open>Packages path and path/filepath\<close>

text \<open>\<open>Clean\<close> on Unix, element by element from the left; the accumulator is reversed.\<close>

fun clean_elems :: "bool \<Rightarrow> string list \<Rightarrow> string list \<Rightarrow> string list" where
  "clean_elems rooted acc [] = rev acc"
| "clean_elems rooted acc (x # xs) =
     (if x = [] \<or> x = ''.'' then clean_elems rooted acc xs
      else if x \<noteq> ''..'' then clean_elems rooted (x # acc) xs
      else case acc of
             [] \<Rightarrow> clean_elems rooted (if rooted then [] else [x]) xs
           | y # ys \<Rightarrow> if y = ''..'' then clean_elems rooted (x # acc) xs else clean_elems rooted ys xs)"

definition filepath_Clean :: "string \<Rightarrow> string" where
  "filepath_Clean p =
     (let rooted = HasPrefix p ''/'';
          out = Join (clean_elems rooted [] (Split (CHR ''/'') p)) ''/''
      in if rooted then ''/'' @ out else if out = [] then ''.'' else out)"

definition filepath_Join :: "string list \<Rightarrow> string" where
  "filepath_Join elems =
     (case dropWhile (\<lambda>x. x = []) elems of
        [] \<Rightarrow> []
      | xs \<Rightarrow> filepath_Clean (Join xs ''/''))"

subsection \<open>Package strconv\<close>

definition digit :: "nat \<Rightarrow> char" where
  "digit n = char_of (48 + n)"

definition digit_val :: "char \<Rightarrow> nat option" where
  "digit_val c = (let v = (of_char c :: nat) in if 48 \<le> v \<and> v \<le> 57 then Some (v - 48) else None)"

fun nat_digits :: "nat \<Rightarrow> string" where
  "nat_digits n = (if n < 10 then [digit n] else nat_digits (n div 10) @ [digit (n mod 10)])"

declare nat_digits.simps [simp del]

definition Itoa :: "int \<Rightarrow> string" where
  "Itoa i = (if i < 0 then CHR ''-'' # nat_digits (nat (- i)) else nat_digits (nat i))"

fun parse_digits :: "nat \<Rightarrow> string \<Rightarrow> nat option" where
  "parse_digits acc [] = Some acc"
| "parse_digits acc (c # cs) =
     (case digit_val c of None \<Rightarrow> None | Some d \<Rightarrow> parse_digits (acc * 10 + d) cs)"

text \<open>\<open>strconv.Atoi\<close> on a 64-bit platform: an optional sign, at least one digit, range-checked.\<close>

definition Atoi :: "string \<Rightarrow> int option" where
  "Atoi s =
     (let neg = (case s of [] \<Rightarrow> False | c # _ \<Rightarrow> c = CHR ''-'');
          body = (case s of [] \<Rightarrow> [] | c # cs \<Rightarrow> if c = CHR ''-'' \<or> c = CHR ''+'' then cs else s)
      in if body = [] then None
         else case parse_digits 0 body of
                None \<Rightarrow> None
              | Some n \<Rightarrow>
                  (let i = (if neg then - int n else int n)
                   in if - (2 ^ 63) \<le> i \<and> i < 2 ^ 63 then Some i else None))"

subsection \<open>Go maps\<close>

text \<open>Reading a missing key gives the zero value, here the empty string.\<close>

definition mget :: "smap \<Rightarrow> string \<Rightarrow> string" where
  "mget m k = (case map_of m k of None \<Rightarrow> [] | Some v \<Rightarrow> v)"

definition mhas :: "('k \<times> 'v) list \<Rightarrow> 'k \<Rightarrow> bool" where
  "mhas m k = (map_of m k \<noteq> None)"

lemma mhas_iff [simp]: "mhas m k \<longleftrightarrow> k \<in> fst ` set m"
  by (simp add: mhas_def map_of_eq_None_iff)

lemma map_of_AList_update [simp]: "map_of (AList.update k v m) = (map_of m)(k \<mapsto> v)"
  by (simp add: update_conv')

subsection \<open>Facts about strings\<close>

lemma HasPrefix_append [simp]: "HasPrefix (p @ s) p"
  by (simp add: HasPrefix_def)

lemma HasPrefix_iff [go_strings]: "HasPrefix s p \<longleftrightarrow> (\<exists>t. s = p @ t)"
  by (auto simp: HasPrefix_def prefix_def)

lemma HasSuffix_iff [go_strings]: "HasSuffix s p \<longleftrightarrow> (\<exists>t. s = t @ p)"
  by (auto simp: HasSuffix_def suffix_def)

lemma HasSuffix_append [simp]: "HasSuffix (s @ p) p"
  by (simp add: HasSuffix_def suffix_def)

lemma TrimSuffix_append [simp]: "TrimSuffix (s @ p) p = s"
  by (simp add: TrimSuffix_def)

lemma IndexByte_None_iff [simp]: "IndexByte s c = None \<longleftrightarrow> c \<notin> set s"
  by (induction s) auto

lemma IndexByte_append: "c \<notin> set p \<Longrightarrow> IndexByte (p @ c # q) c = Some (length p)"
  by (induction p) auto

lemma IndexByte_Some_iff:
  "IndexByte s c = Some i \<longleftrightarrow> (\<exists>p q. s = p @ c # q \<and> length p = i \<and> c \<notin> set p)"
proof
  show "IndexByte s c = Some i \<Longrightarrow> \<exists>p q. s = p @ c # q \<and> length p = i \<and> c \<notin> set p"
  proof (induction s arbitrary: i)
    case Nil
    then show ?case by simp
  next
    case (Cons x xs)
    show ?case
    proof (cases "x = c")
      case True
      with Cons.prems show ?thesis by (intro exI [of _ "[]"] exI [of _ xs]) auto
    next
      case False
      with Cons.prems obtain j where "IndexByte xs c = Some j" and i: "i = Suc j" by auto
      with Cons.IH obtain p q where "xs = p @ c # q" "length p = j" "c \<notin> set p" by blast
      with False i show ?thesis by (intro exI [of _ "x # p"] exI [of _ q]) auto
    qed
  qed
  show "\<exists>p q. s = p @ c # q \<and> length p = i \<and> c \<notin> set p \<Longrightarrow> IndexByte s c = Some i"
    by (auto simp: IndexByte_append)
qed

lemma LastIndexByte_append: "c \<notin> set q \<Longrightarrow> LastIndexByte (p @ c # q) c = Some (length p)"
  by (simp add: LastIndexByte_def IndexByte_append)

lemma LastIndexByte_Some:
  assumes "LastIndexByte s c = Some i"
  shows "\<exists>p q. s = p @ c # q \<and> length p = i \<and> c \<notin> set q"
proof -
  from assms obtain j where j: "IndexByte (rev s) c = Some j" "i = length s - 1 - j"
    by (auto simp: LastIndexByte_def)
  then obtain p q where pq: "rev s = p @ c # q" "length p = j" "c \<notin> set p"
    by (auto simp: IndexByte_Some_iff)
  from pq(1) have "s = rev q @ c # rev p" by (simp add: rev_swap)
  with pq j(2) show ?thesis
    by (intro exI [of _ "rev q"] exI [of _ "rev p"]) simp
qed

lemma LastIndexByte_None_iff [simp]: "LastIndexByte s c = None \<longleftrightarrow> c \<notin> set s"
  by (simp add: LastIndexByte_def)

lemma Cut_append [simp]: "c \<notin> set p \<Longrightarrow> Cut (p @ c # q) c = Some (p, q)"
  by (simp add: Cut_def IndexByte_append)

lemma before_unique:
  fixes c :: char
  assumes "p @ c # q = p' @ c # q'" "c \<notin> set p" "c \<notin> set p'"
  shows "p = p' \<and> q = q'"
proof -
  have "Some (p, q) = Cut (p' @ c # q') c"
    unfolding assms(1) [symmetric] by (rule sym, rule Cut_append, rule assms(2))
  also have "\<dots> = Some (p', q')" by (rule Cut_append, rule assms(3))
  finally show ?thesis by simp
qed

lemma Cut_Some_iff [go_strings]: "Cut s c = Some (p, q) \<longleftrightarrow> s = p @ c # q \<and> c \<notin> set p"
proof
  assume "Cut s c = Some (p, q)"
  then show "s = p @ c # q \<and> c \<notin> set p" by (auto simp: Cut_def IndexByte_Some_iff)
qed simp

lemma Cut_None_iff [simp]: "Cut s c = None \<longleftrightarrow> c \<notin> set s"
  by (simp add: Cut_def)

lemma Split_nonempty [simp]: "Split c s \<noteq> []"
  by (induction s) (auto split: list.splits)

lemma Join_Cons: "ys \<noteq> [] \<Longrightarrow> Join (x # ys) sep = x @ sep @ Join ys sep"
  by (cases ys) auto

lemma Join_Split [simp]: "Join (Split c s) [c] = s"
proof (induction s)
  case Nil
  then show ?case by simp
next
  case (Cons x xs)
  show ?case
  proof (cases "x = c")
    case True
    with Cons show ?thesis by (simp add: Join_Cons)
  next
    case False
    obtain y ys where y: "Split c xs = y # ys"
      using Split_nonempty [of c xs] by (cases "Split c xs") auto
    with Cons False show ?thesis by (cases ys) auto
  qed
qed

lemma Split_parts_no_sep: "p \<in> set (Split c s) \<Longrightarrow> c \<notin> set p"
  by (induction s arbitrary: p) (auto split: list.splits if_splits)

lemma Split_no_sep: "c \<notin> set s \<Longrightarrow> Split c s = [s]"
  by (induction s) auto

lemma Split_append: "c \<notin> set p \<Longrightarrow> Split c (p @ c # q) = p # Split c q"
  by (induction p) auto

lemma Split_Join:
  "xs \<noteq> [] \<Longrightarrow> (\<And>x. x \<in> set xs \<Longrightarrow> c \<notin> set x) \<Longrightarrow> Split c (Join xs [c]) = xs"
proof (induction xs "[c]" rule: Join.induct)
  case 1
  then show ?case by simp
next
  case (2 x)
  then show ?case by (simp add: Split_no_sep)
next
  case (3 x y ys)
  then show ?case by (simp add: Split_append)
qed

subsection \<open>Decimal round trip\<close>

lemma of_char_digit: "n < 10 \<Longrightarrow> (of_char (digit n) :: nat) = 48 + n"
  by (simp add: digit_def)

lemma digit_val_digit [simp]: "n < 10 \<Longrightarrow> digit_val (digit n) = Some n"
  by (simp add: digit_val_def of_char_digit)

lemma digit_not_sign:
  assumes "n < 10"
  shows "digit n \<noteq> CHR ''-''" "digit n \<noteq> CHR ''+''"
proof -
  have "(of_char (digit n) :: nat) \<noteq> of_char (CHR ''-'')"
    and "(of_char (digit n) :: nat) \<noteq> of_char (CHR ''+'')"
    using assms by (auto simp: of_char_digit)
  then show "digit n \<noteq> CHR ''-''" and "digit n \<noteq> CHR ''+''" by metis+
qed

lemma parse_digits_append:
  "parse_digits acc (xs @ ys) = (case parse_digits acc xs of None \<Rightarrow> None | Some a \<Rightarrow> parse_digits a ys)"
  by (induction xs arbitrary: acc) (auto split: option.splits)

lemma nat_digits_nonempty [simp]: "nat_digits n \<noteq> []"
  by (subst nat_digits.simps) simp

lemma set_nat_digits: "c \<in> set (nat_digits n) \<Longrightarrow> \<exists>d<10. c = digit d"
proof (induction n rule: nat_digits.induct)
  case (1 n)
  show ?case
  proof (cases "n < 10")
    case True
    with "1.prems" show ?thesis by (auto simp: nat_digits.simps [of n])
  next
    case False
    with "1.prems" have "c \<in> set (nat_digits (n div 10)) \<or> c = digit (n mod 10)"
      by (auto simp: nat_digits.simps [of n])
    moreover have "n mod 10 < 10" by simp
    ultimately show ?thesis using "1.IH" False by blast
  qed
qed

lemma parse_nat_digits: "parse_digits 0 (nat_digits n) = Some n"
proof (induction n rule: nat_digits.induct)
  case (1 n)
  show ?case
  proof (cases "n < 10")
    case True
    then show ?thesis by (simp add: nat_digits.simps [of n])
  next
    case False
    with "1.IH" have "parse_digits 0 (nat_digits (n div 10)) = Some (n div 10)" by simp
    with False show ?thesis
      by (simp add: nat_digits.simps [of n] parse_digits_append)
  qed
qed

lemma nat_digits_no_sign:
  "CHR ''-'' \<notin> set (nat_digits n)" "CHR ''+'' \<notin> set (nat_digits n)"
  using set_nat_digits digit_not_sign by metis+

lemma Atoi_Itoa:
  assumes "0 \<le> i" and "i < 2 ^ 63"
  shows "Atoi (Itoa i) = Some i"
proof -
  obtain d ds where ds: "nat_digits (nat i) = d # ds"
    using nat_digits_nonempty [of "nat i"] by (cases "nat_digits (nat i)") auto
  have "CHR ''-'' \<notin> set (d # ds)" "CHR ''+'' \<notin> set (d # ds)"
    using nat_digits_no_sign [of "nat i"] unfolding ds by simp_all
  then have "d \<noteq> CHR ''-''" "d \<noteq> CHR ''+''" by auto
  moreover have "parse_digits 0 (d # ds) = Some (nat i)"
    using parse_nat_digits [of "nat i"] ds by simp
  ultimately show ?thesis
    using assms ds by (simp add: Atoi_def Itoa_def)
qed

subsection \<open>Facts about lists\<close>

text \<open>The first element that satisfies a predicate is rewritten, the rest is kept.\<close>

fun map_first :: "('a \<Rightarrow> bool) \<Rightarrow> ('a \<Rightarrow> 'a) \<Rightarrow> 'a list \<Rightarrow> 'a list option" where
  "map_first p f [] = None"
| "map_first p f (x # xs) =
     (if p x then Some (f x # xs) else map_option ((#) x) (map_first p f xs))"

lemma map_first_None_iff [simp]: "map_first p f xs = None \<longleftrightarrow> (\<forall>x\<in>set xs. \<not> p x)"
  by (induction xs) auto

lemma map_first_append:
  "\<forall>a\<in>set as. \<not> p a \<Longrightarrow> p x \<Longrightarrow> map_first p f (as @ x # bs) = Some (as @ f x # bs)"
  by (induction as) auto

lemma map_first_SomeD:
  "map_first p f xs = Some ys \<Longrightarrow>
     \<exists>as x bs. xs = as @ x # bs \<and> (\<forall>a\<in>set as. \<not> p a) \<and> p x \<and> ys = as @ f x # bs"
proof (induction xs arbitrary: ys)
  case Nil
  then show ?case by simp
next
  case (Cons z zs)
  show ?case
  proof (cases "p z")
    case True
    with Cons.prems show ?thesis by (intro exI [of _ "[]"] exI [of _ z] exI [of _ zs]) auto
  next
    case False
    with Cons.prems obtain ws where ws: "map_first p f zs = Some ws" "ys = z # ws" by auto
    from Cons.IH [OF ws(1)] obtain as x bs where
      "zs = as @ x # bs" "\<forall>a\<in>set as. \<not> p a" "p x" "ws = as @ f x # bs" by blast
    with False ws(2) show ?thesis
      by (intro exI [of _ "z # as"] exI [of _ x] exI [of _ bs]) auto
  qed
qed

lemma map_first_Some_iff:
  "map_first p f xs = Some ys \<longleftrightarrow>
     (\<exists>as x bs. xs = as @ x # bs \<and> (\<forall>a\<in>set as. \<not> p a) \<and> p x \<and> ys = as @ f x # bs)"
proof
  show "map_first p f xs = Some ys \<Longrightarrow>
    \<exists>as x bs. xs = as @ x # bs \<and> (\<forall>a\<in>set as. \<not> p a) \<and> p x \<and> ys = as @ f x # bs"
    by (rule map_first_SomeD)
  show "\<exists>as x bs. xs = as @ x # bs \<and> (\<forall>a\<in>set as. \<not> p a) \<and> p x \<and> ys = as @ f x # bs \<Longrightarrow>
    map_first p f xs = Some ys"
    by (elim exE conjE) (simp add: map_first_append)
qed

lemma map_first_length: "map_first p f xs = Some ys \<Longrightarrow> length ys = length xs"
  by (auto simp: map_first_Some_iff)

end
