(* ===== verification/Kube_Types.thy ===== *)
theory Kube_Types
  imports Prelude
begin

section \<open>The data model: api/v1alpha1 and the Kubernetes objects the sources build\<close>

text \<open>
  One record per struct of \<open>src/api/v1alpha1\<close>, and the fields of the Kubernetes objects
  (\<open>corev1\<close>, \<open>batchv1\<close>, \<open>networkingv1\<close>) that the sources read or write; what the code
  passes through untouched is one opaque field per object (\<open>_rest\<close>).  An \<open>int32\<close> is a 32-bit
  word read with \<^const>\<open>sint\<close>.  A \<open>resource.Quantity\<close> is its exact value counted in
  nano-units, the finest unit the format can express, so \<open>Add\<close> and \<open>Cmp\<close> are exact.
\<close>

type_synonym int32 = "32 word"
type_synonym quantity = int
type_synonym resource_list = "(string \<times> quantity) list"

lemma sint_of_nat_int32: "n < 2 ^ 31 \<Longrightarrow> sint (of_nat n :: int32) = int n"
  by (simp add: sint_uint signed_take_bit_int_eq_self unsigned_of_nat take_bit_nat_eq_self)

subsection \<open>metav1\<close>

record owner_ref =
  or_Kind :: string
  or_Name :: string
  or_UID :: string
  or_Controller :: bool

record object_meta =
  meta_Name :: string
  meta_Namespace :: string
  meta_UID :: string
  meta_Labels :: smap
  meta_Annotations :: smap
  meta_OwnerReferences :: "owner_ref list"
  meta_Finalizers :: "string list"
  meta_DeletionTimestamp :: "timestamp option"
  meta_ResourceVersion :: string

definition object_meta0 :: object_meta where
  "object_meta0 = \<lparr>meta_Name = [], meta_Namespace = [], meta_UID = [], meta_Labels = [],
     meta_Annotations = [], meta_OwnerReferences = [], meta_Finalizers = [],
     meta_DeletionTimestamp = None, meta_ResourceVersion = []\<rparr>"

record condition =
  cond_Type :: string
  cond_Status :: string
  cond_Reason :: string
  cond_Message :: string
  cond_LastTransitionTime :: timestamp

text \<open>\<open>types.NamespacedName\<close>: namespace first, then name.\<close>

type_synonym namespaced_name = "string \<times> string"

subsection \<open>corev1, batchv1, networkingv1\<close>

record env_var =
  ev_Name :: string
  ev_Value :: string
  ev_rest :: string

record volume_mount =
  vm_Name :: string
  vm_MountPath :: string
  vm_ReadOnly :: bool
  vm_rest :: string

datatype volume_source =
    EmptyDir quantity
  | SecretVol string "int32 option" "(string \<times> string) list"
  | PVCVol string
  | HostPathVol string string
  | OtherVol string

record volume =
  vol_Name :: string
  vol_Source :: volume_source

record resource_requirements =
  rr_Requests :: resource_list
  rr_Limits :: resource_list

record container =
  c_Name :: string
  c_Image :: string
  c_Command :: "string list"
  c_Args :: "string list"
  c_Env :: "env_var list"
  c_VolumeMounts :: "volume_mount list"
  c_Resources :: resource_requirements
  c_TerminationMessagePath :: string
  c_TerminationMessagePolicy :: string
  c_rest :: string

definition container0 :: container where
  "container0 = \<lparr>c_Name = [], c_Image = [], c_Command = [], c_Args = [], c_Env = [],
     c_VolumeMounts = [], c_Resources = \<lparr>rr_Requests = [], rr_Limits = []\<rparr>,
     c_TerminationMessagePath = [], c_TerminationMessagePolicy = [], c_rest = []\<rparr>"

record pod_spec =
  ps_Containers :: "container list"
  ps_InitContainers :: "container list"
  ps_Volumes :: "volume list"
  ps_HostNetwork :: bool
  ps_NodeName :: string
  ps_RestartPolicy :: string
  ps_rest :: string

definition pod_spec0 :: pod_spec where
  "pod_spec0 = \<lparr>ps_Containers = [], ps_InitContainers = [], ps_Volumes = [],
     ps_HostNetwork = False, ps_NodeName = [], ps_RestartPolicy = [], ps_rest = []\<rparr>"

record terminated_state =
  term_Message :: string
  term_Reason :: string

record container_status =
  cs_Name :: string
  cs_ContainerID :: string
  cs_Terminated :: "terminated_state option"

record pod_status =
  pst_Phase :: string
  pst_PodIP :: string
  pst_Message :: string
  pst_Reason :: string
  pst_ContainerStatuses :: "container_status list"

definition pod_status0 :: pod_status where
  "pod_status0 = \<lparr>pst_Phase = [], pst_PodIP = [], pst_Message = [], pst_Reason = [],
     pst_ContainerStatuses = []\<rparr>"

record pod =
  pod_Meta :: object_meta
  pod_Spec :: pod_spec
  pod_Status :: pod_status

abbreviation PodRunning :: string where "PodRunning \<equiv> ''Running''"
abbreviation PodFailed :: string where "PodFailed \<equiv> ''Failed''"

record service_port =
  sp_Name :: string
  sp_Port :: int32
  sp_TargetPort :: int32
  sp_Protocol :: string

record service =
  svc_Meta :: object_meta
  svc_ClusterIP :: string
  svc_Selector :: smap
  svc_Ports :: "service_port list"

record pvc =
  pvc_Meta :: object_meta
  pvc_AccessModes :: "string list"
  pvc_Requests :: resource_list
  pvc_StorageClassName :: "string option"

record secret =
  sec_Meta :: object_meta
  sec_Type :: string
  sec_Data :: smap

record np_port =
  npp_Protocol :: string
  npp_Port :: int32

datatype np_peer =
    PodSelectorPeer smap
  | NamespaceSelectorPeer smap
  | IPBlockPeer string "string list"

record np_rule =
  npr_Peers :: "np_peer list"
  npr_Ports :: "np_port list"

record network_policy =
  np_Meta :: object_meta
  np_PodSelector :: smap
  np_PolicyTypes :: "string list"
  np_Ingress :: "np_rule list"
  np_Egress :: "np_rule list"

record job_condition =
  jc_Type :: string
  jc_Status :: string
  jc_Message :: string

record job =
  job_Meta :: object_meta
  job_TTLSecondsAfterFinished :: "int32 option"
  job_BackoffLimit :: "int32 option"
  job_Template :: pod_spec
  job_Conditions :: "job_condition list"

subsection \<open>DevPod (devpod_types.go)\<close>

datatype devpod_phase = PhaseUnset | DevPodPending | DevPodRunning | DevPodStopped | DevPodFailed

fun phase_str :: "devpod_phase \<Rightarrow> string" where
  "phase_str PhaseUnset = ''''"
| "phase_str DevPodPending = ''Pending''"
| "phase_str DevPodRunning = ''Running''"
| "phase_str DevPodStopped = ''Stopped''"
| "phase_str DevPodFailed = ''Failed''"

record persistence_spec =
  per_Size :: quantity
  per_StorageClassName :: string
  per_AccessModes :: "string list"
  per_MountPath :: string
  per_TargetContainer :: string

record pod_metadata =
  pm_Labels :: smap
  pm_Annotations :: smap

record pod_workload_spec =
  pw_Metadata :: pod_metadata
  pw_Spec :: pod_spec

record vm_workload_spec =
  vmw_Raw :: string

record devpod_spec =
  ds_Owner :: string
  ds_Collaborators :: "string list"
  ds_Running :: bool
  ds_IdleTimeoutSeconds :: int32
  ds_Persistence :: "persistence_spec option"
  ds_ExitOnUserCommandExit :: bool
  ds_Shell :: string
  ds_Pod :: "pod_workload_spec option"
  ds_VM :: "vm_workload_spec option"

record workload_ref =
  wr_APIVersion :: string
  wr_Kind :: string
  wr_Name :: string

record local_object_ref =
  lor_Name :: string

record devpod_status =
  dst_Phase :: devpod_phase
  dst_Endpoint :: string
  dst_WorkloadRef :: "workload_ref option"
  dst_PersistentVolumeClaimRef :: "local_object_ref option"
  dst_LastActivityTime :: "timestamp option"
  dst_HibernatedAt :: "timestamp option"
  dst_RetryCount :: int32
  dst_LastFailureAt :: "timestamp option"
  dst_Message :: string
  dst_Conditions :: "condition list"

record devpod =
  dp_Meta :: object_meta
  dp_Spec :: devpod_spec
  dp_Status :: devpod_status

definition devpod_spec0 :: devpod_spec where
  "devpod_spec0 = \<lparr>ds_Owner = [], ds_Collaborators = [], ds_Running = False,
     ds_IdleTimeoutSeconds = 0, ds_Persistence = None, ds_ExitOnUserCommandExit = False,
     ds_Shell = [], ds_Pod = None, ds_VM = None\<rparr>"

definition devpod_status0 :: devpod_status where
  "devpod_status0 = \<lparr>dst_Phase = PhaseUnset, dst_Endpoint = [], dst_WorkloadRef = None,
     dst_PersistentVolumeClaimRef = None, dst_LastActivityTime = None, dst_HibernatedAt = None,
     dst_RetryCount = 0, dst_LastFailureAt = None, dst_Message = [], dst_Conditions = []\<rparr>"

definition devpod0 :: devpod where
  "devpod0 = \<lparr>dp_Meta = object_meta0, dp_Spec = devpod_spec0, dp_Status = devpod_status0\<rparr>"

abbreviation dp_Name :: "devpod \<Rightarrow> string" where "dp_Name dp \<equiv> meta_Name (dp_Meta dp)"
abbreviation dp_UID :: "devpod \<Rightarrow> string" where "dp_UID dp \<equiv> meta_UID (dp_Meta dp)"
abbreviation dp_Owner :: "devpod \<Rightarrow> string" where "dp_Owner dp \<equiv> ds_Owner (dp_Spec dp)"

text \<open>
  The CEL rules on the \<open>DevPod\<close> and \<open>DevPodSpec\<close> types, which the API server evaluates on every
  write: exactly one workload kind, the length budget, the owner prefix, a non-empty container
  list.
\<close>

definition DevPod_admitted :: "devpod \<Rightarrow> bool" where
  "DevPod_admitted dp \<longleftrightarrow>
     ((if ds_Pod (dp_Spec dp) \<noteq> None then 1 else 0) + (if ds_VM (dp_Spec dp) \<noteq> None then 1 else 0) = (1::nat)) \<and>
     length (dp_Name dp) \<le> 22 \<and>
     HasPrefix (dp_Name dp) (dp_Owner dp @ ''-'') \<and>
     length (dp_Owner dp) \<ge> 1 \<and>
     (case ds_Pod (dp_Spec dp) of None \<Rightarrow> True | Some pw \<Rightarrow> length (ps_Containers (pw_Spec pw)) > 0)"

subsection \<open>User (user_types.go)\<close>

record user_quota =
  q_MaxDevPods :: "int32 option"
  q_Compute :: "resource_list option"
  q_Storage :: "quantity option"

record user_spec =
  us_Pubkeys :: "string list"
  us_OIDCSubject :: string
  us_DisplayName :: string
  us_Quota :: "user_quota option"
  us_PasswordHash :: string
  us_Admin :: bool

record user_status =
  ust_Conditions :: "condition list"
  ust_DevPodCount :: int32

record user =
  u_Meta :: object_meta
  u_Spec :: user_spec
  u_Status :: user_status

definition user_spec0 :: user_spec where
  "user_spec0 = \<lparr>us_Pubkeys = [], us_OIDCSubject = [], us_DisplayName = [], us_Quota = None,
     us_PasswordHash = [], us_Admin = False\<rparr>"

definition user0 :: user where
  "user0 = \<lparr>u_Meta = object_meta0, u_Spec = user_spec0,
     u_Status = \<lparr>ust_Conditions = [], ust_DevPodCount = 0\<rparr>\<rparr>"

abbreviation u_Name :: "user \<Rightarrow> string" where "u_Name u \<equiv> meta_Name (u_Meta u)"

subsection \<open>DevPodSnapshot (devpodsnapshot_types.go)\<close>

datatype snapshot_phase =
  SnapshotUnset | SnapshotPending | SnapshotRunning | SnapshotSucceeded | SnapshotFailed

record push_auth_inline =
  pa_Username :: string
  pa_Password :: string

record snapshot_spec =
  ss_DevPodName :: string
  ss_Image :: string
  ss_Push :: bool
  ss_PushAuth :: "push_auth_inline option"
  ss_PushSecretRef :: "local_object_ref option"

record job_ref =
  jr_Name :: string

record snapshot_status =
  sst_Phase :: snapshot_phase
  sst_Digest :: string
  sst_Message :: string
  sst_JobRef :: "job_ref option"
  sst_Conditions :: "condition list"

record snapshot =
  sn_Meta :: object_meta
  sn_Spec :: snapshot_spec
  sn_Status :: snapshot_status

abbreviation sn_Name :: "snapshot \<Rightarrow> string" where "sn_Name s \<equiv> meta_Name (sn_Meta s)"
abbreviation sn_Namespace :: "snapshot \<Rightarrow> string" where "sn_Namespace s \<equiv> meta_Namespace (sn_Meta s)"

subsection \<open>DevPodTemplate (devpodtemplate_types.go)\<close>

record binding_spec =
  b_Annotations :: smap
  b_Resources :: resource_requirements

record pod_preset_spec =
  pp_Pod :: pod_workload_spec
  pp_Shell :: string
  pp_Persistence :: "persistence_spec option"

record template_spec =
  ts_DisplayName :: string
  ts_Description :: string
  ts_Binding :: "binding_spec option"
  ts_PodPreset :: "pod_preset_spec option"

record devpod_template =
  tpl_Meta :: object_meta
  tpl_Spec :: template_spec

abbreviation tpl_Name :: "devpod_template \<Rightarrow> string" where "tpl_Name t \<equiv> meta_Name (tpl_Meta t)"

subsection \<open>GatewayConfig (gatewayconfig_types.go)\<close>

record secret_ref =
  sr_Name :: string
  sr_Namespace :: string

record proxy_protocol_spec =
  ppr_Enabled :: bool
  ppr_TrustedCIDRs :: "string list"

record listen_spec =
  ls_Port :: int32
  ls_ProxyProtocol :: proxy_protocol_spec

record trusted_proxy_key =
  tpk_Alias :: string
  tpk_Pubkey :: string

record ldap_spec =
  ld_URL :: string
  ld_CASecretRef :: secret_ref
  ld_BindDN :: string
  ld_BindPasswordSecretRef :: secret_ref
  ld_BaseDN :: string
  ld_UserFilter :: string
  ld_PubkeyAttribute :: string
  ld_RequestTimeoutSeconds :: int32
  ld_CacheTTLSeconds :: int32
  ld_NegativeCacheTTLSeconds :: int32
  ld_StaleGraceSeconds :: int32

record home_dir_spec =
  hd_HostPathPrefix :: string
  hd_MountPrefix :: string

record gateway_config_spec =
  gc_DevPodNamespace :: string
  gc_HostKeyRef :: secret_ref
  gc_InternalKeyRef :: secret_ref
  gc_Listen :: listen_spec
  gc_TrustedProxyKeys :: "trusted_proxy_key list"
  gc_DefaultIdleTimeoutSeconds :: int32
  gc_SupervisorImage :: string
  gc_BackendPort :: int32
  gc_Banner :: string
  gc_HomeDir :: "home_dir_spec option"
  gc_IsolateNetwork :: bool
  gc_LDAP :: "ldap_spec option"

text \<open>Only \<open>Spec\<close> of a \<open>GatewayConfig\<close> is ever read, so a value of it stands for the object.\<close>

definition gateway_config0 :: gateway_config_spec where
  "gateway_config0 = \<lparr>gc_DevPodNamespace = ''devpods'', gc_HostKeyRef = \<lparr>sr_Name = [], sr_Namespace = []\<rparr>,
     gc_InternalKeyRef = \<lparr>sr_Name = [], sr_Namespace = []\<rparr>,
     gc_Listen = \<lparr>ls_Port = 22, ls_ProxyProtocol = \<lparr>ppr_Enabled = False, ppr_TrustedCIDRs = []\<rparr>\<rparr>,
     gc_TrustedProxyKeys = [], gc_DefaultIdleTimeoutSeconds = 0, gc_SupervisorImage = [],
     gc_BackendPort = 0, gc_Banner = [], gc_HomeDir = None, gc_IsolateNetwork = False,
     gc_LDAP = None\<rparr>"

subsection \<open>Sample objects\<close>

text \<open>
  Concrete objects for the closed examples: a DevPod \<open>alice-dev\<close> with two containers, and the
  configuration it is rendered under.
\<close>

definition ex_container :: "string \<Rightarrow> container" where
  "ex_container n = container0\<lparr>c_Name := n, c_Image := ''ubuntu'', c_Command := [''sleep''], c_Args := [''inf''],
     c_Resources := \<lparr>rr_Requests = [], rr_Limits = [(''cpu'', 2000000000), (''memory'', 1073741824000000000)]\<rparr>\<rparr>"

definition ex_pw :: pod_workload_spec where
  "ex_pw = \<lparr>pw_Metadata = \<lparr>pm_Labels = [(''devpod.io/owner'', ''mallory''), (''team'', ''x'')], pm_Annotations = []\<rparr>,
     pw_Spec = pod_spec0\<lparr>ps_Containers := [ex_container ''dev'', ex_container ''db'']\<rparr>\<rparr>"

definition ex_dp :: devpod where
  "ex_dp = devpod0\<lparr>
     dp_Meta := object_meta0\<lparr>meta_Name := ''alice-dev'', meta_Namespace := ''devpods'', meta_UID := ''uid-1''\<rparr>,
     dp_Spec := devpod_spec0\<lparr>ds_Owner := ''alice'', ds_Running := True, ds_Pod := Some ex_pw\<rparr>\<rparr>"

lemmas ex_defs = ex_container_def ex_pw_def ex_dp_def container0_def pod_spec0_def devpod0_def
  object_meta0_def devpod_spec0_def devpod_status0_def gateway_config0_def

end
