(* ===== verification/Render.thy ===== *)
theory Render
  imports Kube_Types
begin

section \<open>Package render: Kubernetes objects from DevPods\<close>

text \<open>
  The pure functions of \<open>src/internal/render\<close>, in the order of the files \<open>render.go\<close>,
  \<open>pod.go\<close>, \<open>service.go\<close>, \<open>pvc.go\<close>, \<open>secret.go\<close>, \<open>networkpolicy.go\<close> and
  \<open>snapshot.go\<close>.  An index out of range (\<open>Containers[0]\<close> of an empty list) is the error value
  \<open>panic_index\<close>; \<open>Pod_no_panic\<close> shows that no caller reaches it.  The outcome of key
  generation in \<open>HostKeySecret\<close> is an argument.
\<close>

named_theorems render_defs "unfolding of the object constructors"

abbreviation LabelOwner :: string where "LabelOwner \<equiv> ''devpod.io/owner''"
abbreviation LabelDevPod :: string where "LabelDevPod \<equiv> ''devpod.io/devpod''"
abbreviation LabelManaged :: string where "LabelManaged \<equiv> ''app.kubernetes.io/managed-by''"
abbreviation LabelSnapshot :: string where "LabelSnapshot \<equiv> ''devpod.io/snapshot''"
abbreviation VolumeSupervisorBin :: string where "VolumeSupervisorBin \<equiv> ''devpod-bin''"
abbreviation VolumeSupervisorHost :: string where "VolumeSupervisorHost \<equiv> ''devpod-host''"
abbreviation VolumeHome :: string where "VolumeHome \<equiv> ''devpod-home''"
abbreviation VolumeHostHome :: string where "VolumeHostHome \<equiv> ''devpod-host-home''"

abbreviation panic_index :: go_error where
  "panic_index \<equiv> Errorf ''runtime error: index out of range'' [] None"

subsection \<open>render.go\<close>

definition OwnerLabels :: "string \<Rightarrow> smap" where
  "OwnerLabels owner = [(LabelOwner, owner), (LabelManaged, ''devpod-controller'')]"

definition DevPodLabels :: "devpod \<Rightarrow> smap" where
  "DevPodLabels dp = AList.update LabelDevPod (dp_Name dp) (OwnerLabels (dp_Owner dp))"

definition PodName :: "devpod \<Rightarrow> string" where
  "PodName dp = dp_Name dp"

definition ServiceName :: "devpod \<Rightarrow> string" where
  "ServiceName dp = PodName dp"

definition HostKeySecretName :: "devpod \<Rightarrow> string" where
  "HostKeySecretName dp = PodName dp @ ''-hostkey''"

definition HomePVCName :: "devpod \<Rightarrow> string" where
  "HomePVCName dp = PodName dp @ ''-home''"

definition OwnerNetPolName :: "string \<Rightarrow> string" where
  "OwnerNetPolName owner = ''devpod-allow-'' @ owner"

text \<open>\<open>hash/fnv\<close>, 32-bit FNV-1a: exclusive or with the byte, then multiply, modulo \<open>2 ^ 32\<close>.\<close>

definition fnv32a :: "string \<Rightarrow> 32 word" where
  "fnv32a s = fold (\<lambda>c h. (xor h (of_nat (of_char c))) * 16777619) s 2166136261"

definition BackendPort :: "devpod \<Rightarrow> gateway_config_spec \<Rightarrow> int32" where
  "BackendPort dp cfg =
     (let def = (if gc_BackendPort cfg = 0 then 2222 else gc_BackendPort cfg)
      in case ds_Pod (dp_Spec dp) of
           None \<Rightarrow> def
         | Some pw \<Rightarrow>
             if \<not> ps_HostNetwork (pw_Spec pw) then def
             else if dp_UID dp = [] then def
             else 65000 + fnv32a (dp_UID dp) mod 500)"

definition ObjectMeta :: "string \<Rightarrow> string \<Rightarrow> devpod \<Rightarrow> object_meta" where
  "ObjectMeta name namespace dp =
     object_meta0\<lparr>meta_Name := name, meta_Namespace := namespace, meta_Labels := DevPodLabels dp\<rparr>"

subsection \<open>pod.go\<close>

abbreviation ErrWorkloadKindMissing :: go_error where
  "ErrWorkloadKindMissing \<equiv> ErrSentinel ''no workload kind on DevPod''"

fun mergeStrings :: "smap \<Rightarrow> smap \<Rightarrow> smap" where
  "mergeStrings dst [] = dst"
| "mergeStrings dst ((k, v) # src) =
     mergeStrings (if mhas dst k then dst else AList.update k v dst) src"

definition mergeStringsCopy :: "smap \<Rightarrow> smap \<Rightarrow> smap" where
  "mergeStringsCopy dst src = mergeStrings (fold (\<lambda>(k, v) out. AList.update k v out) dst []) src"

definition supervisorBinVolume :: volume where
  "supervisorBinVolume =
     \<lparr>vol_Name = VolumeSupervisorBin, vol_Source = EmptyDir (100 * 1024 * 1024 * 1000000000)\<rparr>"

definition hostKeySecretVolume :: "devpod \<Rightarrow> volume" where
  "hostKeySecretVolume dp =
     \<lparr>vol_Name = VolumeSupervisorHost, vol_Source = SecretVol (HostKeySecretName dp) (Some 256) []\<rparr>"

definition homeVolume :: "devpod \<Rightarrow> volume" where
  "homeVolume dp = \<lparr>vol_Name = VolumeHome, vol_Source = PVCVol (HomePVCName dp)\<rparr>"

definition injectHomeMount :: "pod_spec \<Rightarrow> persistence_spec \<Rightarrow> go_error + pod_spec" where
  "injectHomeMount spec p =
     (case ps_Containers spec of
        [] \<Rightarrow> (if per_TargetContainer p = [] then Inl panic_index
               else Inl (Errorf ''persistence.targetContainer %q not found in spec.pod.spec.containers''
                           [per_TargetContainer p] None))
      | c0 # _ \<Rightarrow>
          (let targetName = (if per_TargetContainer p = [] then c_Name c0 else per_TargetContainer p)
           in case map_first (\<lambda>c. c_Name c = targetName)
                     (\<lambda>c. c\<lparr>c_VolumeMounts := c_VolumeMounts c @
                        [\<lparr>vm_Name = VolumeHome, vm_MountPath = per_MountPath p, vm_ReadOnly = False, vm_rest = []\<rparr>]\<rparr>)
                     (ps_Containers spec) of
                Some cs \<Rightarrow> Inr (spec\<lparr>ps_Containers := cs\<rparr>)
              | None \<Rightarrow> Inl (Errorf ''persistence.targetContainer %q not found in spec.pod.spec.containers''
                               [targetName] None)))"

definition injectHostPathHome :: "pod_spec \<Rightarrow> devpod \<Rightarrow> home_dir_spec \<Rightarrow> go_error + pod_spec" where
  "injectHostPathHome spec dp h =
     (let hostPath = hd_HostPathPrefix h @ ''/'' @ dp_Owner dp;
          mountPath = (if hd_MountPrefix h = [] then ''/home/'' @ dp_Owner dp
                       else hd_MountPrefix h @ ''/'' @ dp_Owner dp)
      in case ps_Containers spec of
           [] \<Rightarrow> Inl panic_index
         | c # cs \<Rightarrow>
             Inr (spec\<lparr>
               ps_Volumes := ps_Volumes spec @
                 [\<lparr>vol_Name = VolumeHostHome, vol_Source = HostPathVol hostPath ''DirectoryOrCreate''\<rparr>],
               ps_Containers := c\<lparr>
                 c_VolumeMounts := c_VolumeMounts c @
                   [\<lparr>vm_Name = VolumeHostHome, vm_MountPath = mountPath, vm_ReadOnly = False, vm_rest = []\<rparr>],
                 c_Env := c_Env c @ [\<lparr>ev_Name = ''HOME'', ev_Value = mountPath, ev_rest = []\<rparr>]\<rparr> # cs\<rparr>))"

text \<open>The body of the loop of \<open>wrapTargetWithSupervisor\<close>: what happens to the target container.\<close>

definition wrapContainer :: "devpod \<Rightarrow> gateway_config_spec \<Rightarrow> container \<Rightarrow> container" where
  "wrapContainer dp cfg c = c\<lparr>
     c_Command := [''/opt/devpod/devpod-supervisor''],
     c_Args := c_Command c @ c_Args c,
     c_VolumeMounts := c_VolumeMounts c @
       [\<lparr>vm_Name = VolumeSupervisorBin, vm_MountPath = ''/opt/devpod'', vm_ReadOnly = True, vm_rest = []\<rparr>,
        \<lparr>vm_Name = VolumeSupervisorHost, vm_MountPath = ''/etc/devpod'', vm_ReadOnly = True, vm_rest = []\<rparr>],
     c_Env := c_Env c @
       [\<lparr>ev_Name = ''SUPERVISOR_SSHD_PORT'', ev_Value = Itoa (sint (BackendPort dp cfg)), ev_rest = []\<rparr>] @
       (if ds_ExitOnUserCommandExit (dp_Spec dp)
        then [\<lparr>ev_Name = ''SUPERVISOR_EXIT_ON_USER_CMD'', ev_Value = ''true'', ev_rest = []\<rparr>] else []) @
       (if ds_Shell (dp_Spec dp) \<noteq> []
        then [\<lparr>ev_Name = ''DEVPOD_SHELL'', ev_Value = ds_Shell (dp_Spec dp), ev_rest = []\<rparr>] else [])\<rparr>"

definition wrapTargetWithSupervisor ::
  "pod_spec \<Rightarrow> devpod \<Rightarrow> gateway_config_spec \<Rightarrow> go_error + pod_spec" where
  "wrapTargetWithSupervisor spec dp cfg =
     (let named = (case ds_Persistence (dp_Spec dp) of
                     Some p \<Rightarrow> if per_TargetContainer p \<noteq> [] then Some (per_TargetContainer p) else None
                   | None \<Rightarrow> None);
          target = (case named of
                      Some n \<Rightarrow> Some n
                    | None \<Rightarrow> (case ps_Containers spec of [] \<Rightarrow> None | c # _ \<Rightarrow> Some (c_Name c)))
      in case target of
           None \<Rightarrow> Inl panic_index
         | Some targetName \<Rightarrow>
             (case map_first (\<lambda>c. c_Name c = targetName) (wrapContainer dp cfg) (ps_Containers spec) of
                Some cs \<Rightarrow> Inr (spec\<lparr>ps_Containers := cs\<rparr>)
              | None \<Rightarrow> Inl (Errorf ''supervisor: target container %q not found in spec.pod.spec.containers''
                               [targetName] None)))"

definition bootstrapInitContainer :: "string \<Rightarrow> container" where
  "bootstrapInitContainer supervisorImage = container0\<lparr>
     c_Name := ''devpod-bootstrap'',
     c_Image := supervisorImage,
     c_Command := [''/opt/devpod/devpod-supervisor'', ''bootstrap''],
     c_Env := [\<lparr>ev_Name = ''SUPERVISOR_BOOTSTRAP_SRC'', ev_Value = ''/opt/devpod'', ev_rest = []\<rparr>,
               \<lparr>ev_Name = ''SUPERVISOR_BOOTSTRAP_DST'', ev_Value = ''/devpod-bin'', ev_rest = []\<rparr>],
     c_VolumeMounts := [\<lparr>vm_Name = VolumeSupervisorBin, vm_MountPath = ''/devpod-bin'', vm_ReadOnly = False, vm_rest = []\<rparr>]\<rparr>"

definition Pod :: "devpod \<Rightarrow> gateway_config_spec \<Rightarrow> go_error + pod" where
  "Pod dp cfg =
     (case ds_Pod (dp_Spec dp) of
        None \<Rightarrow> Inl ErrWorkloadKindMissing
      | Some pw \<Rightarrow>
          if ps_Containers (pw_Spec pw) = []
          then Inl (Errorf ''spec.pod.spec.containers must be non-empty'' [] None)
          else
            let user1 = (pw_Spec pw)\<lparr>ps_Volumes := ps_Volumes (pw_Spec pw) @
                           [supervisorBinVolume, hostKeySecretVolume dp]\<rparr>
            in case (case ds_Persistence (dp_Spec dp) of
                       None \<Rightarrow> Inr user1
                     | Some p \<Rightarrow> injectHomeMount (user1\<lparr>ps_Volumes := ps_Volumes user1 @ [homeVolume dp]\<rparr>) p) of
                 Inl e \<Rightarrow> Inl e
               | Inr user2 \<Rightarrow>
                   (case (case (gc_HomeDir cfg, ds_Persistence (dp_Spec dp)) of
                            (Some h, None) \<Rightarrow> injectHostPathHome user2 dp h
                          | _ \<Rightarrow> Inr user2) of
                      Inl e \<Rightarrow> Inl e
                    | Inr user3 \<Rightarrow>
                        (case wrapTargetWithSupervisor user3 dp cfg of
                           Inl e \<Rightarrow> Inl e
                         | Inr user4 \<Rightarrow>
                             let user5 = user4\<lparr>ps_InitContainers :=
                                   bootstrapInitContainer (gc_SupervisorImage cfg) # ps_InitContainers user4\<rparr>;
                                 m = ObjectMeta (PodName dp) (gc_DevPodNamespace cfg) dp
                             in Inr \<lparr>pod_Meta = m\<lparr>
                                       meta_Labels := mergeStrings (meta_Labels m) (pm_Labels (pw_Metadata pw)),
                                       meta_Annotations := mergeStringsCopy (meta_Annotations m) (pm_Annotations (pw_Metadata pw))\<rparr>,
                                     pod_Spec = user5, pod_Status = pod_status0\<rparr>)))"

subsection \<open>service.go, pvc.go, secret.go\<close>

definition Service :: "devpod \<Rightarrow> gateway_config_spec \<Rightarrow> go_error + service" where
  "Service dp cfg =
     (let port = BackendPort dp cfg
      in Inr \<lparr>svc_Meta = ObjectMeta (ServiceName dp) (gc_DevPodNamespace cfg) dp,
              svc_ClusterIP = ''None'',
              svc_Selector = [(LabelOwner, dp_Owner dp), (LabelDevPod, dp_Name dp)],
              svc_Ports = [\<lparr>sp_Name = ''ssh'', sp_Port = port, sp_TargetPort = port, sp_Protocol = ''TCP''\<rparr>]\<rparr>)"

definition HomePVC :: "devpod \<Rightarrow> gateway_config_spec \<Rightarrow> go_error + pvc option" where
  "HomePVC dp cfg =
     (case ds_Persistence (dp_Spec dp) of
        None \<Rightarrow> Inr None
      | Some p \<Rightarrow>
          (let modes = (if per_AccessModes p = [] then [''ReadWriteOnce''] else per_AccessModes p)
           in Inr (Some \<lparr>pvc_Meta = ObjectMeta (HomePVCName dp) (gc_DevPodNamespace cfg) dp,
                         pvc_AccessModes = modes,
                         pvc_Requests = [(''storage'', per_Size p)],
                         pvc_StorageClassName =
                           (if per_StorageClassName p \<noteq> [] then Some (per_StorageClassName p) else None)\<rparr>)))"

text \<open>
  \<open>keys\<close> is what \<open>ed25519.GenerateKey\<close> and the OpenSSH marshalling give: an error, or the private
  key file and the public key line.
\<close>

definition HostKeySecret ::
  "devpod \<Rightarrow> gateway_config_spec \<Rightarrow> go_error + (string \<times> string) \<Rightarrow> string \<Rightarrow> go_error + secret" where
  "HostKeySecret dp cfg keys authorizedKey =
     (case keys of
        Inl e \<Rightarrow> Inl e
      | Inr (privBytes, pubBytes) \<Rightarrow>
          Inr \<lparr>sec_Meta = ObjectMeta (HostKeySecretName dp) (gc_DevPodNamespace cfg) dp,
               sec_Type = ''Opaque'',
               sec_Data = [(''ssh_host_ed25519_key'', privBytes),
                           (''ssh_host_ed25519_key.pub'', pubBytes),
                           (''authorized_keys'', authorizedKey)]\<rparr>)"

subsection \<open>networkpolicy.go\<close>

definition port :: "string \<Rightarrow> int32 \<Rightarrow> np_port" where
  "port proto num = \<lparr>npp_Protocol = proto, npp_Port = num\<rparr>"

definition DefaultDenyNetworkPolicy :: "string \<Rightarrow> network_policy" where
  "DefaultDenyNetworkPolicy ns =
     \<lparr>np_Meta = object_meta0\<lparr>meta_Name := ''devpod-default-deny'', meta_Namespace := ns,
                             meta_Labels := [(LabelManaged, ''devpod-controller'')]\<rparr>,
      np_PodSelector = [],
      np_PolicyTypes = [''Ingress'', ''Egress''],
      np_Ingress = [], np_Egress = []\<rparr>"

definition OwnerAllowNetworkPolicy :: "string \<Rightarrow> string \<Rightarrow> string \<Rightarrow> int32 \<Rightarrow> network_policy" where
  "OwnerAllowNetworkPolicy ns owner gatewayNS backendPort =
     \<lparr>np_Meta = object_meta0\<lparr>meta_Name := OwnerNetPolName owner, meta_Namespace := ns,
                             meta_Labels := [(LabelOwner, owner), (LabelManaged, ''devpod-controller'')]\<rparr>,
      np_PodSelector = [(LabelOwner, owner)],
      np_PolicyTypes = [''Ingress'', ''Egress''],
      np_Ingress =
        [\<lparr>npr_Peers = [PodSelectorPeer [(LabelOwner, owner)]], npr_Ports = []\<rparr>,
         \<lparr>npr_Peers = [NamespaceSelectorPeer [(''kubernetes.io/metadata.name'', gatewayNS)]],
          npr_Ports = [port ''TCP'' backendPort]\<rparr>],
      np_Egress =
        [\<lparr>npr_Peers = [NamespaceSelectorPeer []], npr_Ports = [port ''UDP'' 53, port ''TCP'' 53]\<rparr>,
         \<lparr>npr_Peers = [IPBlockPeer ''0.0.0.0/0'' [''10.0.0.0/8'', ''172.16.0.0/12'', ''192.168.0.0/16'']],
          npr_Ports = []\<rparr>]\<rparr>"

subsection \<open>snapshot.go\<close>

abbreviation dq :: string where "dq \<equiv> [CHR 0x22]"
abbreviation sq :: string where "sq \<equiv> [CHR 0x27]"
abbreviation bs :: string where "bs \<equiv> [CHR 0x5C]"

definition snapshotCommitPush :: string where
  "snapshotCommitPush =
     ''set -eo pipefail; docker commit '' @ dq @ ''$CONTAINER_ID'' @ dq @ '' '' @ dq @ ''$TARGET_IMAGE'' @ dq @
     '' && docker push '' @ dq @ ''$TARGET_IMAGE'' @ dq @
     '' 2>&1 | tee /tmp/push.log && sed -n '' @ sq @ ''s/.*digest: '' @ bs @ ''('' @ bs @ ''S'' @ bs @ ''+'' @ bs @
     '').*/'' @ bs @ ''1/p'' @ sq @ '' /tmp/push.log > /dev/termination-log''"

definition snapshotCommitOnly :: string where
  "snapshotCommitOnly =
     ''docker commit '' @ dq @ ''$CONTAINER_ID'' @ dq @ '' '' @ dq @ ''$TARGET_IMAGE'' @ dq @ '' > /dev/termination-log''"

definition SnapshotJobName :: "snapshot \<Rightarrow> string" where
  "SnapshotJobName snap = ''snapshot-'' @ sn_Name snap"

definition SnapshotJob ::
  "snapshot \<Rightarrow> string \<Rightarrow> string \<Rightarrow> string option \<Rightarrow> string \<Rightarrow> bool \<Rightarrow> job" where
  "SnapshotJob snap containerID nodeName pushSecret snapshotImage push =
     (let labels = [(LabelSnapshot, sn_Name snap), (LabelDevPod, ss_DevPodName (sn_Spec snap)),
                    (LabelManaged, ''devpod-controller'')];
          volumes0 = [\<lparr>vol_Name = ''docker-sock'', vol_Source = HostPathVol ''/var/run/docker.sock'' ''Socket''\<rparr>];
          mounts0 = [\<lparr>vm_Name = ''docker-sock'', vm_MountPath = ''/var/run/docker.sock'', vm_ReadOnly = False, vm_rest = []\<rparr>];
          script = (if push then snapshotCommitPush else snapshotCommitOnly);
          env0 = [\<lparr>ev_Name = ''CONTAINER_ID'', ev_Value = containerID, ev_rest = []\<rparr>,
                  \<lparr>ev_Name = ''TARGET_IMAGE'', ev_Value = ss_Image (sn_Spec snap), ev_rest = []\<rparr>];
          auth = (if push then pushSecret else None);
          volumes = (case auth of None \<Rightarrow> volumes0
                     | Some s \<Rightarrow> volumes0 @ [\<lparr>vol_Name = ''push-secret'',
                         vol_Source = SecretVol s None [(''.dockerconfigjson'', ''config.json'')]\<rparr>]);
          mounts = (case auth of None \<Rightarrow> mounts0
                    | Some _ \<Rightarrow> mounts0 @ [\<lparr>vm_Name = ''push-secret'', vm_MountPath = ''/root/.docker'', vm_ReadOnly = True, vm_rest = []\<rparr>]);
          env = (case auth of None \<Rightarrow> env0
                 | Some _ \<Rightarrow> env0 @ [\<lparr>ev_Name = ''DOCKER_CONFIG'', ev_Value = ''/root/.docker'', ev_rest = []\<rparr>])
      in \<lparr>job_Meta = object_meta0\<lparr>meta_Name := SnapshotJobName snap, meta_Namespace := sn_Namespace snap, meta_Labels := labels\<rparr>,
          job_TTLSecondsAfterFinished = Some 300,
          job_BackoffLimit = Some 0,
          job_Template = pod_spec0\<lparr>
            ps_RestartPolicy := ''Never'', ps_NodeName := nodeName, ps_Volumes := volumes,
            ps_Containers := [container0\<lparr>c_Name := ''snapshot'', c_Image := snapshotImage,
              c_Command := [''sh'', ''-c''], c_Args := [script], c_Env := env, c_VolumeMounts := mounts,
              c_TerminationMessagePath := ''/dev/termination-log'',
              c_TerminationMessagePolicy := ''FallbackToLogsOnError''\<rparr>]\<rparr>,
          job_Conditions = []\<rparr>)"

lemmas render_names [render_defs] =
  PodName_def ServiceName_def HostKeySecretName_def HomePVCName_def ObjectMeta_def

subsection \<open>Reference definition of Pod\<close>

text \<open>
  What \<open>Pod\<close> promises, in one pass: one container is edited, the target; everything else of the
  user's pod is kept, with the injected volumes appended and the bootstrap init container first.
\<close>

definition targetOf :: "devpod \<Rightarrow> container list \<Rightarrow> string" where
  "targetOf dp cs =
     (case ds_Persistence (dp_Spec dp) of
        Some p \<Rightarrow> if per_TargetContainer p \<noteq> [] then per_TargetContainer p else c_Name (hd cs)
      | None \<Rightarrow> c_Name (hd cs))"

definition homeMountEdit :: "persistence_spec \<Rightarrow> container \<Rightarrow> container" where
  "homeMountEdit p c = c\<lparr>c_VolumeMounts := c_VolumeMounts c @
     [\<lparr>vm_Name = VolumeHome, vm_MountPath = per_MountPath p, vm_ReadOnly = False, vm_rest = []\<rparr>]\<rparr>"

definition hostHomePath :: "devpod \<Rightarrow> home_dir_spec \<Rightarrow> string" where
  "hostHomePath dp h = (if hd_MountPrefix h = [] then ''/home/'' @ dp_Owner dp
                        else hd_MountPrefix h @ ''/'' @ dp_Owner dp)"

definition hostHomeEdit :: "devpod \<Rightarrow> home_dir_spec \<Rightarrow> container \<Rightarrow> container" where
  "hostHomeEdit dp h c = c\<lparr>
     c_VolumeMounts := c_VolumeMounts c @
       [\<lparr>vm_Name = VolumeHostHome, vm_MountPath = hostHomePath dp h, vm_ReadOnly = False, vm_rest = []\<rparr>],
     c_Env := c_Env c @ [\<lparr>ev_Name = ''HOME'', ev_Value = hostHomePath dp h, ev_rest = []\<rparr>]\<rparr>"

definition targetEdit :: "devpod \<Rightarrow> gateway_config_spec \<Rightarrow> container \<Rightarrow> container" where
  "targetEdit dp cfg c = wrapContainer dp cfg
     (case (ds_Persistence (dp_Spec dp), gc_HomeDir cfg) of
        (Some p, _) \<Rightarrow> homeMountEdit p c
      | (None, Some h) \<Rightarrow> hostHomeEdit dp h c
      | (None, None) \<Rightarrow> c)"

definition injectedVolumes :: "devpod \<Rightarrow> gateway_config_spec \<Rightarrow> volume list" where
  "injectedVolumes dp cfg = [supervisorBinVolume, hostKeySecretVolume dp] @
     (case (ds_Persistence (dp_Spec dp), gc_HomeDir cfg) of
        (Some p, _) \<Rightarrow> [homeVolume dp]
      | (None, Some h) \<Rightarrow> [\<lparr>vol_Name = VolumeHostHome,
                            vol_Source = HostPathVol (hd_HostPathPrefix h @ ''/'' @ dp_Owner dp) ''DirectoryOrCreate''\<rparr>]
      | (None, None) \<Rightarrow> [])"

definition Pod_ref :: "devpod \<Rightarrow> gateway_config_spec \<Rightarrow> go_error + pod" where
  "Pod_ref dp cfg =
     (case ds_Pod (dp_Spec dp) of
        None \<Rightarrow> Inl ErrWorkloadKindMissing
      | Some pw \<Rightarrow>
          (let spec = pw_Spec pw; cs = ps_Containers spec
           in if cs = [] then Inl (Errorf ''spec.pod.spec.containers must be non-empty'' [] None)
              else case map_first (\<lambda>c. c_Name c = targetOf dp cs) (targetEdit dp cfg) cs of
                     None \<Rightarrow> Inl (Errorf ''persistence.targetContainer %q not found in spec.pod.spec.containers''
                                   [targetOf dp cs] None)
                   | Some cs' \<Rightarrow>
                       Inr \<lparr>pod_Meta = object_meta0\<lparr>
                              meta_Name := PodName dp, meta_Namespace := gc_DevPodNamespace cfg,
                              meta_Labels := mergeStrings (DevPodLabels dp) (pm_Labels (pw_Metadata pw)),
                              meta_Annotations := mergeStrings [] (pm_Annotations (pw_Metadata pw))\<rparr>,
                            pod_Spec = spec\<lparr>ps_Containers := cs',
                              ps_InitContainers := bootstrapInitContainer (gc_SupervisorImage cfg) # ps_InitContainers spec,
                              ps_Volumes := ps_Volumes spec @ injectedVolumes dp cfg\<rparr>,
                            pod_Status = pod_status0\<rparr>))"

subsection \<open>Lemmas: the stages of Pod\<close>

lemma wrapTargetWithSupervisor_eq:
  "ps_Containers spec \<noteq> [] \<Longrightarrow>
   wrapTargetWithSupervisor spec dp cfg =
     (case map_first (\<lambda>c. c_Name c = targetOf dp (ps_Containers spec)) (wrapContainer dp cfg) (ps_Containers spec) of
        Some cs \<Rightarrow> Inr (spec\<lparr>ps_Containers := cs\<rparr>)
      | None \<Rightarrow> Inl (Errorf ''supervisor: target container %q not found in spec.pod.spec.containers''
                       [targetOf dp (ps_Containers spec)] None))"
  by (cases "ps_Containers spec"; cases "ds_Persistence (dp_Spec dp)")
    (simp_all add: wrapTargetWithSupervisor_def targetOf_def Let_def cong: option.case_cong)

lemma injectHomeMount_eq:
  "ps_Containers spec \<noteq> [] \<Longrightarrow> ds_Persistence (dp_Spec dp) = Some p \<Longrightarrow>
   injectHomeMount spec p =
     (case map_first (\<lambda>c. c_Name c = targetOf dp (ps_Containers spec)) (homeMountEdit p) (ps_Containers spec) of
        Some cs \<Rightarrow> Inr (spec\<lparr>ps_Containers := cs\<rparr>)
      | None \<Rightarrow> Inl (Errorf ''persistence.targetContainer %q not found in spec.pod.spec.containers''
                       [targetOf dp (ps_Containers spec)] None))"
  by (cases "ps_Containers spec")
    (simp_all add: injectHomeMount_def targetOf_def homeMountEdit_def [abs_def] Let_def cong: option.case_cong)

lemma edits_keep_name [simp]:
  "c_Name (homeMountEdit p c) = c_Name c"
  "c_Name (hostHomeEdit dp h c) = c_Name c"
  "c_Name (wrapContainer dp cfg c) = c_Name c"
  by (simp_all add: homeMountEdit_def hostHomeEdit_def wrapContainer_def)

lemma map_first_twice:
  "map_first p f xs = Some ys \<Longrightarrow> (\<And>x. p x \<Longrightarrow> p (f x)) \<Longrightarrow>
   map_first p g ys = map_first p (\<lambda>x. g (f x)) xs"
  by (auto simp: map_first_append dest!: map_first_SomeD)

lemma targetOf_map_first:
  "map_first q f xs = Some ys \<Longrightarrow> (\<And>x. c_Name (f x) = c_Name x) \<Longrightarrow> targetOf dp ys = targetOf dp xs"
proof -
  assume "map_first q f xs = Some ys" and keep: "\<And>x. c_Name (f x) = c_Name x"
  then obtain as x zs where "xs = as @ x # zs" "ys = as @ f x # zs"
    by (auto dest!: map_first_SomeD)
  then have "c_Name (hd ys) = c_Name (hd xs)" by (cases as) (simp_all add: keep)
  then show ?thesis by (simp add: targetOf_def split: option.splits)
qed

lemma mergeStringsCopy_Nil: "mergeStringsCopy [] src = mergeStrings [] src"
  by (simp add: mergeStringsCopy_def)

lemma map_of_mergeStrings:
  "map_of (mergeStrings dst src) k = (case map_of dst k of Some v \<Rightarrow> Some v | None \<Rightarrow> map_of src k)"
proof (induction dst src rule: mergeStrings.induct)
  case (1 dst)
  then show ?case by (simp split: option.splits)
next
  case (2 dst k' v src)
  then show ?case by (auto simp: mhas_def simp del: mhas_iff split: option.splits)
qed

lemma map_of_DevPodLabels:
  "map_of (DevPodLabels dp) =
     [LabelOwner \<mapsto> dp_Owner dp, LabelManaged \<mapsto> ''devpod-controller'', LabelDevPod \<mapsto> dp_Name dp]"
  by (auto simp: DevPodLabels_def OwnerLabels_def)

text \<open>The two edits before the wrap meet the wrap in one container.\<close>

lemma Pod_persistence_stage:
  assumes "ps_Containers spec \<noteq> []" and "ds_Persistence (dp_Spec dp) = Some p"
    and "injectHomeMount spec p = Inr spec2"
  shows "wrapTargetWithSupervisor spec2 dp cfg =
     (case map_first (\<lambda>c. c_Name c = targetOf dp (ps_Containers spec)) (targetEdit dp cfg) (ps_Containers spec) of
        Some cs \<Rightarrow> Inr (spec\<lparr>ps_Containers := cs\<rparr>) | None \<Rightarrow> Inl panic_index)"
proof -
  let ?p = "\<lambda>c. c_Name c = targetOf dp (ps_Containers spec)"
  from assms obtain cs where cs: "map_first ?p (homeMountEdit p) (ps_Containers spec) = Some cs"
    and spec2: "spec2 = spec\<lparr>ps_Containers := cs\<rparr>"
    by (auto simp: injectHomeMount_eq [of spec dp] simp del: map_first_None_iff split: option.splits)
  have edit: "targetEdit dp cfg = (\<lambda>c. wrapContainer dp cfg (homeMountEdit p c))"
    using assms(2) by (simp add: targetEdit_def [abs_def])
  have "cs \<noteq> []" using map_first_length [OF cs] assms(1) by auto
  moreover have "targetOf dp cs = targetOf dp (ps_Containers spec)"
    by (rule targetOf_map_first [OF cs]) simp
  moreover have "map_first ?p (wrapContainer dp cfg) cs = map_first ?p (targetEdit dp cfg) (ps_Containers spec)"
    unfolding edit by (rule map_first_twice [OF cs]) simp
  moreover have "map_first ?p (targetEdit dp cfg) (ps_Containers spec) \<noteq> None"
    using cs by (auto dest!: map_first_SomeD)
  ultimately show ?thesis
    by (auto simp: wrapTargetWithSupervisor_eq spec2 simp del: map_first_None_iff)
qed

lemma Pod_hosthome_stage:
  assumes "ps_Containers spec \<noteq> []" and "ds_Persistence (dp_Spec dp) = None" and "gc_HomeDir cfg = Some h"
  shows "\<exists>spec2. injectHostPathHome spec dp h = Inr spec2 \<and>
    wrapTargetWithSupervisor spec2 dp cfg =
     Inr (spec\<lparr>ps_Containers := targetEdit dp cfg (hd (ps_Containers spec)) # tl (ps_Containers spec),
       ps_Volumes := ps_Volumes spec @ [\<lparr>vol_Name = VolumeHostHome,
         vol_Source = HostPathVol (hd_HostPathPrefix h @ ''/'' @ dp_Owner dp) ''DirectoryOrCreate''\<rparr>]\<rparr>)"
proof -
  from assms(1) obtain c cs where c: "ps_Containers spec = c # cs" by (cases "ps_Containers spec") auto
  have edit: "targetEdit dp cfg = (\<lambda>c. wrapContainer dp cfg (hostHomeEdit dp h c))"
    using assms(2,3) by (simp add: targetEdit_def [abs_def])
  have name: "c_Name (hostHomeEdit dp h c) = targetOf dp [hostHomeEdit dp h c]"
    using assms(2) by (simp add: targetOf_def)
  show ?thesis
    using assms(2) unfolding edit
    by (simp add: injectHostPathHome_def c Let_def wrapTargetWithSupervisor_eq targetOf_def
        hostHomeEdit_def hostHomePath_def)
qed

lemma Pod_plain_stage:
  assumes "ps_Containers spec \<noteq> []" and "ds_Persistence (dp_Spec dp) = None" and "gc_HomeDir cfg = None"
  shows "wrapTargetWithSupervisor spec dp cfg =
     Inr (spec\<lparr>ps_Containers := targetEdit dp cfg (hd (ps_Containers spec)) # tl (ps_Containers spec)\<rparr>)"
  using assms
  by (cases "ps_Containers spec") (simp_all add: wrapTargetWithSupervisor_eq targetOf_def targetEdit_def)

lemma map_first_target_no_persistence:
  "cs \<noteq> [] \<Longrightarrow> ds_Persistence (dp_Spec dp) = None \<Longrightarrow>
   map_first (\<lambda>c. c_Name c = targetOf dp cs) f cs = Some (f (hd cs) # tl cs)"
  by (cases cs) (simp_all add: targetOf_def)

lemma Pod_eq_ref_persistence:
  assumes "ds_Pod (dp_Spec dp) = Some pw" and "ps_Containers (pw_Spec pw) \<noteq> []"
    and "ds_Persistence (dp_Spec dp) = Some p"
  shows "Pod dp cfg = Pod_ref dp cfg"
proof -
  let ?s = "(pw_Spec pw)\<lparr>ps_Volumes := ps_Volumes (pw_Spec pw) @ [supervisorBinVolume, hostKeySecretVolume dp] @ [homeVolume dp]\<rparr>"
  let ?cs = "ps_Containers (pw_Spec pw)"
  show ?thesis
  proof (cases "map_first (\<lambda>c. c_Name c = targetOf dp ?cs) (homeMountEdit p) ?cs")
    case None
    then have "map_first (\<lambda>c. c_Name c = targetOf dp ?cs) (targetEdit dp cfg) ?cs = None" by simp
    with None assms show ?thesis
      by (simp add: Pod_def Pod_ref_def injectHomeMount_eq [of _ dp] Let_def del: map_first_None_iff)
  next
    case (Some cs)
    then have inj: "injectHomeMount ?s p = Inr (?s\<lparr>ps_Containers := cs\<rparr>)"
      using assms by (simp add: injectHomeMount_eq [of _ dp])
    have "wrapTargetWithSupervisor (?s\<lparr>ps_Containers := cs\<rparr>) dp cfg =
       (case map_first (\<lambda>c. c_Name c = targetOf dp ?cs) (targetEdit dp cfg) ?cs of
          Some cs \<Rightarrow> Inr (?s\<lparr>ps_Containers := cs\<rparr>) | None \<Rightarrow> Inl panic_index)"
      using Pod_persistence_stage [of ?s dp p, OF _ assms(3) inj] assms(2) by simp
    moreover obtain cs' where "map_first (\<lambda>c. c_Name c = targetOf dp ?cs) (targetEdit dp cfg) ?cs = Some cs'"
      using Some by (auto simp: map_first_append dest!: map_first_SomeD)
    ultimately show ?thesis
      using assms inj
      by (cases "gc_HomeDir cfg") (simp_all add: Pod_def Pod_ref_def injectedVolumes_def ObjectMeta_def
        mergeStringsCopy_Nil object_meta0_def Let_def)
  qed
qed

lemma Pod_eq_ref_no_persistence:
  assumes "ds_Pod (dp_Spec dp) = Some pw" and "ps_Containers (pw_Spec pw) \<noteq> []"
    and "ds_Persistence (dp_Spec dp) = None"
  shows "Pod dp cfg = Pod_ref dp cfg"
proof (cases "gc_HomeDir cfg")
  case None
  with assms show ?thesis
    by (simp add: Pod_def Pod_ref_def Pod_plain_stage map_first_target_no_persistence injectedVolumes_def
        ObjectMeta_def mergeStringsCopy_Nil object_meta0_def Let_def)
next
  case (Some h)
  let ?s = "(pw_Spec pw)\<lparr>ps_Volumes := ps_Volumes (pw_Spec pw) @ [supervisorBinVolume, hostKeySecretVolume dp]\<rparr>"
  obtain spec2 where "injectHostPathHome ?s dp h = Inr spec2" and
    "wrapTargetWithSupervisor spec2 dp cfg =
       Inr (?s\<lparr>ps_Containers := targetEdit dp cfg (hd (ps_Containers ?s)) # tl (ps_Containers ?s),
         ps_Volumes := ps_Volumes ?s @ [\<lparr>vol_Name = VolumeHostHome,
           vol_Source = HostPathVol (hd_HostPathPrefix h @ ''/'' @ dp_Owner dp) ''DirectoryOrCreate''\<rparr>]\<rparr>)"
    using Pod_hosthome_stage [of ?s dp cfg h] assms Some by auto
  with assms Some show ?thesis
    by (simp add: Pod_def Pod_ref_def map_first_target_no_persistence injectedVolumes_def
        ObjectMeta_def mergeStringsCopy_Nil object_meta0_def Let_def)
qed

lemma Pod_ref_eq: "Pod dp cfg = Pod_ref dp cfg"
proof (cases "ds_Pod (dp_Spec dp)")
  case None
  then show ?thesis by (simp add: Pod_def Pod_ref_def)
next
  case (Some pw)
  show ?thesis
  proof (cases "ps_Containers (pw_Spec pw) = []")
    case True
    with Some show ?thesis by (simp add: Pod_def Pod_ref_def Let_def)
  next
    case False
    with Some show ?thesis
      by (cases "ds_Persistence (dp_Spec dp)") (auto intro: Pod_eq_ref_persistence Pod_eq_ref_no_persistence)
  qed
qed

lemma Pod_InrE:
  assumes "Pod dp cfg = Inr p"
  obtains pw pre c post where
    "ds_Pod (dp_Spec dp) = Some pw" "ps_Containers (pw_Spec pw) = pre @ c # post"
    "c_Name c = targetOf dp (pre @ c # post)" "\<forall>x\<in>set pre. c_Name x \<noteq> c_Name c"
    "ps_Containers (pod_Spec p) = pre @ targetEdit dp cfg c # post"
    "ps_InitContainers (pod_Spec p) = bootstrapInitContainer (gc_SupervisorImage cfg) # ps_InitContainers (pw_Spec pw)"
    "ps_Volumes (pod_Spec p) = ps_Volumes (pw_Spec pw) @ injectedVolumes dp cfg"
    "meta_Labels (pod_Meta p) = mergeStrings (DevPodLabels dp) (pm_Labels (pw_Metadata pw))"
    "meta_Name (pod_Meta p) = PodName dp" "meta_Namespace (pod_Meta p) = gc_DevPodNamespace cfg"
  using assms unfolding Pod_ref_eq Pod_ref_def Let_def
  by (auto simp del: map_first_None_iff split: option.splits if_splits dest!: map_first_SomeD)

lemma Pod_ok_iff:
  "(\<exists>p. Pod dp cfg = Inr p) =
     (case ds_Pod (dp_Spec dp) of
        None \<Rightarrow> False
      | Some pw \<Rightarrow> ps_Containers (pw_Spec pw) \<noteq> [] \<and>
          targetOf dp (ps_Containers (pw_Spec pw)) \<in> c_Name ` set (ps_Containers (pw_Spec pw)))"
  unfolding Pod_ref_eq Pod_ref_def Let_def
  by (auto split: option.splits dest!: map_first_SomeD)

lemma Pod_ex_dp: obtains p where "Pod ex_dp gateway_config0 = Inr p"
proof -
  have "\<exists>p. Pod ex_dp gateway_config0 = Inr p"
    unfolding Pod_ok_iff by (simp add: ex_defs targetOf_def)
  then show ?thesis using that by blast
qed

lemma ex_dp_fields:
  "ds_Pod (dp_Spec ex_dp) = Some ex_pw" "dp_Owner ex_dp = ''alice''" "dp_Name ex_dp = ''alice-dev''"
  "ps_InitContainers (pw_Spec ex_pw) = []" "gc_SupervisorImage gateway_config0 = []"
  "pm_Labels (pw_Metadata ex_pw) = [(''devpod.io/owner'', ''mallory''), (''team'', ''x'')]"
  by (simp_all add: ex_dp_def ex_pw_def gateway_config0_def pod_spec0_def)

subsection \<open>Properties\<close>

text \<open>
  C8. The staged construction of \<open>render.Pod\<close> (append volumes, mount the home volume, inject the
  host home, wrap the target, prepend the init container) is the one-pass reference definition: on
  every input, errors included.
\<close>

theorem Pod_equiv_ref: "Pod dp cfg = Pod_ref dp cfg"
  by (rule Pod_ref_eq)

text \<open>
  \<open>render.Pod\<close> succeeds exactly when the DevPod has a pod workload with at least one container
  and, where persistence names a target container, that container exists; otherwise it returns an
  ordinary error: the index \<open>Containers[0]\<close> is never read out of range.
\<close>

theorem Pod_success_iff:
  "(\<exists>p. Pod dp cfg = Inr p) =
     (case ds_Pod (dp_Spec dp) of
        None \<Rightarrow> False
      | Some pw \<Rightarrow> ps_Containers (pw_Spec pw) \<noteq> [] \<and>
          targetOf dp (ps_Containers (pw_Spec pw)) \<in> c_Name ` set (ps_Containers (pw_Spec pw)))
   \<and> Pod dp cfg \<noteq> Inl panic_index"
  unfolding Pod_ok_iff unfolding Pod_ref_eq Pod_ref_def Let_def
  by (auto split: option.splits)

text \<open>
  \<open>render.Pod\<close> edits one container, the first one with the target's name: its command becomes
  the supervisor, its old command and arguments become the arguments, image, resources and every
  other field are kept, its mounts and environment only grow, and the sshd port is in its
  environment.  All other containers, the order of containers, the user's init containers and the
  user's volumes are kept, with the bootstrap init container first.
\<close>

theorem Pod_edits_only_target:
  assumes "Pod dp cfg = Inr p"
  shows "\<exists>pw pre c c' post. ds_Pod (dp_Spec dp) = Some pw \<and>
      ps_Containers (pw_Spec pw) = pre @ c # post \<and>
      ps_Containers (pod_Spec p) = pre @ c' # post \<and>
      c_Name c = targetOf dp (ps_Containers (pw_Spec pw)) \<and>
      (c_Command c', c_Args c') = ([''/opt/devpod/devpod-supervisor''], c_Command c @ c_Args c) \<and>
      (c_Name c', c_Image c', c_Resources c', c_rest c') = (c_Name c, c_Image c, c_Resources c, c_rest c) \<and>
      prefix (c_VolumeMounts c) (c_VolumeMounts c') \<and> prefix (c_Env c) (c_Env c') \<and>
      \<lparr>ev_Name = ''SUPERVISOR_SSHD_PORT'', ev_Value = Itoa (sint (BackendPort dp cfg)), ev_rest = []\<rparr> \<in> set (c_Env c') \<and>
      ps_InitContainers (pod_Spec p) =
        bootstrapInitContainer (gc_SupervisorImage cfg) # ps_InitContainers (pw_Spec pw) \<and>
      prefix (ps_Volumes (pw_Spec pw)) (ps_Volumes (pod_Spec p))"
proof -
  from assms obtain pw pre c post where P:
    "ds_Pod (dp_Spec dp) = Some pw" "ps_Containers (pw_Spec pw) = pre @ c # post"
    "c_Name c = targetOf dp (pre @ c # post)" "ps_Containers (pod_Spec p) = pre @ targetEdit dp cfg c # post"
    "ps_InitContainers (pod_Spec p) = bootstrapInitContainer (gc_SupervisorImage cfg) # ps_InitContainers (pw_Spec pw)"
    "ps_Volumes (pod_Spec p) = ps_Volumes (pw_Spec pw) @ injectedVolumes dp cfg"
    by (rule Pod_InrE) 
  have "c_Command (targetEdit dp cfg c) = [''/opt/devpod/devpod-supervisor'']"
    "c_Args (targetEdit dp cfg c) = c_Command c @ c_Args c"
    "c_Name (targetEdit dp cfg c) = c_Name c" "c_Image (targetEdit dp cfg c) = c_Image c"
    "c_Resources (targetEdit dp cfg c) = c_Resources c" "c_rest (targetEdit dp cfg c) = c_rest c"
    "prefix (c_VolumeMounts c) (c_VolumeMounts (targetEdit dp cfg c))"
    "prefix (c_Env c) (c_Env (targetEdit dp cfg c))"
    "\<lparr>ev_Name = ''SUPERVISOR_SSHD_PORT'', ev_Value = Itoa (sint (BackendPort dp cfg)), ev_rest = []\<rparr>
       \<in> set (c_Env (targetEdit dp cfg c))"
    by (simp_all add: targetEdit_def wrapContainer_def homeMountEdit_def hostHomeEdit_def split: option.splits)
  with P show ?thesis
    by (intro exI [of _ pw] exI [of _ pre] exI [of _ c] exI [of _ "targetEdit dp cfg c"] exI [of _ post]) simp
qed

theorem Pod_edits_only_target_witness:
  "\<exists>p pw. Pod ex_dp gateway_config0 = Inr p \<and> ds_Pod (dp_Spec ex_dp) = Some pw \<and>
     ps_InitContainers (pod_Spec p) = [bootstrapInitContainer []] \<and> pw = ex_pw"
proof -
  obtain p where p: "Pod ex_dp gateway_config0 = Inr p" by (rule Pod_ex_dp)
  from Pod_edits_only_target [OF p] p show ?thesis
    by (auto simp: ex_dp_fields)
qed

text \<open>
  The labels the controller relies on cannot be overridden by the user's pod metadata: on the
  rendered pod the owner, DevPod and managed-by labels are the controller's, and every other user
  label is kept.
\<close>

theorem Pod_reserved_labels:
  assumes "Pod dp cfg = Inr p" and "ds_Pod (dp_Spec dp) = Some pw"
  shows "map_of (meta_Labels (pod_Meta p)) =
     map_of (pm_Labels (pw_Metadata pw)) ++
       [LabelOwner \<mapsto> dp_Owner dp, LabelManaged \<mapsto> ''devpod-controller'', LabelDevPod \<mapsto> dp_Name dp]"
proof -
  from assms have "meta_Labels (pod_Meta p) = mergeStrings (DevPodLabels dp) (pm_Labels (pw_Metadata pw))"
    by (auto elim: Pod_InrE)
  then show ?thesis
    by (simp add: fun_eq_iff map_of_mergeStrings map_of_DevPodLabels map_add_def)
qed

theorem Pod_reserved_labels_witness:
  "\<exists>p. Pod ex_dp gateway_config0 = Inr p \<and> map_of (meta_Labels (pod_Meta p)) LabelOwner = Some ''alice''
     \<and> map_of (meta_Labels (pod_Meta p)) ''team'' = Some ''x''"
proof -
  obtain p where p: "Pod ex_dp gateway_config0 = Inr p" by (rule Pod_ex_dp)
  from Pod_reserved_labels [OF p ex_dp_fields(1)] p show ?thesis
    by (simp add: ex_dp_fields map_add_def)
qed

text \<open>
  The objects rendered for one DevPod fit together: the Service's selector matches the labels
  of the rendered pod whatever labels the user sets, both are in the same namespace under the same
  name, and the Service's only port is the port the target container's sshd is told to use.
\<close>

theorem Service_selects_Pod:
  assumes "Pod dp cfg = Inr p" and "Service dp cfg = Inr s"
  shows "map_of (svc_Selector s) \<subseteq>\<^sub>m map_of (meta_Labels (pod_Meta p)) \<and>
     meta_Name (svc_Meta s) = meta_Name (pod_Meta p) \<and>
     meta_Namespace (svc_Meta s) = meta_Namespace (pod_Meta p) \<and>
     (\<exists>c\<in>set (ps_Containers (pod_Spec p)). \<exists>q\<in>set (svc_Ports s).
        sp_TargetPort q = sp_Port q \<and> svc_Ports s = [q] \<and>
        \<lparr>ev_Name = ''SUPERVISOR_SSHD_PORT'', ev_Value = Itoa (sint (sp_TargetPort q)), ev_rest = []\<rparr> \<in> set (c_Env c))"
proof -
  from assms(1) obtain pw pre c post where P: "ds_Pod (dp_Spec dp) = Some pw"
    "meta_Labels (pod_Meta p) = mergeStrings (DevPodLabels dp) (pm_Labels (pw_Metadata pw))"
    "ps_Containers (pod_Spec p) = pre @ targetEdit dp cfg c # post"
    "meta_Name (pod_Meta p) = PodName dp" "meta_Namespace (pod_Meta p) = gc_DevPodNamespace cfg"
    by (rule Pod_InrE) blast
  have env: "\<lparr>ev_Name = ''SUPERVISOR_SSHD_PORT'', ev_Value = Itoa (sint (BackendPort dp cfg)), ev_rest = []\<rparr>
       \<in> set (c_Env (targetEdit dp cfg c))"
    by (simp add: targetEdit_def wrapContainer_def)
  from assms(2) have s: "svc_Selector s = [(LabelOwner, dp_Owner dp), (LabelDevPod, dp_Name dp)]"
    "svc_Ports s = [\<lparr>sp_Name = ''ssh'', sp_Port = BackendPort dp cfg, sp_TargetPort = BackendPort dp cfg, sp_Protocol = ''TCP''\<rparr>]"
    "meta_Name (svc_Meta s) = PodName dp" "meta_Namespace (svc_Meta s) = gc_DevPodNamespace cfg"
    by (auto simp: Service_def Let_def render_defs)
  have "map_of (svc_Selector s) \<subseteq>\<^sub>m map_of (meta_Labels (pod_Meta p))"
    unfolding s P map_le_def by (simp add: map_of_mergeStrings map_of_DevPodLabels)
  with P env show ?thesis unfolding s by simp
qed

theorem Service_selects_Pod_witness:
  "\<exists>p s. Pod ex_dp gateway_config0 = Inr p \<and> Service ex_dp gateway_config0 = Inr s \<and>
     map_of (svc_Selector s) \<subseteq>\<^sub>m map_of (meta_Labels (pod_Meta p))"
proof -
  have "\<exists>p. Pod ex_dp gateway_config0 = Inr p" using Pod_ex_dp by blast
  moreover have "\<exists>s. Service ex_dp gateway_config0 = Inr s" by (simp add: Service_def Let_def)
  ultimately show ?thesis using Service_selects_Pod by blast
qed

text \<open>
  The backend port is a usable port: for a host-network DevPod with a UID it lies in
  \<open>[65000, 65500)\<close>, otherwise it is the configured port, with \<open>2222\<close> for an unset one.
\<close>

theorem BackendPort_range:
  "(if (\<exists>pw. ds_Pod (dp_Spec dp) = Some pw \<and> ps_HostNetwork (pw_Spec pw)) \<and> dp_UID dp \<noteq> []
    then 65000 \<le> sint (BackendPort dp cfg) \<and> sint (BackendPort dp cfg) < 65500
    else BackendPort dp cfg = (if gc_BackendPort cfg = 0 then 2222 else gc_BackendPort cfg))"
proof -
  have range: "65000 \<le> sint (65000 + h mod 500 :: 32 word) \<and> sint (65000 + h mod 500 :: 32 word) < 65500" for h
  proof -
    have u: "unat (h mod 500) < 500" by (simp add: unat_mod)
    have "unat (65000 + h mod 500) = 65000 + unat (h mod 500)"
      using u unat_add_lem [of "65000 :: 32 word" "h mod 500"] by simp
    then have i: "uint (65000 + h mod 500) = 65000 + int (unat (h mod 500))"
      unfolding uint_nat by linarith
    have "uint (65000 + h mod 500) < 2147483648" unfolding i using u by linarith
    moreover have "- 2147483648 \<le> uint (65000 + h mod 500)" by (rule order_trans [OF _ uint_ge_0]) simp
    ultimately have "sint (65000 + h mod 500) = uint (65000 + h mod 500)"
      unfolding sint_uint by (intro signed_take_bit_int_eq_self) simp_all
    then show ?thesis using u i by linarith
  qed
  show ?thesis
    using range by (auto simp: BackendPort_def Let_def split: option.splits)
qed

text \<open>
  Not every rule that the comment on \<open>DevPodSpec\<close> assigns to the render layer is enforced
  there: a user volume that carries a reserved \<open>devpod-\<close> name is not refused, and the rendered pod
  then has two volumes of that name.
\<close>

theorem Pod_reserved_volume_accepted:
  assumes "Pod dp cfg = Inr p" and "ds_Pod (dp_Spec dp) = Some pw"
    and "VolumeSupervisorBin \<in> vol_Name ` set (ps_Volumes (pw_Spec pw))"
  shows "\<not> distinct (map vol_Name (ps_Volumes (pod_Spec p)))"
proof -
  from assms(1,2) have "ps_Volumes (pod_Spec p) = ps_Volumes (pw_Spec pw) @ injectedVolumes dp cfg"
    by (auto elim: Pod_InrE)
  moreover have "VolumeSupervisorBin \<in> vol_Name ` set (injectedVolumes dp cfg)"
    by (simp add: injectedVolumes_def supervisorBinVolume_def)
  ultimately show ?thesis using assms(3) by auto
qed

definition ex_collide :: devpod where
  "ex_collide = ex_dp\<lparr>dp_Spec := (dp_Spec ex_dp)\<lparr>ds_Pod := Some (ex_pw\<lparr>pw_Spec := (pw_Spec ex_pw)\<lparr>ps_Volumes :=
     [\<lparr>vol_Name = ''devpod-bin'', vol_Source = OtherVol ''mine''\<rparr>]\<rparr>\<rparr>)\<rparr>\<rparr>"

theorem Pod_reserved_volume_accepted_witness:
  "\<exists>p. Pod ex_collide gateway_config0 = Inr p \<and> \<not> distinct (map vol_Name (ps_Volumes (pod_Spec p)))"
proof -
  have "\<exists>p. Pod ex_collide gateway_config0 = Inr p"
    unfolding Pod_ok_iff by (simp add: ex_collide_def ex_defs targetOf_def)
  then obtain p where p: "Pod ex_collide gateway_config0 = Inr p" ..
  have "ds_Pod (dp_Spec ex_collide) = Some (ex_pw\<lparr>pw_Spec := (pw_Spec ex_pw)\<lparr>ps_Volumes :=
     [\<lparr>vol_Name = ''devpod-bin'', vol_Source = OtherVol ''mine''\<rparr>]\<rparr>\<rparr>)" by (simp add: ex_collide_def)
  from Pod_reserved_volume_accepted [OF p this] p show ?thesis by simp
qed

end
