(* ===== verification/Kube_Client.thy ===== *)
theory Kube_Client
  imports Kube_Types "HOL-Library.State_Monad"
begin

section \<open>The Kubernetes client as a parameter, and a logic of its call traces\<close>

text \<open>
  The API server and the \<open>controller-runtime\<close> helpers are not part of the repository.  They are the
  record \<open>kube\<close>, an argument of every definition that talks to the cluster: one field per client
  call, each a function of the opaque cluster state \<open>'s\<close>.  Nothing is assumed of them here.

  Code that calls the API is a computation of the state monad over \<open>world\<close>, which holds the cluster,
  the log of calls and their answers, and the one mutable field of a reconciler.  \<open>ensures m Q\<close>
  says that whatever the server answers, the result \<open>a\<close> of \<open>m\<close> and the list \<open>es\<close> of the
  calls it makes satisfy \<open>Q a es\<close>; the introduction rules \<open>ensures_intros\<close> walk through a program
  and leave one goal per path.
\<close>

datatype kobj = ObjPod pod | ObjService service | ObjPVC pvc | ObjNetPol network_policy

text \<open>A call together with its answer; reading the clock is recorded too.\<close>

datatype event =
    EvGetDevPod namespaced_name "api_error + devpod"
  | EvListDevPods "string option" "api_error + devpod list"
  | EvCreateDevPod devpod "api_error + devpod"
  | EvUpdateDevPod devpod "api_error + devpod"
  | EvDeleteDevPod namespaced_name "api_error + unit"
  | EvPatchDevPodStatus devpod devpod "api_error + devpod"
  | EvGetPod namespaced_name "api_error + pod"
  | EvListPods string "(string \<times> string) option" "api_error + pod list"
  | EvDeletePod namespaced_name "api_error + unit"
  | EvApply kobj "api_error + unit"
  | EvGetPVC namespaced_name "api_error + pvc"
  | EvPatchPVC pvc pvc "api_error + unit"
  | EvDeleteNetPol namespaced_name "api_error + unit"
  | EvGetSecret namespaced_name "api_error + secret"
  | EvCreateSecret secret "api_error + unit"
  | EvGetUser string "api_error + user"
  | EvListUsers "api_error + user list"
  | EvCreateUser user "api_error + user"
  | EvUpdateUser user "api_error + user"
  | EvUpdateUserStatus user "api_error + user"
  | EvDeleteUser string "api_error + unit"
  | EvGetSnapshot namespaced_name "api_error + snapshot"
  | EvUpdateSnapshot snapshot "api_error + snapshot"
  | EvPatchSnapshotStatus snapshot snapshot "api_error + snapshot"
  | EvGetJob namespaced_name "api_error + job"
  | EvCreateJob job "api_error + unit"
  | EvGetTemplate string "api_error + devpod_template"
  | EvListTemplates "api_error + devpod_template list"
  | EvNow timestamp

record 's kube =
  k_get_devpod :: "namespaced_name \<Rightarrow> 's \<Rightarrow> (api_error + devpod) \<times> 's"
  k_list_devpods :: "string option \<Rightarrow> 's \<Rightarrow> (api_error + devpod list) \<times> 's"
  k_create_devpod :: "devpod \<Rightarrow> 's \<Rightarrow> (api_error + devpod) \<times> 's"
  k_update_devpod :: "devpod \<Rightarrow> 's \<Rightarrow> (api_error + devpod) \<times> 's"
  k_delete_devpod :: "namespaced_name \<Rightarrow> 's \<Rightarrow> (api_error + unit) \<times> 's"
  k_patch_devpod_status :: "devpod \<Rightarrow> devpod \<Rightarrow> 's \<Rightarrow> (api_error + devpod) \<times> 's"
  k_get_pod :: "namespaced_name \<Rightarrow> 's \<Rightarrow> (api_error + pod) \<times> 's"
  k_list_pods :: "string \<Rightarrow> (string \<times> string) option \<Rightarrow> 's \<Rightarrow> (api_error + pod list) \<times> 's"
  k_delete_pod :: "namespaced_name \<Rightarrow> 's \<Rightarrow> (api_error + unit) \<times> 's"
  k_apply :: "kobj \<Rightarrow> 's \<Rightarrow> (api_error + unit) \<times> 's"
  k_get_pvc :: "namespaced_name \<Rightarrow> 's \<Rightarrow> (api_error + pvc) \<times> 's"
  k_patch_pvc :: "pvc \<Rightarrow> pvc \<Rightarrow> 's \<Rightarrow> (api_error + unit) \<times> 's"
  k_delete_netpol :: "namespaced_name \<Rightarrow> 's \<Rightarrow> (api_error + unit) \<times> 's"
  k_get_secret :: "namespaced_name \<Rightarrow> 's \<Rightarrow> (api_error + secret) \<times> 's"
  k_create_secret :: "secret \<Rightarrow> 's \<Rightarrow> (api_error + unit) \<times> 's"
  k_get_user :: "string \<Rightarrow> 's \<Rightarrow> (api_error + user) \<times> 's"
  k_list_users :: "'s \<Rightarrow> (api_error + user list) \<times> 's"
  k_create_user :: "user \<Rightarrow> 's \<Rightarrow> (api_error + user) \<times> 's"
  k_update_user :: "user \<Rightarrow> 's \<Rightarrow> (api_error + user) \<times> 's"
  k_update_user_status :: "user \<Rightarrow> 's \<Rightarrow> (api_error + user) \<times> 's"
  k_delete_user :: "string \<Rightarrow> 's \<Rightarrow> (api_error + unit) \<times> 's"
  k_get_snapshot :: "namespaced_name \<Rightarrow> 's \<Rightarrow> (api_error + snapshot) \<times> 's"
  k_update_snapshot :: "snapshot \<Rightarrow> 's \<Rightarrow> (api_error + snapshot) \<times> 's"
  k_patch_snapshot_status :: "snapshot \<Rightarrow> snapshot \<Rightarrow> 's \<Rightarrow> (api_error + snapshot) \<times> 's"
  k_get_job :: "namespaced_name \<Rightarrow> 's \<Rightarrow> (api_error + job) \<times> 's"
  k_create_job :: "job \<Rightarrow> 's \<Rightarrow> (api_error + unit) \<times> 's"
  k_get_template :: "string \<Rightarrow> 's \<Rightarrow> (api_error + devpod_template) \<times> 's"
  k_list_templates :: "'s \<Rightarrow> (api_error + devpod_template list) \<times> 's"
  k_now :: "'s \<Rightarrow> timestamp \<times> 's"
  k_keygen :: "'s \<Rightarrow> (go_error + string \<times> string) \<times> 's"
  k_setControllerReference :: "object_meta \<Rightarrow> object_meta \<Rightarrow> go_error + object_meta"
  k_isControlledBy :: "object_meta \<Rightarrow> object_meta \<Rightarrow> bool"
  k_addFinalizer :: "string \<Rightarrow> string list \<Rightarrow> string list \<times> bool"
  k_removeFinalizer :: "string \<Rightarrow> string list \<Rightarrow> string list"
  k_setStatusCondition :: "condition list \<Rightarrow> condition \<Rightarrow> condition list"
  k_objectKinds :: "kobj \<Rightarrow> go_error + unit"
  k_marshalPodSpec :: "pod_spec \<Rightarrow> string"
  k_sha256 :: "string \<Rightarrow> string"

record 's world =
  cluster :: 's
  calls :: "event list"
  requeueAfter :: duration

type_synonym ('s, 'a) prog = "('s world, 'a) state"

definition api :: "('a \<Rightarrow> event) \<Rightarrow> ('s \<Rightarrow> 'a \<times> 's) \<Rightarrow> ('s, 'a) prog" where
  "api ev f = State (\<lambda>w. case f (cluster w) of
     (a, s) \<Rightarrow> (a, w\<lparr>cluster := s, calls := calls w @ [ev a]\<rparr>))"

text \<open>The random source: state is read, nothing is recorded.\<close>

definition sys :: "('s \<Rightarrow> 'a \<times> 's) \<Rightarrow> ('s, 'a) prog" where
  "sys f = State (\<lambda>w. case f (cluster w) of (a, s) \<Rightarrow> (a, w\<lparr>cluster := s\<rparr>))"

definition set_requeueAfter :: "duration \<Rightarrow> ('s, unit) prog" where
  "set_requeueAfter d = State (\<lambda>w. ((), w\<lparr>requeueAfter := d\<rparr>))"

definition get_requeueAfter :: "('s, duration) prog" where
  "get_requeueAfter = State (\<lambda>w. (requeueAfter w, w))"

lemma run_api [simp]:
  "run_state (api ev f) w =
     (fst (f (cluster w)), w\<lparr>cluster := snd (f (cluster w)), calls := calls w @ [ev (fst (f (cluster w)))]\<rparr>)"
  by (simp add: api_def case_prod_beta)

lemma run_sys [simp]:
  "run_state (sys f) w = (fst (f (cluster w)), w\<lparr>cluster := snd (f (cluster w))\<rparr>)"
  by (simp add: sys_def case_prod_beta)

lemma run_set_requeueAfter [simp]: "run_state (set_requeueAfter d) w = ((), w\<lparr>requeueAfter := d\<rparr>)"
  by (simp add: set_requeueAfter_def)

lemma run_get_requeueAfter [simp]: "run_state get_requeueAfter w = (requeueAfter w, w)"
  by (simp add: get_requeueAfter_def)

subsection \<open>Trace specifications\<close>

definition ensures :: "('s, 'a) prog \<Rightarrow> ('a \<Rightarrow> event list \<Rightarrow> bool) \<Rightarrow> bool" where
  "ensures m Q \<longleftrightarrow>
     (\<forall>w. \<exists>es. calls (snd (run_state m w)) = calls w @ es \<and> Q (fst (run_state m w)) es)"

named_theorems ensures_intros "one rule per program constructor"
named_theorems ensures_specs "trace specifications of procedures"

lemma ensures_return [ensures_intros]: "Q a [] \<Longrightarrow> ensures (State_Monad.return a) Q"
  by (simp add: ensures_def)

lemma ensures_bind [ensures_intros]:
  "ensures m (\<lambda>a es. ensures (f a) (\<lambda>b es'. Q b (es @ es'))) \<Longrightarrow> ensures (State_Monad.bind m f) Q"
  unfolding ensures_def
proof (intro allI)
  fix w
  assume *: "\<forall>w. \<exists>es. calls (snd (run_state m w)) = calls w @ es \<and>
    (\<forall>w'. \<exists>es'. calls (snd (run_state (f (fst (run_state m w))) w')) = calls w' @ es' \<and>
       Q (fst (run_state (f (fst (run_state m w))) w')) (es @ es'))"
  obtain a w1 where m: "run_state m w = (a, w1)" by (cases "run_state m w")
  with * obtain es where es: "calls w1 = calls w @ es"
    and "\<forall>w'. \<exists>es'. calls (snd (run_state (f a) w')) = calls w' @ es' \<and> Q (fst (run_state (f a) w')) (es @ es')"
    by (metis fst_conv snd_conv)
  then obtain es' where "calls (snd (run_state (f a) w1)) = calls w1 @ es'" "Q (fst (run_state (f a) w1)) (es @ es')"
    by blast
  with m es show "\<exists>es. calls (snd (run_state (State_Monad.bind m f) w)) = calls w @ es \<and>
      Q (fst (run_state (State_Monad.bind m f) w)) es"
    by (intro exI [of _ "es @ es'"]) simp
qed

text \<open>The answers a call can give: what is known of them comes from the hypotheses on the client.\<close>

definition answers :: "('s \<Rightarrow> 'a \<times> 's) \<Rightarrow> 'a set" where
  "answers f = range (\<lambda>s. fst (f s))"

lemma ensures_api [ensures_intros]: "(\<And>a. a \<in> answers f \<Longrightarrow> Q a [ev a]) \<Longrightarrow> ensures (api ev f) Q"
  by (auto simp: ensures_def answers_def)

lemma ensures_sys [ensures_intros]: "(\<And>a. Q a []) \<Longrightarrow> ensures (sys f) Q"
  by (auto simp: ensures_def)

lemma ensures_set_requeueAfter [ensures_intros]: "Q () [] \<Longrightarrow> ensures (set_requeueAfter d) Q"
  by (auto simp: ensures_def)

lemma ensures_get_requeueAfter [ensures_intros]: "(\<And>d. Q d []) \<Longrightarrow> ensures get_requeueAfter Q"
  by (auto simp: ensures_def)

lemma ensures_if [ensures_intros]:
  "(b \<Longrightarrow> ensures m Q) \<Longrightarrow> (\<not> b \<Longrightarrow> ensures n Q) \<Longrightarrow> ensures (if b then m else n) Q"
  by simp

lemma ensures_case_sum [ensures_intros]:
  "(\<And>x. r = Inl x \<Longrightarrow> ensures (f x) Q) \<Longrightarrow> (\<And>y. r = Inr y \<Longrightarrow> ensures (g y) Q) \<Longrightarrow>
   ensures (case r of Inl x \<Rightarrow> f x | Inr y \<Rightarrow> g y) Q"
  by (cases r) auto

lemma ensures_case_option [ensures_intros]:
  "(r = None \<Longrightarrow> ensures m Q) \<Longrightarrow> (\<And>y. r = Some y \<Longrightarrow> ensures (g y) Q) \<Longrightarrow>
   ensures (case r of None \<Rightarrow> m | Some y \<Rightarrow> g y) Q"
  by (cases r) auto

lemma ensures_case_prod [ensures_intros]:
  "(\<And>x y. r = (x, y) \<Longrightarrow> ensures (f x y) Q) \<Longrightarrow> ensures (case r of (x, y) \<Rightarrow> f x y) Q"
  by (cases r) auto

lemma ensures_case_list [ensures_intros]:
  "(r = [] \<Longrightarrow> ensures m Q) \<Longrightarrow> (\<And>y ys. r = y # ys \<Longrightarrow> ensures (g y ys) Q) \<Longrightarrow>
   ensures (case r of [] \<Rightarrow> m | y # ys \<Rightarrow> g y ys) Q"
  by (cases r) auto

lemma ensures_let [ensures_intros]: "ensures (f t) Q \<Longrightarrow> ensures (let x = t in f x) Q"
  by simp

lemma ensures_mono: "ensures m Q \<Longrightarrow> (\<And>a es. Q a es \<Longrightarrow> R a es) \<Longrightarrow> ensures m R"
  unfolding ensures_def by blast

lemma ensures_conj: "ensures m Q \<Longrightarrow> ensures m R \<Longrightarrow> ensures m (\<lambda>a es. Q a es \<and> R a es)"
  unfolding ensures_def by (metis same_append_eq)

text \<open>Every call of a program satisfies \<open>P\<close>: the specification that composes without a case split.\<close>

definition only :: "(event \<Rightarrow> bool) \<Rightarrow> ('s, 'a) prog \<Rightarrow> bool" where
  "only P m \<longleftrightarrow> ensures m (\<lambda>_ es. list_all P es)"

named_theorems only_intros "one rule per program constructor, then one per procedure"

lemma only_return [only_intros]: "only P (State_Monad.return a)"
  by (simp add: only_def ensures_return)

lemma only_bind:
  "only P m \<Longrightarrow> (\<And>a. only P (f a)) \<Longrightarrow> only P (State_Monad.bind m f)"
  unfolding only_def by (rule ensures_bind, erule ensures_mono) (simp add: ensures_mono)

lemma only_bind_ret:
  "ensures m (\<lambda>a es. list_all P es \<and> R a) \<Longrightarrow> (\<And>a. R a \<Longrightarrow> only P (f a)) \<Longrightarrow> only P (State_Monad.bind m f)"
  unfolding only_def by (rule ensures_bind, erule ensures_mono) (simp add: ensures_mono)

lemma only_api [only_intros]: "(\<And>a. a \<in> answers f \<Longrightarrow> P (ev a)) \<Longrightarrow> only P (api ev f)"
  by (simp add: only_def ensures_api)

lemma only_bind_api [only_intros]:
  "(\<And>a. a \<in> answers g \<Longrightarrow> P (ev a)) \<Longrightarrow> (\<And>a. a \<in> answers g \<Longrightarrow> only P (f a)) \<Longrightarrow>
   only P (State_Monad.bind (api ev g) f)"
  by (rule only_bind_ret [where R = "\<lambda>a. a \<in> answers g"]) (simp_all add: ensures_api)

lemma only_sys [only_intros]: "only P (sys f)"
  by (simp add: only_def ensures_sys)

lemma only_set_requeueAfter [only_intros]: "only P (set_requeueAfter d)"
  by (simp add: only_def ensures_set_requeueAfter)

lemma only_get_requeueAfter [only_intros]: "only P get_requeueAfter"
  by (simp add: only_def ensures_get_requeueAfter)

lemma only_if [only_intros]: "(b \<Longrightarrow> only P m) \<Longrightarrow> (\<not> b \<Longrightarrow> only P n) \<Longrightarrow> only P (if b then m else n)"
  by simp

lemma only_case_sum [only_intros]:
  "(\<And>x. r = Inl x \<Longrightarrow> only P (f x)) \<Longrightarrow> (\<And>y. r = Inr y \<Longrightarrow> only P (g y)) \<Longrightarrow> only P (case r of Inl x \<Rightarrow> f x | Inr y \<Rightarrow> g y)"
  by (cases r) auto

lemma only_case_option [only_intros]:
  "(r = None \<Longrightarrow> only P m) \<Longrightarrow> (\<And>y. r = Some y \<Longrightarrow> only P (g y)) \<Longrightarrow> only P (case r of None \<Rightarrow> m | Some y \<Rightarrow> g y)"
  by (cases r) auto

lemma only_case_prod [only_intros]:
  "(\<And>x y. r = (x, y) \<Longrightarrow> only P (f x y)) \<Longrightarrow> only P (case r of (x, y) \<Rightarrow> f x y)"
  by (cases r) auto

lemma only_let [only_intros]: "only P (f t) \<Longrightarrow> only P (let x = t in f x)"
  by simp

lemma only_mono: "only P m \<Longrightarrow> (\<And>e. P e \<Longrightarrow> Q e) \<Longrightarrow> only Q m"
  unfolding only_def by (erule ensures_mono) (auto simp: list_all_iff)

text \<open>A program that leaves \<open>requeueAfter\<close> alone.\<close>

definition keeps_requeue :: "('s, 'a) prog \<Rightarrow> bool" where
  "keeps_requeue m \<longleftrightarrow> (\<forall>w. requeueAfter (snd (run_state m w)) = requeueAfter w)"

named_theorems keeps_intros "one rule per program constructor"

lemma keeps_return [keeps_intros]: "keeps_requeue (State_Monad.return a)"
  by (simp add: keeps_requeue_def)

lemma keeps_bind [keeps_intros]:
  "keeps_requeue m \<Longrightarrow> (\<And>a. keeps_requeue (f a)) \<Longrightarrow> keeps_requeue (State_Monad.bind m f)"
  by (simp add: keeps_requeue_def split_beta)

lemma keeps_api [keeps_intros]: "keeps_requeue (api ev f)"
  by (simp add: keeps_requeue_def)

lemma keeps_sys [keeps_intros]: "keeps_requeue (sys f)"
  by (simp add: keeps_requeue_def)

lemma keeps_if [keeps_intros]: "keeps_requeue m \<Longrightarrow> keeps_requeue n \<Longrightarrow> keeps_requeue (if b then m else n)"
  by simp

lemma keeps_case_sum [keeps_intros]:
  "(\<And>x. keeps_requeue (f x)) \<Longrightarrow> (\<And>y. keeps_requeue (g y)) \<Longrightarrow> keeps_requeue (case r of Inl x \<Rightarrow> f x | Inr y \<Rightarrow> g y)"
  by (cases r) auto

lemma keeps_case_option [keeps_intros]:
  "keeps_requeue m \<Longrightarrow> (\<And>y. keeps_requeue (g y)) \<Longrightarrow> keeps_requeue (case r of None \<Rightarrow> m | Some y \<Rightarrow> g y)"
  by (cases r) auto

lemma keeps_case_prod [keeps_intros]:
  "(\<And>x y. keeps_requeue (f x y)) \<Longrightarrow> keeps_requeue (case r of (x, y) \<Rightarrow> f x y)"
  by (cases r) auto

lemma keeps_let [keeps_intros]: "keeps_requeue (f t) \<Longrightarrow> keeps_requeue (let x = t in f x)"
  by simp

text \<open>Using a specification at a concrete start: the calls made from \<open>w\<close>.\<close>

definition made :: "('s, 'a) prog \<Rightarrow> 's world \<Rightarrow> event list" where
  "made m w = drop (length (calls w)) (calls (snd (run_state m w)))"

definition result :: "('s, 'a) prog \<Rightarrow> 's world \<Rightarrow> 'a" where
  "result m w = fst (run_state m w)"

lemma ensuresD: "ensures m Q \<Longrightarrow> Q (result m w) (made m w)"
  unfolding ensures_def made_def result_def by (metis append_eq_conv_conj)

lemma onlyD: "only P m \<Longrightarrow> e \<in> set (made m w) \<Longrightarrow> P e"
  unfolding only_def by (drule ensuresD [of _ _ w]) (simp add: list_all_iff)

lemma ensuresI: "(\<And>w. \<exists>es. calls (snd (run_state m w)) = calls w @ es \<and> Q (result m w) es) \<Longrightarrow> ensures m Q"
  unfolding ensures_def result_def by blast

lemma made_bind_api:
  assumes "only (\<lambda>_. True) (g (fst (f (cluster w))))"
  obtains w' where "made (State_Monad.bind (api ev f) g) w = ev (fst (f (cluster w))) # made (g (fst (f (cluster w)))) w'"
    and "result (State_Monad.bind (api ev f) g) w = result (g (fst (f (cluster w)))) w'"
proof -
  let ?a = "fst (f (cluster w))"
  let ?w = "w\<lparr>cluster := snd (f (cluster w)), calls := calls w @ [ev ?a]\<rparr>"
  obtain es where "calls (snd (run_state (g ?a) ?w)) = calls ?w @ es"
    using assms unfolding only_def ensures_def by blast
  then show ?thesis using that [of ?w] by (simp add: made_def result_def)
qed

end
