(* ===== verification/Mem_Cluster.thy ===== *)
theory Mem_Cluster
  imports Kube_Client
begin

section \<open>A concrete client for the closed examples\<close>

text \<open>
  One instance of the record \<open>kube\<close>: a cluster held in lists, with a clock that stands still.  It models no
  file of the repository.  The examples run the reconcilers and handlers on it, which shows that
  the hypotheses of the theorems about them can hold.
\<close>

record mem =
  m_devpods :: "devpod list"
  m_pods :: "pod list"
  m_pvcs :: "pvc list"
  m_secrets :: "secret list"
  m_services :: "service list"
  m_netpols :: "network_policy list"
  m_users :: "user list"
  m_snapshots :: "snapshot list"
  m_jobs :: "job list"
  m_templates :: "devpod_template list"
  m_clock :: timestamp

definition mem0 :: mem where
  "mem0 = \<lparr>m_devpods = [], m_pods = [], m_pvcs = [], m_secrets = [], m_services = [], m_netpols = [],
     m_users = [], m_snapshots = [], m_jobs = [], m_templates = [], m_clock = 1000\<rparr>"

definition meta_key :: "object_meta \<Rightarrow> namespaced_name" where
  "meta_key m = (meta_Namespace m, meta_Name m)"

definition look :: "('a \<Rightarrow> 'k) \<Rightarrow> 'k \<Rightarrow> 'a list \<Rightarrow> api_error + 'a" where
  "look key k xs = (case find (\<lambda>x. key x = k) xs of None \<Rightarrow> Inl NotFound | Some x \<Rightarrow> Inr x)"

definition upsert :: "('a \<Rightarrow> 'k) \<Rightarrow> 'a \<Rightarrow> 'a list \<Rightarrow> 'a list" where
  "upsert key x xs = filter (\<lambda>y. key y \<noteq> key x) xs @ [x]"

definition has :: "('a \<Rightarrow> 'k) \<Rightarrow> 'k \<Rightarrow> 'a list \<Rightarrow> bool" where
  "has key k xs = list_ex (\<lambda>x. key x = k) xs"

definition drop_key :: "('a \<Rightarrow> 'k) \<Rightarrow> 'k \<Rightarrow> 'a list \<Rightarrow> 'a list" where
  "drop_key key k xs = filter (\<lambda>x. key x \<noteq> k) xs"

abbreviation "dpk \<equiv> \<lambda>d. meta_key (dp_Meta d)"
abbreviation "podk \<equiv> \<lambda>p. meta_key (pod_Meta p)"

definition mem_apply :: "kobj \<Rightarrow> mem \<Rightarrow> (api_error + unit) \<times> mem" where
  "mem_apply obj s = (Inr (), (case obj of
       ObjPod p \<Rightarrow> s\<lparr>m_pods := upsert podk
         (p\<lparr>pod_Status := (case look podk (podk p) (m_pods s) of Inr q \<Rightarrow> pod_Status q | Inl _ \<Rightarrow> pod_status0\<lparr>pst_Phase := ''Pending''\<rparr>)\<rparr>)
         (m_pods s)\<rparr>
     | ObjService v \<Rightarrow> s\<lparr>m_services := upsert (\<lambda>x. meta_key (svc_Meta x)) v (m_services s)\<rparr>
     | ObjPVC v \<Rightarrow> s\<lparr>m_pvcs := upsert (\<lambda>x. meta_key (pvc_Meta x)) v (m_pvcs s)\<rparr>
     | ObjNetPol v \<Rightarrow> s\<lparr>m_netpols := upsert (\<lambda>x. meta_key (np_Meta x)) v (m_netpols s)\<rparr>))"

definition presence :: "bool \<Rightarrow> api_error + unit" where
  "presence b = (if b then Inr () else Inl NotFound)"

definition mem_kube :: "mem kube" where
  "mem_kube = \<lparr>
     k_get_devpod = (\<lambda>k s. (look dpk k (m_devpods s), s)),
     k_list_devpods = (\<lambda>ns s. (Inr (case ns of None \<Rightarrow> m_devpods s
        | Some n \<Rightarrow> filter (\<lambda>d. meta_Namespace (dp_Meta d) = n) (m_devpods s)), s)),
     k_create_devpod = (\<lambda>d s. if has dpk (dpk d) (m_devpods s) then (Inl AlreadyExists, s)
        else (Inr d, s\<lparr>m_devpods := m_devpods s @ [d]\<rparr>)),
     k_update_devpod = (\<lambda>d s. (Inr d, s\<lparr>m_devpods := upsert dpk d (m_devpods s)\<rparr>)),
     k_delete_devpod = (\<lambda>k s. (presence (has dpk k (m_devpods s)), s\<lparr>m_devpods := drop_key dpk k (m_devpods s)\<rparr>)),
     k_patch_devpod_status = (\<lambda>old new s. (Inr new, s\<lparr>m_devpods := upsert dpk new (m_devpods s)\<rparr>)),
     k_get_pod = (\<lambda>k s. (look podk k (m_pods s), s)),
     k_list_pods = (\<lambda>ns lbl s. (Inr (filter (\<lambda>p. meta_Namespace (pod_Meta p) = ns \<and>
        (case lbl of None \<Rightarrow> True | Some (k, v) \<Rightarrow> mget (meta_Labels (pod_Meta p)) k = v)) (m_pods s)), s)),
     k_delete_pod = (\<lambda>k s. (presence (has podk k (m_pods s)), s\<lparr>m_pods := drop_key podk k (m_pods s)\<rparr>)),
     k_apply = mem_apply,
     k_get_pvc = (\<lambda>k s. (look (\<lambda>x. meta_key (pvc_Meta x)) k (m_pvcs s), s)),
     k_patch_pvc = (\<lambda>old new s. (Inr (), s\<lparr>m_pvcs := upsert (\<lambda>x. meta_key (pvc_Meta x)) new (m_pvcs s)\<rparr>)),
     k_delete_netpol = (\<lambda>k s. (presence (has (\<lambda>x. meta_key (np_Meta x)) k (m_netpols s)),
        s\<lparr>m_netpols := drop_key (\<lambda>x. meta_key (np_Meta x)) k (m_netpols s)\<rparr>)),
     k_get_secret = (\<lambda>k s. (look (\<lambda>x. meta_key (sec_Meta x)) k (m_secrets s), s)),
     k_create_secret = (\<lambda>d s. if has (\<lambda>x. meta_key (sec_Meta x)) (meta_key (sec_Meta d)) (m_secrets s) then (Inl AlreadyExists, s)
        else (Inr (), s\<lparr>m_secrets := m_secrets s @ [d]\<rparr>)),
     k_get_user = (\<lambda>n s. (look u_Name n (m_users s), s)),
     k_list_users = (\<lambda>s. (Inr (m_users s), s)),
     k_create_user = (\<lambda>u s. if has u_Name (u_Name u) (m_users s) then (Inl AlreadyExists, s)
        else (Inr u, s\<lparr>m_users := m_users s @ [u]\<rparr>)),
     k_update_user = (\<lambda>u s. (Inr u, s\<lparr>m_users := upsert u_Name u (m_users s)\<rparr>)),
     k_update_user_status = (\<lambda>u s. (Inr u, s\<lparr>m_users := upsert u_Name u (m_users s)\<rparr>)),
     k_delete_user = (\<lambda>n s. (presence (has u_Name n (m_users s)), s\<lparr>m_users := drop_key u_Name n (m_users s)\<rparr>)),
     k_get_snapshot = (\<lambda>k s. (look (\<lambda>x. meta_key (sn_Meta x)) k (m_snapshots s), s)),
     k_update_snapshot = (\<lambda>x s. (Inr x, s\<lparr>m_snapshots := upsert (\<lambda>x. meta_key (sn_Meta x)) x (m_snapshots s)\<rparr>)),
     k_patch_snapshot_status = (\<lambda>old new s. (Inr new, s\<lparr>m_snapshots := upsert (\<lambda>x. meta_key (sn_Meta x)) new (m_snapshots s)\<rparr>)),
     k_get_job = (\<lambda>k s. (look (\<lambda>x. meta_key (job_Meta x)) k (m_jobs s), s)),
     k_create_job = (\<lambda>j s. if has (\<lambda>x. meta_key (job_Meta x)) (meta_key (job_Meta j)) (m_jobs s) then (Inl AlreadyExists, s)
        else (Inr (), s\<lparr>m_jobs := m_jobs s @ [j]\<rparr>)),
     k_get_template = (\<lambda>n s. (look tpl_Name n (m_templates s), s)),
     k_list_templates = (\<lambda>s. (Inr (m_templates s), s)),
     k_now = (\<lambda>s. (m_clock s, s)),
     k_keygen = (\<lambda>s. (Inr (''priv'', ''pub''), s)),
     k_setControllerReference = (\<lambda>owner m. Inr (m\<lparr>meta_OwnerReferences := meta_OwnerReferences m @
        [\<lparr>or_Kind = ''DevPod'', or_Name = meta_Name owner, or_UID = meta_UID owner, or_Controller = True\<rparr>]\<rparr>)),
     k_isControlledBy = (\<lambda>m owner. list_ex (\<lambda>x. or_Controller x \<and> or_UID x = meta_UID owner) (meta_OwnerReferences m)),
     k_addFinalizer = (\<lambda>f fs. if f \<in> set fs then (fs, False) else (fs @ [f], True)),
     k_removeFinalizer = (\<lambda>f fs. filter (\<lambda>g. g \<noteq> f) fs),
     k_setStatusCondition = (\<lambda>cs c. filter (\<lambda>d. cond_Type d \<noteq> cond_Type c) cs @ [c]),
     k_objectKinds = (\<lambda>_. Inr ()),
     k_marshalPodSpec = (\<lambda>s. ps_NodeName s),
     k_sha256 = (\<lambda>s. s)\<rparr>"

definition mem_world :: "mem \<Rightarrow> mem world" where
  "mem_world s = \<lparr>cluster = s, calls = [], requeueAfter = 0\<rparr>"

lemma mem_kube_sel [simp]:
  "k_get_devpod mem_kube = (\<lambda>k s. (look dpk k (m_devpods s), s))"
  "k_get_pod mem_kube = (\<lambda>k s. (look podk k (m_pods s), s))"
  "k_patch_devpod_status mem_kube = (\<lambda>old new s. (Inr new, s\<lparr>m_devpods := upsert dpk new (m_devpods s)\<rparr>))"
  "k_now mem_kube = (\<lambda>s. (m_clock s, s))"
  "k_apply mem_kube = mem_apply"
  "k_objectKinds mem_kube = (\<lambda>_. Inr ())"
  by (simp_all add: mem_kube_def)

lemma look_Inr: "look key k xs = Inr x \<Longrightarrow> key x = k \<and> x \<in> set xs"
  unfolding look_def by (auto split: option.splits simp: find_Some_iff)

lemma look_simps [simp]:
  "look key k [] = Inl NotFound"
  "look key k (x # xs) = (if key x = k then Inr x else look key k xs)"
  by (simp_all add: look_def)

end
