(* ===== verification/Encoding.thy ===== *)
theory Encoding
  imports Prelude
begin

section \<open>Text encodings\<close>

text \<open>
  The interface of an encoding as a locale, and the encodings of the standard library that the
  sources use: \<open>encoding/hex\<close>, \<open>encoding/base64\<close> (standard alphabet, padded, and URL alphabet,
  unpadded), the verbs of \<open>fmt.Sprintf\<close> and the flat objects of \<open>encoding/json\<close>.  Text is taken to be valid UTF-8 without
  the two line separators U+2028 and U+2029, so \<open>strconv.Quote\<close> and \<open>json.Marshal\<close> copy every
  byte above 127.
\<close>

subsection \<open>Interfaces\<close>

locale string_codec =
  fixes enc :: "string \<Rightarrow> string" and dec :: "string \<Rightarrow> string option"
  assumes dec_enc: "dec (enc s) = Some s"
begin

lemma enc_eq_iff: "enc s = enc t \<longleftrightarrow> s = t"
  by (metis dec_enc option.inject)

lemma inj_enc: "inj enc"
  by (simp add: inj_def enc_eq_iff)

end

text \<open>
  An encoding byte by byte: \<open>esc\<close> writes one byte, \<open>unesc\<close> reads one back off the front.  Reading a
  whole string is the iteration of \<open>unesc\<close>; every step consumes a character, so the length is
  fuel enough.
\<close>

fun unesc_all :: "(string \<Rightarrow> (char \<times> string) option) \<Rightarrow> nat \<Rightarrow> string \<Rightarrow> string option" where
  "unesc_all unesc n [] = Some []"
| "unesc_all unesc 0 (x # xs) = None"
| "unesc_all unesc (Suc n) (x # xs) =
     (case unesc (x # xs) of None \<Rightarrow> None | Some (c, r) \<Rightarrow> map_option ((#) c) (unesc_all unesc n r))"

locale char_codec =
  fixes esc :: "char \<Rightarrow> string" and unesc :: "string \<Rightarrow> (char \<times> string) option"
  assumes unesc_esc: "unesc (esc c @ s) = Some (c, s)"
    and esc_nonempty: "esc c \<noteq> []"
begin

lemma unesc_all_esc: "length s \<le> n \<Longrightarrow> unesc_all unesc n (concat (map esc s)) = Some s"
proof (induction s arbitrary: n)
  case (Cons c s)
  then obtain m where n: "n = Suc m" by (cases n) auto
  obtain x xs where x: "esc c = x # xs" by (metis esc_nonempty neq_Nil_conv)
  have "unesc (x # xs @ concat (map esc s)) = Some (c, concat (map esc s))"
    using unesc_esc [of c "concat (map esc s)"] by (simp add: x)
  with Cons n x show ?case by simp
qed simp

lemma length_esc: "length s \<le> length (concat (map esc s))"
  by (induction s) (auto simp: Suc_le_eq esc_nonempty add_strict_increasing)

end

sublocale char_codec \<subseteq> string_codec "\<lambda>s. concat (map esc s)" "\<lambda>t. unesc_all unesc (length t) t"
  by unfold_locales (simp add: unesc_all_esc length_esc)

subsection \<open>encoding/hex\<close>

definition hex_digit :: "nat \<Rightarrow> char" where
  "hex_digit n = (if n < 10 then digit n else char_of (87 + n))"

definition hex_val :: "char \<Rightarrow> nat option" where
  "hex_val c = (let v = (of_char c :: nat)
     in if 48 \<le> v \<and> v \<le> 57 then Some (v - 48) else if 97 \<le> v \<and> v \<le> 102 then Some (v - 87) else None)"

definition hex_byte :: "char \<Rightarrow> string" where
  "hex_byte c = [hex_digit (of_char c div 16), hex_digit (of_char c mod 16)]"

definition hex_EncodeToString :: "string \<Rightarrow> string" where
  "hex_EncodeToString s = concat (map hex_byte s)"

fun unhex_byte :: "string \<Rightarrow> (char \<times> string) option" where
  "unhex_byte (x # y # r) =
     (case (hex_val x, hex_val y) of (Some a, Some b) \<Rightarrow> Some (char_of (a * 16 + b), r) | _ \<Rightarrow> None)"
| "unhex_byte _ = None"

lemma of_char_less [simp]: "(of_char c :: nat) < 256"
  by (metis nat_of_char_less_256)

lemma of_char_div_16 [simp]: "(of_char c :: nat) div 16 < 16"
  by (simp add: less_mult_imp_div_less)

lemma hex_val_digit [simp]: "n < 16 \<Longrightarrow> hex_val (hex_digit n) = Some n"
  by (auto simp: hex_val_def hex_digit_def of_char_digit)

interpretation hex: char_codec hex_byte unhex_byte
  by unfold_locales (simp_all add: hex_byte_def mult.commute)

lemma hex_EncodeToString_eq_iff [simp]: "hex_EncodeToString s = hex_EncodeToString t \<longleftrightarrow> s = t"
  unfolding hex_EncodeToString_def by (rule hex.enc_eq_iff)

subsection \<open>encoding/base64\<close>

definition b64_alphabet :: string where
  "b64_alphabet = ''ABCDEFGHIJKLMNOPQRSTUVWXYZabcdefghijklmnopqrstuvwxyz0123456789+/''"

definition b64_char :: "nat \<Rightarrow> char" where
  "b64_char n = b64_alphabet ! n"

definition b64_val :: "char \<Rightarrow> nat option" where
  "b64_val c = IndexByte b64_alphabet c"

fun b64_EncodeToString :: "string \<Rightarrow> string" where
  "b64_EncodeToString [] = []"
| "b64_EncodeToString [a] =
     [b64_char (of_char a div 4), b64_char (of_char a mod 4 * 16), CHR ''='', CHR ''='']"
| "b64_EncodeToString [a, b] =
     [b64_char (of_char a div 4), b64_char (of_char a mod 4 * 16 + of_char b div 16),
      b64_char (of_char b mod 16 * 4), CHR ''='']"
| "b64_EncodeToString (a # b # c # r) =
     [b64_char (of_char a div 4), b64_char (of_char a mod 4 * 16 + of_char b div 16),
      b64_char (of_char b mod 16 * 4 + of_char c div 64), b64_char (of_char c mod 64)] @ b64_EncodeToString r"

fun b64_DecodeString :: "string \<Rightarrow> string option" where
  "b64_DecodeString [] = Some []"
| "b64_DecodeString (w # x # y # z # r) =
     (case (b64_val w, b64_val x) of
        (Some p, Some q) \<Rightarrow>
          if y = CHR ''='' then (if z = CHR ''='' \<and> r = [] then Some [char_of (p * 4 + q div 16)] else None)
          else if z = CHR ''='' then
            (case b64_val y of
               Some s \<Rightarrow> if r = [] then Some [char_of (p * 4 + q div 16), char_of (q mod 16 * 16 + s div 4)] else None
             | None \<Rightarrow> None)
          else
            (case (b64_val y, b64_val z) of
               (Some s, Some t) \<Rightarrow> map_option (\<lambda>u. [char_of (p * 4 + q div 16), char_of (q mod 16 * 16 + s div 4), char_of (s mod 4 * 64 + t)] @ u) (b64_DecodeString r)
             | _ \<Rightarrow> None)
      | _ \<Rightarrow> None)"
| "b64_DecodeString _ = None"

lemma b64_val_all: "list_all (\<lambda>n. b64_val (b64_char n) = Some n \<and> b64_char n \<noteq> CHR ''='') [0..<64]"
  by code_simp

lemma b64_val_char [simp]: "n < 64 \<Longrightarrow> b64_val (b64_char n) = Some n" "n < 64 \<Longrightarrow> b64_char n \<noteq> CHR ''=''"
  using b64_val_all by (simp_all add: list_all_iff)

lemma pack_div_mod:
  fixes x y n :: nat
  assumes "y < n"
  shows "(x * n + y) div n = x" "(x * n + y) mod n = y"
  using assms by simp_all

lemma pack_less: "x < m \<Longrightarrow> y < n \<Longrightarrow> x * n + y < m * (n :: nat)"
proof -
  assume "x < m" "y < n"
  then have "x * n + y < Suc x * n" by simp
  also have "\<dots> \<le> m * n" using \<open>x < m\<close> by (intro mult_le_mono1) simp
  finally show ?thesis .
qed

lemma byte_div:
  "(of_char c :: nat) div 4 < 64" "(of_char c :: nat) div 64 < 4"
  by (simp_all add: less_mult_imp_div_less)

lemma b64_digits_less:
  fixes a b :: char
  shows "(of_char a :: nat) mod 4 * 16 + of_char b div 16 < 64" "(of_char a :: nat) mod 4 * 16 < 64"
    "(of_char a :: nat) mod 16 * 4 + of_char b div 64 < 64" "(of_char a :: nat) mod 16 * 4 < 64"
  using pack_less [of "of_char a mod 4" 4 "of_char b div 16" 16] pack_less [of "of_char a mod 4" 4 0 16]
    pack_less [of "of_char a mod 16" 16 "of_char b div 64" 4] pack_less [of "of_char a mod 16" 16 0 4]
  by (simp_all add: byte_div)

lemma b64_round_trip: "b64_DecodeString (b64_EncodeToString s) = Some s"
proof (induction s rule: b64_EncodeToString.induct)
  case (4 a b c r)
  then show ?case
    by (simp add: b64_digits_less byte_div pack_div_mod)
qed (simp_all add: b64_digits_less byte_div pack_div_mod)

interpretation b64: string_codec b64_EncodeToString b64_DecodeString
  by unfold_locales (rule b64_round_trip)

text \<open>
  \<open>RawURLEncoding\<close>: the URL alphabet, no padding.  Decoding skips line breaks and does not ask the
  unused low bits of the last character to be zero.
\<close>

definition rawurl_alphabet :: string where
  "rawurl_alphabet = ''ABCDEFGHIJKLMNOPQRSTUVWXYZabcdefghijklmnopqrstuvwxyz0123456789-_''"

definition rawurl_char :: "nat \<Rightarrow> char" where
  "rawurl_char n = rawurl_alphabet ! n"

definition rawurl_val :: "char \<Rightarrow> nat option" where
  "rawurl_val c = IndexByte rawurl_alphabet c"

fun rawurl_EncodeToString :: "string \<Rightarrow> string" where
  "rawurl_EncodeToString [] = []"
| "rawurl_EncodeToString [a] = [rawurl_char (of_char a div 4), rawurl_char (of_char a mod 4 * 16)]"
| "rawurl_EncodeToString [a, b] =
     [rawurl_char (of_char a div 4), rawurl_char (of_char a mod 4 * 16 + of_char b div 16), rawurl_char (of_char b mod 16 * 4)]"
| "rawurl_EncodeToString (a # b # c # r) =
     [rawurl_char (of_char a div 4), rawurl_char (of_char a mod 4 * 16 + of_char b div 16),
      rawurl_char (of_char b mod 16 * 4 + of_char c div 64), rawurl_char (of_char c mod 64)] @ rawurl_EncodeToString r"

fun rawurl_decode :: "nat list \<Rightarrow> string option" where
  "rawurl_decode [] = Some []"
| "rawurl_decode [p] = None"
| "rawurl_decode [p, q] = Some [char_of (p * 4 + q div 16)]"
| "rawurl_decode [p, q, s] = Some [char_of (p * 4 + q div 16), char_of (q mod 16 * 16 + s div 4)]"
| "rawurl_decode (p # q # s # t # r) =
     map_option (\<lambda>u. [char_of (p * 4 + q div 16), char_of (q mod 16 * 16 + s div 4), char_of (s mod 4 * 64 + t)] @ u) (rawurl_decode r)"

definition rawurl_DecodeString :: "string \<Rightarrow> string option" where
  "rawurl_DecodeString s =
     (let vs = map rawurl_val (filter (\<lambda>c. c \<noteq> CHR 0x0A \<and> c \<noteq> CHR 0x0D) s)
      in if None \<in> set vs then None else rawurl_decode (map the vs))"

lemma rawurl_val_all:
  "list_all (\<lambda>n. rawurl_val (rawurl_char n) = Some n \<and> rawurl_char n \<noteq> CHR ''.'' \<and>
     rawurl_char n \<noteq> CHR 0x0A \<and> rawurl_char n \<noteq> CHR 0x0D) [0..<64]"
  by code_simp

lemma rawurl_val_char [simp]:
  "n < 64 \<Longrightarrow> rawurl_val (rawurl_char n) = Some n" "n < 64 \<Longrightarrow> rawurl_char n \<noteq> CHR ''.''"
  "n < 64 \<Longrightarrow> rawurl_char n \<noteq> CHR 0x0A" "n < 64 \<Longrightarrow> rawurl_char n \<noteq> CHR 0x0D"
  using rawurl_val_all by (simp_all add: list_all_iff)

lemma rawurl_enc_chars: "set (rawurl_EncodeToString s) \<subseteq> rawurl_char ` {..<64}"
  by (induction s rule: rawurl_EncodeToString.induct) (auto simp: b64_digits_less byte_div intro!: imageI)

lemma rawurl_no_dot: "CHR ''.'' \<notin> set (rawurl_EncodeToString s)"
proof
  assume "CHR ''.'' \<in> set (rawurl_EncodeToString s)"
  then obtain n where "n < 64" "CHR ''.'' = rawurl_char n" using rawurl_enc_chars [of s] by blast
  with rawurl_val_char(2) [of n] show False by simp
qed

lemma rawurl_decode_enc: "rawurl_decode (map (the \<circ> rawurl_val) (rawurl_EncodeToString s)) = Some s"
  by (induction s rule: rawurl_EncodeToString.induct) (simp_all add: b64_digits_less byte_div pack_div_mod)

lemma rawurl_round_trip: "rawurl_DecodeString (rawurl_EncodeToString s) = Some s"
proof -
  have *: "c \<noteq> CHR 0x0A \<and> c \<noteq> CHR 0x0D \<and> rawurl_val c \<noteq> None" if "c \<in> set (rawurl_EncodeToString s)" for c
    using subsetD [OF rawurl_enc_chars that] by auto
  then have "filter (\<lambda>c. c \<noteq> CHR 0x0A \<and> c \<noteq> CHR 0x0D) (rawurl_EncodeToString s) = rawurl_EncodeToString s"
    by (simp add: filter_id_conv)
  moreover have "None \<notin> rawurl_val ` set (rawurl_EncodeToString s)" using * by force
  ultimately show ?thesis
    using rawurl_decode_enc [of s] by (simp add: rawurl_DecodeString_def)
qed

interpretation rawurl: string_codec rawurl_EncodeToString rawurl_DecodeString
  by unfold_locales (rule rawurl_round_trip)

subsection \<open>encoding/json: strings and objects\<close>

abbreviation bslash :: char where "bslash \<equiv> CHR 0x5C"
abbreviation dquote :: char where "dquote \<equiv> CHR 0x22"

definition json_short :: "(char \<times> char) list" where
  "json_short = [(dquote, dquote), (bslash, bslash), (CHR 0x08, CHR ''b''), (CHR 0x0C, CHR ''f''),
     (CHR 0x0A, CHR ''n''), (CHR 0x0D, CHR ''r''), (CHR 0x09, CHR ''t'')]"

text \<open>HTML escaping is on by default: the three bytes \<open><\<close>, \<open>>\<close> and \<open>&\<close> are written as \<open>u00XX\<close> too.\<close>

definition json_char :: "char \<Rightarrow> string" where
  "json_char c =
     (case map_of json_short c of
        Some e \<Rightarrow> [bslash, e]
      | None \<Rightarrow>
          if (of_char c :: nat) < 32 \<or> c = CHR 0x3C \<or> c = CHR 0x3E \<or> c = CHR 0x26
          then [bslash, CHR ''u'', CHR ''0'', CHR ''0''] @ hex_byte c
          else [c])"

definition json_string :: "string \<Rightarrow> string" where
  "json_string s = [dquote] @ concat (map json_char s) @ [dquote]"

fun unjson_char :: "string \<Rightarrow> (char \<times> string) option" where
  "unjson_char [] = None"
| "unjson_char (c # r) =
     (if c = dquote then None
      else if c \<noteq> bslash then Some (c, r)
      else case r of
             [] \<Rightarrow> None
           | e # r' \<Rightarrow>
               (case map_of (map (\<lambda>(x, y). (y, x)) json_short) e of
                  Some x \<Rightarrow> Some (x, r')
                | None \<Rightarrow>
                    (case r' of
                       z1 # z2 # r'' \<Rightarrow>
                         if e = CHR ''u'' \<and> z1 = CHR ''0'' \<and> z2 = CHR ''0'' then unhex_byte r'' else None
                     | _ \<Rightarrow> None)))"

lemma json_char_cases:
  "(\<exists>e. (c, e) \<in> set json_short \<and> json_char c = [bslash, e]) \<or>
   c \<noteq> dquote \<and> c \<noteq> bslash \<and> json_char c = [bslash, CHR ''u'', CHR ''0'', CHR ''0''] @ hex_byte c \<or>
   c \<noteq> dquote \<and> c \<noteq> bslash \<and> json_char c = [c]"
  by (auto simp: json_char_def json_short_def split: if_splits)

interpretation json_str: char_codec json_char unjson_char
proof
  fix c s
  have hex: "unhex_byte (hex_byte c @ s) = Some (c, s)" by (rule hex.unesc_esc)
  show "unjson_char (json_char c @ s) = Some (c, s)"
    using json_char_cases [of c]
  proof (elim disjE exE conjE)
    fix e
    assume "(c, e) \<in> set json_short" "json_char c = [bslash, e]"
    then show ?thesis by (auto simp: json_short_def)
  qed (simp_all add: hex json_short_def)
  show "json_char c \<noteq> []" using json_char_cases [of c] by auto
qed

datatype json = JStr string | JBool bool | JNum int | JObj "(string \<times> json) list"

text \<open>Compact output, fields in the order of the list; \<open>Marshal\<close> sorts the keys of a map.\<close>

fun json_Marshal :: "json \<Rightarrow> string" where
  "json_Marshal (JStr s) = json_string s"
| "json_Marshal (JBool b) = (if b then ''true'' else ''false'')"
| "json_Marshal (JNum i) = Itoa i"
| "json_Marshal (JObj fs) =
     ''{'' @ Join (map (\<lambda>(k, v). json_string k @ '':'' @ json_Marshal v) fs) '','' @ ''}''"

text \<open>
  \<open>Unmarshal\<close> of a flat object, one whose values are strings, booleans and 64-bit integers, written
  without white space as \<open>Marshal\<close> does, into its members in order.
  The fuel of the scanners is the length of the text: every round consumes a character.
\<close>

fun scan_str :: "nat \<Rightarrow> string \<Rightarrow> (string \<times> string) option" where
  "scan_str (Suc n) (c # r) =
     (if c = dquote then Some ([], r)
      else case unjson_char (c # r) of
             None \<Rightarrow> None
           | Some (x, r') \<Rightarrow> map_option (\<lambda>(xs, q). (x # xs, q)) (scan_str n r'))"
| "scan_str _ _ = None"

definition isDigit :: "char \<Rightarrow> bool" where
  "isDigit c \<longleftrightarrow> digit_val c \<noteq> None"

definition scan_num :: "string \<Rightarrow> (json \<times> string) option" where
  "scan_num s =
     (let sign = takeWhile (\<lambda>c. c = CHR ''-'') (take 1 s); r = drop (length sign) s; ds = takeWhile isDigit r
      in if 1 < length ds \<and> hd ds = CHR ''0'' then None
         else map_option (\<lambda>i. (JNum i, drop (length ds) r)) (Atoi (sign @ ds)))"

fun scan_value :: "nat \<Rightarrow> string \<Rightarrow> (json \<times> string) option" where
  "scan_value n (c # r) =
     (if c = dquote then map_option (\<lambda>(s, q). (JStr s, q)) (scan_str n r)
      else if prefix ''true'' (c # r) then Some (JBool True, drop 4 (c # r))
      else if prefix ''false'' (c # r) then Some (JBool False, drop 5 (c # r))
      else scan_num (c # r))"
| "scan_value n [] = None"

fun scan_member :: "nat \<Rightarrow> string \<Rightarrow> ((string \<times> json) \<times> string) option" where
  "scan_member n (c # r) =
     (if c \<noteq> dquote then None
      else case scan_str n r of
             Some (k, c' # r') \<Rightarrow> if c' = CHR '':'' then map_option (\<lambda>(v, q). ((k, v), q)) (scan_value n r') else None
           | _ \<Rightarrow> None)"
| "scan_member n [] = None"

fun scan_members :: "nat \<Rightarrow> string \<Rightarrow> (string \<times> json) list option" where
  "scan_members (Suc n) s =
     (case scan_member (length s) s of
        Some (m, c # r) \<Rightarrow>
          if c = CHR '','' then map_option ((#) m) (scan_members n r)
          else if c = CHR ''}'' \<and> r = [] then Some [m] else None
      | _ \<Rightarrow> None)"
| "scan_members 0 s = None"

definition json_Unmarshal :: "string \<Rightarrow> (string \<times> json) list option" where
  "json_Unmarshal s =
     (if s = ''{}'' then Some []
      else case s of [] \<Rightarrow> None | c # r \<Rightarrow> if c = CHR ''{'' then scan_members (length r) r else None)"

fun flat_value :: "json \<Rightarrow> bool" where
  "flat_value (JObj _) = False"
| "flat_value (JNum i) \<longleftrightarrow> 0 \<le> i \<and> i < 2 ^ 63"
| "flat_value _ = True"

lemma isDigit_digit [simp]: "n < 10 \<Longrightarrow> isDigit (digit n)"
  by (simp add: isDigit_def)

lemma nat_digits_no_zero: "nat_digits n = ds \<Longrightarrow> 1 < length ds \<Longrightarrow> hd ds \<noteq> CHR ''0''"
proof (induction n arbitrary: ds rule: nat_digits.induct)
  case (1 n)
  then have n: "\<not> n < 10" by (auto simp: nat_digits.simps [of n])
  show ?case
  proof (cases "n div 10 < 10")
    case True
    with n have "n div 10 \<noteq> 0" by simp
    with True n 1(2) show ?thesis
      using of_char_digit [of "n div 10"] by (auto simp: nat_digits.simps [of n] nat_digits.simps [of "n div 10"])
  next
    case False
    then have "1 < length (nat_digits (n div 10))"
      by (simp add: nat_digits.simps [of "n div 10"] Suc_lessI)
    with 1 n show ?thesis by (auto simp: nat_digits.simps [of n] hd_append)
  qed
qed

lemma scan_num_Itoa:
  assumes "0 \<le> i" "i < 2 ^ 63" "r = c # r'" "\<not> isDigit c"
  shows "scan_num (Itoa i @ r) = Some (JNum i, r)"
proof -
  have it: "Itoa i = nat_digits (nat i)" using assms by (simp add: Itoa_def)
  obtain d ds where ds: "nat_digits (nat i) = d # ds"
    using nat_digits_nonempty [of "nat i"] by (cases "nat_digits (nat i)") auto
  have "d \<noteq> CHR ''-''" using nat_digits_no_sign(1) [of "nat i"] by (auto simp: ds)
  moreover have "\<forall>x\<in>set (nat_digits (nat i)). isDigit x" using set_nat_digits by force
  then have "takeWhile isDigit (nat_digits (nat i) @ r) = nat_digits (nat i)"
    using assms(3,4) by (subst takeWhile_append2) auto
  ultimately show ?thesis
    using Atoi_Itoa [OF assms(1,2)] nat_digits_no_zero [OF ds]
    unfolding it by (auto simp: scan_num_def ds Let_def)
qed

lemma Itoa_hd: "0 \<le> i \<Longrightarrow> \<exists>d ds. Itoa i = d # ds \<and> isDigit d"
proof -
  assume "0 \<le> i"
  then have it: "Itoa i = nat_digits (nat i)" by (simp add: Itoa_def)
  obtain d ds where "nat_digits (nat i) = d # ds" using nat_digits_nonempty [of "nat i"] by (cases "nat_digits (nat i)") auto
  with it set_nat_digits [of d "nat i"] show ?thesis by auto
qed

lemma json_char_hd: "\<exists>x xs. json_char c = x # xs \<and> x \<noteq> dquote"
  using json_char_cases [of c] by auto

lemma scan_str_enc: "length s < n \<Longrightarrow> scan_str n (concat (map json_char s) @ dquote # r) = Some (s, r)"
proof (induction s arbitrary: n)
  case Nil
  then show ?case by (cases n) simp_all
next
  case (Cons c s)
  then obtain m where n: "n = Suc m" by (cases n) auto
  obtain x xs where x: "json_char c = x # xs" "x \<noteq> dquote" using json_char_hd by blast
  have "unjson_char (x # xs @ concat (map json_char s) @ dquote # r) = Some (c, concat (map json_char s) @ dquote # r)"
    using json_str.unesc_esc [of c "concat (map json_char s) @ dquote # r"] by (simp add: x)
  with Cons n x show ?case by (simp del: unjson_char.simps)
qed

lemma length_json_chars: "length s \<le> length (concat (map json_char s))"
  by (rule json_str.length_esc)

lemma scan_value_enc:
  assumes "flat_value v" "length (json_Marshal v) \<le> n" "r = c # r'" "\<not> isDigit c"
  shows "scan_value n (json_Marshal v @ r) = Some (v, r)"
proof (cases v)
  case (JStr s)
  with assms length_json_chars [of s] show ?thesis by (simp add: json_string_def scan_str_enc)
next
  case (JNum i)
  with assms(1) have i: "0 \<le> i" "i < 2 ^ 63" by simp_all
  then obtain d ds where d: "Itoa i = d # ds" "isDigit d" using Itoa_hd by blast
  then have "d \<noteq> dquote" "d \<noteq> CHR ''t''" "d \<noteq> CHR ''f''" by (auto simp: isDigit_def digit_val_def)
  with scan_num_Itoa [OF i assms(3,4)] d JNum show ?thesis by simp
qed (use assms in \<open>auto\<close>)

lemma scan_member_enc:
  assumes "flat_value v" "length (json_string k) + length (json_Marshal v) \<le> n" "r = c # r'" "\<not> isDigit c"
  shows "scan_member n (json_string k @ '':'' @ json_Marshal v @ r) = Some ((k, v), r)"
  using assms length_json_chars [of k] scan_value_enc [of v n r c r'] by (simp add: json_string_def scan_str_enc)

lemma not_isDigit: "\<not> isDigit (CHR '','')" "\<not> isDigit (CHR ''}'')"
  by (simp_all add: isDigit_def digit_val_def)

lemma scan_members_enc:
  assumes "fs \<noteq> []" "\<And>k v. (k, v) \<in> set fs \<Longrightarrow> flat_value v" "length fs \<le> n"
  shows "scan_members n (Join (map (\<lambda>(k, v). json_string k @ '':'' @ json_Marshal v) fs) '','' @ ''}'') = Some fs"
  using assms
proof (induction fs arbitrary: n)
  case (Cons f fs)
  obtain k v where f: "f = (k, v)" by (cases f)
  from Cons.prems obtain m where n: "n = Suc m" by (cases n) auto
  have one: "scan_member (length (json_string k @ '':'' @ json_Marshal v @ q)) (json_string k @ '':'' @ json_Marshal v @ q) = Some ((k, v), q)"
    if "q = c # q'" "\<not> isDigit c" for q c q'
    using Cons.prems(2) [of k v] f that by (intro scan_member_enc) simp_all
  show ?case
  proof (cases fs)
    case Nil
    with one [of "''}''" "CHR ''}''" "[]"] not_isDigit show ?thesis by (simp add: f n del: scan_member.simps)
  next
    case (Cons g gs)
    then have ne: "fs \<noteq> []" by simp
    with Cons.IH [of m] Cons.prems n have "scan_members m (Join (map (\<lambda>(k, v). json_string k @ '':'' @ json_Marshal v) fs) '','' @ ''}'') = Some fs"
      by auto
    with one [of "'','' @ Join (map (\<lambda>(k, v). json_string k @ '':'' @ json_Marshal v) fs) '','' @ ''}''" "CHR '',''"] ne not_isDigit show ?thesis
      by (simp add: f n Join_Cons del: scan_member.simps)
  qed
qed simp

lemma length_Join: "length fs \<le> length (Join (map (\<lambda>(k, v). json_string k @ '':'' @ json_Marshal v) fs) '','' @ ''}'')"
proof (induction fs)
  case (Cons f fs)
  then show ?case by (cases fs) (auto simp: json_string_def Join_Cons split: prod.splits)
qed simp

lemma Join_nonempty: "x \<noteq> [] \<Longrightarrow> Join (x # xs) sep \<noteq> []"
  by (cases xs) simp_all

lemma json_Unmarshal_Marshal:
  assumes "\<And>k v. (k, v) \<in> set fs \<Longrightarrow> flat_value v"
  shows "json_Unmarshal (json_Marshal (JObj fs)) = Some fs"
proof (cases "fs = []")
  case False
  have "json_Marshal (JObj fs) \<noteq> ''{}''"
    using False by (cases fs) (auto simp: json_string_def Join_nonempty split: prod.splits)
  with scan_members_enc [OF False assms length_Join] show ?thesis
    by (simp add: json_Unmarshal_def del: scan_members.simps)
qed (simp add: json_Unmarshal_def)

subsection \<open>fmt: Sprintf and Error\<close>

definition quote_char :: "char \<Rightarrow> string" where
  "quote_char c =
     (case map_of ([(CHR 0x07, CHR ''a''), (CHR 0x0B, CHR ''v'')] @ json_short) c of
        Some e \<Rightarrow> [bslash, e]
      | None \<Rightarrow> if (of_char c :: nat) < 32 \<or> of_char c = (127 :: nat) then [bslash, CHR ''x''] @ hex_byte c else [c])"

definition Quote :: "string \<Rightarrow> string" where
  "Quote s = [dquote] @ concat (map quote_char s) @ [dquote]"

text \<open>The verbs of the sources on string arguments; one argument per verb.\<close>

fun Sprintf :: "string \<Rightarrow> string list \<Rightarrow> string" where
  "Sprintf (c # v # f) args =
     (if c \<noteq> CHR ''%'' then c # Sprintf (v # f) args
      else case args of
             [] \<Rightarrow> ''%!'' @ [v] @ ''(MISSING)'' @ Sprintf f []
           | a # as \<Rightarrow> (if v = CHR ''q'' then Quote a else a) @ Sprintf f as)"
| "Sprintf f args = f"

text \<open>\<open>err.Error()\<close>; the text of an API error belongs to the client library.\<close>

primrec Error :: "(api_error \<Rightarrow> string) \<Rightarrow> go_error \<Rightarrow> string" where
  "Error txt (ErrSentinel s) = s"
| "Error txt (ErrApi e) = txt e"
| "Error txt (Errorf f args w) = Sprintf f (args @ (case map_option (Error txt) w of None \<Rightarrow> [] | Some s \<Rightarrow> [s]))"

end
