(* ===== verification/DevPod_Controller.thy ===== *)
theory DevPod_Controller
  imports Render Mem_Cluster Encoding
begin

section \<open>The DevPod reconciler\<close>

text \<open>
  \<open>src/internal/controllers/devpod_controller.go\<close>.  One definition per method of
  \<open>DevPodReconciler\<close>; a method that mutates the \<open>dp\<close> it is given returns the new value.  The
  client, the clock, key generation and the \<open>controllerutil\<close> helpers are the argument \<open>K\<close>; the
  fields of the reconciler that do not change are the record \<open>r\<close>, and \<open>requeueAfter\<close> lives in
  the \<open>world\<close>.  The rendered objects carry no \<open>TypeMeta\<close> (the constructor of \<open>kobj\<close> is the kind),
  so the scheme lookup of \<open>serverSideApply\<close> always runs and only its failure is seen.
  Logging is left out.
\<close>

record devpod_reconciler =
  GwConfig :: gateway_config_spec
  GatewayNamespace :: string
  GatewayInternalPub :: string

record ctrl_result =
  Requeue :: bool
  RequeueAfter :: duration

abbreviation devpodFinalizer :: string where "devpodFinalizer \<equiv> ''devpod.io/devpod-cleanup''"
abbreviation specHashAnnotation :: string where "specHashAnnotation \<equiv> ''devpod.io/spec-hash''"

abbreviation Result0 :: ctrl_result where "Result0 \<equiv> \<lparr>Requeue = False, RequeueAfter = 0\<rparr>"
abbreviation wrapf :: "string \<Rightarrow> api_error \<Rightarrow> go_error" where "wrapf s e \<equiv> Errorf s [] (Some (ErrApi e))"
abbreviation wrapg :: "string \<Rightarrow> go_error \<Rightarrow> go_error" where "wrapg s e \<equiv> Errorf s [] (Some e)"

text \<open>\<open>err != nil && !apierrors.IsNotFound(err)\<close> and its sibling for \<open>IsAlreadyExists\<close>.\<close>

definition unless_err :: "api_error \<Rightarrow> string \<Rightarrow> api_error + 'a \<Rightarrow> go_error option" where
  "unless_err ok msg a = (case a of Inl e \<Rightarrow> if e = ok then None else Some (wrapf msg e) | Inr _ \<Rightarrow> None)"

subsection \<open>Server-side apply\<close>

definition obj_meta :: "kobj \<Rightarrow> object_meta" where
  "obj_meta obj = (case obj of ObjPod p \<Rightarrow> pod_Meta p | ObjService s \<Rightarrow> svc_Meta s
     | ObjPVC p \<Rightarrow> pvc_Meta p | ObjNetPol n \<Rightarrow> np_Meta n)"

definition set_obj_meta :: "object_meta \<Rightarrow> kobj \<Rightarrow> kobj" where
  "set_obj_meta m obj = (case obj of ObjPod p \<Rightarrow> ObjPod (p\<lparr>pod_Meta := m\<rparr>)
     | ObjService s \<Rightarrow> ObjService (s\<lparr>svc_Meta := m\<rparr>)
     | ObjPVC p \<Rightarrow> ObjPVC (p\<lparr>pvc_Meta := m\<rparr>) | ObjNetPol n \<Rightarrow> ObjNetPol (n\<lparr>np_Meta := m\<rparr>))"

definition serverSideApply :: "'s kube \<Rightarrow> kobj \<Rightarrow> ('s, go_error option) prog" where
  "serverSideApply K obj =
     (case k_objectKinds K obj of
        Inl e \<Rightarrow> State_Monad.return (Some (wrapg ''scheme.ObjectKinds: %w'' e))
      | Inr _ \<Rightarrow>
          let obj' = set_obj_meta ((obj_meta obj)\<lparr>meta_ResourceVersion := []\<rparr>) obj
          in do { a \<leftarrow> api (EvApply obj') (k_apply K obj');
                  State_Monad.return (case a of Inl e \<Rightarrow> Some (ErrApi e) | Inr _ \<Rightarrow> None) })"

definition applyOwned :: "'s kube \<Rightarrow> devpod \<Rightarrow> kobj \<Rightarrow> ('s, go_error option) prog" where
  "applyOwned K dp obj =
     (case k_setControllerReference K (dp_Meta dp) (obj_meta obj) of
        Inl e \<Rightarrow> State_Monad.return (Some (wrapg ''set ownerref: %w'' e))
      | Inr m \<Rightarrow> serverSideApply K (set_obj_meta m obj))"

definition applyUnowned :: "'s kube \<Rightarrow> kobj \<Rightarrow> ('s, go_error option) prog" where
  "applyUnowned K obj = serverSideApply K obj"

subsection \<open>Failure backoff\<close>

text \<open>The loop of \<open>failureBackoff\<close>: \<open>i\<close> is the counter, \<open>n\<close> is \<open>retryCount\<close>.\<close>

function backoff_loop :: "int \<Rightarrow> int \<Rightarrow> duration \<Rightarrow> duration" where
  "backoff_loop n i d = (if i < n - 1 \<and> d < 5 * Minute then backoff_loop n (i + 1) (d * 2) else d)"
  by pat_completeness auto
termination by (relation "measure (\<lambda>(n, i, d). nat (n - 1 - i))") auto

declare backoff_loop.simps [simp del]

definition failureBackoff :: "int \<Rightarrow> duration" where
  "failureBackoff retryCount =
     (let d = backoff_loop retryCount 0 (10 * Second)
      in if d > 5 * Minute then 5 * Minute else d)"

fun first_termination :: "container_status list \<Rightarrow> string option" where
  "first_termination [] = None"
| "first_termination (cs # css) =
     (case cs_Terminated cs of
        Some t \<Rightarrow> if term_Message t \<noteq> [] then Some (term_Message t)
                  else if term_Reason t \<noteq> [] then Some (term_Reason t)
                  else first_termination css
      | None \<Rightarrow> first_termination css)"

definition podFailureMessage :: "pod \<Rightarrow> string" where
  "podFailureMessage p =
     (case first_termination (pst_ContainerStatuses (pod_Status p)) of
        Some m \<Rightarrow> m
      | None \<Rightarrow> if pst_Message (pod_Status p) \<noteq> [] then pst_Message (pod_Status p)
                else if pst_Reason (pod_Status p) \<noteq> [] then pst_Reason (pod_Status p)
                else ''pod failed'')"

abbreviation pod_key :: "pod \<Rightarrow> namespaced_name" where
  "pod_key p \<equiv> (meta_Namespace (pod_Meta p), meta_Name (pod_Meta p))"

definition handleFailedPod :: "'s kube \<Rightarrow> devpod \<Rightarrow> pod \<Rightarrow> ('s, devpod \<times> go_error option) prog" where
  "handleFailedPod K dp p = do {
     now \<leftarrow> api EvNow (k_now K);
     let retryCount = dst_RetryCount (dp_Status dp) + 1;
     let dp1 = dp\<lparr>dp_Status := (dp_Status dp)\<lparr>dst_Phase := DevPodFailed, dst_RetryCount := retryCount,
                   dst_LastFailureAt := Some now, dst_Message := podFailureMessage p\<rparr>\<rparr>;
     a \<leftarrow> api (EvPatchDevPodStatus dp dp1) (k_patch_devpod_status K dp dp1);
     (case a of
        Inl e \<Rightarrow> State_Monad.return (dp1, Some (wrapf ''patch failure status: %w'' e))
      | Inr dp2 \<Rightarrow> do {
          d \<leftarrow> api (EvDeletePod (pod_key p)) (k_delete_pod K (pod_key p));
          (case unless_err NotFound ''delete failed pod: %w'' d of
             Some e \<Rightarrow> State_Monad.return (dp2, Some e)
           | None \<Rightarrow> do {
               set_requeueAfter (failureBackoff (sint retryCount));
               State_Monad.return (dp2, None) }) }) }"

text \<open>
  The JSON form of a \<open>corev1.PodSpec\<close> and the digest
  are fields of \<open>K\<close>; \<open>json.Marshal\<close>'s error is ignored by the code, which then hashes nothing.
\<close>

definition podSpecHash :: "'s kube \<Rightarrow> pod \<Rightarrow> string" where
  "podSpecHash K p = hex_EncodeToString (k_sha256 K (k_marshalPodSpec K (pod_Spec p)))"

definition applyPodWithDriftRecreate ::
  "'s kube \<Rightarrow> devpod \<Rightarrow> pod \<Rightarrow> ('s, devpod \<times> go_error option) prog" where
  "applyPodWithDriftRecreate K dp p =
     (case k_setControllerReference K (dp_Meta dp) (pod_Meta p) of
        Inl e \<Rightarrow> State_Monad.return (dp, Some (wrapg ''set ownerref: %w'' e))
      | Inr m \<Rightarrow>
          let hash = podSpecHash K p;
              p1 = p\<lparr>pod_Meta := m\<lparr>meta_Annotations := AList.update specHashAnnotation hash (meta_Annotations m)\<rparr>\<rparr>;
              apply = do { e \<leftarrow> serverSideApply K (ObjPod p1); State_Monad.return (dp, e) }
          in do {
            a \<leftarrow> api (EvGetPod (pod_key p1)) (k_get_pod K (pod_key p1));
            (case a of
               Inr live \<Rightarrow>
                 if pst_Phase (pod_Status live) = PodFailed then handleFailedPod K dp live
                 else if mget (meta_Annotations (pod_Meta live)) specHashAnnotation \<noteq> hash
                 then do {
                   d \<leftarrow> api (EvDeletePod (pod_key live)) (k_delete_pod K (pod_key live));
                   State_Monad.return (dp, unless_err NotFound ''delete pod for drift recreate: %w'' d) }
                 else apply
             | Inl e \<Rightarrow>
                 if e = NotFound then
                   (case dst_LastFailureAt (dp_Status dp) of
                      None \<Rightarrow> apply
                    | Some t \<Rightarrow> do {
                        now \<leftarrow> api EvNow (k_now K);
                        let backoff = failureBackoff (sint (dst_RetryCount (dp_Status dp)));
                        let elapsed = time_Sub now t;
                        if elapsed < backoff
                        then do {
                          set_requeueAfter (wrap64 (backoff - elapsed));
                          State_Monad.return (dp, None) }
                        else apply })
                 else State_Monad.return (dp, Some (wrapf ''get live pod: %w'' e))) })"

subsection \<open>Secret, home volume, network policy\<close>

definition ensureHostKeySecret ::
  "'s kube \<Rightarrow> devpod_reconciler \<Rightarrow> devpod \<Rightarrow> ('s, go_error option) prog" where
  "ensureHostKeySecret K r dp =
     (let ns = gc_DevPodNamespace (GwConfig r); key = (ns, HostKeySecretName dp);
          shown = ns @ ''/'' @ HostKeySecretName dp
      in do {
        a \<leftarrow> api (EvGetSecret key) (k_get_secret K key);
        (case a of
           Inr existing \<Rightarrow>
             State_Monad.return
               (if \<not> k_isControlledBy K (sec_Meta existing) (dp_Meta dp)
                then Some (Errorf ''host-key Secret %q exists but is not controlled by this DevPod'' [shown] None)
                else if mget (sec_Data existing) ''ssh_host_ed25519_key'' = []
                then Some (Errorf ''host-key Secret %q exists but is missing ssh_host_ed25519_key'' [shown] None)
                else None)
         | Inl e \<Rightarrow>
             if e \<noteq> NotFound then State_Monad.return (Some (wrapf ''get host key secret: %w'' e))
             else do {
               keys \<leftarrow> sys (k_keygen K);
               (case HostKeySecret dp (GwConfig r) keys (GatewayInternalPub r) of
                  Inl e \<Rightarrow> State_Monad.return (Some e)
                | Inr sec \<Rightarrow>
                    (case k_setControllerReference K (dp_Meta dp) (sec_Meta sec) of
                       Inl e \<Rightarrow> State_Monad.return (Some (wrapg ''set ownerref on secret: %w'' e))
                     | Inr m \<Rightarrow> do {
                         c \<leftarrow> api (EvCreateSecret (sec\<lparr>sec_Meta := m\<rparr>)) (k_create_secret K (sec\<lparr>sec_Meta := m\<rparr>));
                         State_Monad.return (unless_err AlreadyExists ''create host key secret: %w'' c) })) }) })"

definition hibernate :: "'s kube \<Rightarrow> devpod_reconciler \<Rightarrow> devpod \<Rightarrow> ('s, go_error option) prog" where
  "hibernate K r dp =
     (let key = (gc_DevPodNamespace (GwConfig r), PodName dp)
      in do { d \<leftarrow> api (EvDeletePod key) (k_delete_pod K key);
              State_Monad.return (unless_err NotFound ''delete pod: %w'' d) })"

text \<open>The loop of \<open>detachPVC\<close>: the references kept, and whether one was dropped.\<close>

fun filterOwnerRefs :: "string \<Rightarrow> owner_ref list \<Rightarrow> owner_ref list \<times> bool" where
  "filterOwnerRefs uid [] = ([], False)"
| "filterOwnerRefs uid (oref # ors) =
     (case filterOwnerRefs uid ors of
        (kept, changed) \<Rightarrow>
          if or_Kind oref = ''DevPod'' \<and> or_UID oref = uid then (kept, True) else (oref # kept, changed))"

definition detachPVC :: "'s kube \<Rightarrow> devpod_reconciler \<Rightarrow> devpod \<Rightarrow> ('s, go_error option) prog" where
  "detachPVC K r dp =
     (if ds_Persistence (dp_Spec dp) = None then State_Monad.return None
      else
        let key = (gc_DevPodNamespace (GwConfig r), HomePVCName dp)
        in do {
          a \<leftarrow> api (EvGetPVC key) (k_get_pvc K key);
          (case a of
             Inl e \<Rightarrow> State_Monad.return (if e = NotFound then None else Some (wrapf ''get pvc: %w'' e))
           | Inr v \<Rightarrow>
               (case filterOwnerRefs (dp_UID dp) (meta_OwnerReferences (pvc_Meta v)) of
                  (filtered, changed) \<Rightarrow>
                    if \<not> changed then State_Monad.return None
                    else
                      let v' = v\<lparr>pvc_Meta := (pvc_Meta v)\<lparr>meta_OwnerReferences := filtered\<rparr>\<rparr>
                      in do { b \<leftarrow> api (EvPatchPVC v v') (k_patch_pvc K v v');
                              State_Monad.return (case b of Inl e \<Rightarrow> Some (ErrApi e) | Inr _ \<Rightarrow> None) })) })"

text \<open>The loop of \<open>cleanupOwnerNetPolIfLast\<close>: does it find a live sibling?\<close>

fun live_sibling :: "devpod \<Rightarrow> devpod list \<Rightarrow> bool" where
  "live_sibling dp [] = False"
| "live_sibling dp (s # ss) =
     (if dp_UID s = dp_UID dp then live_sibling dp ss
      else if dp_Owner s \<noteq> dp_Owner dp then live_sibling dp ss
      else if meta_DeletionTimestamp (dp_Meta s) = None then True
      else live_sibling dp ss)"

definition cleanupOwnerNetPolIfLast ::
  "'s kube \<Rightarrow> devpod_reconciler \<Rightarrow> devpod \<Rightarrow> ('s, go_error option) prog" where
  "cleanupOwnerNetPolIfLast K r dp =
     (let ns = gc_DevPodNamespace (GwConfig r); key = (ns, OwnerNetPolName (dp_Owner dp))
      in do {
        a \<leftarrow> api (EvListDevPods (Some ns)) (k_list_devpods K (Some ns));
        (case a of
           Inl e \<Rightarrow> State_Monad.return (Some (wrapf ''list devpods: %w'' e))
         | Inr siblings \<Rightarrow>
             if live_sibling dp siblings then State_Monad.return None
             else do {
               d \<leftarrow> api (EvDeleteNetPol key) (k_delete_netpol K key);
               State_Monad.return (unless_err NotFound ''delete owner allow netpol: %w'' d) }) })"

text \<open>\<open>HomePVC\<close> gives no claim only without persistence, so the nil object is never applied.\<close>

abbreviation panic_nil :: go_error where
  "panic_nil \<equiv> Errorf ''runtime error: invalid memory address or nil pointer dereference'' [] None"

definition applyPVC :: "'s kube \<Rightarrow> devpod_reconciler \<Rightarrow> devpod \<Rightarrow> ('s, go_error option) prog" where
  "applyPVC K r dp =
     (if ds_Persistence (dp_Spec dp) = None then State_Monad.return None
      else case HomePVC dp (GwConfig r) of
             Inl e \<Rightarrow> State_Monad.return (Some (wrapg ''render pvc: %w'' e))
           | Inr None \<Rightarrow> State_Monad.return (Some panic_nil)
           | Inr (Some v) \<Rightarrow> applyOwned K dp (ObjPVC v))"

subsection \<open>Status\<close>

definition timePtrEqual :: "timestamp option \<Rightarrow> timestamp option \<Rightarrow> bool" where
  "timePtrEqual a b =
     (if a = None \<and> b = None then True else if a = None \<or> b = None then False else the a = the b)"

definition workloadRefEqual :: "workload_ref option \<Rightarrow> workload_ref option \<Rightarrow> bool" where
  "workloadRefEqual a b =
     (if a = None \<and> b = None then True else if a = None \<or> b = None then False else the a = the b)"

definition localRefEqual :: "local_object_ref option \<Rightarrow> local_object_ref option \<Rightarrow> bool" where
  "localRefEqual a b =
     (if a = None \<and> b = None then True else if a = None \<or> b = None then False
      else lor_Name (the a) = lor_Name (the b))"

definition statusEqual :: "devpod_status \<Rightarrow> devpod_status \<Rightarrow> bool" where
  "statusEqual a b \<longleftrightarrow>
     dst_Phase a = dst_Phase b \<and> dst_Endpoint a = dst_Endpoint b \<and>
     dst_RetryCount a = dst_RetryCount b \<and> dst_Message a = dst_Message b \<and>
     workloadRefEqual (dst_WorkloadRef a) (dst_WorkloadRef b) \<and>
     localRefEqual (dst_PersistentVolumeClaimRef a) (dst_PersistentVolumeClaimRef b) \<and>
     timePtrEqual (dst_HibernatedAt a) (dst_HibernatedAt b) \<and>
     timePtrEqual (dst_LastFailureAt a) (dst_LastFailureAt b)"

text \<open>The desired status before the pod is looked at, and the switch on the pod it finds.\<close>

definition desired0 :: "devpod \<Rightarrow> devpod_status" where
  "desired0 dp = devpod_status0\<lparr>dst_Conditions := dst_Conditions (dp_Status dp),
     dst_PersistentVolumeClaimRef :=
       (if ds_Persistence (dp_Spec dp) \<noteq> None then Some \<lparr>lor_Name = HomePVCName dp\<rparr> else None)\<rparr>"

definition desired_found :: "devpod_reconciler \<Rightarrow> devpod \<Rightarrow> pod \<Rightarrow> devpod_status" where
  "desired_found r dp p =
     (let d = (desired0 dp)\<lparr>dst_WorkloadRef :=
                 Some \<lparr>wr_APIVersion = ''v1'', wr_Kind = ''Pod'', wr_Name = meta_Name (pod_Meta p)\<rparr>\<rparr>
      in if pst_Phase (pod_Status p) = PodRunning \<and> pst_PodIP (pod_Status p) \<noteq> []
         then d\<lparr>dst_Phase := DevPodRunning,
                dst_Endpoint := pst_PodIP (pod_Status p) @ '':'' @ Itoa (sint (BackendPort dp (GwConfig r))),
                dst_RetryCount := 0, dst_LastFailureAt := None, dst_Message := []\<rparr>
         else if pst_Phase (pod_Status p) = PodFailed
         then d\<lparr>dst_Phase := DevPodFailed, dst_RetryCount := dst_RetryCount (dp_Status dp),
                dst_LastFailureAt := dst_LastFailureAt (dp_Status dp), dst_Message := dst_Message (dp_Status dp)\<rparr>
         else d\<lparr>dst_Phase := DevPodPending\<rparr>)"

definition desired_stopped :: "devpod \<Rightarrow> timestamp \<Rightarrow> devpod_status" where
  "desired_stopped dp now = (desired0 dp)\<lparr>dst_Phase := DevPodStopped,
     dst_HibernatedAt :=
       (if dst_HibernatedAt (dp_Status dp) \<noteq> None \<and> dst_Phase (dp_Status dp) = DevPodStopped
        then dst_HibernatedAt (dp_Status dp) else Some now)\<rparr>"

text \<open>The eight assignments that end \<open>updateStatus\<close>; \<open>LastActivityTime\<close> and \<open>Conditions\<close> stay.\<close>

definition copy_desired :: "devpod_status \<Rightarrow> devpod_status \<Rightarrow> devpod_status" where
  "copy_desired desired st = st\<lparr>dst_Phase := dst_Phase desired, dst_Endpoint := dst_Endpoint desired,
     dst_WorkloadRef := dst_WorkloadRef desired,
     dst_PersistentVolumeClaimRef := dst_PersistentVolumeClaimRef desired,
     dst_HibernatedAt := dst_HibernatedAt desired, dst_RetryCount := dst_RetryCount desired,
     dst_LastFailureAt := dst_LastFailureAt desired, dst_Message := dst_Message desired\<rparr>"

definition patchStatus :: "'s kube \<Rightarrow> devpod \<Rightarrow> devpod_status \<Rightarrow> ('s, go_error option) prog" where
  "patchStatus K dp desired =
     (if statusEqual (dp_Status dp) desired then State_Monad.return None
      else
        let dp' = dp\<lparr>dp_Status := copy_desired desired (dp_Status dp)\<rparr>
        in do { a \<leftarrow> api (EvPatchDevPodStatus dp dp') (k_patch_devpod_status K dp dp');
                State_Monad.return (case a of Inl e \<Rightarrow> Some (ErrApi e) | Inr _ \<Rightarrow> None) })"

definition updateStatus :: "'s kube \<Rightarrow> devpod_reconciler \<Rightarrow> devpod \<Rightarrow> ('s, go_error option) prog" where
  "updateStatus K r dp =
     (if \<not> ds_Running (dp_Spec dp)
      then if dst_HibernatedAt (dp_Status dp) \<noteq> None \<and> dst_Phase (dp_Status dp) = DevPodStopped
           then patchStatus K dp (desired_stopped dp 0)
           else do { now \<leftarrow> api EvNow (k_now K); patchStatus K dp (desired_stopped dp now) }
      else
        let key = (gc_DevPodNamespace (GwConfig r), PodName dp)
        in do {
          a \<leftarrow> api (EvGetPod key) (k_get_pod K key);
          (case a of
             Inr p \<Rightarrow> patchStatus K dp (desired_found r dp p)
           | Inl e \<Rightarrow>
               if e = NotFound then patchStatus K dp ((desired0 dp)\<lparr>dst_Phase := DevPodPending\<rparr>)
               else State_Monad.return (Some (wrapf ''get rendered pod: %w'' e))) })"

subsection \<open>applyAll and Reconcile\<close>

text \<open>\<open>if err := step; err != nil { return fmt.Errorf(msg, err) }\<close>.\<close>

definition guard_err :: "string \<Rightarrow> ('s, go_error option) prog \<Rightarrow> ('s, go_error option) prog \<Rightarrow> ('s, go_error option) prog" where
  "guard_err msg step rest = do {
     e \<leftarrow> step;
     (case e of Some x \<Rightarrow> State_Monad.return (Some (wrapg msg x)) | None \<Rightarrow> rest) }"

definition applyNetPols :: "'s kube \<Rightarrow> devpod_reconciler \<Rightarrow> devpod \<Rightarrow> ('s, go_error option) prog" where
  "applyNetPols K r dp =
     (let ns = gc_DevPodNamespace (GwConfig r);
          gwNS = (if GatewayNamespace r = [] then ''devpod-system'' else GatewayNamespace r)
      in guard_err ''apply default-deny: %w'' (applyUnowned K (ObjNetPol (DefaultDenyNetworkPolicy ns)))
           (guard_err ''apply allow: %w''
             (applyUnowned K (ObjNetPol (OwnerAllowNetworkPolicy ns (dp_Owner dp) gwNS (BackendPort dp (GwConfig r)))))
             (State_Monad.return None)))"

text \<open>Steps 4 and 5 of \<open>applyAll\<close>, then the status.\<close>

definition applyRest :: "'s kube \<Rightarrow> devpod_reconciler \<Rightarrow> devpod \<Rightarrow> ('s, go_error option) prog" where
  "applyRest K r dp =
     (case Service dp (GwConfig r) of
        Inl e \<Rightarrow> State_Monad.return (Some (wrapg ''render service: %w'' e))
      | Inr svc \<Rightarrow>
          guard_err ''apply service: %w'' (applyOwned K dp (ObjService svc))
            (if gc_IsolateNetwork (GwConfig r)
             then do { e \<leftarrow> applyNetPols K r dp;
                       (case e of Some x \<Rightarrow> State_Monad.return (Some x) | None \<Rightarrow> updateStatus K r dp) }
             else updateStatus K r dp))"

definition applyAll :: "'s kube \<Rightarrow> devpod_reconciler \<Rightarrow> devpod \<Rightarrow> ('s, go_error option) prog" where
  "applyAll K r dp =
     guard_err ''host key secret: %w'' (ensureHostKeySecret K r dp)
     (guard_err ''apply pvc: %w'' (applyPVC K r dp)
       (case Pod dp (GwConfig r) of
          Inl e \<Rightarrow> State_Monad.return (Some (wrapg ''render pod: %w'' e))
        | Inr p \<Rightarrow> do {
            x \<leftarrow> applyPodWithDriftRecreate K dp p;
            (case snd x of
               Some e \<Rightarrow> State_Monad.return (Some (wrapg ''apply pod: %w'' e))
             | None \<Rightarrow> applyRest K r (fst x)) }))"

definition setFinalizers :: "string list \<Rightarrow> devpod \<Rightarrow> devpod" where
  "setFinalizers fs dp = dp\<lparr>dp_Meta := (dp_Meta dp)\<lparr>meta_Finalizers := fs\<rparr>\<rparr>"

definition finalizeDevPod :: "'s kube \<Rightarrow> devpod_reconciler \<Rightarrow> devpod \<Rightarrow> ('s, ctrl_result \<times> go_error option) prog" where
  "finalizeDevPod K r dp = do {
     e1 \<leftarrow> detachPVC K r dp;
     (case e1 of
        Some x \<Rightarrow> State_Monad.return (Result0, Some x)
      | None \<Rightarrow> do {
          e2 \<leftarrow> cleanupOwnerNetPolIfLast K r dp;
          (case e2 of
             Some x \<Rightarrow> State_Monad.return (Result0, Some x)
           | None \<Rightarrow>
               let dp' = setFinalizers (k_removeFinalizer K devpodFinalizer (meta_Finalizers (dp_Meta dp))) dp
               in do {
                 a \<leftarrow> api (EvUpdateDevPod dp') (k_update_devpod K dp');
                 State_Monad.return (Result0, case a of Inl e \<Rightarrow> Some (wrapf ''clear finalizer: %w'' e) | Inr _ \<Rightarrow> None) }) }) }"

text \<open>\<open>Reconcile\<close> once the DevPod has been read.\<close>

definition reconcileDevPod :: "'s kube \<Rightarrow> devpod_reconciler \<Rightarrow> devpod \<Rightarrow> ('s, ctrl_result \<times> go_error option) prog" where
  "reconcileDevPod K r dp =
     (if meta_DeletionTimestamp (dp_Meta dp) \<noteq> None then finalizeDevPod K r dp
      else
        case k_addFinalizer K devpodFinalizer (meta_Finalizers (dp_Meta dp)) of
          (fs, added) \<Rightarrow>
            if added then do {
              b \<leftarrow> api (EvUpdateDevPod (setFinalizers fs dp)) (k_update_devpod K (setFinalizers fs dp));
              State_Monad.return (case b of
                Inl e \<Rightarrow> (Result0, Some (wrapf ''add finalizer: %w'' e))
              | Inr _ \<Rightarrow> (Result0\<lparr>Requeue := True\<rparr>, None)) }
            else if \<not> ds_Running (dp_Spec dp) then do {
              e \<leftarrow> hibernate K r dp;
              (case e of
                 Some x \<Rightarrow> State_Monad.return (Result0, Some x)
               | None \<Rightarrow> do { e' \<leftarrow> updateStatus K r dp; State_Monad.return (Result0, e') }) }
            else if ds_VM (dp_Spec dp) \<noteq> None then State_Monad.return (Result0, None)
            else if ds_Pod (dp_Spec dp) = None then State_Monad.return (Result0, None)
            else do {
              set_requeueAfter 0;
              e \<leftarrow> applyAll K r dp;
              (case e of
                 Some x \<Rightarrow> State_Monad.return (Result0, Some x)
               | None \<Rightarrow> do {
                   d \<leftarrow> get_requeueAfter;
                   State_Monad.return (if d > 0 then Result0\<lparr>RequeueAfter := d\<rparr> else Result0, None) }) })"

definition Reconcile :: "'s kube \<Rightarrow> devpod_reconciler \<Rightarrow> namespaced_name \<Rightarrow> ('s, ctrl_result \<times> go_error option) prog" where
  "Reconcile K r req = do {
     a \<leftarrow> api (EvGetDevPod req) (k_get_devpod K req);
     (case a of
        Inl e \<Rightarrow> State_Monad.return (Result0, if e = NotFound then None else Some (wrapf ''get devpod: %w'' e))
      | Inr dp \<Rightarrow> reconcileDevPod K r dp) }"

subsection \<open>What is assumed of the client\<close>

text \<open>
  Documented behaviour of the API server and of \<open>controllerutil\<close>: a \<open>Get\<close> returns the object of
  the key asked for; a patch of the status subresource changes nothing but the status; setting
  the controller reference does not rename the object.
\<close>

definition kube_laws :: "'s kube \<Rightarrow> bool" where
  "kube_laws K \<longleftrightarrow>
     (\<forall>k p. Inr p \<in> answers (k_get_pod K k) \<longrightarrow> pod_key p = k) \<and>
     (\<forall>old new d. Inr d \<in> answers (k_patch_devpod_status K old new) \<longrightarrow>
        dp_Spec d = dp_Spec new \<and> dp_Name d = dp_Name new \<and> dp_UID d = dp_UID new) \<and>
     (\<forall>owner m m'. k_setControllerReference K owner m = Inr m' \<longrightarrow>
        meta_Name m' = meta_Name m \<and> meta_Namespace m' = meta_Namespace m)"

lemma kube_laws_get_pod: "kube_laws K \<Longrightarrow> Inr p \<in> answers (k_get_pod K k) \<Longrightarrow> pod_key p = k"
  unfolding kube_laws_def by blast

lemma kube_laws_patch:
  "kube_laws K \<Longrightarrow> Inr d \<in> answers (k_patch_devpod_status K old new) \<Longrightarrow>
   dp_Spec d = dp_Spec new \<and> dp_Name d = dp_Name new \<and> dp_UID d = dp_UID new"
  unfolding kube_laws_def by blast

lemma kube_laws_owner:
  "kube_laws K \<Longrightarrow> k_setControllerReference K owner m = Inr m' \<Longrightarrow>
   meta_Name m' = meta_Name m \<and> meta_Namespace m' = meta_Namespace m"
  unfolding kube_laws_def by blast

text \<open>What a pass on \<open>dp\<close> may write.\<close>

definition obj_key :: "kobj \<Rightarrow> namespaced_name" where
  "obj_key obj = (meta_Namespace (obj_meta obj), meta_Name (obj_meta obj))"

definition same_devpod :: "devpod \<Rightarrow> devpod \<Rightarrow> bool" where
  "same_devpod dp dp' \<longleftrightarrow> dp_Spec dp' = dp_Spec dp \<and> dp_Name dp' = dp_Name dp \<and> dp_UID dp' = dp_UID dp"

fun own_write :: "devpod_reconciler \<Rightarrow> devpod \<Rightarrow> event \<Rightarrow> bool" where
  "own_write r dp (EvGetPod _ _) = True"
| "own_write r dp (EvGetPVC _ _) = True"
| "own_write r dp (EvGetSecret _ _) = True"
| "own_write r dp (EvListDevPods _ _) = True"
| "own_write r dp (EvNow _) = True"
| "own_write r dp (EvUpdateDevPod dp' _) = (\<exists>fs. dp' = setFinalizers fs dp)"
| "own_write r dp (EvPatchDevPodStatus old new _) =
     (same_devpod dp old \<and> (\<exists>st. new = old\<lparr>dp_Status := st\<rparr>))"
| "own_write r dp (EvDeletePod k _) = (k = (gc_DevPodNamespace (GwConfig r), PodName dp))"
| "own_write r dp (EvDeleteNetPol k _) = (k = (gc_DevPodNamespace (GwConfig r), OwnerNetPolName (dp_Owner dp)))"
| "own_write r dp (EvCreateSecret s _) =
     (meta_Namespace (sec_Meta s) = gc_DevPodNamespace (GwConfig r) \<and> meta_Name (sec_Meta s) = HostKeySecretName dp)"
| "own_write r dp (EvPatchPVC old new _) =
     (new = old\<lparr>pvc_Meta := (pvc_Meta old)\<lparr>meta_OwnerReferences :=
        filter (\<lambda>x. \<not> (or_Kind x = ''DevPod'' \<and> or_UID x = dp_UID dp)) (meta_OwnerReferences (pvc_Meta old))\<rparr>\<rparr>)"
| "own_write r dp (EvApply obj _) =
     (fst (obj_key obj) = gc_DevPodNamespace (GwConfig r) \<and>
      (case obj of ObjPod _ \<Rightarrow> snd (obj_key obj) = PodName dp
       | ObjService _ \<Rightarrow> snd (obj_key obj) = ServiceName dp
       | ObjPVC _ \<Rightarrow> snd (obj_key obj) = HomePVCName dp
       | ObjNetPol _ \<Rightarrow> snd (obj_key obj) \<in> {''devpod-default-deny'', OwnerNetPolName (dp_Owner dp)}))"
| "own_write r dp _ = False"

lemma same_devpod_refl [simp]: "same_devpod dp dp"
  by (simp add: same_devpod_def)

lemmas monad_unfold = Let_def guard_err_def

lemma filterOwnerRefs_eq:
  "filterOwnerRefs uid ors =
     (filter (\<lambda>x. \<not> (or_Kind x = ''DevPod'' \<and> or_UID x = uid)) ors,
      \<exists>x\<in>set ors. or_Kind x = ''DevPod'' \<and> or_UID x = uid)"
  by (induction ors) auto

lemma live_sibling_iff:
  "live_sibling dp ss \<longleftrightarrow>
     (\<exists>s\<in>set ss. dp_UID s \<noteq> dp_UID dp \<and> dp_Owner s = dp_Owner dp \<and> meta_DeletionTimestamp (dp_Meta s) = None)"
  by (induction ss) auto

lemma set_obj_meta_simps [simp]:
  "obj_meta (set_obj_meta m obj) = m"
  "set_obj_meta m (set_obj_meta m' obj) = set_obj_meta m obj"
  "set_obj_meta m (ObjPod p) = ObjPod (p\<lparr>pod_Meta := m\<rparr>)"
  "set_obj_meta m (ObjService s) = ObjService (s\<lparr>svc_Meta := m\<rparr>)"
  "set_obj_meta m (ObjPVC v) = ObjPVC (v\<lparr>pvc_Meta := m\<rparr>)"
  "set_obj_meta m (ObjNetPol n) = ObjNetPol (n\<lparr>np_Meta := m\<rparr>)"
  by (cases obj; simp add: obj_meta_def set_obj_meta_def)+

lemma own_write_serverSideApply:
  "own_write r dp (EvApply obj (Inr ())) \<Longrightarrow> only (own_write r dp) (serverSideApply K obj)"
  unfolding serverSideApply_def Let_def
  by (intro only_intros)
     (cases obj; simp add: obj_key_def obj_meta_def)+

lemma own_write_applyOwned:
  assumes "kube_laws K" "own_write r dp (EvApply obj (Inr ()))"
  shows "only (own_write r dp) (applyOwned K dp' obj)"
  unfolding applyOwned_def using assms
  by (intro only_intros own_write_serverSideApply)
     (cases obj; auto simp: obj_key_def obj_meta_def dest!: kube_laws_owner)

lemma own_write_detachPVC: "only (own_write r dp) (detachPVC K r dp)"
  unfolding detachPVC_def Let_def by (intro only_intros) (auto simp: filterOwnerRefs_eq)

lemma own_write_cleanup: "only (own_write r dp) (cleanupOwnerNetPolIfLast K r dp)"
  unfolding cleanupOwnerNetPolIfLast_def Let_def by (intro only_intros) auto

lemma own_write_hibernate: "only (own_write r dp) (hibernate K r dp)"
  unfolding hibernate_def Let_def by (intro only_intros) auto

lemma own_write_ensureHostKeySecret:
  assumes "kube_laws K"
  shows "only (own_write r dp) (ensureHostKeySecret K r dp)"
  unfolding ensureHostKeySecret_def Let_def
  by (intro only_intros only_bind [OF only_sys])
     (auto simp: HostKeySecret_def render_defs split: sum.splits dest!: kube_laws_owner [OF assms])

lemma own_write_patchStatus:
  "same_devpod dp dp' \<Longrightarrow> only (own_write r dp) (patchStatus K dp' d)"
  unfolding patchStatus_def Let_def by (intro only_intros) auto

lemma own_write_updateStatus:
  "same_devpod dp dp' \<Longrightarrow> only (own_write r dp) (updateStatus K r dp')"
  unfolding updateStatus_def Let_def by (intro only_intros own_write_patchStatus) auto

lemma own_write_applyPVC:
  "kube_laws K \<Longrightarrow> only (own_write r dp) (applyPVC K r dp)"
  unfolding applyPVC_def
  by (intro only_intros own_write_applyOwned)
     (auto simp: HomePVC_def render_defs obj_key_def obj_meta_def Let_def split: option.splits)

lemma own_write_applyNetPols:
  "same_devpod dp dp' \<Longrightarrow> only (own_write r dp) (applyNetPols K r dp')"
  unfolding applyNetPols_def monad_unfold applyUnowned_def
  by (intro only_intros only_bind own_write_serverSideApply)
     (auto simp: obj_key_def obj_meta_def DefaultDenyNetworkPolicy_def OwnerAllowNetworkPolicy_def same_devpod_def)

text \<open>The rendered pod carries the name and the namespace.\<close>

lemma Pod_key: "Pod dp cfg = Inr p \<Longrightarrow> pod_key p = (gc_DevPodNamespace cfg, PodName dp)"
  by (elim Pod_InrE) (simp add: render_defs)

lemma ensures_onlyI: "only P m \<Longrightarrow> ensures m (\<lambda>_ es. list_all P es)"
  by (simp add: only_def)

lemma own_write_handleFailedPod:
  assumes "kube_laws K" "pod_key p = (gc_DevPodNamespace (GwConfig r), PodName dp)"
  shows "ensures (handleFailedPod K dp p) (\<lambda>x es. list_all (own_write r dp) es \<and> same_devpod dp (fst x))"
  unfolding handleFailedPod_def Let_def using assms(2)
  by (intro ensures_intros) (auto simp: same_devpod_def dest!: kube_laws_patch [OF assms(1)])

lemma own_write_applyPod:
  assumes K: "kube_laws K" and p: "pod_key p = (gc_DevPodNamespace (GwConfig r), PodName dp)"
  shows "ensures (applyPodWithDriftRecreate K dp p)
           (\<lambda>x es. list_all (own_write r dp) es \<and> same_devpod dp (fst x))"
proof -
  have ssa: "ensures (serverSideApply K (ObjPod (p\<lparr>pod_Meta := m'\<rparr>))) (\<lambda>_ es. list_all (own_write r dp) es)"
    if "meta_Namespace m' = gc_DevPodNamespace (GwConfig r)" "meta_Name m' = PodName dp" for m'
    using that by (intro ensures_onlyI own_write_serverSideApply) (simp add: obj_key_def obj_meta_def)
  have ap: "ensures (State_Monad.bind (serverSideApply K (ObjPod (p\<lparr>pod_Meta := m'\<rparr>))) (\<lambda>e. State_Monad.return (dp, e)))
      (\<lambda>x es. list_all (own_write r dp) es \<and> same_devpod dp (fst x))"
    if "meta_Namespace m' = gc_DevPodNamespace (GwConfig r)" "meta_Name m' = PodName dp" for m'
    using ssa [OF that] by (intro ensures_bind) (auto elim!: ensures_mono simp: same_devpod_def ensures_return)
  have failed: "ensures (handleFailedPod K dp live) (\<lambda>x es. list_all (own_write r dp) es \<and> same_devpod dp (fst x))"
    if "pod_key live = (gc_DevPodNamespace (GwConfig r), PodName dp)" for live
    by (rule own_write_handleFailedPod [OF K that])
  show ?thesis
  proof (cases "k_setControllerReference K (dp_Meta dp) (pod_Meta p)")
    case (Inl e)
    then show ?thesis by (simp add: applyPodWithDriftRecreate_def ensures_return)
  next
    case (Inr m)
    have m: "meta_Namespace m = gc_DevPodNamespace (GwConfig r)" "meta_Name m = PodName dp"
      using kube_laws_owner [OF K Inr] p by simp_all
    show ?thesis
      unfolding applyPodWithDriftRecreate_def Let_def Inr sum.case
      by (intro ap [THEN ensures_mono] failed [THEN ensures_mono] ensures_intros)
         (simp_all add: m, (drule kube_laws_get_pod [OF K], simp add: m)+)
  qed
qed

lemma own_write_applyRest:
  assumes "kube_laws K" "same_devpod dp dp1"
  shows "only (own_write r dp) (applyRest K r dp1)"
  unfolding applyRest_def guard_err_def using assms
  by (intro only_intros only_bind own_write_applyOwned own_write_applyNetPols own_write_updateStatus)
     (auto simp: Service_def Let_def render_defs obj_key_def obj_meta_def same_devpod_def)

lemma own_write_applyAll:
  assumes "kube_laws K"
  shows "only (own_write r dp) (applyAll K r dp)"
  unfolding applyAll_def guard_err_def
  by (intro only_intros only_bind_ret [OF own_write_applyPod [OF assms Pod_key]] own_write_applyRest
        only_bind [OF own_write_ensureHostKeySecret] only_bind [OF own_write_applyPVC] assms)

lemma own_write_finalize: "only (own_write r dp) (finalizeDevPod K r dp)"
  unfolding finalizeDevPod_def Let_def
  by (intro only_intros only_bind own_write_detachPVC own_write_cleanup) auto

lemma own_write_reconcileDevPod:
  assumes "kube_laws K"
  shows "only (own_write r dp) (reconcileDevPod K r dp)"
  unfolding reconcileDevPod_def
  by (intro only_intros only_bind own_write_finalize own_write_hibernate own_write_updateStatus
        own_write_applyAll assms) auto

text \<open>The same walk without hypotheses: whatever happens, the log only grows.\<close>

lemma grows_serverSideApply: "only (\<lambda>_. True) (serverSideApply K obj)"
  unfolding serverSideApply_def Let_def by (intro only_intros) auto

lemma grows_updateStatus: "only (\<lambda>_. True) (updateStatus K r dp)"
  unfolding updateStatus_def patchStatus_def Let_def by (intro only_intros) auto

lemma grows_applyPod: "only (\<lambda>_. True) (applyPodWithDriftRecreate K dp p)"
  unfolding applyPodWithDriftRecreate_def handleFailedPod_def Let_def
  by (intro only_intros only_bind [OF grows_serverSideApply] only_bind [OF only_set_requeueAfter]) auto

lemma grows_applyAll: "only (\<lambda>_. True) (applyAll K r dp)"
  unfolding applyAll_def applyRest_def applyNetPols_def guard_err_def ensureHostKeySecret_def
    applyPVC_def applyOwned_def applyUnowned_def Let_def
  by (intro only_intros only_bind grows_serverSideApply grows_updateStatus grows_applyPod) auto

lemma grows_reconcileDevPod: "only (\<lambda>_. True) (reconcileDevPod K r dp)"
  unfolding reconcileDevPod_def hibernate_def Let_def
  by (intro only_intros only_bind grows_updateStatus grows_applyAll
        only_mono [OF own_write_finalize [where r = r and dp = dp]]) auto

text \<open>A pass is the read of the DevPod, then \<open>reconcileDevPod\<close> on what was read.\<close>

lemma Reconcile_split:
  obtains e where "made (Reconcile K r req) w = [EvGetDevPod req (Inl e)]"
      "result (Reconcile K r req) w = (Result0, if e = NotFound then None else Some (wrapf ''get devpod: %w'' e))"
  | dp w' where "made (Reconcile K r req) w = EvGetDevPod req (Inr dp) # made (reconcileDevPod K r dp) w'"
      "result (Reconcile K r req) w = result (reconcileDevPod K r dp) w'"
proof (cases "fst (k_get_devpod K req (cluster w))")
  case (Inl e)
  then show ?thesis
    by (intro that(1) [of e]) (simp_all add: Reconcile_def made_def result_def)
next
  case (Inr dp)
  show ?thesis
    by (rule made_bind_api [where f = "k_get_devpod K req" and w = w and ev = "EvGetDevPod req" and
          g = "\<lambda>a. case a of Inl e \<Rightarrow> State_Monad.return (Result0, if e = NotFound then None else Some (wrapf ''get devpod: %w'' e))
                   | Inr dp \<Rightarrow> reconcileDevPod K r dp"])
       (auto simp: Inr grows_reconcileDevPod Reconcile_def intro: that)
qed

subsection \<open>Arithmetic of the backoff\<close>

lemma backoff_loop_eq:
  "0 < d \<Longrightarrow> min (5 * Minute) (backoff_loop n i d) = min (5 * Minute) (d * 2 ^ nat (n - 1 - i))"
proof (induction n i d rule: backoff_loop.induct)
  case (1 n i d)
  show ?case
  proof (cases "i < n - 1 \<and> d < 5 * Minute")
    case True
    then have "nat (n - 1 - i) = Suc (nat (n - 1 - (i + 1)))" by arith
    with True 1 show ?thesis by (subst backoff_loop.simps) (simp add: mult.assoc)
  next
    case False
    have "d \<le> d * 2 ^ nat (n - 1 - i)" using 1(2) by simp
    with False show ?thesis by (subst backoff_loop.simps) (auto simp: min_def)
  qed
qed

lemma failureBackoff_eq: "failureBackoff n = min (5 * Minute) (10 * Second * 2 ^ nat (n - 1))"
  using backoff_loop_eq [of "10 * Second" n 0] by (simp add: failureBackoff_def min_def Let_def split: if_splits)

lemma failureBackoff_bounds: "10 * Second \<le> failureBackoff n" "failureBackoff n \<le> 5 * Minute"
proof -
  have "(1::int) \<le> 2 ^ nat (n - 1)" by simp
  then show "10 * Second \<le> failureBackoff n" "failureBackoff n \<le> 5 * Minute"
    by (simp_all add: failureBackoff_eq)
qed

text \<open>
  The backoff after the n-th failure is ten seconds doubled n-1 times, capped at five
  minutes; a retry count of zero or below gives ten seconds.  The loop that computes it never
  passes the cap by more than one doubling.
\<close>

theorem failureBackoff_closed_form:
  "failureBackoff n = min (5 * Minute) (10 * Second * 2 ^ nat (n - 1)) \<and>
   backoff_loop n 0 (10 * Second) < 10 * Minute + 1"
proof -
  have "0 < d \<Longrightarrow> d < 10 * Minute \<Longrightarrow> backoff_loop n i d < 10 * Minute + 1" for i d
    by (induction n i d rule: backoff_loop.induct) (subst backoff_loop.simps, auto)
  from this [of "10 * Second" 0] show ?thesis by (simp add: failureBackoff_eq)
qed

subsection \<open>What one pass may write\<close>

lemma mem_kube_laws: "kube_laws mem_kube"
  unfolding kube_laws_def answers_def
  by (auto simp: mem_kube_def meta_key_def dest!: look_Inr [OF sym])

definition ex_r :: devpod_reconciler where
  "ex_r = \<lparr>GwConfig = gateway_config0, GatewayNamespace = [], GatewayInternalPub = ''gw''\<rparr>"

text \<open>
  C7. Whatever the API server answers, one pass of \<open>Reconcile\<close> reads the DevPod it was asked
  about and then writes only objects of that DevPod: it deletes only the Pod of that name and the
  owner's allow policy, creates only its host-key Secret, applies only its Pod, Service and home
  claim and the two policies, changes nothing of the DevPod but the finalizers and the status,
  and of a claim only drops the references of this DevPod.  In particular it never deletes a
  claim, a Secret, a Service or a DevPod.
\<close>

theorem Reconcile_writes_own:
  assumes "kube_laws K"
  shows "\<exists>a es. made (Reconcile K r req) w = EvGetDevPod req a # es \<and>
           (case a of Inl _ \<Rightarrow> es = [] | Inr dp \<Rightarrow> list_all (own_write r dp) es)"
proof (cases rule: Reconcile_split [of K r req w])
  case (2 dp w')
  have "list_all (own_write r dp) (made (reconcileDevPod K r dp) w')"
    using onlyD [OF own_write_reconcileDevPod [OF assms]] by (auto simp: list_all_iff)
  with 2 show ?thesis by auto
qed auto

theorem Reconcile_writes_own_witness:
  "kube_laws mem_kube \<and>
   (\<exists>a es. made (Reconcile mem_kube ex_r (''devpods'', ''alice-dev'')) (mem_world (mem0\<lparr>m_devpods := [ex_dp]\<rparr>))
       = EvGetDevPod (''devpods'', ''alice-dev'') a # es \<and>
     (case a of Inl _ \<Rightarrow> es = [] | Inr dp \<Rightarrow> list_all (own_write ex_r dp) es))"
  using mem_kube_laws Reconcile_writes_own [OF mem_kube_laws] by blast

subsection \<open>Deletion\<close>

definition owned_by :: "devpod \<Rightarrow> owner_ref \<Rightarrow> bool" where
  "owned_by dp x \<longleftrightarrow> or_Kind x = ''DevPod'' \<and> or_UID x = dp_UID dp"

text \<open>What the trace must show before the finalizer goes: the claim is safe, the policy is settled.\<close>

definition pvc_released :: "devpod_reconciler \<Rightarrow> devpod \<Rightarrow> event list \<Rightarrow> bool" where
  "pvc_released r dp es \<longleftrightarrow>
     (let key = (gc_DevPodNamespace (GwConfig r), HomePVCName dp)
      in ds_Persistence (dp_Spec dp) = None \<or> EvGetPVC key (Inl NotFound) \<in> set es \<or>
         (\<exists>v. EvGetPVC key (Inr v) \<in> set es \<and>
            (filter (owned_by dp) (meta_OwnerReferences (pvc_Meta v)) = [] \<or>
             EvPatchPVC v (v\<lparr>pvc_Meta := (pvc_Meta v)\<lparr>meta_OwnerReferences :=
               filter (\<lambda>x. \<not> owned_by dp x) (meta_OwnerReferences (pvc_Meta v))\<rparr>\<rparr>) (Inr ()) \<in> set es)))"

definition netpol_settled :: "devpod_reconciler \<Rightarrow> devpod \<Rightarrow> event list \<Rightarrow> bool" where
  "netpol_settled r dp es \<longleftrightarrow>
     (let ns = gc_DevPodNamespace (GwConfig r); key = (ns, OwnerNetPolName (dp_Owner dp))
      in \<exists>ss. EvListDevPods (Some ns) (Inr ss) \<in> set es \<and>
           ((\<exists>s\<in>set ss. dp_UID s \<noteq> dp_UID dp \<and> dp_Owner s = dp_Owner dp \<and> meta_DeletionTimestamp (dp_Meta s) = None) \<or>
            EvDeleteNetPol key (Inr ()) \<in> set es \<or> EvDeleteNetPol key (Inl NotFound) \<in> set es))"

fun is_update :: "event \<Rightarrow> bool" where
  "is_update (EvUpdateDevPod _ _) = True"
| "is_update _ = False"

lemma released_mono:
  "pvc_released r dp es \<Longrightarrow> set es \<subseteq> set es' \<Longrightarrow> pvc_released r dp es'"
  "netpol_settled r dp es \<Longrightarrow> set es \<subseteq> set es' \<Longrightarrow> netpol_settled r dp es'"
  unfolding pvc_released_def netpol_settled_def Let_def by blast+

lemma unless_err_None: "unless_err ok msg a = None \<longleftrightarrow> (a = Inl ok \<or> (\<exists>x. a = Inr x))"
  by (cases a) (auto simp: unless_err_def)

lemma detachPVC_spec:
  "ensures (detachPVC K r dp) (\<lambda>e es. (e = None \<longrightarrow> pvc_released r dp es) \<and> \<not> list_ex is_update es)"
  unfolding detachPVC_def Let_def
  by (intro ensures_intros)
     (auto simp: pvc_released_def owned_by_def filterOwnerRefs_eq filter_empty_conv split: sum.splits)

lemma cleanup_spec:
  "ensures (cleanupOwnerNetPolIfLast K r dp) (\<lambda>e es. (e = None \<longrightarrow> netpol_settled r dp es) \<and> \<not> list_ex is_update es)"
  unfolding cleanupOwnerNetPolIfLast_def Let_def
  by (intro ensures_intros) (auto simp: netpol_settled_def live_sibling_iff unless_err_None)

lemma no_update: "\<not> list_ex is_update es \<Longrightarrow> EvUpdateDevPod d a \<notin> set es"
  by (induction es) auto

definition cleared_safely :: "'s kube \<Rightarrow> devpod_reconciler \<Rightarrow> devpod \<Rightarrow> event list \<Rightarrow> bool" where
  "cleared_safely K r dp es \<longleftrightarrow>
     (\<forall>dp' a. EvUpdateDevPod dp' a \<in> set es \<longrightarrow>
        (\<exists>pre. es = pre @ [EvUpdateDevPod dp' a] \<and> pvc_released r dp pre \<and> netpol_settled r dp pre \<and>
           dp' = setFinalizers (k_removeFinalizer K devpodFinalizer (meta_Finalizers (dp_Meta dp))) dp))"

lemma finalize_spec: "ensures (finalizeDevPod K r dp) (\<lambda>_ es. cleared_safely K r dp es)"
  unfolding finalizeDevPod_def Let_def cleared_safely_def
  by (rule ensures_bind, rule ensures_mono [OF detachPVC_spec],
      intro ensures_intros ensures_mono [OF cleanup_spec])
     (auto dest: no_update elim!: released_mono)

text \<open>
  C15. When a DevPod is being deleted, the finalizer is cleared last and only after the cleanup is
  known to have succeeded: before that write the pass has seen that there is no home claim, or
  that the claim carries no reference of this DevPod, or has patched the claim so that exactly
  those references are gone (so garbage collection does not take the home volume); and it has
  seen a live DevPod of the same owner or had the owner's policy deleted.  The write itself
  changes nothing but the finalizers.
\<close>

theorem Reconcile_clears_finalizer_last:
  assumes "hd (made (Reconcile K r req) w) = EvGetDevPod req (Inr dp)"
    and "meta_DeletionTimestamp (dp_Meta dp) \<noteq> None"
    and "EvUpdateDevPod dp' a \<in> set (made (Reconcile K r req) w)"
  shows "\<exists>pre. made (Reconcile K r req) w = EvGetDevPod req (Inr dp) # pre @ [EvUpdateDevPod dp' a] \<and>
           pvc_released r dp pre \<and> netpol_settled r dp pre \<and>
           dp' = setFinalizers (k_removeFinalizer K devpodFinalizer (meta_Finalizers (dp_Meta dp))) dp"
proof (cases rule: Reconcile_split [of K r req w])
  case (2 dp1 w')
  have "cleared_safely K r dp (made (reconcileDevPod K r dp) w')"
    using assms(2) ensuresD [OF finalize_spec] by (simp add: reconcileDevPod_def)
  with 2 assms(1, 3) show ?thesis by (auto simp: cleared_safely_def)
qed (use assms in auto)

definition ex_del :: devpod where
  "ex_del = ex_dp\<lparr>dp_Meta := (dp_Meta ex_dp)\<lparr>meta_DeletionTimestamp := Some 5, meta_Finalizers := [devpodFinalizer]\<rparr>\<rparr>"

abbreviation ex_req :: namespaced_name where "ex_req \<equiv> (''devpods'', ''alice-dev'')"

lemma ex_del_trace:
  "made (Reconcile mem_kube ex_r ex_req) (mem_world (mem0\<lparr>m_devpods := [ex_del]\<rparr>)) =
     [EvGetDevPod ex_req (Inr ex_del), EvListDevPods (Some ''devpods'') (Inr [ex_del]),
      EvDeleteNetPol (''devpods'', ''devpod-allow-alice'') (Inl NotFound),
      EvUpdateDevPod (setFinalizers [] ex_del) (Inr (setFinalizers [] ex_del))]"
  by code_simp

theorem Reconcile_clears_finalizer_last_witness:
  "meta_DeletionTimestamp (dp_Meta ex_del) \<noteq> None \<and>
   netpol_settled ex_r ex_del (butlast (tl (made (Reconcile mem_kube ex_r ex_req) (mem_world (mem0\<lparr>m_devpods := [ex_del]\<rparr>)))))"
proof -
  have del: "meta_DeletionTimestamp (dp_Meta ex_del) \<noteq> None" by (simp add: ex_del_def)
  with Reconcile_clears_finalizer_last [of mem_kube ex_r ex_req "mem_world (mem0\<lparr>m_devpods := [ex_del]\<rparr>)" ex_del
      "setFinalizers [] ex_del" "Inr (setFinalizers [] ex_del)"]
  show ?thesis by (auto simp: ex_del_trace)
qed

text \<open>
  The owner's allow policy is deleted exactly when the listing succeeds and shows no other
  live DevPod of that owner.
\<close>

theorem cleanup_deletes_iff_last:
  "(\<exists>k a. EvDeleteNetPol k a \<in> set (made (cleanupOwnerNetPolIfLast K r dp) w)) \<longleftrightarrow>
   (\<exists>ss. EvListDevPods (Some (gc_DevPodNamespace (GwConfig r))) (Inr ss) \<in> set (made (cleanupOwnerNetPolIfLast K r dp) w) \<and>
      (\<nexists>s. s \<in> set ss \<and> dp_UID s \<noteq> dp_UID dp \<and> dp_Owner s = dp_Owner dp \<and> meta_DeletionTimestamp (dp_Meta s) = None))"
proof (rule ensuresD [of "cleanupOwnerNetPolIfLast K r dp"])
  show "ensures (cleanupOwnerNetPolIfLast K r dp) (\<lambda>_ es. (\<exists>k a. EvDeleteNetPol k a \<in> set es) \<longleftrightarrow>
     (\<exists>ss. EvListDevPods (Some (gc_DevPodNamespace (GwConfig r))) (Inr ss) \<in> set es \<and>
        (\<nexists>s. s \<in> set ss \<and> dp_UID s \<noteq> dp_UID dp \<and> dp_Owner s = dp_Owner dp \<and> meta_DeletionTimestamp (dp_Meta s) = None)))"
    unfolding cleanupOwnerNetPolIfLast_def Let_def
    by (intro ensures_intros) (auto simp: live_sibling_iff)
qed

subsection \<open>Hibernation\<close>

fun status_write :: "event \<Rightarrow> bool" where
  "status_write (EvPatchDevPodStatus _ _ _) = True"
| "status_write (EvNow _) = True"
| "status_write _ = False"

definition stopped_status :: "devpod \<Rightarrow> event list \<Rightarrow> bool" where
  "stopped_status dp es \<longleftrightarrow>
     list_all status_write es \<and>
     (\<forall>old new a. EvPatchDevPodStatus old new a \<in> set es \<longrightarrow> old = dp \<and>
        dp_Spec new = dp_Spec dp \<and> dst_Phase (dp_Status new) = DevPodStopped \<and>
        dst_Endpoint (dp_Status new) = [] \<and> dst_WorkloadRef (dp_Status new) = None \<and>
        dst_HibernatedAt (dp_Status new) \<noteq> None \<and>
        (dst_Phase (dp_Status dp) = DevPodStopped \<longrightarrow> dst_HibernatedAt (dp_Status dp) \<noteq> None \<longrightarrow>
           dst_HibernatedAt (dp_Status new) = dst_HibernatedAt (dp_Status dp)))"

lemma updateStatus_stopped:
  "\<not> ds_Running (dp_Spec dp) \<Longrightarrow> ensures (updateStatus K r dp) (\<lambda>_ es. stopped_status dp es)"
  unfolding updateStatus_def patchStatus_def Let_def stopped_status_def
  by (simp, intro ensures_intros conjI impI)
     (auto intro!: ensures_intros simp: copy_desired_def desired_stopped_def desired0_def devpod_status0_def)

text \<open>
  A pass on a stopped DevPod deletes its Pod and touches nothing else of it: no object is
  created or applied, the claim, Secret, Service and policies stay, and if the deletion succeeds
  the only further write is the status, which then says Stopped with no endpoint; the time of
  hibernation is set once and kept by later passes.
\<close>

theorem Reconcile_hibernates:
  assumes "hd (made (Reconcile K r req) w) = EvGetDevPod req (Inr dp)"
    and "meta_DeletionTimestamp (dp_Meta dp) = None"
    and "\<not> snd (k_addFinalizer K devpodFinalizer (meta_Finalizers (dp_Meta dp)))"
    and "\<not> ds_Running (dp_Spec dp)"
  shows "\<exists>d es. made (Reconcile K r req) w =
           EvGetDevPod req (Inr dp) # EvDeletePod (gc_DevPodNamespace (GwConfig r), PodName dp) d # es \<and>
           (if d = Inr () \<or> d = Inl NotFound then stopped_status dp es else es = [])"
proof (cases rule: Reconcile_split [of K r req w])
  case (2 dp1 w')
  let ?Q = "\<lambda>es. case es of
       EvDeletePod k d # es' \<Rightarrow> k = (gc_DevPodNamespace (GwConfig r), PodName dp) \<and>
         (if d = Inr () \<or> d = Inl NotFound then stopped_status dp es' else es' = [])
     | _ \<Rightarrow> False"
  have "ensures (reconcileDevPod K r dp) (\<lambda>_ es. ?Q es)"
    using assms(2-4) unfolding reconcileDevPod_def hibernate_def Let_def
    by (simp add: split_beta, intro ensures_intros ensures_mono [OF updateStatus_stopped])
       (auto simp: unless_err_def split: sum.splits if_splits)
  from ensuresD [OF this, of w'] obtain d es
    where "made (reconcileDevPod K r dp) w' = EvDeletePod (gc_DevPodNamespace (GwConfig r), PodName dp) d # es"
      "if d = Inr () \<or> d = Inl NotFound then stopped_status dp es else es = []"
    by (auto split: list.splits event.splits)
  with 2 assms(1) show ?thesis by (intro exI [of _ d] exI [of _ es]) simp
qed (use assms in auto)

definition ex_live :: devpod where
  "ex_live = ex_dp\<lparr>dp_Meta := (dp_Meta ex_dp)\<lparr>meta_Finalizers := [devpodFinalizer]\<rparr>\<rparr>"

definition ex_stopped :: devpod where
  "ex_stopped = ex_live\<lparr>dp_Spec := (dp_Spec ex_live)\<lparr>ds_Running := False\<rparr>\<rparr>"

lemma ex_stopped_hd:
  "hd (made (Reconcile mem_kube ex_r ex_req) (mem_world (mem0\<lparr>m_devpods := [ex_stopped]\<rparr>))) = EvGetDevPod ex_req (Inr ex_stopped)"
  by code_simp

theorem Reconcile_hibernates_witness:
  "\<exists>d es. made (Reconcile mem_kube ex_r ex_req) (mem_world (mem0\<lparr>m_devpods := [ex_stopped]\<rparr>)) =
     EvGetDevPod ex_req (Inr ex_stopped) # EvDeletePod (''devpods'', ''alice-dev'') d # es \<and>
     (if d = Inr () \<or> d = Inl NotFound then stopped_status ex_stopped es else es = [])"
  using Reconcile_hibernates [OF ex_stopped_hd]
  by (simp add: ex_stopped_def ex_live_def ex_dp_def ex_r_def gateway_config0_def PodName_def mem_kube_def
      object_meta0_def devpod0_def devpod_spec0_def)

end
