(* ===== verification/DevPod_Failures.thy ===== *)
theory DevPod_Failures
  imports DevPod_Controller
begin

section \<open>The DevPod reconciler: drift, failed pods, status\<close>

text \<open>
  What \<open>applyPodWithDriftRecreate\<close>, \<open>handleFailedPod\<close> and \<open>updateStatus\<close> of
  \<open>DevPod_Controller\<close> do with a pod that has drifted, has failed or is gone, and what becomes of
  the failure bookkeeping in the status.
\<close>

subsection \<open>Drift\<close>


lemma mget_update [simp]: "mget (AList.update k v m) k = v"
  by (simp add: mget_def)












definition ex_pod :: pod where
  "ex_pod = \<lparr>pod_Meta = object_meta0\<lparr>meta_Name := ''alice-dev'', meta_Namespace := ''devpods''\<rparr>,
     pod_Spec = pod_spec0\<lparr>ps_NodeName := ''n1''\<rparr>, pod_Status = pod_status0\<rparr>"



subsection \<open>Failed pods\<close>

text \<open>
  When \<open>handleFailedPod\<close> succeeds it has first recorded the failure in the status (phase Failed,
  one retry more, the time of the failure, the message of the pod), and only then deleted the pod,
  and it asks to be called again after the backoff of the new count.
\<close>

theorem handleFailedPod_records:
  assumes "snd (result (handleFailedPod K dp p) w) = None"
  shows "\<exists>now dp2 d.
     made (handleFailedPod K dp p) w =
       [EvNow now,
        EvPatchDevPodStatus dp (dp\<lparr>dp_Status := (dp_Status dp)\<lparr>dst_Phase := DevPodFailed,
          dst_RetryCount := dst_RetryCount (dp_Status dp) + 1, dst_LastFailureAt := Some now,
          dst_Message := podFailureMessage p\<rparr>\<rparr>) (Inr dp2),
        EvDeletePod (pod_key p) d] \<and>
     (d = Inr () \<or> d = Inl NotFound) \<and> fst (result (handleFailedPod K dp p) w) = dp2 \<and>
     requeueAfter (snd (run_state (handleFailedPod K dp p) w)) =
       failureBackoff (sint (dst_RetryCount (dp_Status dp) + 1))"
  using assms unfolding handleFailedPod_def result_def made_def Let_def
  by (auto simp: unless_err_def split_beta split: sum.splits if_splits)

theorem handleFailedPod_records_witness:
  "requeueAfter (snd (run_state (handleFailedPod mem_kube ex_live ex_pod) (mem_world mem0))) = failureBackoff 1"
proof -
  have "snd (result (handleFailedPod mem_kube ex_live ex_pod) (mem_world mem0)) = None" by code_simp
  moreover have "dst_RetryCount (dp_Status ex_live) = 0" by code_simp
  ultimately show ?thesis
    using handleFailedPod_records [of mem_kube ex_live ex_pod "mem_world mem0"] by auto
qed

text \<open>
  Within the backoff window after a recorded failure a missing pod is not recreated: the pass
  reads the pod and the clock, changes nothing, and asks to be called again when the window ends.
\<close>

theorem backoff_window_respected:
  assumes "k_setControllerReference K (dp_Meta dp) (pod_Meta p) = Inr m"
    and "k_get_pod K (meta_Namespace m, meta_Name m) (cluster w) = (Inl NotFound, s)"
    and "k_now K s = (now, s')"
    and "dst_LastFailureAt (dp_Status dp) = Some t"
    and "0 \<le> now - t" "now - t < failureBackoff (sint (dst_RetryCount (dp_Status dp)))"
  shows "made (applyPodWithDriftRecreate K dp p) w =
           [EvGetPod (meta_Namespace m, meta_Name m) (Inl NotFound), EvNow now] \<and>
         result (applyPodWithDriftRecreate K dp p) w = (dp, None) \<and>
         requeueAfter (snd (run_state (applyPodWithDriftRecreate K dp p) w)) =
           failureBackoff (sint (dst_RetryCount (dp_Status dp))) - (now - t)"
proof -
  have b: "now - t < 5 * Minute" "failureBackoff (sint (dst_RetryCount (dp_Status dp))) \<le> 5 * Minute"
    using assms(6) failureBackoff_bounds(2) by (simp_all add: order_less_le_trans)
  then have "time_Sub now t = now - t"
    using assms(5) by (simp add: time_Sub_def)
  moreover have "wrap64 (failureBackoff n - (now - t)) = failureBackoff n - (now - t)"
    if "now - t < failureBackoff n" for n
    using that assms(5) failureBackoff_bounds(2) [of n] by (intro wrap64_id) simp_all
  ultimately show ?thesis
    using assms unfolding applyPodWithDriftRecreate_def result_def made_def Let_def by simp
qed

definition ex_failed :: devpod where
  "ex_failed = ex_live\<lparr>dp_Status := (dp_Status ex_live)\<lparr>dst_LastFailureAt := Some 400, dst_RetryCount := 3\<rparr>\<rparr>"

theorem backoff_window_respected_witness:
  "made (applyPodWithDriftRecreate mem_kube ex_failed ex_pod) (mem_world mem0) =
     [EvGetPod (''devpods'', ''alice-dev'') (Inl NotFound), EvNow 1000]"
  using backoff_window_respected [of mem_kube ex_failed ex_pod
      "(pod_Meta ex_pod)\<lparr>meta_OwnerReferences := [\<lparr>or_Kind = ''DevPod'', or_Name = dp_Name ex_failed, or_UID = dp_UID ex_failed, or_Controller = True\<rparr>]\<rparr>"
      "mem_world mem0" mem0 1000 mem0 400]
  by (simp add: mem_kube_def ex_failed_def ex_pod_def object_meta0_def mem_world_def mem0_def failureBackoff_eq)

subsection \<open>Status\<close>

lemma ptr_equal_refl [simp]: "timePtrEqual t t" "workloadRefEqual r r" "localRefEqual l l"
  by (simp_all add: timePtrEqual_def workloadRefEqual_def localRefEqual_def)

text \<open>\<open>statusEqual\<close> compares exactly the fields that \<open>updateStatus\<close> assigns.\<close>

lemma statusEqual_iff: "statusEqual a b \<longleftrightarrow> copy_desired b a = a"
proof -
  have "workloadRefEqual x y \<longleftrightarrow> x = y" for x y by (cases x; cases y) (auto simp: workloadRefEqual_def)
  moreover have "localRefEqual x y \<longleftrightarrow> x = y" for x y
    by (cases x; cases y) (auto simp: localRefEqual_def local_object_ref.equality)
  moreover have "timePtrEqual x y \<longleftrightarrow> x = y" for x y by (cases x; cases y) (auto simp: timePtrEqual_def)
  ultimately show ?thesis
    by (cases a, cases b) (auto simp: statusEqual_def copy_desired_def)
qed

lemma copy_desired_twice: "copy_desired d (copy_desired d st) = copy_desired d st"
  by (simp add: copy_desired_def)

text \<open>What \<open>updateStatus\<close> wants, given what it finds, computed again on the patched object.\<close>

definition desired_for :: "devpod_reconciler \<Rightarrow> devpod \<Rightarrow> pod option \<Rightarrow> timestamp \<Rightarrow> devpod_status" where
  "desired_for r dp fp now =
     (if \<not> ds_Running (dp_Spec dp) then desired_stopped dp now
      else case fp of Some p \<Rightarrow> desired_found r dp p | None \<Rightarrow> (desired0 dp)\<lparr>dst_Phase := DevPodPending\<rparr>)"

definition patched :: "devpod_reconciler \<Rightarrow> devpod \<Rightarrow> pod option \<Rightarrow> timestamp \<Rightarrow> devpod" where
  "patched r dp fp now = dp\<lparr>dp_Status := copy_desired (desired_for r dp fp now) (dp_Status dp)\<rparr>"

lemma status_irrelevant [simp]:
  "BackendPort (dp\<lparr>dp_Status := st\<rparr>) cfg = BackendPort dp cfg"
  "HomePVCName (dp\<lparr>dp_Status := st\<rparr>) = HomePVCName dp"
  "PodName (dp\<lparr>dp_Status := st\<rparr>) = PodName dp"
  by (cases "ds_Pod (dp_Spec dp)"; simp add: BackendPort_def render_defs)+

lemma desired_stable:
  "copy_desired (desired_for r (patched r dp fp now) fp now') (dp_Status (patched r dp fp now)) =
   dp_Status (patched r dp fp now)"
  unfolding patched_def desired_for_def
  by (cases fp)
     (simp_all add: copy_desired_def desired_stopped_def desired_found_def desired0_def Let_def devpod_status0_def)

text \<open>The answer of the \<open>Get\<close> as \<open>updateStatus\<close> uses it.\<close>

definition sees :: "'s kube \<Rightarrow> devpod_reconciler \<Rightarrow> devpod \<Rightarrow> 's \<Rightarrow> pod option \<Rightarrow> bool" where
  "sees K r dp s fp \<longleftrightarrow>
     fst (k_get_pod K (gc_DevPodNamespace (GwConfig r), PodName dp) s) =
       (case fp of None \<Rightarrow> Inl NotFound | Some p \<Rightarrow> Inr p)"

lemma sees_patched [simp]: "sees K r (patched r dp fp now) s fp' \<longleftrightarrow> sees K r dp s fp'"
  by (simp add: sees_def patched_def PodName_def)

lemma updateStatus_made:
  assumes "ds_Running (dp_Spec dp) \<Longrightarrow> sees K r dp (cluster w) fp"
    and "EvPatchDevPodStatus old new a \<in> set (made (updateStatus K r dp) w)"
  shows "\<exists>now. old = dp \<and> new = patched r dp fp now \<and> dp_Status new \<noteq> dp_Status dp"
proof (cases "ds_Running (dp_Spec dp)")
  case True
  with assms show ?thesis
    by (auto simp: updateStatus_def patchStatus_def statusEqual_iff made_def sees_def patched_def desired_for_def
        Let_def split: option.splits if_splits)
next
  case False
  with assms(2) show ?thesis
    by (auto simp: updateStatus_def patchStatus_def statusEqual_iff made_def patched_def desired_for_def
        desired_stopped_def Let_def split: if_splits)
qed

text \<open>
  C19. A status patch settles: it is computed from the DevPod that was read, and once the patched
  object is what the next pass reads, with the pod in the same state, that pass sends no patch,
  at whatever time it runs.  So the controller does not wake itself up forever.
\<close>

theorem updateStatus_converges:
  assumes "ds_Running (dp_Spec dp) \<Longrightarrow> sees K r dp (cluster w) fp"
    and "ds_Running (dp_Spec dp) \<Longrightarrow> sees K' r dp (cluster w') fp"
    and "EvPatchDevPodStatus old new a \<in> set (made (updateStatus K r dp) w)"
  shows "old = dp \<and> EvPatchDevPodStatus old' new' a' \<notin> set (made (updateStatus K' r new) w')"
proof -
  from updateStatus_made [OF assms(1, 3)] obtain now where new: "old = dp" "new = patched r dp fp now" by blast
  have "\<not> (\<exists>now'. patched r new fp now' \<noteq> new)"
    using desired_stable [of r dp fp now] unfolding new by (simp add: patched_def)
  moreover have "ds_Running (dp_Spec new) = ds_Running (dp_Spec dp)"
    by (simp add: new patched_def)
  ultimately show ?thesis
    using updateStatus_made [of new K' r w' fp old' new' a'] assms(2) by (auto simp: new)
qed

lemma ex_live_patch:
  "EvPatchDevPodStatus ex_live (patched ex_r ex_live None 0) (Inr (patched ex_r ex_live None 0))
     \<in> set (made (updateStatus mem_kube ex_r ex_live) (mem_world mem0))"
  by code_simp

theorem updateStatus_converges_witness:
  "\<forall>old' new' a'. EvPatchDevPodStatus old' new' a' \<notin>
     set (made (updateStatus mem_kube ex_r (patched ex_r ex_live None 0)) (mem_world mem0))"
  using updateStatus_converges [OF _ _ ex_live_patch, where fp = None and K' = mem_kube and w' = "mem_world mem0"]
  by (simp add: sees_def mem_world_def mem0_def)

subsection \<open>The bookkeeping does not survive the pass\<close>





end
