(* ===== verification/Controller_Main.thy ===== *)
theory Controller_Main
  imports DevPod_Controller
begin

section \<open>The controller: start-up\<close>

text \<open>
  \<open>src/cmd/controller/main.go\<close>: the flags and the reconcilers they give.  The outcomes of the calls of controller-runtime are
  arguments; \<open>Inl\<close> is the message with which the process exits.  The manager itself, its cache and the
  flags for its probes and leader election are not modelled.
\<close>

record ctl_flags =
  cf_devPodNamespace :: string
  cf_gatewayNamespace :: string
  cf_supervisorImage :: string
  cf_internalPubFile :: string
  cf_homeDirHostPath :: string
  cf_homeDirMountPrefix :: string
  cf_snapshotImage :: string

definition ctl_flags0 :: ctl_flags where
  "ctl_flags0 = \<lparr>cf_devPodNamespace = ''devpods'', cf_gatewayNamespace = ''devpod-system'',
     cf_supervisorImage = ''ghcr.io/mrhaoxx/devpod-supervisor:dev'', cf_internalPubFile = [], cf_homeDirHostPath = [],
     cf_homeDirMountPrefix = ''/home'', cf_snapshotImage = ''docker:cli''\<rparr>"

text \<open>The calls that can fail, in the order \<open>main\<close> makes them.\<close>

record ctl_host =
  ch_ReadFile :: "string \<Rightarrow> go_error + string"
  ch_NewManager :: "go_error option"
  ch_SetupDevPod :: "go_error option"
  ch_SetupUser :: "go_error option"
  ch_SetupSnapshot :: "go_error option"
  ch_Healthz :: "go_error option"
  ch_Readyz :: "go_error option"

text \<open>The composite literal: every field it does not name has the zero value of its type.\<close>

definition flagConfig :: "ctl_flags \<Rightarrow> gateway_config_spec" where
  "flagConfig fl =
     \<lparr>gc_DevPodNamespace = cf_devPodNamespace fl, gc_HostKeyRef = \<lparr>sr_Name = [], sr_Namespace = []\<rparr>,
      gc_InternalKeyRef = \<lparr>sr_Name = [], sr_Namespace = []\<rparr>,
      gc_Listen = \<lparr>ls_Port = 0, ls_ProxyProtocol = \<lparr>ppr_Enabled = False, ppr_TrustedCIDRs = []\<rparr>\<rparr>,
      gc_TrustedProxyKeys = [], gc_DefaultIdleTimeoutSeconds = 0, gc_SupervisorImage = cf_supervisorImage fl,
      gc_BackendPort = 0, gc_Banner = [],
      gc_HomeDir = (if cf_homeDirHostPath fl \<noteq> []
                    then Some \<lparr>hd_HostPathPrefix = cf_homeDirHostPath fl, hd_MountPrefix = cf_homeDirMountPrefix fl\<rparr> else None),
      gc_IsolateNetwork = False, gc_LDAP = None\<rparr>"

fun firstFailure :: "(string \<times> go_error option) list \<Rightarrow> string option" where
  "firstFailure [] = None"
| "firstFailure ((msg, r) # rs) = (if r \<noteq> None then Some msg else firstFailure rs)"

definition internalPubOf :: "ctl_flags \<Rightarrow> ctl_host \<Rightarrow> go_error + string" where
  "internalPubOf fl H = (if cf_internalPubFile fl = [] then Inr [] else ch_ReadFile H (cf_internalPubFile fl))"

text \<open>The DevPod reconciler and the image of the snapshot reconciler; the User reconciler has no configuration.\<close>

definition startController :: "ctl_flags \<Rightarrow> ctl_host \<Rightarrow> string + devpod_reconciler \<times> string" where
  "startController fl H =
     (case internalPubOf fl H of
        Inl _ \<Rightarrow> Inl ''read internal pubkey''
      | Inr internalPub \<Rightarrow>
          (case firstFailure
              [(''create manager'', ch_NewManager H), (''set up DevPodReconciler'', ch_SetupDevPod H),
               (''set up UserReconciler'', ch_SetupUser H), (''set up DevPodSnapshotReconciler'', ch_SetupSnapshot H),
               (''add healthz'', ch_Healthz H), (''add readyz'', ch_Readyz H)] of
             Some msg \<Rightarrow> Inl msg
           | None \<Rightarrow>
               Inr (\<lparr>GwConfig = flagConfig fl, GatewayNamespace = cf_gatewayNamespace fl, GatewayInternalPub = internalPub\<rparr>,
                    cf_snapshotImage fl)))"

subsection \<open>What a started controller never does\<close>

fun applies_policy :: "event \<Rightarrow> bool" where
  "applies_policy (EvApply (ObjNetPol _) _) = True"
| "applies_policy _ = False"

abbreviation no_policy :: "event \<Rightarrow> bool" where "no_policy e \<equiv> \<not> applies_policy e"

fun is_policy :: "kobj \<Rightarrow> bool" where
  "is_policy (ObjNetPol _) = True"
| "is_policy _ = False"

lemma applies_policy_Apply [simp]: "applies_policy (EvApply obj a) = is_policy obj"
  by (cases obj) simp_all

lemma is_policy_meta [simp]: "is_policy (set_obj_meta m obj) = is_policy obj"
  by (cases obj) (simp_all add: set_obj_meta_def)

lemma no_policy_apply: "\<not> is_policy obj \<Longrightarrow> only no_policy (serverSideApply K obj)"
  unfolding serverSideApply_def Let_def by (intro only_intros) auto

lemma no_policy_applyOwned: "\<not> is_policy obj \<Longrightarrow> only no_policy (applyOwned K dp obj)"
  unfolding applyOwned_def by (intro only_intros no_policy_apply) auto

lemma no_policy_updateStatus: "only no_policy (updateStatus K r dp)"
  unfolding updateStatus_def patchStatus_def Let_def by (intro only_intros) auto

lemma no_policy_applyPod: "only no_policy (applyPodWithDriftRecreate K dp p)"
  unfolding applyPodWithDriftRecreate_def handleFailedPod_def Let_def
  by (intro only_intros only_bind [OF no_policy_apply] only_bind [OF only_set_requeueAfter]) auto

lemma no_policy_applyAll:
  assumes "\<not> gc_IsolateNetwork (GwConfig r)"
  shows "only no_policy (applyAll K r dp)"
  unfolding applyAll_def applyRest_def guard_err_def ensureHostKeySecret_def applyPVC_def Let_def
  using assms by (intro only_intros only_bind no_policy_applyOwned no_policy_updateStatus no_policy_applyPod) auto

lemma no_policy_finalize: "only no_policy (finalizeDevPod K r dp)"
  unfolding finalizeDevPod_def detachPVC_def cleanupOwnerNetPolIfLast_def Let_def by (intro only_intros only_bind) auto

lemma no_policy_Reconcile:
  assumes "\<not> gc_IsolateNetwork (GwConfig r)"
  shows "only no_policy (Reconcile K r req)"
  unfolding Reconcile_def reconcileDevPod_def hibernate_def Let_def
  using assms by (intro only_intros only_bind no_policy_updateStatus no_policy_applyAll no_policy_finalize) auto

text \<open>
  C32. The isolation that \<open>GatewayConfig.spec.isolateNetwork\<close> documents is never installed: a reconciler that the controller's
  \<open>main\<close> builds, whatever the flags, the cluster and the \<open>GatewayConfig\<close> object in it, applies no NetworkPolicy in any pass,
  and renders every DevPod off the host network for port 2222, whatever \<open>spec.backendPort\<close> is.
\<close>

theorem isolation_never_installed:
  assumes "startController fl H = Inr (r, img)"
  shows "list_all no_policy (made (Reconcile K r req) w) \<and>
    (case ds_Pod (dp_Spec dp) of Some pw \<Rightarrow> \<not> ps_HostNetwork (pw_Spec pw) \<longrightarrow> BackendPort dp (GwConfig r) = 2222 | None \<Rightarrow> True)"
proof -
  from assms have r: "GwConfig r = flagConfig fl" by (auto simp: startController_def split: sum.splits option.splits)
  have "list_all no_policy (made (Reconcile K r req) w)"
    using onlyD [OF no_policy_Reconcile, of r _ K req w] r by (simp add: flagConfig_def list_all_iff)
  then show ?thesis using r by (auto simp: BackendPort_def flagConfig_def Let_def split: option.splits)
qed

definition ex_ctl_host :: ctl_host where
  "ex_ctl_host = \<lparr>ch_ReadFile = (\<lambda>p. Inr p), ch_NewManager = None, ch_SetupDevPod = None, ch_SetupUser = None, ch_SetupSnapshot = None,
     ch_Healthz = None, ch_Readyz = None\<rparr>"

definition ex_controller :: devpod_reconciler where
  "ex_controller = \<lparr>GwConfig = flagConfig ctl_flags0, GatewayNamespace = ''devpod-system'', GatewayInternalPub = []\<rparr>"

lemma ex_controller_starts: "startController ctl_flags0 ex_ctl_host = Inr (ex_controller, ''docker:cli'')"
  by (simp add: startController_def internalPubOf_def ctl_flags0_def ex_ctl_host_def ex_controller_def)

theorem isolation_never_installed_witness:
  "list_all no_policy (made (Reconcile mem_kube ex_controller (''devpods'', ''alice-dev'')) (mem_world (mem0\<lparr>m_devpods := [ex_live]\<rparr>))) \<and>
   BackendPort ex_live (GwConfig ex_controller) = 2222"
  using isolation_never_installed [OF ex_controller_starts, of mem_kube "(''devpods'', ''alice-dev'')" "mem_world (mem0\<lparr>m_devpods := [ex_live]\<rparr>)" ex_live]
  by (simp add: ex_live_def ex_defs)

end
