(* ===== verification/Finalizer.thy ===== *)
theory Finalizer
  imports Kube_Client
begin

section \<open>The finalizer discipline\<close>

text \<open>
  What the reconcilers of objects with a finalizer promise: a pass reads its object first; while
  the finalizer is missing and the object is not being deleted, nothing is written but, at most once, the
  object with the finalizer installed; an object that is not there is not acted on.  The DevPod and the User
  reconciler are instances.
\<close>

fun is_write :: "event \<Rightarrow> bool" where
  "is_write (EvCreateDevPod _ _) = True"
| "is_write (EvUpdateDevPod _ _) = True"
| "is_write (EvDeleteDevPod _ _) = True"
| "is_write (EvPatchDevPodStatus _ _ _) = True"
| "is_write (EvDeletePod _ _) = True"
| "is_write (EvApply _ _) = True"
| "is_write (EvPatchPVC _ _ _) = True"
| "is_write (EvDeleteNetPol _ _) = True"
| "is_write (EvCreateSecret _ _) = True"
| "is_write (EvCreateUser _ _) = True"
| "is_write (EvUpdateUser _ _) = True"
| "is_write (EvUpdateUserStatus _ _) = True"
| "is_write (EvDeleteUser _ _) = True"
| "is_write (EvUpdateSnapshot _ _) = True"
| "is_write (EvPatchSnapshotStatus _ _ _) = True"
| "is_write (EvCreateJob _ _) = True"
| "is_write _ = False"

locale finalizer_discipline =
  fixes pass :: "('s, 'r) prog"
    and read :: "event \<Rightarrow> 'o option"
    and deleting lacks :: "'o \<Rightarrow> bool"
    and install :: "'o \<Rightarrow> event \<Rightarrow> bool"
  assumes reads_first: "ensures pass (\<lambda>_ es. es \<noteq> [] \<and> \<not> is_write (hd es))"
    and absent: "ensures pass (\<lambda>_ es. read (hd es) = None \<longrightarrow> filter is_write es = [])"
    and installs: "ensures pass (\<lambda>_ es. \<forall>x. read (hd es) = Some x \<longrightarrow> \<not> deleting x \<longrightarrow> lacks x \<longrightarrow>
      list_all (install x) (filter is_write es) \<and> length (filter is_write es) \<le> 1)"
begin

text \<open>Every write is licensed by the object that was read.\<close>

lemma write_licensed:
  assumes "e \<in> set (made pass w)" "is_write e"
  shows "\<exists>x. read (hd (made pass w)) = Some x \<and> (deleting x \<or> \<not> lacks x \<or> install x e)"
proof -
  have e: "e \<in> set (filter is_write (made pass w))" using assms by simp
  obtain x where x: "read (hd (made pass w)) = Some x"
    using e ensuresD [OF absent, of w] by fastforce
  show ?thesis
  proof (cases "deleting x \<or> \<not> lacks x")
    case False
    with x ensuresD [OF installs, of w] have "list_all (install x) (filter is_write (made pass w))" by blast
    with e x show ?thesis by (simp add: list_all_iff)
  qed (use x in blast)
qed

text \<open>No write comes before the read.\<close>

lemma write_after_read:
  assumes "e \<in> set (made pass w)" "is_write e"
  shows "e \<in> set (tl (made pass w))"
  using assms ensuresD [OF reads_first, of w] by (cases "made pass w") auto

end

end
