(* ===== verification/User_Controller.thy ===== *)
theory User_Controller
  imports DevPod_Controller Finalizer
begin

section \<open>The User reconciler\<close>

text \<open>
  \<open>src/internal/controllers/user_controller.go\<close>: a finalizer that holds back the deletion of a User while
  DevPods name it as owner, and a count of those in the status.  \<open>ownedCount\<close> is an \<open>int32\<close>: it
  wraps, and it is compared as a signed number.
\<close>

abbreviation userFinalizer :: string where "userFinalizer \<equiv> ''devpod.io/user-cleanup''"

fun count_owned :: "string \<Rightarrow> devpod list \<Rightarrow> int32 \<Rightarrow> int32" where
  "count_owned n [] c = c"
| "count_owned n (d # ds) c = count_owned n ds (if dp_Owner d = n then c + 1 else c)"

definition setUserFinalizers :: "string list \<Rightarrow> user \<Rightarrow> user" where
  "setUserFinalizers fs u = u\<lparr>u_Meta := (u_Meta u)\<lparr>meta_Finalizers := fs\<rparr>\<rparr>"

definition UserReconcile :: "'s kube \<Rightarrow> string \<Rightarrow> ('s, ctrl_result \<times> go_error option) prog" where
  "UserReconcile K req = do {
     a \<leftarrow> api (EvGetUser req) (k_get_user K req);
     (case a of
        Inl e \<Rightarrow> State_Monad.return (Result0, if e = NotFound then None else Some (wrapf ''get user: %w'' e))
      | Inr u \<Rightarrow> do {
          l \<leftarrow> api (EvListDevPods None) (k_list_devpods K None);
          (case l of
             Inl e \<Rightarrow> State_Monad.return (Result0, Some (wrapf ''list devpods: %w'' e))
           | Inr ds \<Rightarrow>
               let ownedCount = count_owned (u_Name u) ds 0
               in if meta_DeletionTimestamp (u_Meta u) \<noteq> None then
                    (if sint ownedCount > 0 then State_Monad.return (Result0, None)
                     else
                       let u' = setUserFinalizers (k_removeFinalizer K userFinalizer (meta_Finalizers (u_Meta u))) u
                       in do {
                         b \<leftarrow> api (EvUpdateUser u') (k_update_user K u');
                         State_Monad.return (Result0, case b of Inl e \<Rightarrow> Some (wrapf ''clear finalizer: %w'' e) | Inr _ \<Rightarrow> None) })
                  else
                    (case k_addFinalizer K userFinalizer (meta_Finalizers (u_Meta u)) of
                       (fs, added) \<Rightarrow>
                         if added then do {
                           b \<leftarrow> api (EvUpdateUser (setUserFinalizers fs u)) (k_update_user K (setUserFinalizers fs u));
                           State_Monad.return (case b of
                             Inl e \<Rightarrow> (Result0, Some (wrapf ''add finalizer: %w'' e))
                           | Inr _ \<Rightarrow> (Result0\<lparr>Requeue := True\<rparr>, None)) }
                         else if ust_DevPodCount (u_Status u) \<noteq> ownedCount then
                           let u' = u\<lparr>u_Status := (u_Status u)\<lparr>ust_DevPodCount := ownedCount\<rparr>\<rparr>
                           in do {
                             b \<leftarrow> api (EvUpdateUserStatus u') (k_update_user_status K u');
                             State_Monad.return (Result0, case b of Inl e \<Rightarrow> Some (wrapf ''status update: %w'' e) | Inr _ \<Rightarrow> None) }
                         else State_Monad.return (Result0, None))) }) }"

text \<open>The watch function of \<open>SetupWithManager\<close>: the Users to reconcile when a DevPod changes.\<close>

definition mapDevPodToUser :: "devpod \<Rightarrow> string list" where
  "mapDevPodToUser dp = (if dp_Owner dp = [] then [] else [dp_Owner dp])"

subsection \<open>Lemmas\<close>

lemma count_owned_eq: "count_owned n ds c = c + of_nat (length (filter (\<lambda>d. dp_Owner d = n) ds))"
  by (induction ds arbitrary: c) simp_all

fun read_devpod :: "event \<Rightarrow> devpod option" where
  "read_devpod (EvGetDevPod _ (Inr dp)) = Some dp"
| "read_devpod _ = None"

fun read_user :: "event \<Rightarrow> user option" where
  "read_user (EvGetUser _ (Inr u)) = Some u"
| "read_user _ = None"

lemma ensures_made: "(\<And>w. Q (result m w) (made m w)) \<Longrightarrow> only (\<lambda>_. True) m \<Longrightarrow> ensures m Q"
  unfolding only_def ensures_def made_def result_def by (metis append_eq_conv_conj)

lemma grows_Reconcile: "only (\<lambda>_. True) (Reconcile K r req)"
  unfolding Reconcile_def by (intro only_intros grows_reconcileDevPod) auto

interpretation devpod_fin: finalizer_discipline "Reconcile K r req" read_devpod
  "\<lambda>dp. meta_DeletionTimestamp (dp_Meta dp) \<noteq> None"
  "\<lambda>dp. snd (k_addFinalizer K devpodFinalizer (meta_Finalizers (dp_Meta dp)))"
  "\<lambda>dp e. \<exists>a. e = EvUpdateDevPod (setFinalizers (fst (k_addFinalizer K devpodFinalizer (meta_Finalizers (dp_Meta dp)))) dp) a"
  for K r req
proof (unfold_locales; rule ensures_made [OF _ grows_Reconcile])
  fix w
  show "made (Reconcile K r req) w \<noteq> [] \<and> \<not> is_write (hd (made (Reconcile K r req) w))"
    by (cases rule: Reconcile_split [of K r req w]) auto
  show "read_devpod (hd (made (Reconcile K r req) w)) = None \<longrightarrow> filter is_write (made (Reconcile K r req) w) = []"
    by (cases rule: Reconcile_split [of K r req w]) auto
  have install: "ensures (reconcileDevPod K r dp) (\<lambda>_ es. list_all (\<lambda>e. \<exists>a. e = EvUpdateDevPod (setFinalizers (fst
        (k_addFinalizer K devpodFinalizer (meta_Finalizers (dp_Meta dp)))) dp) a) (filter is_write es) \<and> length (filter is_write es) \<le> 1)"
    if "meta_DeletionTimestamp (dp_Meta dp) = None" "snd (k_addFinalizer K devpodFinalizer (meta_Finalizers (dp_Meta dp)))" for dp
    using that unfolding reconcileDevPod_def by (auto simp: split_beta intro!: ensures_intros)
  show "\<forall>x. read_devpod (hd (made (Reconcile K r req) w)) = Some x \<longrightarrow> \<not> meta_DeletionTimestamp (dp_Meta x) \<noteq> None \<longrightarrow>
      snd (k_addFinalizer K devpodFinalizer (meta_Finalizers (dp_Meta x))) \<longrightarrow>
      list_all (\<lambda>e. \<exists>a. e = EvUpdateDevPod (setFinalizers (fst (k_addFinalizer K devpodFinalizer (meta_Finalizers (dp_Meta x)))) x) a)
        (filter is_write (made (Reconcile K r req) w)) \<and> length (filter is_write (made (Reconcile K r req) w)) \<le> 1"
  proof (cases rule: Reconcile_split [of K r req w])
    case (2 dp w')
    then show ?thesis using ensuresD [OF install, of dp w'] by auto
  qed auto
qed

lemmas UserReconcile_walk = UserReconcile_def Let_def

interpretation user_fin: finalizer_discipline "UserReconcile K req" read_user
  "\<lambda>u. meta_DeletionTimestamp (u_Meta u) \<noteq> None"
  "\<lambda>u. snd (k_addFinalizer K userFinalizer (meta_Finalizers (u_Meta u)))"
  "\<lambda>u e. \<exists>a. e = EvUpdateUser (setUserFinalizers (fst (k_addFinalizer K userFinalizer (meta_Finalizers (u_Meta u)))) u) a"
  for K req
proof unfold_locales
  show "ensures (UserReconcile K req) (\<lambda>_ es. es \<noteq> [] \<and> \<not> is_write (hd es))"
    unfolding UserReconcile_walk by (intro ensures_intros) auto
  show "ensures (UserReconcile K req) (\<lambda>_ es. read_user (hd es) = None \<longrightarrow> filter is_write es = [])"
    unfolding UserReconcile_walk by (intro ensures_intros) auto
  show "ensures (UserReconcile K req) (\<lambda>_ es. \<forall>x. read_user (hd es) = Some x \<longrightarrow> \<not> meta_DeletionTimestamp (u_Meta x) \<noteq> None \<longrightarrow>
      snd (k_addFinalizer K userFinalizer (meta_Finalizers (u_Meta x))) \<longrightarrow>
      list_all (\<lambda>e. \<exists>a. e = EvUpdateUser (setUserFinalizers (fst (k_addFinalizer K userFinalizer (meta_Finalizers (u_Meta x)))) x) a)
        (filter is_write es) \<and> length (filter is_write es) \<le> 1)"
    unfolding UserReconcile_walk by (intro ensures_intros) auto
qed

subsection \<open>Properties\<close>

text \<open>
  Neither the DevPod nor the User reconciler touches anything before the finalizer is in place:
  every write of a pass follows the read of its object, and is made for an object that is being
  deleted, or already carries the finalizer, or is the write that installs it and changes nothing
  else.
\<close>

theorem reconcilers_install_finalizer_first:
  assumes "is_write e" and "is_write e'"
    and "e \<in> set (made (Reconcile K r req) w)" and "e' \<in> set (made (UserReconcile K n) w')"
  shows "(\<exists>dp. read_devpod (hd (made (Reconcile K r req) w)) = Some dp \<and>
       (meta_DeletionTimestamp (dp_Meta dp) \<noteq> None \<or> \<not> snd (k_addFinalizer K devpodFinalizer (meta_Finalizers (dp_Meta dp))) \<or>
        (\<exists>a. e = EvUpdateDevPod (setFinalizers (fst (k_addFinalizer K devpodFinalizer (meta_Finalizers (dp_Meta dp)))) dp) a))) \<and>
     (\<exists>u. read_user (hd (made (UserReconcile K n) w')) = Some u \<and>
       (meta_DeletionTimestamp (u_Meta u) \<noteq> None \<or> \<not> snd (k_addFinalizer K userFinalizer (meta_Finalizers (u_Meta u))) \<or>
        (\<exists>a. e' = EvUpdateUser (setUserFinalizers (fst (k_addFinalizer K userFinalizer (meta_Finalizers (u_Meta u)))) u) a)))"
  using devpod_fin.write_licensed [OF assms(3, 1)] user_fin.write_licensed [OF assms(4, 2)] by blast

definition ex_user :: user where
  "ex_user = user0\<lparr>u_Meta := object_meta0\<lparr>meta_Name := ''alice''\<rparr>\<rparr>"

lemma ex_install_traces:
  "EvUpdateDevPod (setFinalizers [devpodFinalizer] ex_dp) (Inr (setFinalizers [devpodFinalizer] ex_dp))
     \<in> set (made (Reconcile mem_kube ex_r ex_req) (mem_world (mem0\<lparr>m_devpods := [ex_dp]\<rparr>)))"
  "EvUpdateUser (setUserFinalizers [userFinalizer] ex_user) (Inr (setUserFinalizers [userFinalizer] ex_user))
     \<in> set (made (UserReconcile mem_kube ''alice'') (mem_world (mem0\<lparr>m_users := [ex_user]\<rparr>)))"
  by code_simp+

theorem reconcilers_install_finalizer_first_witness:
  "(\<exists>dp. read_devpod (hd (made (Reconcile mem_kube ex_r ex_req) (mem_world (mem0\<lparr>m_devpods := [ex_dp]\<rparr>)))) = Some dp) \<and>
   (\<exists>u. read_user (hd (made (UserReconcile mem_kube ''alice'') (mem_world (mem0\<lparr>m_users := [ex_user]\<rparr>)))) = Some u)"
  using reconcilers_install_finalizer_first [OF _ _ ex_install_traces] by auto


definition ex_user_del :: user where
  "ex_user_del = ex_user\<lparr>u_Meta := (u_Meta ex_user)\<lparr>meta_Finalizers := [userFinalizer], meta_DeletionTimestamp := Some 1\<rparr>\<rparr>"

definition ex_bob :: devpod where
  "ex_bob = ex_dp\<lparr>dp_Spec := (dp_Spec ex_dp)\<lparr>ds_Owner := ''bob''\<rparr>\<rparr>"

abbreviation "ex_del_world \<equiv> mem_world (mem0\<lparr>m_users := [ex_user_del], m_devpods := [ex_bob]\<rparr>)"



text \<open>
  On a User with its finalizer the pass writes the status exactly when the stored count is not
  the number of DevPods of that owner, modulo \<open>2 ^ 32\<close>, and writes that number.
\<close>

theorem user_count_settles:
  assumes "hd (made (UserReconcile K n) w) = EvGetUser n (Inr u)"
    and "meta_DeletionTimestamp (u_Meta u) = None"
    and "\<not> snd (k_addFinalizer K userFinalizer (meta_Finalizers (u_Meta u)))"
    and "EvListDevPods None (Inr ds) \<in> set (made (UserReconcile K n) w)"
    and "c = of_nat (length (filter (\<lambda>d. dp_Owner d = u_Name u) ds))"
  shows "if ust_DevPodCount (u_Status u) = c then filter is_write (made (UserReconcile K n) w) = []
         else \<exists>a. filter is_write (made (UserReconcile K n) w) =
                [EvUpdateUserStatus (u\<lparr>u_Status := (u_Status u)\<lparr>ust_DevPodCount := c\<rparr>\<rparr>) a]"
proof -
  have "ensures (UserReconcile K n) (\<lambda>_ es. hd es = EvGetUser n (Inr u) \<longrightarrow> EvListDevPods None (Inr ds) \<in> set es \<longrightarrow>
     (if ust_DevPodCount (u_Status u) = c then filter is_write es = []
      else \<exists>a. filter is_write es = [EvUpdateUserStatus (u\<lparr>u_Status := (u_Status u)\<lparr>ust_DevPodCount := c\<rparr>\<rparr>) a]))"
    unfolding UserReconcile_walk using assms(2, 3) unfolding assms(5)
    by (intro ensures_intros) (auto simp: count_owned_eq)
  from ensuresD [OF this, of w] assms(1, 4) show ?thesis by blast
qed

definition ex_user_ok :: user where
  "ex_user_ok = ex_user\<lparr>u_Meta := (u_Meta ex_user)\<lparr>meta_Finalizers := [userFinalizer]\<rparr>\<rparr>"

abbreviation "ex_ok_world \<equiv> mem_world (mem0\<lparr>m_users := [ex_user_ok], m_devpods := [ex_dp, ex_bob]\<rparr>)"

lemma ex_user_ok_facts:
  "hd (made (UserReconcile mem_kube ''alice'') ex_ok_world) = EvGetUser ''alice'' (Inr ex_user_ok)"
  "EvListDevPods None (Inr [ex_dp, ex_bob]) \<in> set (made (UserReconcile mem_kube ''alice'') ex_ok_world)"
  by code_simp+

theorem user_count_settles_witness:
  "\<exists>a. filter is_write (made (UserReconcile mem_kube ''alice'') ex_ok_world) =
     [EvUpdateUserStatus (ex_user_ok\<lparr>u_Status := (u_Status ex_user_ok)\<lparr>ust_DevPodCount := 1\<rparr>\<rparr>) a]"
  using user_count_settles [OF ex_user_ok_facts(1) _ _ ex_user_ok_facts(2) refl]
  by (simp add: ex_user_ok_def ex_user_def ex_bob_def ex_dp_def user0_def object_meta0_def mem_kube_def
      devpod0_def devpod_spec0_def)

text \<open>A DevPod requeues exactly the User it counts for.\<close>

lemma mapDevPodToUser_counts:
  "n \<noteq> [] \<Longrightarrow> n \<in> set (mapDevPodToUser d) \<longleftrightarrow> count_owned n [d] 0 = 1"
  by (auto simp: mapDevPodToUser_def)

end
