(* ===== verification/Snapshot_Controller.thy ===== *)
theory Snapshot_Controller
  imports DevPod_Controller Finalizer Encoding
begin

section \<open>The DevPodSnapshot reconciler\<close>

text \<open>
  \<open>src/internal/controllers/snapshot_controller.go\<close>: inline push credentials become a Secret, then a Job commits
  the container of the running pod, and the phase of the snapshot follows the Job.  \<open>img\<close> is the field
  \<open>SnapshotImage\<close>.  \<open>pod.Spec.Containers[0]\<close> of a pod without containers is the error
  \<open>panic_index\<close>.
\<close>

subsection \<open>Pure helpers\<close>

fun extractContainerID :: "container_status list \<Rightarrow> string \<Rightarrow> go_error + string" where
  "extractContainerID [] name = Inl (Errorf ''container %q not found in pod status'' [name] None)"
| "extractContainerID (cs # css) name =
     (if cs_Name cs = name
      then if cs_ContainerID cs = []
           then Inl (Errorf ''container %q has no containerID'' [name] None)
           else Inr (case Index (cs_ContainerID cs) ''://'' of
                       Some i \<Rightarrow> drop (i + 3) (cs_ContainerID cs)
                     | None \<Rightarrow> cs_ContainerID cs)
      else extractContainerID css name)"

abbreviation dockerHub :: string where "dockerHub \<equiv> ''https://index.docker.io/v1/''"

definition registryFromImage :: "string \<Rightarrow> string" where
  "registryFromImage im =
     (case IndexByte im (CHR ''/'') of
        None \<Rightarrow> dockerHub
      | Some slash \<Rightarrow>
          let host = take slash im
          in if \<not> ContainsAny host ''.:'' then dockerHub else host)"

text \<open>The keys of the maps in the order \<open>json.Marshal\<close> sorts them.\<close>

definition buildDockerConfigJSON :: "string \<Rightarrow> string \<Rightarrow> string \<Rightarrow> string" where
  "buildDockerConfigJSON registry username password =
     (let authStr = b64_EncodeToString (username @ '':'' @ password)
      in json_Marshal (JObj [(''auths'', JObj [(registry,
           JObj [(''auth'', JStr authStr), (''password'', JStr password), (''username'', JStr username)])])]))"

subsection \<open>Status writes\<close>

definition patchSnapshot :: "'s kube \<Rightarrow> snapshot \<Rightarrow> snapshot \<Rightarrow> ('s, go_error option) prog" where
  "patchSnapshot K old new = do {
     a \<leftarrow> api (EvPatchSnapshotStatus old new) (k_patch_snapshot_status K old new);
     State_Monad.return (case a of Inl e \<Rightarrow> Some (ErrApi e) | Inr _ \<Rightarrow> None) }"

definition completeCondition :: "string \<Rightarrow> string \<Rightarrow> string \<Rightarrow> timestamp \<Rightarrow> condition" where
  "completeCondition status reason msg now =
     \<lparr>cond_Type = ''Complete'', cond_Status = status, cond_Reason = reason, cond_Message = msg,
      cond_LastTransitionTime = now\<rparr>"

definition setFailed :: "'s kube \<Rightarrow> snapshot \<Rightarrow> string \<Rightarrow> string list \<Rightarrow> ('s, go_error option) prog" where
  "setFailed K snap format args = do {
     now \<leftarrow> api EvNow (k_now K);
     let msg = Sprintf format args;
     patchSnapshot K snap (snap\<lparr>sn_Status := (sn_Status snap)\<lparr>sst_Phase := SnapshotFailed, sst_Message := msg,
       sst_Conditions := k_setStatusCondition K (sst_Conditions (sn_Status snap))
         (completeCondition ''False'' ''Failed'' msg now)\<rparr>\<rparr>) }"

definition setRunning :: "'s kube \<Rightarrow> snapshot \<Rightarrow> string \<Rightarrow> ('s, go_error option) prog" where
  "setRunning K snap jobName =
     patchSnapshot K snap (snap\<lparr>sn_Status := (sn_Status snap)\<lparr>sst_Phase := SnapshotRunning,
       sst_JobRef := Some \<lparr>jr_Name = jobName\<rparr>\<rparr>\<rparr>)"

definition setSucceeded :: "'s kube \<Rightarrow> snapshot \<Rightarrow> string \<Rightarrow> ('s, go_error option) prog" where
  "setSucceeded K snap digest = do {
     now \<leftarrow> api EvNow (k_now K);
     patchSnapshot K snap (snap\<lparr>sn_Status := (sn_Status snap)\<lparr>sst_Phase := SnapshotSucceeded, sst_Digest := digest,
       sst_Conditions := k_setStatusCondition K (sst_Conditions (sn_Status snap))
         (completeCondition ''True'' ''Succeeded'' [] now)\<rparr>\<rparr>) }"

subsection \<open>The Job and the credentials\<close>

fun snapshot_termination :: "container_status list \<Rightarrow> string" where
  "snapshot_termination [] = []"
| "snapshot_termination (cs # css) =
     (case (cs_Name cs = ''snapshot'', cs_Terminated cs) of
        (True, Some t) \<Rightarrow> TrimSpace (term_Message t)
      | _ \<Rightarrow> snapshot_termination css)"

definition extractDigest :: "'s kube \<Rightarrow> job \<Rightarrow> ('s, string) prog" where
  "extractDigest K job =
     (let ns = meta_Namespace (job_Meta job); sel = Some (''job-name'', meta_Name (job_Meta job))
      in do {
        a \<leftarrow> api (EvListPods ns sel) (k_list_pods K ns sel);
        State_Monad.return (case a of
            Inl _ \<Rightarrow> []
          | Inr ps \<Rightarrow> (case ps of [] \<Rightarrow> [] | p # _ \<Rightarrow> snapshot_termination (pst_ContainerStatuses (pod_Status p)))) })"

text \<open>The loop over the conditions of the Job: what the first decisive one says.\<close>

datatype job_verdict = JobStillRunning | JobIsComplete | JobHasFailed string

fun job_verdict_of :: "job_condition list \<Rightarrow> job_verdict" where
  "job_verdict_of [] = JobStillRunning"
| "job_verdict_of (c # cs) =
     (if jc_Type c = ''Complete'' \<and> jc_Status c = ''True'' then JobIsComplete
      else if jc_Type c = ''Failed'' \<and> jc_Status c = ''True'' then JobHasFailed (jc_Message c)
      else job_verdict_of cs)"

definition reconcileExistingJob :: "'s kube \<Rightarrow> snapshot \<Rightarrow> string \<Rightarrow> ('s, ctrl_result \<times> go_error option) prog" where
  "reconcileExistingJob K snap jobName = do {
     a \<leftarrow> api (EvGetJob (sn_Namespace snap, jobName)) (k_get_job K (sn_Namespace snap, jobName));
     (case a of
        Inl e \<Rightarrow>
          if e = NotFound
          then do { x \<leftarrow> setFailed K snap ''snapshot Job %q disappeared'' [jobName]; State_Monad.return (Result0, x) }
          else State_Monad.return (Result0, Some (wrapf ''get snapshot job: %w'' e))
      | Inr job \<Rightarrow>
          (case job_verdict_of (job_Conditions job) of
             JobIsComplete \<Rightarrow> do {
               digest \<leftarrow> extractDigest K job;
               x \<leftarrow> setSucceeded K snap digest;
               State_Monad.return (Result0, x) }
           | JobHasFailed m \<Rightarrow> do { x \<leftarrow> setFailed K snap ''snapshot Job failed: %s'' [m]; State_Monad.return (Result0, x) }
           | JobStillRunning \<Rightarrow> State_Monad.return (Result0, None))) }"

definition materializePushAuth :: "'s kube \<Rightarrow> snapshot \<Rightarrow> push_auth_inline \<Rightarrow> ('s, go_error option) prog" where
  "materializePushAuth K snap auth =
     (let dockerCfg = buildDockerConfigJSON (registryFromImage (ss_Image (sn_Spec snap))) (pa_Username auth) (pa_Password auth);
          secretName = sn_Name snap @ ''-auth'';
          sec = \<lparr>sec_Meta = object_meta0\<lparr>meta_Name := secretName, meta_Namespace := sn_Namespace snap\<rparr>,
                 sec_Type = ''kubernetes.io/dockerconfigjson'', sec_Data = [(''.dockerconfigjson'', dockerCfg)]\<rparr>
      in case k_setControllerReference K (sn_Meta snap) (sec_Meta sec) of
           Inl e \<Rightarrow> State_Monad.return (Some (wrapg ''set ownerref on auth secret: %w'' e))
         | Inr m \<Rightarrow> do {
             c \<leftarrow> api (EvCreateSecret (sec\<lparr>sec_Meta := m\<rparr>)) (k_create_secret K (sec\<lparr>sec_Meta := m\<rparr>));
             (case unless_err AlreadyExists ''create auth secret: %w'' c of
                Some e \<Rightarrow> State_Monad.return (Some e)
              | None \<Rightarrow>
                  let snap' = snap\<lparr>sn_Spec := (sn_Spec snap)\<lparr>ss_PushAuth := None,
                                ss_PushSecretRef := Some \<lparr>lor_Name = secretName\<rparr>\<rparr>\<rparr>
                  in do { u \<leftarrow> api (EvUpdateSnapshot snap') (k_update_snapshot K snap');
                          State_Monad.return (case u of Inl e \<Rightarrow> Some (ErrApi e) | Inr _ \<Rightarrow> None) }) })"

subsection \<open>Reconcile\<close>

definition failSnapshot :: "'s kube \<Rightarrow> snapshot \<Rightarrow> string \<Rightarrow> string list \<Rightarrow> ('s, ctrl_result \<times> go_error option) prog" where
  "failSnapshot K snap format args = do { x \<leftarrow> setFailed K snap format args; State_Monad.return (Result0, x) }"

text \<open>From the pod on: find the container, build the Job, create it.\<close>

definition createSnapshotJob ::
  "'s kube \<Rightarrow> string \<Rightarrow> snapshot \<Rightarrow> pod \<Rightarrow> ('s, ctrl_result \<times> go_error option) prog" where
  "createSnapshotJob K img snap p =
     (case ps_Containers (pod_Spec p) of
        [] \<Rightarrow> State_Monad.return (Result0, Some panic_index)
      | c # _ \<Rightarrow>
          (case extractContainerID (pst_ContainerStatuses (pod_Status p)) (c_Name c) of
             Inl e \<Rightarrow> failSnapshot K snap ''container ID: %v'' [Error (\<lambda>_. []) e]
           | Inr containerID \<Rightarrow>
               if ps_NodeName (pod_Spec p) = [] then failSnapshot K snap ''Pod %q has no nodeName'' [meta_Name (pod_Meta p)]
               else
                 let job = SnapshotJob snap containerID (ps_NodeName (pod_Spec p))
                             (map_option lor_Name (ss_PushSecretRef (sn_Spec snap))) img (ss_Push (sn_Spec snap))
                 in case k_setControllerReference K (sn_Meta snap) (job_Meta job) of
                      Inl e \<Rightarrow> State_Monad.return (Result0, Some (wrapg ''set ownerref on job: %w'' e))
                    | Inr m \<Rightarrow> do {
                        a \<leftarrow> api (EvCreateJob (job\<lparr>job_Meta := m\<rparr>)) (k_create_job K (job\<lparr>job_Meta := m\<rparr>));
                        (case a of
                           Inl e \<Rightarrow> State_Monad.return
                             (if e = AlreadyExists then (Result0\<lparr>Requeue := True\<rparr>, None)
                              else (Result0, Some (wrapf ''create snapshot job: %w'' e)))
                         | Inr _ \<Rightarrow> do { x \<leftarrow> setRunning K snap (meta_Name m); State_Monad.return (Result0, x) }) }))"

definition startSnapshot ::
  "'s kube \<Rightarrow> string \<Rightarrow> snapshot \<Rightarrow> ('s, ctrl_result \<times> go_error option) prog" where
  "startSnapshot K img snap =
     (let name = ss_DevPodName (sn_Spec snap); ns = sn_Namespace snap
      in do {
        a \<leftarrow> api (EvGetDevPod (ns, name)) (k_get_devpod K (ns, name));
        (case a of
           Inl e \<Rightarrow>
             if e = NotFound then failSnapshot K snap ''DevPod %q not found'' [name]
             else State_Monad.return (Result0, Some (wrapf ''get devpod: %w'' e))
         | Inr dp \<Rightarrow>
             if dst_Phase (dp_Status dp) \<noteq> DevPodRunning
             then failSnapshot K snap ''DevPod %q is not running (phase: %s)'' [name, phase_str (dst_Phase (dp_Status dp))]
             else do {
               b \<leftarrow> api (EvGetPod (ns, PodName dp)) (k_get_pod K (ns, PodName dp));
               (case b of
                  Inl e \<Rightarrow>
                    if e = NotFound then failSnapshot K snap ''Pod %q not found'' [PodName dp]
                    else State_Monad.return (Result0, Some (wrapf ''get pod: %w'' e))
                | Inr p \<Rightarrow>
                    if pst_Phase (pod_Status p) \<noteq> PodRunning
                    then failSnapshot K snap ''Pod %q is not running (phase: %s)'' [meta_Name (pod_Meta p), pst_Phase (pod_Status p)]
                    else createSnapshotJob K img snap p) }) })"

definition reconcileSnapshot ::
  "'s kube \<Rightarrow> string \<Rightarrow> snapshot \<Rightarrow> ('s, ctrl_result \<times> go_error option) prog" where
  "reconcileSnapshot K img snap =
     (if sst_Phase (sn_Status snap) = SnapshotSucceeded \<or> sst_Phase (sn_Status snap) = SnapshotFailed
      then State_Monad.return (Result0, None)
      else case ss_PushAuth (sn_Spec snap) of
             Some auth \<Rightarrow> do {
               e \<leftarrow> materializePushAuth K snap auth;
               State_Monad.return (case e of
                 Some x \<Rightarrow> (Result0, Some (wrapg ''materialize push auth: %w'' x))
               | None \<Rightarrow> (Result0\<lparr>Requeue := True\<rparr>, None)) }
           | None \<Rightarrow>
               (case sst_JobRef (sn_Status snap) of
                  Some j \<Rightarrow> reconcileExistingJob K snap (jr_Name j)
                | None \<Rightarrow> startSnapshot K img snap))"

definition SnapshotReconcile ::
  "'s kube \<Rightarrow> string \<Rightarrow> namespaced_name \<Rightarrow> ('s, ctrl_result \<times> go_error option) prog" where
  "SnapshotReconcile K img req = do {
     a \<leftarrow> api (EvGetSnapshot req) (k_get_snapshot K req);
     (case a of
        Inl e \<Rightarrow> State_Monad.return (Result0, if e = NotFound then None else Some (wrapf ''get snapshot: %w'' e))
      | Inr snap \<Rightarrow> reconcileSnapshot K img snap) }"

subsection \<open>The life of a snapshot\<close>

text \<open>
  The specification: a snapshot that is not finished may start a Job, which is then recorded; with
  a recorded Job it may succeed; it may fail at any time; a finished one stays as it is.
\<close>

definition finished :: "snapshot_phase \<Rightarrow> bool" where
  "finished ph \<longleftrightarrow> ph = SnapshotSucceeded \<or> ph = SnapshotFailed"

type_synonym life = "snapshot_phase \<times> job_ref option"

inductive lifecycle :: "life \<Rightarrow> life \<Rightarrow> bool" where
  start: "\<not> finished ph \<Longrightarrow> lifecycle (ph, None) (SnapshotRunning, Some j)"
| succeed: "\<not> finished ph \<Longrightarrow> lifecycle (ph, Some j) (SnapshotSucceeded, Some j)"
| fail: "\<not> finished ph \<Longrightarrow> lifecycle (ph, j) (SnapshotFailed, j)"

inductive_cases lifecycleE: "lifecycle s t"

definition life_of :: "snapshot \<Rightarrow> life" where
  "life_of snap = (sst_Phase (sn_Status snap), sst_JobRef (sn_Status snap))"

fun patches_by :: "(snapshot \<Rightarrow> snapshot \<Rightarrow> bool) \<Rightarrow> event \<Rightarrow> bool" where
  "patches_by R (EvPatchSnapshotStatus old new _) = R old new"
| "patches_by R _ = True"

text \<open>A status write of a pass on \<open>snap\<close>: a step of the specification that leaves the spec alone.\<close>

definition life_write :: "snapshot \<Rightarrow> snapshot \<Rightarrow> snapshot \<Rightarrow> bool" where
  "life_write snap old new \<longleftrightarrow> old = snap \<and> lifecycle (life_of snap) (life_of new) \<and>
     sn_Spec new = sn_Spec snap \<and> sn_Meta new = sn_Meta snap"

lemma setFailed_only:
  "\<not> finished (sst_Phase (sn_Status snap)) \<Longrightarrow> only (patches_by (life_write snap)) (setFailed K snap f args)"
  unfolding setFailed_def patchSnapshot_def Let_def
  by (intro only_intros) (auto simp: life_write_def life_of_def intro: lifecycle.intros)

lemma failSnapshot_only:
  "\<not> finished (sst_Phase (sn_Status snap)) \<Longrightarrow> only (patches_by (life_write snap)) (failSnapshot K snap f args)"
  unfolding failSnapshot_def by (intro only_bind setFailed_only only_return)

lemma existing_only:
  "\<not> finished (sst_Phase (sn_Status snap)) \<Longrightarrow> sst_JobRef (sn_Status snap) = Some j \<Longrightarrow>
   only (patches_by (life_write snap)) (reconcileExistingJob K snap n)"
  unfolding reconcileExistingJob_def setSucceeded_def extractDigest_def patchSnapshot_def Let_def
  by (intro only_intros only_bind [OF setFailed_only] only_bind)
     (auto split: job_verdict.split intro!: only_intros only_bind setFailed_only
       simp: life_write_def life_of_def intro: lifecycle.intros)

lemma materialize_only: "only (patches_by R) (materializePushAuth K snap auth)"
  unfolding materializePushAuth_def Let_def by (intro only_intros) auto

lemma create_only:
  "\<not> finished (sst_Phase (sn_Status snap)) \<Longrightarrow> sst_JobRef (sn_Status snap) = None \<Longrightarrow>
   only (patches_by (life_write snap)) (createSnapshotJob K img snap p)"
  unfolding createSnapshotJob_def setRunning_def patchSnapshot_def Let_def
  by (cases "ps_Containers (pod_Spec p)")
     (auto intro!: only_intros only_bind failSnapshot_only simp: life_write_def life_of_def intro: lifecycle.intros)

lemma start_only:
  "\<not> finished (sst_Phase (sn_Status snap)) \<Longrightarrow> sst_JobRef (sn_Status snap) = None \<Longrightarrow>
   only (patches_by (life_write snap)) (startSnapshot K img snap)"
  unfolding startSnapshot_def Let_def
  by (intro only_intros failSnapshot_only create_only) auto

lemma reconcileSnapshot_only: "only (patches_by (life_write snap)) (reconcileSnapshot K img snap)"
  unfolding reconcileSnapshot_def
  by (intro only_intros only_bind [OF materialize_only] existing_only start_only) (auto simp: finished_def)

lemma patches_by_mono: "patches_by R e \<Longrightarrow> (\<And>x y. R x y \<Longrightarrow> S x y) \<Longrightarrow> patches_by S e"
  by (cases e) auto

abbreviation spec_step :: "snapshot \<Rightarrow> snapshot \<Rightarrow> bool" where
  "spec_step old new \<equiv> lifecycle (life_of old) (life_of new) \<and> sn_Spec new = sn_Spec old \<and> sn_Meta new = sn_Meta old"

lemma SnapshotReconcile_only: "only (patches_by spec_step) (SnapshotReconcile K img req)"
  unfolding SnapshotReconcile_def
  by (intro only_intros only_mono [OF reconcileSnapshot_only])
     (auto elim!: patches_by_mono simp: life_write_def)

lemma Snapshot_patch_step:
  "EvPatchSnapshotStatus old new a \<in> set (made (SnapshotReconcile K img req) w) \<Longrightarrow> spec_step old new"
  using onlyD [OF SnapshotReconcile_only] by fastforce

text \<open>
  The statuses a snapshot can come to have: it is created without a Job, its status changes only by
  the patches of passes, and spec and metadata may change in between.
\<close>

inductive history :: "'s kube \<Rightarrow> string \<Rightarrow> snapshot \<Rightarrow> bool" for K img where
  created: "sst_Phase (sn_Status s) \<in> {SnapshotUnset, SnapshotPending} \<Longrightarrow> sst_JobRef (sn_Status s) = None \<Longrightarrow> history K img s"
| patched: "history K img s \<Longrightarrow> EvPatchSnapshotStatus s s' a \<in> set (made (SnapshotReconcile K img req) w) \<Longrightarrow> history K img s'"
| edited: "history K img s \<Longrightarrow> sn_Status s' = sn_Status s \<Longrightarrow> history K img s'"

lemma SnapshotReconcile_split:
  obtains e where "made (SnapshotReconcile K img req) w = [EvGetSnapshot req (Inl e)]"
  | snap w' where "made (SnapshotReconcile K img req) w = EvGetSnapshot req (Inr snap) # made (reconcileSnapshot K img snap) w'"
      "result (SnapshotReconcile K img req) w = result (reconcileSnapshot K img snap) w'"
proof (cases "fst (k_get_snapshot K req (cluster w))")
  case (Inl e)
  then show ?thesis by (intro that(1) [of e]) (simp add: SnapshotReconcile_def made_def)
next
  case (Inr snap)
  show ?thesis
    by (rule made_bind_api [where f = "k_get_snapshot K req" and w = w and ev = "EvGetSnapshot req" and
          g = "\<lambda>a. case a of Inl e \<Rightarrow> State_Monad.return (Result0, if e = NotFound then None else Some (wrapf ''get snapshot: %w'' e))
                   | Inr snap \<Rightarrow> reconcileSnapshot K img snap"])
       (auto simp: Inr SnapshotReconcile_def intro: that only_mono [OF reconcileSnapshot_only])
qed

subsection \<open>Properties of the life\<close>

text \<open>
  C13. Every status write of a pass is a step of the specified life: it starts from the snapshot that
  was read, which was not finished; it goes to Running with the Job recorded, from no Job; to
  Succeeded only with a recorded Job; or to Failed; and it changes neither spec nor metadata.
\<close>

theorem Snapshot_refines_lifecycle:
  assumes "EvPatchSnapshotStatus old new a \<in> set (made (SnapshotReconcile K img req) w)"
  shows "hd (made (SnapshotReconcile K img req) w) = EvGetSnapshot req (Inr old) \<and>
         lifecycle (life_of old) (life_of new) \<and> sn_Spec new = sn_Spec old \<and> sn_Meta new = sn_Meta old"
proof (cases rule: SnapshotReconcile_split [of K img req w])
  case (2 snap w')
  with assms have "EvPatchSnapshotStatus old new a \<in> set (made (reconcileSnapshot K img snap) w')" by auto
  from onlyD [OF reconcileSnapshot_only this] 2(1) show ?thesis by (auto simp: life_write_def)
qed (use assms in auto)

definition ex_snap :: snapshot where
  "ex_snap = \<lparr>sn_Meta = object_meta0\<lparr>meta_Name := ''s1'', meta_Namespace := ''devpods''\<rparr>,
     sn_Spec = \<lparr>ss_DevPodName = ''alice-dev'', ss_Image = ''reg.io/a:1'', ss_Push = True, ss_PushAuth = None, ss_PushSecretRef = None\<rparr>,
     sn_Status = \<lparr>sst_Phase = SnapshotPending, sst_Digest = [], sst_Message = [], sst_JobRef = None, sst_Conditions = []\<rparr>\<rparr>"

definition ex_run_pod :: pod where
  "ex_run_pod = \<lparr>pod_Meta = object_meta0\<lparr>meta_Name := ''alice-dev'', meta_Namespace := ''devpods''\<rparr>,
     pod_Spec = pod_spec0\<lparr>ps_NodeName := ''n1'', ps_Containers := [ex_container ''dev'']\<rparr>,
     pod_Status = pod_status0\<lparr>pst_Phase := ''Running'', pst_ContainerStatuses :=
       [\<lparr>cs_Name = ''dev'', cs_ContainerID = ''docker://abc'', cs_Terminated = None\<rparr>]\<rparr>\<rparr>"

definition ex_snap_mem :: mem where
  "ex_snap_mem = mem0\<lparr>m_snapshots := [ex_snap], m_pods := [ex_run_pod],
     m_devpods := [ex_dp\<lparr>dp_Status := devpod_status0\<lparr>dst_Phase := DevPodRunning\<rparr>\<rparr>]\<rparr>"

definition ex_snap_run :: snapshot where
  "ex_snap_run = ex_snap\<lparr>sn_Status := (sn_Status ex_snap)\<lparr>sst_Phase := SnapshotRunning, sst_JobRef := Some \<lparr>jr_Name = ''snapshot-s1''\<rparr>\<rparr>\<rparr>"

lemma ex_snap_patch:
  "EvPatchSnapshotStatus ex_snap ex_snap_run (Inr ex_snap_run)
     \<in> set (made (SnapshotReconcile mem_kube ''img'' (''devpods'', ''s1'')) (mem_world ex_snap_mem))"
  by code_simp

theorem Snapshot_refines_lifecycle_witness:
  "lifecycle (SnapshotPending, None) (SnapshotRunning, Some \<lparr>jr_Name = ''snapshot-s1''\<rparr>)"
  using Snapshot_refines_lifecycle [OF ex_snap_patch] by (simp add: life_of_def ex_snap_def ex_snap_run_def)

text \<open>
  C14. Over any sequence of passes and edits a snapshot that is Running or Succeeded has its Job
  recorded; and once it is Succeeded or Failed a pass on it reads it and does nothing, so those
  phases are final.
\<close>

theorem Snapshot_history_invariant:
  assumes "history K img s"
  shows "(sst_Phase (sn_Status s) \<in> {SnapshotRunning, SnapshotSucceeded} \<longrightarrow> sst_JobRef (sn_Status s) \<noteq> None) \<and>
         (finished (sst_Phase (sn_Status s)) \<longrightarrow> hd (made (SnapshotReconcile K img req) w) = EvGetSnapshot req (Inr s) \<longrightarrow>
            made (SnapshotReconcile K img req) w = [EvGetSnapshot req (Inr s)])"
proof
  show "sst_Phase (sn_Status s) \<in> {SnapshotRunning, SnapshotSucceeded} \<longrightarrow> sst_JobRef (sn_Status s) \<noteq> None"
    using assms
  proof induction
    case (patched s s' a req w)
    from Snapshot_patch_step [OF patched(2)] show ?case by (auto simp: life_of_def elim: lifecycleE)
  qed auto
  show "finished (sst_Phase (sn_Status s)) \<longrightarrow> hd (made (SnapshotReconcile K img req) w) = EvGetSnapshot req (Inr s) \<longrightarrow>
      made (SnapshotReconcile K img req) w = [EvGetSnapshot req (Inr s)]"
    by (cases rule: SnapshotReconcile_split [of K img req w])
       (auto simp: finished_def reconcileSnapshot_def made_def)
qed

theorem Snapshot_history_invariant_witness:
  "history mem_kube ''img'' ex_snap_run \<and> sst_JobRef (sn_Status ex_snap_run) \<noteq> None"
proof -
  have "history mem_kube ''img'' ex_snap" by (rule history.created) (simp_all add: ex_snap_def)
  then have "history mem_kube ''img'' ex_snap_run" by (rule history.patched) (rule ex_snap_patch)
  moreover have "sst_Phase (sn_Status ex_snap_run) = SnapshotRunning" by (simp add: ex_snap_run_def)
  ultimately show ?thesis using Snapshot_history_invariant [of mem_kube "''img''" ex_snap_run] by blast
qed

subsection \<open>Jobs and credentials\<close>

definition job_licensed :: "snapshot \<Rightarrow> event list \<Rightarrow> bool" where
  "job_licensed snap es \<longleftrightarrow>
     (\<forall>j a. EvCreateJob j a \<in> set es \<longrightarrow>
        ss_PushAuth (sn_Spec snap) = None \<and> sst_JobRef (sn_Status snap) = None \<and>
        \<not> finished (sst_Phase (sn_Status snap)) \<and>
        (\<exists>dp p. EvGetDevPod (sn_Namespace snap, ss_DevPodName (sn_Spec snap)) (Inr dp) \<in> set es \<and>
           dst_Phase (dp_Status dp) = DevPodRunning \<and>
           EvGetPod (sn_Namespace snap, PodName dp) (Inr p) \<in> set es \<and> pst_Phase (pod_Status p) = PodRunning \<and>
           ps_NodeName (job_Template j) = ps_NodeName (pod_Spec p) \<and> ps_NodeName (pod_Spec p) \<noteq> []))"

definition job_pinned :: "pod \<Rightarrow> event list \<Rightarrow> bool" where
  "job_pinned p es \<longleftrightarrow> (\<forall>j a. EvCreateJob j a \<in> set es \<longrightarrow>
     ps_NodeName (job_Template j) = ps_NodeName (pod_Spec p) \<and> ps_NodeName (pod_Spec p) \<noteq> [])"

fun not_job :: "event \<Rightarrow> bool" where
  "not_job (EvCreateJob _ _) = False"
| "not_job _ = True"

lemma setFailed_not_job: "only not_job (setFailed K snap f args)"
  unfolding setFailed_def patchSnapshot_def Let_def by (intro only_intros) auto

lemma failSnapshot_not_job: "only not_job (failSnapshot K snap f args)"
  unfolding failSnapshot_def by (intro only_bind setFailed_not_job only_return)

lemma existing_not_job: "only not_job (reconcileExistingJob K snap n)"
  unfolding reconcileExistingJob_def setSucceeded_def extractDigest_def patchSnapshot_def Let_def
  by (intro only_intros only_bind [OF setFailed_not_job])
     (auto split: job_verdict.split intro!: only_intros only_bind setFailed_not_job)

lemma materialize_not_job: "only not_job (materializePushAuth K snap auth)"
  unfolding materializePushAuth_def Let_def by (intro only_intros) auto

lemma not_jobD: "list_all not_job es \<Longrightarrow> EvCreateJob j a \<notin> set es"
  by (induction es) auto

lemma SnapshotJob_node [simp]: "ps_NodeName (job_Template (SnapshotJob snap cid node sec img push)) = node"
  by (simp add: SnapshotJob_def Let_def)

lemma job_pinned_none: "list_all not_job es \<Longrightarrow> job_pinned p es"
  unfolding job_pinned_def by (blast dest: not_jobD)

lemma create_pinned: "ensures (createSnapshotJob K img snap p) (\<lambda>_ es. job_pinned p es)"
  unfolding createSnapshotJob_def setRunning_def patchSnapshot_def Let_def
  by (intro failSnapshot_not_job [unfolded only_def, THEN ensures_mono] ensures_intros)
     (auto simp: job_pinned_def dest: not_jobD)

lemma start_licensed:
  assumes "ss_PushAuth (sn_Spec snap) = None" "sst_JobRef (sn_Status snap) = None" "\<not> finished (sst_Phase (sn_Status snap))"
  shows "ensures (startSnapshot K img snap) (\<lambda>_ es. job_licensed snap es)"
  unfolding startSnapshot_def Let_def using assms
  by (intro failSnapshot_not_job [unfolded only_def, THEN ensures_mono] create_pinned [THEN ensures_mono] ensures_intros)
     (fastforce simp: job_licensed_def job_pinned_def dest: not_jobD)+

lemma job_licensed_none: "list_all not_job es \<Longrightarrow> job_licensed snap es"
  unfolding job_licensed_def by (blast dest: not_jobD)

lemma reconcileSnapshot_licensed: "ensures (reconcileSnapshot K img snap) (\<lambda>_ es. job_licensed snap es)"
  unfolding reconcileSnapshot_def
  by (intro ensures_intros existing_not_job [unfolded only_def, THEN ensures_mono] start_licensed
        materialize_not_job [unfolded only_def, THEN ensures_mono])
     (auto simp: finished_def intro: job_licensed_none)

text \<open>
  A Job is created only for a snapshot that carries no plaintext credentials, is not finished
  and has no Job yet, after the same pass has seen the DevPod of that name Running and its pod
  Running, and the Job is pinned to the node of that pod.
\<close>

theorem Snapshot_job_licensed:
  assumes "hd (made (SnapshotReconcile K img req) w) = EvGetSnapshot req (Inr snap)"
  shows "job_licensed snap (made (SnapshotReconcile K img req) w)"
proof (cases rule: SnapshotReconcile_split [of K img req w])
  case (2 snap' w')
  with assms ensuresD [OF reconcileSnapshot_licensed [of K img snap], of w'] show ?thesis
    by (fastforce simp: job_licensed_def)
qed (simp add: job_licensed_def)

lemma ex_snap_hd:
  "hd (made (SnapshotReconcile mem_kube ''img'' (''devpods'', ''s1'')) (mem_world ex_snap_mem)) =
     EvGetSnapshot (''devpods'', ''s1'') (Inr ex_snap)"
  by code_simp

theorem Snapshot_job_licensed_witness:
  "job_licensed ex_snap (made (SnapshotReconcile mem_kube ''img'' (''devpods'', ''s1'')) (mem_world ex_snap_mem))"
  by (rule Snapshot_job_licensed [OF ex_snap_hd])

definition ex_auth :: snapshot where
  "ex_auth = ex_snap\<lparr>sn_Spec := (sn_Spec ex_snap)\<lparr>ss_PushAuth := Some \<lparr>pa_Username = ''u'', pa_Password = ''p''\<rparr>\<rparr>\<rparr>"

definition auth_moved :: "snapshot \<Rightarrow> push_auth_inline \<Rightarrow> event list \<Rightarrow> bool" where
  "auth_moved snap auth es \<longleftrightarrow>
     (case es of
        [] \<Rightarrow> True
      | EvCreateSecret sec c # rest \<Rightarrow>
          sec_Data sec = [(''.dockerconfigjson'', buildDockerConfigJSON (registryFromImage (ss_Image (sn_Spec snap)))
                             (pa_Username auth) (pa_Password auth))] \<and>
          (rest = [] \<or> (c = Inr () \<or> c = Inl AlreadyExists) \<and>
            (\<exists>a. rest = [EvUpdateSnapshot (snap\<lparr>sn_Spec := (sn_Spec snap)\<lparr>ss_PushAuth := None,
                   ss_PushSecretRef := Some \<lparr>lor_Name = sn_Name snap @ ''-auth''\<rparr>\<rparr>\<rparr>) a]))
      | _ \<Rightarrow> False)"

lemma materialize_moves: "ensures (materializePushAuth K snap auth) (\<lambda>_ es. auth_moved snap auth es)"
  unfolding materializePushAuth_def Let_def
  by (intro ensures_intros) (auto simp: auth_moved_def unless_err_None)

text \<open>
  A pass on a snapshot with inline credentials creates no Job and writes no status: it first has
  the Secret \<open><name>-auth\<close> created (or finds it there), then stores the snapshot with the
  credentials removed and the reference to that Secret set, and asks to be called again.
\<close>

theorem Snapshot_moves_credentials:
  assumes "hd (made (SnapshotReconcile K img req) w) = EvGetSnapshot req (Inr snap)"
    and "ss_PushAuth (sn_Spec snap) = Some auth" and "\<not> finished (sst_Phase (sn_Status snap))"
  shows "auth_moved snap auth (tl (made (SnapshotReconcile K img req) w)) \<and>
         (snd (result (SnapshotReconcile K img req) w) = None \<longrightarrow> Requeue (fst (result (SnapshotReconcile K img req) w)))"
proof (cases rule: SnapshotReconcile_split [of K img req w])
  case (2 snap' w')
  have "ensures (reconcileSnapshot K img snap) (\<lambda>x es. auth_moved snap auth es \<and> (snd x = None \<longrightarrow> Requeue (fst x)))"
    using assms(2, 3) unfolding reconcileSnapshot_def finished_def
    by (auto intro!: ensures_bind ensures_mono [OF materialize_moves] ensures_return split: option.splits)
  from ensuresD [OF this, of w'] 2 assms(1) show ?thesis by simp
qed (use assms in auto)

lemma ex_auth_hd:
  "hd (made (SnapshotReconcile mem_kube ''img'' (''devpods'', ''s1'')) (mem_world (mem0\<lparr>m_snapshots := [ex_auth]\<rparr>))) =
     EvGetSnapshot (''devpods'', ''s1'') (Inr ex_auth)"
  by code_simp

theorem Snapshot_moves_credentials_witness:
  "auth_moved ex_auth \<lparr>pa_Username = ''u'', pa_Password = ''p''\<rparr>
     (tl (made (SnapshotReconcile mem_kube ''img'' (''devpods'', ''s1'')) (mem_world (mem0\<lparr>m_snapshots := [ex_auth]\<rparr>))))"
  using Snapshot_moves_credentials [OF ex_auth_hd] by (simp add: ex_auth_def ex_snap_def finished_def)

text \<open>
  The \<open>auth\<close> field of the generated docker configuration decodes, as registries decode it, to
  the user name and the password, provided the user name holds no colon.
\<close>

theorem docker_auth_round_trip:
  assumes "CHR '':'' \<notin> set username"
  shows "\<exists>authStr. buildDockerConfigJSON registry username password =
             ''{'' @ json_string ''auths'' @ '':{'' @ json_string registry @ '':{'' @
             json_string ''auth'' @ '':'' @ json_string authStr @ '','' @
             json_string ''password'' @ '':'' @ json_string password @ '','' @
             json_string ''username'' @ '':'' @ json_string username @ ''}}}'' \<and>
           (\<exists>s. b64_DecodeString authStr = Some s \<and> Cut s (CHR '':'') = Some (username, password))"
  using assms
  by (intro exI [of _ "b64_EncodeToString (username @ '':'' @ password)"])
     (simp add: buildDockerConfigJSON_def Let_def b64.dec_enc)

theorem docker_auth_round_trip_witness:
  "\<exists>authStr s. b64_DecodeString authStr = Some s \<and> Cut s (CHR '':'') = Some (''alice'', ''p:w'')"
  using docker_auth_round_trip [of "''alice''" "''reg''" "''p:w''"] by auto

text \<open>
  The registry is the first path component of the image when that looks like a host, with a dot
  or a colon in it, and Docker Hub in every other case.
\<close>

theorem registryFromImage_host:
  "registryFromImage im = host \<and> host \<noteq> dockerHub \<longleftrightarrow>
     (\<exists>rest. im = host @ ''/'' @ rest \<and> CHR ''/'' \<notin> set host \<and> (CHR ''.'' \<in> set host \<or> CHR '':'' \<in> set host))"
proof (cases "IndexByte im (CHR ''/'')")
  case None
  from None have "registryFromImage im = dockerHub" unfolding registryFromImage_def by (simp only: option.case)
  moreover from None have "CHR ''/'' \<notin> set im" by simp
  ultimately show ?thesis by auto
next
  case (Some i)
  then obtain h rest where "im = h @ CHR ''/'' # rest" "CHR ''/'' \<notin> set h" "i = length h"
    by (auto simp: IndexByte_Some_iff)
  moreover from this have "registryFromImage im = (if CHR ''.'' \<in> set h \<or> CHR '':'' \<in> set h then h else dockerHub)"
    by (auto simp: registryFromImage_def IndexByte_append ContainsAny_def list_ex_iff)
  ultimately show ?thesis by (auto dest: before_unique)
qed

definition livelocked :: "ctrl_result \<times> go_error option \<Rightarrow> event list \<Rightarrow> bool" where
  "livelocked x es \<longleftrightarrow> (\<forall>j. EvCreateJob j (Inl AlreadyExists) \<in> set es \<longrightarrow>
     x = (Result0\<lparr>Requeue := True\<rparr>, None) \<and> filter is_write es = [EvCreateJob j (Inl AlreadyExists)])"

lemma livelocked_none: "list_all not_job es \<Longrightarrow> livelocked x es"
  unfolding livelocked_def by (blast dest: not_jobD)

lemma create_livelocked: "ensures (createSnapshotJob K img snap p) livelocked"
  unfolding createSnapshotJob_def setRunning_def patchSnapshot_def Let_def
  by (intro failSnapshot_not_job [unfolded only_def, THEN ensures_mono] ensures_intros)
     (auto simp: livelocked_def dest: not_jobD)

lemma reconcileSnapshot_livelocked: "ensures (reconcileSnapshot K img snap) livelocked"
  unfolding reconcileSnapshot_def startSnapshot_def Let_def
  by (intro existing_not_job [unfolded only_def, THEN ensures_mono] create_livelocked [THEN ensures_mono]
        failSnapshot_not_job [unfolded only_def, THEN ensures_mono]
        materialize_not_job [unfolded only_def, THEN ensures_mono] ensures_intros)
     (auto simp: livelocked_def dest: not_jobD)

text \<open>
  (finding) When the Job is already there, as after a crash between its creation and the status
  write, the pass records nothing: it asks to be called again, and the snapshot it finds then is the
  same.  The phase never leaves Pending while that Job exists.
\<close>

theorem Snapshot_existing_job_livelock:
  assumes "EvCreateJob j (Inl AlreadyExists) \<in> set (made (SnapshotReconcile K img req) w)"
  shows "result (SnapshotReconcile K img req) w = (Result0\<lparr>Requeue := True\<rparr>, None) \<and>
         filter is_write (made (SnapshotReconcile K img req) w) = [EvCreateJob j (Inl AlreadyExists)]"
proof (cases rule: SnapshotReconcile_split [of K img req w])
  case (2 snap w')
  from 2(1) assms have "livelocked (result (reconcileSnapshot K img snap) w') (made (reconcileSnapshot K img snap) w')"
    using ensuresD [OF reconcileSnapshot_livelocked [of K img snap], of w'] by blast
  with 2 assms show ?thesis by (auto simp: livelocked_def)
qed (use assms in auto)

definition ex_job_there :: mem where
  "ex_job_there = ex_snap_mem\<lparr>m_jobs := [SnapshotJob ex_snap ''abc'' ''n1'' None ''img'' True]\<rparr>"

fun job_exists :: "event \<Rightarrow> bool" where
  "job_exists (EvCreateJob _ (Inl AlreadyExists)) = True"
| "job_exists _ = False"

lemma job_existsD: "job_exists e \<Longrightarrow> \<exists>j. e = EvCreateJob j (Inl AlreadyExists)"
  by (cases e rule: job_exists.cases) auto

lemma ex_job_there_trace:
  "list_ex job_exists (made (SnapshotReconcile mem_kube ''img'' (''devpods'', ''s1'')) (mem_world ex_job_there))"
  by code_simp

theorem Snapshot_existing_job_livelock_witness:
  "result (SnapshotReconcile mem_kube ''img'' (''devpods'', ''s1'')) (mem_world ex_job_there) = (Result0\<lparr>Requeue := True\<rparr>, None)"
proof -
  obtain j where "EvCreateJob j (Inl AlreadyExists) \<in> set (made (SnapshotReconcile mem_kube ''img'' (''devpods'', ''s1'')) (mem_world ex_job_there))"
    using ex_job_there_trace by (auto simp: list_ex_iff dest!: job_existsD)
  from Snapshot_existing_job_livelock [OF this] show ?thesis ..
qed

end
