(* ===== verification/Controller_Watch.thy ===== *)
theory Controller_Watch
  imports User_Controller Snapshot_Controller
begin

section \<open>What wakes the reconcilers\<close>

text \<open>
  The \<open>SetupWithManager\<close> functions of \<open>src/internal/controllers\<close>: which requests a change of an object puts into the work
  queue of each controller.  Of controller-runtime this is used: a reconciler is asked for its own kind's objects by their
  key, for an object it owns by the name in the controller reference, and where a map function is given by what that
  returns; an update counts for the old and the new object; all objects count once at the start; and a request
  stays in the queue until a pass for it returns without an error.  Kinds are told apart by their names.
\<close>

datatype watched = WDevPod devpod | WUser user | WSnapshot snapshot | WObj kobj | WSecret secret | WJob job

definition controllerOf :: "object_meta \<Rightarrow> owner_ref option" where
  "controllerOf m = List.find or_Controller (meta_OwnerReferences m)"

text \<open>\<open>Owns\<close>: the owner named by the controller reference, in the namespace of the object.\<close>

definition ownerRequest :: "string \<Rightarrow> object_meta \<Rightarrow> namespaced_name list" where
  "ownerRequest kind m =
     (case controllerOf m of
        Some ref \<Rightarrow> if or_Kind ref = kind then [(meta_Namespace m, or_Name ref)] else []
      | None \<Rightarrow> [])"

fun devpodRequests :: "watched \<Rightarrow> namespaced_name list" where
  "devpodRequests (WDevPod d) = [(meta_Namespace (dp_Meta d), dp_Name d)]"
| "devpodRequests (WObj obj) = ownerRequest ''DevPod'' (obj_meta obj)"
| "devpodRequests (WSecret s) = ownerRequest ''DevPod'' (sec_Meta s)"
| "devpodRequests _ = []"

fun snapshotRequests :: "watched \<Rightarrow> namespaced_name list" where
  "snapshotRequests (WSnapshot s) = [(meta_Namespace (sn_Meta s), meta_Name (sn_Meta s))]"
| "snapshotRequests (WJob j) = ownerRequest ''DevPodSnapshot'' (job_Meta j)"
| "snapshotRequests (WSecret s) = ownerRequest ''DevPodSnapshot'' (sec_Meta s)"
| "snapshotRequests _ = []"

fun userRequests :: "watched \<Rightarrow> string list" where
  "userRequests (WUser u) = [u_Name u]"
| "userRequests (WDevPod d) = mapDevPodToUser d"
| "userRequests _ = []"

section \<open>The objects of a DevPod wake its reconciler\<close>

definition controlled_by :: "string \<Rightarrow> object_meta \<Rightarrow> bool" where
  "controlled_by n m \<longleftrightarrow> (\<exists>ref. controllerOf m = Some ref \<and> or_Kind ref = ''DevPod'' \<and> or_Name ref = n)"

text \<open>Documented behaviour of \<open>SetControllerReference\<close> on an object without references.\<close>

definition refs_law :: "'s kube \<Rightarrow> bool" where
  "refs_law K \<longleftrightarrow>
     (\<forall>owner m m'. meta_OwnerReferences m = [] \<longrightarrow> k_setControllerReference K owner m = Inr m' \<longrightarrow> controlled_by (meta_Name owner) m')"

lemma refs_lawD:
  "refs_law K \<Longrightarrow> k_setControllerReference K owner m = Inr m' \<Longrightarrow> meta_OwnerReferences m = [] \<Longrightarrow> controlled_by (meta_Name owner) m'"
  unfolding refs_law_def by blast

fun referred :: "string \<Rightarrow> event \<Rightarrow> bool" where
  "referred n (EvApply (ObjNetPol np) _) = (meta_OwnerReferences (np_Meta np) = [])"
| "referred n (EvApply (ObjPod p) _) = controlled_by n (pod_Meta p)"
| "referred n (EvApply (ObjService s) _) = controlled_by n (svc_Meta s)"
| "referred n (EvApply (ObjPVC v) _) = controlled_by n (pvc_Meta v)"
| "referred n (EvCreateSecret s _) = controlled_by n (sec_Meta s)"
| "referred n _ = True"

definition is_netpol :: "kobj \<Rightarrow> bool" where
  "is_netpol obj = (case obj of ObjNetPol _ \<Rightarrow> True | _ \<Rightarrow> False)"

lemma controlled_by_simps [simp]:
  "controlled_by n (m\<lparr>meta_ResourceVersion := v\<rparr>) = controlled_by n m" "controlled_by n (m\<lparr>meta_Annotations := as\<rparr>) = controlled_by n m"
  by (simp_all add: controlled_by_def controllerOf_def)

lemma referred_apply: "referred n (EvApply obj (Inr ())) \<Longrightarrow> only (referred n) (serverSideApply K obj)"
  unfolding serverSideApply_def Let_def
  by (intro only_intros) (cases obj; simp add: obj_meta_def)

lemma referred_applyOwned:
  assumes "refs_law K" "\<not> is_netpol obj" "meta_OwnerReferences (obj_meta obj) = []" "dp_Name dp = n"
  shows "only (referred n) (applyOwned K dp obj)"
  unfolding applyOwned_def using assms
  by (intro only_intros referred_apply) (cases obj; auto simp: is_netpol_def dest!: refs_lawD)

lemma referred_updateStatus: "only (referred n) (updateStatus K r dp)"
  unfolding updateStatus_def patchStatus_def Let_def by (intro only_intros) auto

lemma Pod_refs: "Pod dp cfg = Inr p \<Longrightarrow> meta_OwnerReferences (pod_Meta p) = []"
  by (auto simp: Pod_def Let_def ObjectMeta_def object_meta0_def split: option.splits sum.splits if_splits)

lemma referred_applyPod:
  assumes "refs_law K" "meta_OwnerReferences (pod_Meta p) = []" "dp_Name dp = n"
  shows "only (referred n) (applyPodWithDriftRecreate K dp p)"
  unfolding applyPodWithDriftRecreate_def handleFailedPod_def Let_def using assms
  by (intro only_intros only_bind [OF referred_apply] only_bind [OF only_set_requeueAfter]) (auto dest!: refs_lawD)

lemma referred_secret:
  assumes "refs_law K" "dp_Name dp = n"
  shows "only (referred n) (ensureHostKeySecret K r dp)"
  unfolding ensureHostKeySecret_def Let_def using assms
  by (intro only_intros only_bind [OF only_sys])
    (auto simp: HostKeySecret_def ObjectMeta_def object_meta0_def split: sum.splits dest!: refs_lawD)

lemma referred_pvc:
  assumes "refs_law K" "dp_Name dp = n"
  shows "only (referred n) (applyPVC K r dp)"
  unfolding applyPVC_def using assms
  by (intro only_intros referred_applyOwned)
    (auto simp: HomePVC_def ObjectMeta_def object_meta0_def obj_meta_def is_netpol_def Let_def split: option.splits)

lemma referred_netpols: "only (referred n) (applyNetPols K r dp)"
  unfolding applyNetPols_def monad_unfold applyUnowned_def
  by (intro only_intros only_bind referred_apply)
    (auto simp: DefaultDenyNetworkPolicy_def OwnerAllowNetworkPolicy_def object_meta0_def)

lemma referred_rest:
  assumes "refs_law K" "dp_Name dp = n"
  shows "only (referred n) (applyRest K r dp)"
  unfolding applyRest_def guard_err_def using assms
  by (intro only_intros only_bind referred_applyOwned referred_netpols referred_updateStatus)
    (auto simp: Service_def ObjectMeta_def object_meta0_def obj_meta_def is_netpol_def Let_def)

lemma referred_applyAll:
  assumes "kube_laws K" "refs_law K"
  shows "only (referred (dp_Name dp)) (applyAll K r dp)"
proof -
  have pod: "ensures (applyPodWithDriftRecreate K dp p) (\<lambda>x es. list_all (referred (dp_Name dp)) es \<and> dp_Name (fst x) = dp_Name dp)"
    if "Pod dp (GwConfig r) = Inr p" for p
    using ensures_conj [OF referred_applyPod [OF assms(2) Pod_refs [OF that] refl, unfolded only_def] own_write_applyPod [OF assms(1) Pod_key [OF that]]]
    by (rule ensures_mono) (simp add: same_devpod_def)
  show ?thesis
    unfolding applyAll_def guard_err_def
    by (intro only_intros only_bind_ret [OF pod] referred_rest only_bind [OF referred_secret] only_bind [OF referred_pvc] assms refl)
qed

lemma referred_finalize: "only (referred n) (finalizeDevPod K r dp)"
  unfolding finalizeDevPod_def detachPVC_def cleanupOwnerNetPolIfLast_def Let_def by (intro only_intros only_bind) auto

lemma referred_reconcile:
  assumes "kube_laws K" "refs_law K"
  shows "only (referred (dp_Name dp)) (reconcileDevPod K r dp)"
  unfolding reconcileDevPod_def hibernate_def Let_def
  using assms by (intro only_intros only_bind referred_updateStatus referred_applyAll referred_finalize) auto

lemma referred_requests:
  assumes "own_write r dp e" "referred (dp_Name dp) e"
  shows "case e of
      EvApply obj _ \<Rightarrow> devpodRequests (WObj obj) = (if is_netpol obj then [] else [(gc_DevPodNamespace (GwConfig r), dp_Name dp)])
    | EvCreateSecret s _ \<Rightarrow> devpodRequests (WSecret s) = [(gc_DevPodNamespace (GwConfig r), dp_Name dp)]
    | _ \<Rightarrow> True"
proof (cases e)
  case (EvApply obj a)
  with assms show ?thesis
    by (cases obj) (auto simp: ownerRequest_def controlled_by_def controllerOf_def is_netpol_def obj_key_def obj_meta_def)
qed (use assms in \<open>auto simp: ownerRequest_def controlled_by_def\<close>)

text \<open>
  C18. Everything a pass of the DevPod reconciler creates or applies brings the reconciler back when it changes or is deleted:
  the Pod, the Service, the claim and the Secret carry the reference from which the watch makes the request for this
  DevPod. The network policies do not: they are applied without a reference, so the watch that
  \<open>SetupWithManager\<close> registers for them never makes a request, and a policy deleted by hand stays away.
\<close>

theorem applied_objects_watched:
  assumes "kube_laws K" "refs_law K" "made (Reconcile K r req) w = EvGetDevPod req (Inr dp) # es" "e \<in> set es"
  shows "case e of
      EvApply obj _ \<Rightarrow> devpodRequests (WObj obj) = (if is_netpol obj then [] else [(gc_DevPodNamespace (GwConfig r), dp_Name dp)])
    | EvCreateSecret s _ \<Rightarrow> devpodRequests (WSecret s) = [(gc_DevPodNamespace (GwConfig r), dp_Name dp)]
    | _ \<Rightarrow> True"
proof (cases rule: Reconcile_split [of K r req w])
  case (2 dp' w')
  with assms(3) have "dp' = dp" "es = made (reconcileDevPod K r dp) w'" by auto
  with onlyD [OF own_write_reconcileDevPod [OF assms(1)]] onlyD [OF referred_reconcile [OF assms(1,2)]] assms(4)
  show ?thesis by (intro referred_requests) blast+
qed (use assms in simp)

section \<open>A User that waits for its last DevPod\<close>

text \<open>
  The queue of the User controller next to what its caches show of the cluster.  The events of the DevPods and Users
  change the view and fill the queue; a pass runs \<open>UserReconcile\<close> on the view and takes its request out, unless it
  failed or asked to come again; what it wrote comes back as an event.
\<close>

type_synonym watch_state = "mem \<times> string list"

definition after_pass :: "string \<Rightarrow> ctrl_result \<times> go_error option \<Rightarrow> event list \<Rightarrow> string list \<Rightarrow> string list" where
  "after_pass n r es q =
     filter (\<lambda>x. x \<noteq> n) q @ (if Requeue (fst r) \<or> snd r \<noteq> None then [n] else []) @
     concat (map (\<lambda>e. case e of EvUpdateUser u (Inr _) \<Rightarrow> userRequests (WUser u) | EvUpdateUserStatus u (Inr _) \<Rightarrow> userRequests (WUser u) | _ \<Rightarrow> []) es)"

inductive user_watch :: "watch_state \<Rightarrow> watch_state \<Rightarrow> bool" where
  devpod_added: "user_watch (m, q) (m\<lparr>m_devpods := m_devpods m @ [d]\<rparr>, q @ userRequests (WDevPod d))"
| devpod_updated: "m_devpods m = xs @ d # ys \<Longrightarrow>
    user_watch (m, q) (m\<lparr>m_devpods := xs @ d' # ys\<rparr>, q @ userRequests (WDevPod d) @ userRequests (WDevPod d'))"
| devpod_deleted: "m_devpods m = xs @ d # ys \<Longrightarrow>
    user_watch (m, q) (m\<lparr>m_devpods := xs @ ys\<rparr>, q @ userRequests (WDevPod d))"
| user_added: "user_watch (m, q) (m\<lparr>m_users := m_users m @ [u]\<rparr>, q @ userRequests (WUser u))"
| user_updated: "m_users m = xs @ u # ys \<Longrightarrow> u_Name u' = u_Name u \<Longrightarrow>
    user_watch (m, q) (m\<lparr>m_users := xs @ u' # ys\<rparr>, q @ userRequests (WUser u) @ userRequests (WUser u'))"
| user_deleted: "m_users m = xs @ u # ys \<Longrightarrow> user_watch (m, q) (m\<lparr>m_users := xs @ ys\<rparr>, q @ userRequests (WUser u))"
| pass_done: "n \<in> set q \<Longrightarrow>
    user_watch (m, q) (cluster (snd (run_state (UserReconcile mem_kube n) (mem_world m))),
      after_pass n (result (UserReconcile mem_kube n) (mem_world m)) (made (UserReconcile mem_kube n) (mem_world m)) q)"
| pass_failed: "n \<in> set q \<Longrightarrow> user_watch (m, q) (m, q)"

text \<open>At the start every object is an event.\<close>

definition user_start :: "mem \<Rightarrow> watch_state" where
  "user_start m = (m, concat (map (\<lambda>u. userRequests (WUser u)) (m_users m)) @ concat (map (\<lambda>d. userRequests (WDevPod d)) (m_devpods m)))"

definition awaits :: "string \<Rightarrow> mem \<Rightarrow> bool" where
  "awaits n m \<longleftrightarrow>
     (\<exists>u. look u_Name n (m_users m) = Inr u \<and> meta_DeletionTimestamp (u_Meta u) \<noteq> None \<and> userFinalizer \<in> set (meta_Finalizers (u_Meta u))) \<and>
     (\<forall>d\<in>set (m_devpods m). dp_Owner d \<noteq> n)"

lemma look_append: "look key k (xs @ ys) = (case look key k xs of Inr x \<Rightarrow> Inr x | Inl _ \<Rightarrow> look key k ys)"
  by (induction xs) (auto split: sum.splits)

lemma look_upsert: "look key k (upsert key x xs) = (if key x = k then Inr x else look key k xs)"
  by (induction xs) (auto simp: upsert_def look_append split: sum.splits)

text \<open>What a pass does to the view, when the store does not fail.\<close>

lemma mem_user_ops [simp]:
  "k_get_user mem_kube = (\<lambda>n s. (look u_Name n (m_users s), s))" "k_list_devpods mem_kube None = (\<lambda>s. (Inr (m_devpods s), s))"
  "k_update_user mem_kube = (\<lambda>u s. (Inr u, s\<lparr>m_users := upsert u_Name u (m_users s)\<rparr>))"
  "k_update_user_status mem_kube = (\<lambda>u s. (Inr u, s\<lparr>m_users := upsert u_Name u (m_users s)\<rparr>))"
  "k_removeFinalizer mem_kube = (\<lambda>f fs. filter (\<lambda>g. g \<noteq> f) fs)"
  "k_addFinalizer mem_kube = (\<lambda>f fs. if f \<in> set fs then (fs, False) else (fs @ [f], True))"
  by (auto simp: mem_kube_def)

definition view_after :: "string \<Rightarrow> mem \<Rightarrow> mem" where
  "view_after n m = cluster (snd (run_state (UserReconcile mem_kube n) (mem_world m)))"

text \<open>The User a pass writes, if it writes one.\<close>

definition passWrite :: "user \<Rightarrow> devpod list \<Rightarrow> user option" where
  "passWrite u ds =
     (let owned = count_owned (u_Name u) ds 0
      in if meta_DeletionTimestamp (u_Meta u) \<noteq> None
         then (if sint owned > 0 then None else Some (setUserFinalizers (filter (\<lambda>g. g \<noteq> userFinalizer) (meta_Finalizers (u_Meta u))) u))
         else if userFinalizer \<notin> set (meta_Finalizers (u_Meta u))
         then Some (setUserFinalizers (meta_Finalizers (u_Meta u) @ [userFinalizer]) u)
         else if ust_DevPodCount (u_Status u) \<noteq> owned then Some (u\<lparr>u_Status := (u_Status u)\<lparr>ust_DevPodCount := owned\<rparr>\<rparr>)
         else None)"

lemma view_after_eq:
  "view_after n m =
     (case look u_Name n (m_users m) of
        Inl _ \<Rightarrow> m
      | Inr u \<Rightarrow> (case passWrite u (m_devpods m) of None \<Rightarrow> m | Some u' \<Rightarrow> m\<lparr>m_users := upsert u_Name u' (m_users m)\<rparr>))"
  by (cases "look u_Name n (m_users m)")
    (simp_all add: view_after_def UserReconcile_def mem_world_def passWrite_def Let_def)

lemma passWrite_keeps:
  assumes "passWrite u ds = Some u'"
  shows "u_Name u' = u_Name u" "meta_DeletionTimestamp (u_Meta u') = meta_DeletionTimestamp (u_Meta u)"
  using assms by (auto simp: passWrite_def Let_def setUserFinalizers_def split: if_splits)

lemma passWrite_clears:
  assumes "meta_DeletionTimestamp (u_Meta u) \<noteq> None" "\<forall>d\<in>set ds. dp_Owner d \<noteq> u_Name u"
  shows "passWrite u ds = Some (setUserFinalizers (filter (\<lambda>g. g \<noteq> userFinalizer) (meta_Finalizers (u_Meta u))) u)"
proof -
  have "filter (\<lambda>d. dp_Owner d = u_Name u) ds = []" using assms(2) by (simp add: filter_empty_conv)
  with assms(1) show ?thesis by (simp add: passWrite_def count_owned_eq)
qed

lemma view_after_other:
  "m_devpods (view_after n m) = m_devpods m" "k \<noteq> n \<Longrightarrow> look u_Name k (m_users (view_after n m)) = look u_Name k (m_users m)"
  by (auto simp: view_after_eq look_upsert split: sum.splits option.splits dest!: look_Inr passWrite_keeps(1))

text \<open>After its own pass nobody waits: the finalizer is gone, or a DevPod or no deletion holds it.\<close>

lemma view_after_self: "\<not> awaits n (view_after n m)"
proof
  assume a: "awaits n (view_after n m)"
  then obtain u' where u': "look u_Name n (m_users (view_after n m)) = Inr u'" "meta_DeletionTimestamp (u_Meta u') \<noteq> None"
    "userFinalizer \<in> set (meta_Finalizers (u_Meta u'))" and none: "\<forall>d\<in>set (m_devpods m). dp_Owner d \<noteq> n"
    by (auto simp: awaits_def view_after_other)
  then obtain u where u: "look u_Name n (m_users m) = Inr u" by (auto simp: view_after_eq split: sum.splits)
  then have n: "u_Name u = n" by (auto dest: look_Inr)
  show False
  proof (cases "passWrite u (m_devpods m)")
    case None
    with u u' have "u' = u" by (simp add: view_after_eq)
    with None u'(2) none n passWrite_clears [of u "m_devpods m"] show False by simp
  next
    case (Some v)
    with u u' n passWrite_keeps [OF Some] have "u' = v" by (simp add: view_after_eq look_upsert)
    with Some u' none n passWrite_keeps [OF Some] passWrite_clears [of u "m_devpods m"] show False by (auto simp: setUserFinalizers_def)
  qed
qed

section \<open>No wake-up is lost\<close>

definition wakes :: "string \<Rightarrow> watch_state \<Rightarrow> bool" where
  "wakes n S \<longleftrightarrow> (awaits n (fst S) \<longrightarrow> n \<in> set (snd S))"

lemma requests_owner: "n \<noteq> [] \<Longrightarrow> dp_Owner d = n \<Longrightarrow> n \<in> set (userRequests (WDevPod d))"
  by (simp add: mapDevPodToUser_def)

lemma after_pass_keeps: "k \<in> set q \<Longrightarrow> k \<noteq> n \<Longrightarrow> k \<in> set (after_pass n r es q)"
  by (simp add: after_pass_def)

lemma wakes_step: "user_watch S S' \<Longrightarrow> n \<noteq> [] \<Longrightarrow> wakes n S \<Longrightarrow> wakes n S'"
proof (induction rule: user_watch.induct)
  case (devpod_updated m xs d ys q d')
  then show ?case by (cases "dp_Owner d = n") (auto simp: wakes_def awaits_def dest: requests_owner)
next
  case (devpod_deleted m xs d ys q)
  then show ?case by (cases "dp_Owner d = n") (auto simp: wakes_def awaits_def dest: requests_owner)
next
  case (user_added m q u)
  then show ?case by (cases "u_Name u = n") (auto simp: wakes_def awaits_def look_append split: sum.splits)
next
  case (user_updated m xs u ys u' q)
  then show ?case by (cases "u_Name u = n") (auto simp: wakes_def awaits_def look_append split: sum.splits)
next
  case (user_deleted m xs u ys q)
  then show ?case by (cases "u_Name u = n") (auto simp: wakes_def awaits_def look_append split: sum.splits)
next
  case (pass_done k q m)
  then show ?case
    using view_after_self [of k m] view_after_other [where n = k and m = m]
    by (cases "k = n") (auto simp: wakes_def awaits_def simp flip: view_after_def intro!: after_pass_keeps)
qed (auto simp: wakes_def awaits_def)

lemma wakes_start: "wakes n (user_start m)"
  by (auto simp: wakes_def user_start_def awaits_def dest!: look_Inr)

lemma wakes_reach: "user_watch\<^sup>*\<^sup>* (user_start m) S \<Longrightarrow> n \<noteq> [] \<Longrightarrow> wakes n S"
  by (induction rule: rtranclp_induct) (auto intro: wakes_start wakes_step)

text \<open>
  C17. The release of a User is never forgotten. Whenever, after any sequence of events and passes, a User is being deleted,
  still has the finalizer and no DevPod names it as owner, a request for it is in the queue; and the pass for that
  request, if no call fails, removes the finalizer.
\<close>

theorem user_release_not_forgotten:
  assumes "user_watch\<^sup>*\<^sup>* (user_start m0) (m, q)" "n \<noteq> []" "look u_Name n (m_users m) = Inr u"
    "meta_DeletionTimestamp (u_Meta u) \<noteq> None" "userFinalizer \<in> set (meta_Finalizers (u_Meta u))"
    "\<forall>d\<in>set (m_devpods m). dp_Owner d \<noteq> n"
  shows "n \<in> set q \<and>
    (\<exists>u'. look u_Name n (m_users (cluster (snd (run_state (UserReconcile mem_kube n) (mem_world m))))) = Inr u' \<and>
       userFinalizer \<notin> set (meta_Finalizers (u_Meta u')))"
proof
  have "awaits n m" using assms(3-6) by (auto simp: awaits_def)
  with wakes_reach [OF assms(1,2)] show "n \<in> set q" by (simp add: wakes_def)
  have "u_Name u = n" using assms(3) by (auto dest: look_Inr)
  with assms(3-6) passWrite_clears [of u "m_devpods m"]
  have "look u_Name n (m_users (view_after n m)) = Inr (setUserFinalizers (filter (\<lambda>g. g \<noteq> userFinalizer) (meta_Finalizers (u_Meta u))) u)"
    by (simp add: view_after_eq look_upsert setUserFinalizers_def)
  then show "\<exists>u'. look u_Name n (m_users (cluster (snd (run_state (UserReconcile mem_kube n) (mem_world m))))) = Inr u' \<and>
      userFinalizer \<notin> set (meta_Finalizers (u_Meta u'))"
    by (auto simp: view_after_def setUserFinalizers_def)
qed

subsection \<open>Examples\<close>

text \<open>A User in deletion whose one DevPod goes away, after a pass that had to leave the finalizer.\<close>

definition ex_leaving :: user where
  "ex_leaving = user0\<lparr>u_Meta := object_meta0\<lparr>meta_Name := ''alice'', meta_Finalizers := [userFinalizer], meta_DeletionTimestamp := Some 5\<rparr>\<rparr>"

definition ex_waiting :: mem where
  "ex_waiting = mem0\<lparr>m_users := [ex_leaving], m_devpods := [ex_dp]\<rparr>"

lemma ex_forgotten: "user_watch\<^sup>*\<^sup>* (user_start ex_waiting) (ex_waiting\<lparr>m_devpods := []\<rparr>, [''alice''])"
proof -
  have start: "user_start ex_waiting = (ex_waiting, [''alice'', ''alice''])"
    by (simp add: user_start_def ex_waiting_def ex_leaving_def mem0_def mapDevPodToUser_def ex_dp_fields)
  have one: "passWrite ex_leaving [ex_dp] = None"
    by (simp add: passWrite_def ex_leaving_def ex_dp_fields)
  have look: "look u_Name ''alice'' (m_users ex_waiting) = Inr ex_leaving" "m_devpods ex_waiting = [ex_dp]"
    by (simp_all add: ex_waiting_def ex_leaving_def)
  have quiet: "run_state (UserReconcile mem_kube ''alice'') (mem_world ex_waiting) =
      ((Result0, None), (mem_world ex_waiting)\<lparr>calls := [EvGetUser ''alice'' (Inr ex_leaving), EvListDevPods None (Inr [ex_dp])]\<rparr>)"
    using look by (simp add: UserReconcile_def mem_world_def ex_leaving_def ex_dp_fields Let_def)
  have "user_watch (ex_waiting, [''alice'', ''alice'']) (ex_waiting, [])"
    using pass_done [of "''alice''" "[''alice'', ''alice'']" ex_waiting]
    by (simp add: quiet after_pass_def result_def made_def) (simp add: mem_world_def)
  moreover have "user_watch (ex_waiting, []) (ex_waiting\<lparr>m_devpods := []\<rparr>, [''alice''])"
    using devpod_deleted [of ex_waiting "[]" ex_dp "[]" "[]"] by (simp add: ex_waiting_def mapDevPodToUser_def ex_dp_fields)
  ultimately show ?thesis unfolding start by (meson r_into_rtranclp rtranclp_trans)
qed

theorem user_release_not_forgotten_witness:
  "\<exists>u'. look u_Name ''alice'' (m_users (cluster (snd (run_state (UserReconcile mem_kube ''alice'') (mem_world (ex_waiting\<lparr>m_devpods := []\<rparr>)))))) = Inr u' \<and>
     userFinalizer \<notin> set (meta_Finalizers (u_Meta u'))"
  using user_release_not_forgotten [OF ex_forgotten, of "''alice''" ex_leaving] by (simp add: ex_waiting_def ex_leaving_def)

lemma mem_refs_law: "refs_law mem_kube"
  by (auto simp: refs_law_def mem_kube_def controlled_by_def controllerOf_def)

definition ex_kept :: devpod where
  "ex_kept = setFinalizers [devpodFinalizer] ex_dp"

fun secret_of :: "event \<Rightarrow> secret option" where
  "secret_of (EvCreateSecret s _) = Some s"
| "secret_of _ = None"

lemma ex_pass:
  "\<exists>es s. made (Reconcile mem_kube ex_r (''devpods'', ''alice-dev'')) (mem_world (mem0\<lparr>m_devpods := [ex_kept]\<rparr>)) =
     EvGetDevPod (''devpods'', ''alice-dev'') (Inr ex_kept) # es \<and> EvCreateSecret s (Inr ()) \<in> set es"
proof -
  let ?w = "mem_world (mem0\<lparr>m_devpods := [ex_kept]\<rparr>)"
  have "case made (Reconcile mem_kube ex_r (''devpods'', ''alice-dev'')) ?w of
      [] \<Rightarrow> False
    | e # es \<Rightarrow> e = EvGetDevPod (''devpods'', ''alice-dev'') (Inr ex_kept) \<and>
        list_ex (\<lambda>e. case secret_of e of None \<Rightarrow> False | Some s \<Rightarrow> e = EvCreateSecret s (Inr ())) es"
    by code_simp
  then show ?thesis by (auto simp: list_ex_iff split: list.splits option.splits)
qed

theorem applied_objects_watched_witness:
  "\<exists>es s. made (Reconcile mem_kube ex_r (''devpods'', ''alice-dev'')) (mem_world (mem0\<lparr>m_devpods := [ex_kept]\<rparr>)) =
     EvGetDevPod (''devpods'', ''alice-dev'') (Inr ex_kept) # es \<and> EvCreateSecret s (Inr ()) \<in> set es \<and>
     devpodRequests (WSecret s) = [(gc_DevPodNamespace (GwConfig ex_r), dp_Name ex_kept)]"
proof -
  obtain es s where es: "made (Reconcile mem_kube ex_r (''devpods'', ''alice-dev'')) (mem_world (mem0\<lparr>m_devpods := [ex_kept]\<rparr>)) =
     EvGetDevPod (''devpods'', ''alice-dev'') (Inr ex_kept) # es" "EvCreateSecret s (Inr ()) \<in> set es"
    using ex_pass by blast
  from applied_objects_watched [OF mem_kube_laws mem_refs_law es] es show ?thesis by auto
qed

end
