(* ===== verification/Gateway_Login.thy ===== *)
theory Gateway_Login
  imports Encoding Mem_Cluster
begin

section \<open>Gateway: names, hosts and filters\<close>

text \<open>
  The parsers of the gateway: \<open>login_name.go\<close>, \<open>httpproxy.go\<close>, \<open>ldap_escape.go\<close> of
  \<open>src/internal/gateway\<close>, and the functions \<open>SplitHostPort\<close> and \<open>JoinHostPort\<close> of the package
  \<open>net\<close> they rest on.  The regular expression of \<open>login_name.go\<close> is written out: the
  separator is not in the character class, so the first \<open>+\<close> is the only place to cut.
\<close>

subsection \<open>login\_name.go\<close>

definition labelChar :: "char \<Rightarrow> bool" where
  "labelChar c = (let v = (of_char c :: nat) in (97 \<le> v \<and> v \<le> 122) \<or> (48 \<le> v \<and> v \<le> 57) \<or> c = CHR ''-'')"

definition isLabel :: "string \<Rightarrow> bool" where
  "isLabel s = (1 \<le> length s \<and> length s \<le> 32 \<and> list_all labelChar s)"

abbreviation ErrInvalidLoginName :: go_error where
  "ErrInvalidLoginName \<equiv> ErrSentinel ''invalid login name''"

definition ParseLoginName :: "string \<Rightarrow> go_error + string \<times> string" where
  "ParseLoginName s =
     (case Cut s (CHR ''+'') of
        Some (owner, pod) \<Rightarrow>
          if isLabel owner \<and> isLabel pod then Inr (owner, pod)
          else Inl (Errorf ''%w: %q'' [s] (Some ErrInvalidLoginName))
      | None \<Rightarrow> Inl (Errorf ''%w: %q'' [s] (Some ErrInvalidLoginName)))"

definition DevPodResourceName :: "string \<Rightarrow> string \<Rightarrow> string" where
  "DevPodResourceName owner pod = owner @ ''-'' @ pod"

subsection \<open>Package net\<close>

definition splitRest :: "string \<Rightarrow> string \<Rightarrow> nat \<Rightarrow> nat \<Rightarrow> nat \<Rightarrow> go_error + string \<times> string" where
  "splitRest hostport host i j k =
     (if CHR ''['' \<in> set (drop j hostport) then Inl (Errorf ''address %s: unexpected '[' in address'' [hostport] None)
      else if CHR '']'' \<in> set (drop k hostport) then Inl (Errorf ''address %s: unexpected ']' in address'' [hostport] None)
      else Inr (host, drop (Suc i) hostport))"

abbreviation missingPort :: "string \<Rightarrow> go_error" where
  "missingPort hp \<equiv> Errorf ''address %s: missing port in address'' [hp] None"
abbreviation tooManyColons :: "string \<Rightarrow> go_error" where
  "tooManyColons hp \<equiv> Errorf ''address %s: too many colons in address'' [hp] None"

definition SplitHostPort :: "string \<Rightarrow> go_error + string \<times> string" where
  "SplitHostPort hostport =
     (case LastIndexByte hostport (CHR '':'') of
        None \<Rightarrow> Inl (missingPort hostport)
      | Some i \<Rightarrow>
          if HasPrefix hostport ''['' then
            (case IndexByte hostport (CHR '']'') of
               None \<Rightarrow> Inl (Errorf ''address %s: missing ']' in address'' [hostport] None)
             | Some e \<Rightarrow>
                 if Suc e = length hostport then Inl (missingPort hostport)
                 else if Suc e \<noteq> i then
                   Inl (if hostport ! Suc e = CHR '':'' then tooManyColons hostport else missingPort hostport)
                 else splitRest hostport (take (e - 1) (drop 1 hostport)) i 1 (Suc e))
          else
            let host = take i hostport
            in if CHR '':'' \<in> set host then Inl (tooManyColons hostport)
               else splitRest hostport host i 0 0)"

definition JoinHostPort :: "string \<Rightarrow> string \<Rightarrow> string" where
  "JoinHostPort host port =
     (if CHR '':'' \<in> set host then ''['' @ host @ '']:'' @ port else host @ '':'' @ port)"

subsection \<open>httpproxy.go\<close>

record http_proxy =
  hp_dpNS :: string
  hp_baseDomain :: string
  hp_suffix :: string

definition parseSubdomain :: "string \<Rightarrow> go_error + string \<times> int" where
  "parseSubdomain s =
     (case LastIndexByte s (CHR ''-'') of
        None \<Rightarrow> Inl (Errorf ''invalid format: expected {name}-{port}, got %q'' [s] None)
      | Some idx \<Rightarrow>
          if idx < 1 then Inl (Errorf ''invalid format: expected {name}-{port}, got %q'' [s] None)
          else case Atoi (drop (Suc idx) s) of
                 None \<Rightarrow> Inl (Errorf ''invalid port in %q'' [s] None)
               | Some port \<Rightarrow>
                   if port < 1 \<or> port > 65535 then Inl (Errorf ''invalid port in %q'' [s] None)
                   else Inr (take idx s, port))"

text \<open>What \<open>ServeHTTP\<close> does with a request: an error page, or a reverse proxy to a host.\<close>

datatype http_outcome = HttpError nat string | ProxyTo string

text \<open>The host name of the request, reduced to what \<open>parseSubdomain\<close> gets.\<close>

definition subdomainOf :: "http_proxy \<Rightarrow> string \<Rightarrow> string option" where
  "subdomainOf p rHost =
     (let host = (case SplitHostPort rHost of Inr (h, _) \<Rightarrow> h | Inl _ \<Rightarrow> rHost);
          domainSuffix = ''.'' @ hp_baseDomain p
      in if \<not> HasSuffix host domainSuffix then None
         else
           let subdomain = TrimSuffix host domainSuffix
           in if hp_suffix p \<noteq> [] then
                (if \<not> HasSuffix subdomain (hp_suffix p) then None else Some (TrimSuffix subdomain (hp_suffix p)))
              else Some subdomain)"

definition ServeHTTP :: "'s kube \<Rightarrow> http_proxy \<Rightarrow> string \<Rightarrow> ('s, http_outcome) prog" where
  "ServeHTTP K p rHost =
     (case subdomainOf p rHost of
        None \<Rightarrow> State_Monad.return (HttpError 400 ''invalid host'')
      | Some subdomain \<Rightarrow>
          (case parseSubdomain subdomain of
             Inl e \<Rightarrow> State_Monad.return (HttpError 400 (Error (\<lambda>_. []) e))
           | Inr (name, port) \<Rightarrow> do {
               a \<leftarrow> api (EvGetDevPod (hp_dpNS p, name)) (k_get_devpod K (hp_dpNS p, name));
               State_Monad.return (case a of
                   Inl _ \<Rightarrow> HttpError 404 ''devpod not found''
                 | Inr dp \<Rightarrow>
                     if dst_Phase (dp_Status dp) \<noteq> DevPodRunning \<or> dst_Endpoint (dp_Status dp) = []
                     then HttpError 503 ''devpod not running''
                     else case SplitHostPort (dst_Endpoint (dp_Status dp)) of
                            Inl _ \<Rightarrow> HttpError 500 ''invalid endpoint''
                          | Inr (podIP, _) \<Rightarrow> ProxyTo (JoinHostPort podIP (Itoa port))) }))"

subsection \<open>ldap\_escape.go\<close>

definition filterMeta :: "char \<Rightarrow> bool" where
  "filterMeta c = (c \<in> {bslash, CHR 0x00, CHR ''('', CHR '')'', CHR ''*''})"

definition escape_byte :: "char \<Rightarrow> string" where
  "escape_byte c =
     (if c = bslash then [bslash] @ ''5c''
      else if c = CHR 0x00 then [bslash] @ ''00''
      else if c = CHR ''('' then [bslash] @ ''28''
      else if c = CHR '')'' then [bslash] @ ''29''
      else if c = CHR ''*'' then [bslash] @ ''2a''
      else [c])"

definition escapeRFC4515 :: "string \<Rightarrow> string" where
  "escapeRFC4515 s =
     (if s = [] then s
      else if \<not> list_ex filterMeta s then s
      else concat (map escape_byte s))"

text \<open>How a directory server reads a value back (RFC 4515, section 3).\<close>

fun unescape_byte :: "string \<Rightarrow> (char \<times> string) option" where
  "unescape_byte [] = None"
| "unescape_byte (c # r) =
     (if c = bslash then unhex_byte r
      else if filterMeta c then None
      else Some (c, r))"

subsection \<open>Lemmas\<close>

lemma hex_of_meta:
  "hex_byte bslash = ''5c''" "hex_byte (CHR 0x00) = ''00''" "hex_byte (CHR ''('') = ''28''"
  "hex_byte (CHR '')'') = ''29''" "hex_byte (CHR ''*'') = ''2a''"
  by code_simp+

lemma escape_byte_eq: "escape_byte c = (if filterMeta c then bslash # hex_byte c else [c])"
proof (cases "filterMeta c")
  case True
  then consider "c = bslash" | "c = CHR 0x00" | "c = CHR ''(''" | "c = CHR '')''" | "c = CHR ''*''"
    unfolding filterMeta_def by blast
  then show ?thesis by cases (simp_all add: escape_byte_def filterMeta_def hex_of_meta)
qed (simp add: escape_byte_def filterMeta_def)

lemma filterMeta_bslash [simp]: "filterMeta bslash"
  by (simp add: filterMeta_def)

interpretation ldap_filter: char_codec escape_byte unescape_byte
proof
  fix c s
  show "unescape_byte (escape_byte c @ s) = Some (c, s)"
    using hex.unesc_esc [of c s] by (cases "c = bslash") (auto simp: escape_byte_eq)
  show "escape_byte c \<noteq> []" by (simp add: escape_byte_eq)
qed

lemma escape_byte_clean:
  assumes "x \<in> set (escape_byte c)"
  shows "x \<notin> {CHR ''('', CHR '')'', CHR ''*'', CHR 0x00}"
proof (cases "filterMeta c")
  case True
  then consider "c = bslash" | "c = CHR 0x00" | "c = CHR ''(''" | "c = CHR '')''" | "c = CHR ''*''"
    unfolding filterMeta_def by blast
  then show ?thesis using assms True by cases (auto simp: escape_byte_eq hex_of_meta)
next
  case False
  with assms show ?thesis by (auto simp: escape_byte_eq filterMeta_def)
qed

lemma escape_safe: "\<not> list_ex filterMeta s \<Longrightarrow> concat (map escape_byte s) = s"
  by (induction s) (auto simp: escape_byte_eq)

lemma escapeRFC4515_eq: "escapeRFC4515 s = concat (map escape_byte s)"
  by (auto simp: escapeRFC4515_def escape_safe)

lemma labelChar_no_plus: "list_all labelChar s \<Longrightarrow> CHR ''+'' \<notin> set s"
  by (auto simp: list_all_iff labelChar_def Let_def dest!: bspec)

lemma LastIndexByte_iff:
  "LastIndexByte s c = Some i \<longleftrightarrow> (\<exists>p q. s = p @ c # q \<and> length p = i \<and> c \<notin> set q)"
  using LastIndexByte_Some [of s c i] LastIndexByte_append by fastforce

lemma SplitHostPort_plain:
  assumes "CHR '':'' \<notin> set h" "CHR ''['' \<notin> set h" "CHR '']'' \<notin> set h"
    and "CHR '':'' \<notin> set p" "CHR ''['' \<notin> set p" "CHR '']'' \<notin> set p"
  shows "SplitHostPort (h @ '':'' @ p) = Inr (h, p)"
proof -
  have "LastIndexByte (h @ CHR '':'' # p) (CHR '':'') = Some (length h)" by (rule LastIndexByte_append) fact
  moreover have "\<not> HasPrefix (h @ CHR '':'' # p) ''[''"
    using assms(2) by (cases h) (auto simp: HasPrefix_def)
  ultimately show ?thesis using assms by (simp add: SplitHostPort_def splitRest_def Let_def)
qed

lemma SplitHostPort_bracketed:
  assumes "CHR ''['' \<notin> set h" "CHR '']'' \<notin> set h"
    and "CHR '':'' \<notin> set p" "CHR ''['' \<notin> set p" "CHR '']'' \<notin> set p"
  shows "SplitHostPort (''['' @ h @ '']:'' @ p) = Inr (h, p)"
proof -
  let ?s = "(CHR ''['' # h @ [CHR '']'']) @ CHR '':'' # p"
  have "LastIndexByte ?s (CHR '':'') = Some (length h + 2)"
    using LastIndexByte_append [OF assms(3), of "CHR ''['' # h @ [CHR '']'']"] by simp
  moreover have "IndexByte ?s (CHR '']'') = Some (Suc (length h))"
    using IndexByte_append [of "CHR '']''" "CHR ''['' # h" "CHR '':'' # p"] assms(2) by simp
  moreover have "HasPrefix ?s ''[''" by (simp add: HasPrefix_def)
  ultimately have "SplitHostPort ?s = Inr (h, p)"
    using assms by (simp add: SplitHostPort_def splitRest_def)
  then show ?thesis by simp
qed

lemma SplitHostPort_colons:
  assumes "CHR '':'' \<in> set h" "CHR ''['' \<notin> set h" "CHR '':'' \<notin> set p"
  shows "SplitHostPort (h @ '':'' @ p) = Inl (tooManyColons (h @ '':'' @ p))"
proof -
  have "LastIndexByte (h @ CHR '':'' # p) (CHR '':'') = Some (length h)" by (rule LastIndexByte_append) fact
  moreover have "\<not> HasPrefix (h @ CHR '':'' # p) ''[''"
    using assms(1, 2) by (cases h) (auto simp: HasPrefix_def)
  ultimately show ?thesis using assms by (simp add: SplitHostPort_def)
qed

lemma Itoa_clean:
  assumes "0 \<le> n" "c \<in> {CHR '':'', CHR ''['', CHR '']'', CHR ''-''}"
  shows "c \<notin> set (Itoa n)"
proof
  assume "c \<in> set (Itoa n)"
  with assms(1) obtain d where "d < 10" "c = digit d" by (auto simp: Itoa_def dest: set_nat_digits)
  then have "48 \<le> (of_char c :: nat) \<and> of_char c \<le> (57 :: nat)" by (simp add: of_char_digit)
  with assms(2) show False by auto
qed

text \<open>The host name an operator publishes for a port of a DevPod.\<close>

definition publicHost :: "http_proxy \<Rightarrow> string \<Rightarrow> int \<Rightarrow> string" where
  "publicHost p name port = name @ ''-'' @ Itoa port @ hp_suffix p @ ''.'' @ hp_baseDomain p"

lemma subdomainOf_publicHost:
  assumes "CHR '':'' \<notin> set (publicHost p name port)"
  shows "subdomainOf p (publicHost p name port) = Some (name @ ''-'' @ Itoa port)"
proof -
  let ?h = "publicHost p name port" and ?sub = "name @ ''-'' @ Itoa port"
  have "SplitHostPort ?h = Inl (missingPort ?h)"
    using assms by (simp add: SplitHostPort_def del: LastIndexByte_None_iff add: LastIndexByte_None_iff [THEN iffD2])
  moreover have "?h = (?sub @ hp_suffix p) @ ''.'' @ hp_baseDomain p" by (simp add: publicHost_def)
  moreover have "TrimSuffix ((?sub @ hp_suffix p) @ t) t = ?sub @ hp_suffix p" for t by (rule TrimSuffix_append)
  moreover have "TrimSuffix (?sub @ hp_suffix p) (hp_suffix p) = ?sub" by (rule TrimSuffix_append)
  ultimately show ?thesis
    unfolding subdomainOf_def Let_def by (simp only: sum.case HasSuffix_append if_False if_True not_True_eq_False simp_thms split: if_split) auto
qed

subsection \<open>Properties\<close>

text \<open>
  \<open>ParseLoginName\<close> accepts exactly the strings \<open>owner+pod\<close> whose two parts are one to 32
  characters of \<open>a-z\<close>, \<open>0-9\<close> and \<open>-\<close>, and gives those parts back.
\<close>

theorem ParseLoginName_iff:
  "ParseLoginName s = Inr (owner, pod) \<longleftrightarrow> s = owner @ ''+'' @ pod \<and> isLabel owner \<and> isLabel pod"
proof
  show "ParseLoginName s = Inr (owner, pod) \<Longrightarrow> s = owner @ ''+'' @ pod \<and> isLabel owner \<and> isLabel pod"
    by (auto simp: ParseLoginName_def Cut_Some_iff split: option.splits if_splits)
  show "s = owner @ ''+'' @ pod \<and> isLabel owner \<and> isLabel pod \<Longrightarrow> ParseLoginName s = Inr (owner, pod)"
    by (simp add: ParseLoginName_def isLabel_def labelChar_no_plus)
qed

lemma parseSubdomain_print:
  assumes "name \<noteq> []" "1 \<le> port" "port \<le> 65535"
  shows "parseSubdomain (name @ ''-'' @ Itoa port) = Inr (name, port)"
proof -
  have "CHR ''-'' \<notin> set (Itoa port)" using assms(2) by (intro Itoa_clean) auto
  then have "LastIndexByte (name @ CHR ''-'' # Itoa port) (CHR ''-'') = Some (length name)" by (rule LastIndexByte_append)
  moreover have "Atoi (Itoa port) = Some port" using assms(2, 3) by (intro Atoi_Itoa) simp_all
  ultimately show ?thesis using assms by (simp add: parseSubdomain_def Suc_le_eq)
qed

text \<open>
  \<open>parseSubdomain\<close> accepts exactly a non-empty name, a dash and a dash-free numeral of a port
  from 1 to 65535; the name may hold dashes itself.
\<close>

theorem parseSubdomain_iff:
  "parseSubdomain s = Inr (name, port) \<longleftrightarrow>
      (\<exists>digits. s = name @ ''-'' @ digits \<and> name \<noteq> [] \<and> CHR ''-'' \<notin> set digits \<and>
         Atoi digits = Some port \<and> 1 \<le> port \<and> port \<le> 65535)"
proof
  assume "parseSubdomain s = Inr (name, port)"
  then obtain i where "LastIndexByte s (CHR ''-'') = Some i" "1 \<le> i" "take i s = name"
    "Atoi (drop (Suc i) s) = Some port" "1 \<le> port" "port \<le> 65535"
    by (auto simp: parseSubdomain_def split: option.splits if_splits)
  moreover from this obtain p q where "s = p @ CHR ''-'' # q" "length p = i" "CHR ''-'' \<notin> set q"
    by (auto simp: LastIndexByte_iff)
  ultimately show "\<exists>digits. s = name @ ''-'' @ digits \<and> name \<noteq> [] \<and> CHR ''-'' \<notin> set digits \<and>
      Atoi digits = Some port \<and> 1 \<le> port \<and> port \<le> 65535"
    by auto
next
  assume "\<exists>digits. s = name @ ''-'' @ digits \<and> name \<noteq> [] \<and> CHR ''-'' \<notin> set digits \<and>
      Atoi digits = Some port \<and> 1 \<le> port \<and> port \<le> 65535"
  then obtain digits where "s = name @ CHR ''-'' # digits" "name \<noteq> []" "CHR ''-'' \<notin> set digits"
    "Atoi digits = Some port" "1 \<le> port" "port \<le> 65535" by auto
  moreover from this have "LastIndexByte s (CHR ''-'') = Some (length name)" by (simp add: LastIndexByte_append)
  ultimately show "parseSubdomain s = Inr (name, port)" by (simp add: parseSubdomain_def Suc_le_eq)
qed

text \<open>
  \<open>SplitHostPort\<close> undoes \<open>JoinHostPort\<close> on every host without brackets, an IPv6 literal with
  its colons included, and every plain port.
\<close>

lemma SplitHostPort_JoinHostPort:
  assumes "CHR ''['' \<notin> set host" "CHR '']'' \<notin> set host"
    and "CHR '':'' \<notin> set p" "CHR ''['' \<notin> set p" "CHR '']'' \<notin> set p"
  shows "SplitHostPort (JoinHostPort host p) = Inr (host, p)"
  using assms SplitHostPort_plain [of host p] SplitHostPort_bracketed [of host p] by (simp add: JoinHostPort_def)

text \<open>
  A request for \<open>name-port<suffix>.<base>\<close> is proxied to that port of the pod address in the status
  of the DevPod of that name, when that DevPod is Running; and a request is proxied nowhere else:
  whenever the answer is a proxy target, the host had that form, the DevPod it names was just
  read, is Running, and the target is its own address with the port asked for.
\<close>

theorem ServeHTTP_proxies_only:
  assumes "result (ServeHTTP K p rHost) w = ProxyTo target"
  shows "\<exists>sub name port dp podIP q.
     subdomainOf p rHost = Some sub \<and> parseSubdomain sub = Inr (name, port) \<and>
     made (ServeHTTP K p rHost) w = [EvGetDevPod (hp_dpNS p, name) (Inr dp)] \<and>
     dst_Phase (dp_Status dp) = DevPodRunning \<and>
     SplitHostPort (dst_Endpoint (dp_Status dp)) = Inr (podIP, q) \<and>
     target = JoinHostPort podIP (Itoa port)"
proof -
  have "ensures (ServeHTTP K p rHost) (\<lambda>x es. x = ProxyTo target \<longrightarrow> (\<exists>sub name port dp podIP q.
     subdomainOf p rHost = Some sub \<and> parseSubdomain sub = Inr (name, port) \<and>
     es = [EvGetDevPod (hp_dpNS p, name) (Inr dp)] \<and> dst_Phase (dp_Status dp) = DevPodRunning \<and>
     SplitHostPort (dst_Endpoint (dp_Status dp)) = Inr (podIP, q) \<and> target = JoinHostPort podIP (Itoa port)))"
    unfolding ServeHTTP_def by (intro ensures_intros) (auto split: sum.splits if_splits)
  from ensuresD [OF this, of w] assms show ?thesis by blast
qed

text \<open>
  Whatever the user name, its escaped form holds no parenthesis, asterisk or NUL, and every
  backslash in it starts an escape: read back as RFC 4515 prescribes it is the user name, so the
  name cannot change the shape of the search filter.  The fast path is the same function.
\<close>

theorem escapeRFC4515_safe:
  "unesc_all unescape_byte (length (escapeRFC4515 s)) (escapeRFC4515 s) = Some s \<and>
   set (escapeRFC4515 s) \<inter> {CHR ''('', CHR '')'', CHR ''*'', CHR 0x00} = {} \<and>
   escapeRFC4515 s = concat (map escape_byte s)"
proof (intro conjI)
  show "unesc_all unescape_byte (length (escapeRFC4515 s)) (escapeRFC4515 s) = Some s"
    unfolding escapeRFC4515_eq by (rule ldap_filter.dec_enc)
  show "set (escapeRFC4515 s) \<inter> {CHR ''('', CHR '')'', CHR ''*'', CHR 0x00} = {}"
    unfolding escapeRFC4515_eq by (auto dest: escape_byte_clean)
qed (rule escapeRFC4515_eq)

definition ex_proxy :: http_proxy where
  "ex_proxy = \<lparr>hp_dpNS = ''devpods'', hp_baseDomain = ''x.io'', hp_suffix = ''-dev''\<rparr>"

lemma ex_subdomain:
  "subdomainOf ex_proxy ''alice-dev-80-dev.x.io:443'' = Some ''alice-dev-80''"
  "parseSubdomain ''alice-dev-80'' = Inr (''alice-dev'', 80)"
  by code_simp+

definition ex_served :: mem where
  "ex_served = mem0\<lparr>m_devpods := [ex_dp\<lparr>dp_Status := devpod_status0\<lparr>dst_Phase := DevPodRunning, dst_Endpoint := ''10.0.0.7:2222''\<rparr>\<rparr>]\<rparr>"

lemma ex_proxied:
  "result (ServeHTTP mem_kube ex_proxy ''alice-dev-80-dev.x.io:443'') (mem_world ex_served) = ProxyTo ''10.0.0.7:80''"
  by code_simp

theorem ServeHTTP_proxies_only_witness:
  "\<exists>sub name port. subdomainOf ex_proxy ''alice-dev-80-dev.x.io:443'' = Some sub \<and> parseSubdomain sub = Inr (name, port)"
  using ServeHTTP_proxies_only [OF ex_proxied] by blast

end
