(* ===== verification/Gateway_Auth.thy ===== *)
theory Gateway_Auth
  imports Gateway_Login
begin

section \<open>Gateway: identity sources and authentication\<close>

text \<open>
  \<open>identity.go\<close>, \<open>auth.go\<close> and the record of \<open>audit.go\<close> in \<open>src/internal/gateway\<close>.  The
  SSH library is the record \<open>ssh_lib\<close>, over an arbitrary type of public keys; the text of an API error is
  the argument \<open>txt\<close>.  Everything a lookup can change (the API client, the directory, the caches) is
  one opaque state \<open>'g\<close> that is passed along.  The interface \<open>IdentitySource\<close> is the record
  \<open>source\<close>; what the authenticator relies on is the locale \<open>identity_sources\<close>.
\<close>

record 'k ssh_lib =
  ssh_Marshal :: "'k \<Rightarrow> string"
  ssh_Fingerprint :: "'k \<Rightarrow> string"
  ssh_ParseAuthorizedKey :: "string \<Rightarrow> 'k option"

record 'k resolve_result =
  rr_Keys :: "'k list"
  rr_ServedStale :: bool

record ('g, 'k) source =
  src_Name :: string
  src_Resolve :: "string \<Rightarrow> 'g \<Rightarrow> ('k resolve_result \<times> go_error option) \<times> 'g"

abbreviation ErrIdentityNotFound :: go_error where
  "ErrIdentityNotFound \<equiv> ErrSentinel ''identity not found in this source''"
abbreviation ErrUserNotFound :: go_error where "ErrUserNotFound \<equiv> ErrSentinel ''user not found''"
abbreviation ErrPubkeyMismatch :: go_error where
  "ErrPubkeyMismatch \<equiv> ErrSentinel ''pubkey does not match any identity source''"
abbreviation ErrDevPodNotFound :: go_error where "ErrDevPodNotFound \<equiv> ErrSentinel ''devpod not found''"
abbreviation ErrDevPodNotReady :: go_error where "ErrDevPodNotReady \<equiv> ErrSentinel ''devpod not running''"
abbreviation ErrAccessDenied :: go_error where
  "ErrAccessDenied \<equiv> ErrSentinel ''access denied: not owner or collaborator''"
abbreviation ErrLoginNameFormat :: go_error where
  "ErrLoginNameFormat \<equiv> ErrSentinel ''login name must be <user>+<pod>''"

abbreviation noKeys :: "'k resolve_result" where "noKeys \<equiv> \<lparr>rr_Keys = [], rr_ServedStale = False\<rparr>"

subsection \<open>identity.go: the User source\<close>

fun parseKeys :: "'k ssh_lib \<Rightarrow> string list \<Rightarrow> 'k list" where
  "parseKeys L [] = []"
| "parseKeys L (line # lines) =
     (case ssh_ParseAuthorizedKey L line of
        None \<Rightarrow> parseKeys L lines
      | Some k \<Rightarrow> k # parseKeys L lines)"

definition crdResolve ::
  "'k ssh_lib \<Rightarrow> (string \<Rightarrow> 'g \<Rightarrow> (api_error + user) \<times> 'g) \<Rightarrow> string \<Rightarrow> 'g \<Rightarrow> ('k resolve_result \<times> go_error option) \<times> 'g" where
  "crdResolve L get username g =
     (case get username g of
        (Inl e, g') \<Rightarrow>
          ((noKeys, Some (if e = NotFound then ErrIdentityNotFound
                          else Errorf ''crd get user %q: %w'' [username] (Some (ErrApi e)))), g')
      | (Inr u, g') \<Rightarrow> ((\<lparr>rr_Keys = parseKeys L (us_Pubkeys (u_Spec u)), rr_ServedStale = False\<rparr>, None), g'))"

definition NewCRDSource :: "'k ssh_lib \<Rightarrow> (string \<Rightarrow> 'g \<Rightarrow> (api_error + user) \<times> 'g) \<Rightarrow> ('g, 'k) source" where
  "NewCRDSource L get = \<lparr>src_Name = ''crd'', src_Resolve = crdResolve L get\<rparr>"

subsection \<open>auth.go\<close>

record auth_path =
  ap_Kind :: string
  ap_Alias :: string
  ap_User :: string
  ap_Pod :: string
  ap_Source :: string
  ap_ServedStale :: bool
  ap_LastSourceErr :: string

definition auth_path0 :: auth_path where
  "auth_path0 = \<lparr>ap_Kind = [], ap_Alias = [], ap_User = [], ap_Pod = [], ap_Source = [], ap_ServedStale = False,
     ap_LastSourceErr = []\<rparr>"

record auth_error =
  ae_Err :: go_error
  ae_AuthPath :: auth_path

record auth_result =
  ar_User :: string
  ar_DevPodName :: string
  ar_Endpoint :: string
  ar_AuthPath :: auth_path

record ('g, 'k) authenticator =
  au_get :: "namespaced_name \<Rightarrow> 'g \<Rightarrow> (api_error + devpod) \<times> 'g"
  au_dpNS :: string
  au_proxyKeys :: smap
  au_sources :: "('g, 'k) source list"

definition accessAllowed :: "devpod \<Rightarrow> string \<Rightarrow> bool" where
  "accessAllowed dp user =
     (if dp_Owner dp = user then True else list_ex (\<lambda>c. c = user) (ds_Collaborators (dp_Spec dp)))"

definition matchesAnyParsed :: "'k ssh_lib \<Rightarrow> 'k \<Rightarrow> 'k list \<Rightarrow> bool" where
  "matchesAnyParsed L offered keys = list_ex (\<lambda>k. ssh_Marshal L k = ssh_Marshal L offered) keys"

definition finalize :: "devpod \<Rightarrow> string \<Rightarrow> string \<Rightarrow> auth_path \<Rightarrow> auth_error + auth_result" where
  "finalize dp user pod ap =
     (if \<not> accessAllowed dp user
      then Inl \<lparr>ae_Err = Errorf ''%w: user %q on devpod %q'' [user, pod] (Some ErrAccessDenied), ae_AuthPath = ap\<rparr>
      else if dst_Phase (dp_Status dp) \<noteq> DevPodRunning \<or> dst_Endpoint (dp_Status dp) = []
      then Inl \<lparr>ae_Err = Errorf ''%w: %q phase=%q endpoint=%q''
                  [pod, phase_str (dst_Phase (dp_Status dp)), dst_Endpoint (dp_Status dp)] (Some ErrDevPodNotReady),
                ae_AuthPath = ap\<rparr>
      else Inr \<lparr>ar_User = user, ar_DevPodName = dp_Name dp, ar_Endpoint = dst_Endpoint (dp_Status dp), ar_AuthPath = ap\<rparr>)"

text \<open>
  The loop over the sources: the path so far, whether a source knew the user, and whether one had
  the key, which ends the loop.
\<close>

fun trySources ::
  "'k ssh_lib \<Rightarrow> (api_error \<Rightarrow> string) \<Rightarrow> 'k \<Rightarrow> string \<Rightarrow> ('g, 'k) source list \<Rightarrow> auth_path \<Rightarrow> bool \<Rightarrow> 'g \<Rightarrow>
   (auth_path \<times> bool \<times> bool) \<times> 'g" where
  "trySources L txt key user [] ap anyKnown g = ((ap, anyKnown, False), g)"
| "trySources L txt key user (src # srcs) ap anyKnown g =
     (case src_Resolve src user g of
        ((res, rerr), g') \<Rightarrow>
          (case rerr of
             Some e \<Rightarrow>
               if errors_Is e ErrIdentityNotFound then trySources L txt key user srcs ap anyKnown g'
               else trySources L txt key user srcs
                      (ap\<lparr>ap_LastSourceErr := src_Name src @ '': '' @ Error txt e\<rparr>) anyKnown g'
           | None \<Rightarrow>
               if matchesAnyParsed L key (rr_Keys res)
               then ((ap\<lparr>ap_Source := src_Name src, ap_ServedStale := rr_ServedStale res\<rparr>, True, True), g')
               else trySources L txt key user srcs ap True g'))"

text \<open>The two lookups of the DevPod: by owner and pod, then by the bare pod name.\<close>

definition getDevPod ::
  "('g, 'k) authenticator \<Rightarrow> string \<Rightarrow> string \<Rightarrow> 'g \<Rightarrow> (api_error + devpod) \<times> 'g" where
  "getDevPod au user pod g =
     (case au_get au (au_dpNS au, DevPodResourceName user pod) g of
        (a, g') \<Rightarrow> if a = Inl NotFound then au_get au (au_dpNS au, pod) g' else (a, g'))"

definition Authenticate ::
  "'k ssh_lib \<Rightarrow> (api_error \<Rightarrow> string) \<Rightarrow> ('g, 'k) authenticator \<Rightarrow> string \<Rightarrow> 'k \<Rightarrow> 'g \<Rightarrow> (auth_error + auth_result) \<times> 'g" where
  "Authenticate L txt au loginName key g =
     (case ParseLoginName loginName of
        Inl e \<Rightarrow> (Inl \<lparr>ae_Err = Errorf ''%w: %v'' [Error txt e] (Some ErrLoginNameFormat), ae_AuthPath = auth_path0\<rparr>, g)
      | Inr (user, pod) \<Rightarrow>
          let ap = auth_path0\<lparr>ap_User := user, ap_Pod := pod\<rparr>
          in case getDevPod au user pod g of
               (Inl e, g') \<Rightarrow>
                 (Inl \<lparr>ae_Err = (if e = NotFound
                         then Errorf ''%w: %q (owner %q) in ns %q'' [pod, user, au_dpNS au] (Some ErrDevPodNotFound)
                         else Errorf ''get devpod: %w'' [] (Some (ErrApi e))), ae_AuthPath = ap\<rparr>, g')
             | (Inr dp, g') \<Rightarrow>
                 (case map_of (au_proxyKeys au) (ssh_Fingerprint L key) of
                    Some alias \<Rightarrow> (finalize dp user pod (ap\<lparr>ap_Kind := ''trusted_proxy'', ap_Alias := alias\<rparr>), g')
                  | None \<Rightarrow>
                      (case trySources L txt key user (au_sources au) (ap\<lparr>ap_Kind := ''direct''\<rparr>) False g' of
                         ((ap', anyKnown, matched), g'') \<Rightarrow>
                           if \<not> matched
                           then (Inl \<lparr>ae_Err = (if anyKnown then Errorf ''%w: user %q'' [user] (Some ErrPubkeyMismatch)
                                              else Errorf ''%w: %q'' [user] (Some ErrUserNotFound)), ae_AuthPath = ap'\<rparr>, g'')
                           else (finalize dp user pod ap', g''))))"

subsection \<open>Reasons and audit rows (cmd/gateway/main.go, audit.go)\<close>

definition classifyAuthErr :: "go_error \<Rightarrow> string" where
  "classifyAuthErr err =
     (if errors_Is err ErrUserNotFound then ''user_not_found''
      else if errors_Is err ErrPubkeyMismatch then ''key_mismatch''
      else if errors_Is err ErrAccessDenied then ''access_denied''
      else if errors_Is err ErrDevPodNotFound then ''devpod_not_found''
      else if errors_Is err ErrDevPodNotReady then ''devpod_not_ready''
      else if errors_Is err ErrLoginNameFormat then ''bad_login_format''
      else ''other'')"

text \<open>An audit row: the message and its attributes, in order.\<close>

type_synonym log_row = "string \<times> (string \<times> string) list"

definition optAttr :: "string \<Rightarrow> string \<Rightarrow> (string \<times> string) list" where
  "optAttr k v = (if v \<noteq> [] then [(k, v)] else [])"

definition AuthFailure :: "string \<Rightarrow> string \<Rightarrow> string \<Rightarrow> string \<Rightarrow> string \<Rightarrow> string \<Rightarrow> string \<Rightarrow> log_row" where
  "AuthFailure reason authPath alias pubkeyFP user pod lastSourceErr =
     (''auth_failure'', [(''reason'', reason), (''auth_path'', authPath)] @ optAttr ''pubkey_fp'' pubkeyFP @
        optAttr ''proxy_alias'' alias @ optAttr ''user'' user @ optAttr ''devpod'' pod @
        optAttr ''last_source_err'' lastSourceErr)"

definition SessionOpen :: "string \<Rightarrow> auth_path \<Rightarrow> string \<Rightarrow> string \<Rightarrow> log_row" where
  "SessionOpen sessionID ap clientIP pubkeyFP =
     (''session_open'', [(''session_id'', sessionID), (''auth_path'', ap_Kind ap), (''user'', ap_User ap),
        (''devpod'', ap_Pod ap), (''client_ip'', clientIP), (''pubkey_fp'', pubkeyFP)] @
        optAttr ''proxy_alias'' (ap_Alias ap) @ optAttr ''source'' (ap_Source ap) @
        (if ap_Source ap \<noteq> [] then [(''served_stale'', if ap_ServedStale ap then ''true'' else ''false'')] else []) @
        optAttr ''last_source_err'' (ap_LastSourceErr ap))"

subsection \<open>The policy\<close>

text \<open>
  The specification of \<open>Authenticate\<close>: a decision from the parsed login, the DevPod found, the alias
  of a trusted proxy key and the answers of the sources, all of them asked in order.
\<close>

datatype verdict = Deny string | Allow string string

type_synonym 'k answer = "string \<times> 'k resolve_result \<times> go_error option"

fun answersOf :: "('g, 'k) source list \<Rightarrow> string \<Rightarrow> 'g \<Rightarrow> 'k answer list" where
  "answersOf [] user g = []"
| "answersOf (src # srcs) user g =
     (case src_Resolve src user g of ((res, err), g') \<Rightarrow> (src_Name src, res, err) # answersOf srcs user g')"

definition knows :: "'k answer \<Rightarrow> bool" where
  "knows a = (snd (snd a) = None)"

definition hasKey :: "'k ssh_lib \<Rightarrow> 'k \<Rightarrow> 'k answer \<Rightarrow> bool" where
  "hasKey L key a = (knows a \<and> matchesAnyParsed L key (rr_Keys (fst (snd a))))"

definition identified :: "'k ssh_lib \<Rightarrow> 'k \<Rightarrow> string option \<Rightarrow> 'k answer list \<Rightarrow> (string \<times> string) option" where
  "identified L key alias rs =
     (case alias of
        Some a \<Rightarrow> Some (''trusted_proxy'', a)
      | None \<Rightarrow> map_option (\<lambda>a. (''direct'', fst a)) (find (hasKey L key) rs))"

definition policy ::
  "'k ssh_lib \<Rightarrow> 'k \<Rightarrow> (string \<times> string) option \<Rightarrow> api_error + devpod \<Rightarrow> string option \<Rightarrow> 'k answer list \<Rightarrow> verdict" where
  "policy L key login got alias rs =
     (case login of
        None \<Rightarrow> Deny ''bad_login_format''
      | Some (user, pod) \<Rightarrow>
          (case got of
             Inl e \<Rightarrow> Deny (if e = NotFound then ''devpod_not_found'' else ''other'')
           | Inr dp \<Rightarrow>
               (case identified L key alias rs of
                  None \<Rightarrow> Deny (if list_ex knows rs then ''key_mismatch'' else ''user_not_found'')
                | Some (kind, who) \<Rightarrow>
                    if user \<noteq> dp_Owner dp \<and> user \<notin> set (ds_Collaborators (dp_Spec dp)) then Deny ''access_denied''
                    else if dst_Phase (dp_Status dp) \<noteq> DevPodRunning \<or> dst_Endpoint (dp_Status dp) = []
                    then Deny ''devpod_not_ready''
                    else Allow kind who)))"

definition verdictOf :: "auth_error + auth_result \<Rightarrow> verdict" where
  "verdictOf r = (case r of
       Inl e \<Rightarrow> Deny (classifyAuthErr (ae_Err e))
     | Inr ok \<Rightarrow> Allow (ap_Kind (ar_AuthPath ok))
         (if ap_Kind (ar_AuthPath ok) = ''trusted_proxy'' then ap_Alias (ar_AuthPath ok) else ap_Source (ar_AuthPath ok)))"

subsection \<open>Lemmas\<close>

lemma accessAllowed_iff: "accessAllowed dp user \<longleftrightarrow> user = dp_Owner dp \<or> user \<in> set (ds_Collaborators (dp_Spec dp))"
  by (auto simp: accessAllowed_def list_ex_iff)

lemma set_parseKeys: "k \<in> set (parseKeys L lines) \<longleftrightarrow> (\<exists>line\<in>set lines. ssh_ParseAuthorizedKey L line = Some k)"
  by (induction lines) (auto split: option.splits)

text \<open>The loop stops at the first source that has the key, and otherwise reports whether one knew the user.\<close>

lemma trySources_eq:
  assumes "trySources L txt key user srcs ap known g = ((ap', known', matched), g')"
  shows "(case find (hasKey L key) (answersOf srcs user g) of
            None \<Rightarrow> \<not> matched \<and> known' = (known \<or> list_ex knows (answersOf srcs user g)) \<and> ap_Source ap' = ap_Source ap
          | Some a \<Rightarrow> matched \<and> ap_Source ap' = fst a \<and> ap_ServedStale ap' = rr_ServedStale (fst (snd a))) \<and>
         ap_Kind ap' = ap_Kind ap \<and> ap_User ap' = ap_User ap \<and> ap_Pod ap' = ap_Pod ap"
  using assms
proof (induction srcs arbitrary: ap known g)
  case (Cons src srcs)
  obtain res err g1 where r: "src_Resolve src user g = ((res, err), g1)" by (metis surj_pair)
  show ?case
  proof (cases err)
    case (Some e)
    then have "hasKey L key (src_Name src, res, err) = False" "knows (src_Name src, res, err) = False"
      by (simp_all add: hasKey_def knows_def)
    moreover obtain ap1 where t: "trySources L txt key user srcs ap1 known g1 = ((ap', known', matched), g')"
      and "ap_Source ap1 = ap_Source ap" "ap_Kind ap1 = ap_Kind ap" "ap_User ap1 = ap_User ap" "ap_Pod ap1 = ap_Pod ap"
      using Cons.prems r Some by (fastforce split: if_splits)
    ultimately show ?thesis using Cons.IH [OF t] r Some by (auto split: option.splits)
  next
    case None
    have k: "knows (src_Name src, res, err)" by (simp add: None knows_def)
    show ?thesis
    proof (cases "matchesAnyParsed L key (rr_Keys res)")
      case True
      with Cons.prems r None k show ?thesis by (auto simp: hasKey_def)
    next
      case False
      with Cons.prems r None have "trySources L txt key user srcs ap True g1 = ((ap', known', matched), g')" by simp
      from Cons.IH [OF this] r None k False show ?thesis
        by (auto simp: hasKey_def split: option.splits)
    qed
  qed
qed simp

lemma answersOf_source:
  "a \<in> set (answersOf srcs user g) \<Longrightarrow>
   \<exists>src\<in>set srcs. \<exists>g'. src_Name src = fst a \<and> fst (src_Resolve src user g') = snd a"
proof (induction srcs arbitrary: g)
  case (Cons src srcs)
  obtain x g1 where r: "src_Resolve src user g = (x, g1)" by (metis surj_pair)
  with Cons.prems consider "a = (src_Name src, x)" | "a \<in> set (answersOf srcs user g1)"
    by (auto simp: split_beta)
  then show ?case
  proof cases
    case 1
    with r show ?thesis by (intro bexI [of _ src] exI [of _ g]) simp_all
  next
    case 2
    from Cons.IH [OF this] show ?thesis by auto
  qed
qed simp

lemma classify_simps:
  "classifyAuthErr (Errorf f args (Some ErrUserNotFound)) = ''user_not_found''"
  "classifyAuthErr (Errorf f args (Some ErrPubkeyMismatch)) = ''key_mismatch''"
  "classifyAuthErr (Errorf f args (Some ErrAccessDenied)) = ''access_denied''"
  "classifyAuthErr (Errorf f args (Some ErrDevPodNotFound)) = ''devpod_not_found''"
  "classifyAuthErr (Errorf f args (Some ErrDevPodNotReady)) = ''devpod_not_ready''"
  "classifyAuthErr (Errorf f args (Some ErrLoginNameFormat)) = ''bad_login_format''"
  "classifyAuthErr (Errorf f args (Some (ErrApi e))) = ''other''"
  by (simp_all add: classifyAuthErr_def)

lemma verdictOf_finalize:
  "verdictOf (finalize dp user pod ap) =
     (if user \<noteq> dp_Owner dp \<and> user \<notin> set (ds_Collaborators (dp_Spec dp)) then Deny ''access_denied''
      else if dst_Phase (dp_Status dp) \<noteq> DevPodRunning \<or> dst_Endpoint (dp_Status dp) = [] then Deny ''devpod_not_ready''
      else Allow (ap_Kind ap) (if ap_Kind ap = ''trusted_proxy'' then ap_Alias ap else ap_Source ap))"
  by (simp add: verdictOf_def finalize_def accessAllowed_iff classify_simps)

definition loginOf :: "string \<Rightarrow> (string \<times> string) option" where
  "loginOf s = (case ParseLoginName s of Inl _ \<Rightarrow> None | Inr x \<Rightarrow> Some x)"

lemma Authenticate_direct:
  assumes "ParseLoginName login = Inr (user, pod)" "getDevPod au user pod g = (Inr dp, g')"
    "map_of (au_proxyKeys au) (ssh_Fingerprint L key) = None"
  shows "verdictOf (fst (Authenticate L txt au login key g)) =
         policy L key (Some (user, pod)) (Inr dp) None (answersOf (au_sources au) user g')"
proof -
  obtain ap known matched g2 where t: "trySources L txt key user (au_sources au)
      (auth_path0\<lparr>ap_User := user, ap_Pod := pod, ap_Kind := ''direct''\<rparr>) False g' = ((ap, known, matched), g2)"
    by (metis prod.exhaust)
  from trySources_eq [OF t] assms t show ?thesis
    by (cases "find (hasKey L key) (answersOf (au_sources au) user g')")
       (auto simp: Authenticate_def policy_def identified_def verdictOf_finalize Let_def verdictOf_def [of "Inl e" for e] classify_simps)
qed

subsection \<open>What the authenticator relies on\<close>

text \<open>
  The contract of an identity source: the keys it returns without an error are keys it vouches for,
  for that user, in the state it is asked in.
\<close>

locale identity_sources =
  fixes srcs :: "('g, 'k) source list"
    and vouches :: "string \<Rightarrow> 'g \<Rightarrow> string \<Rightarrow> 'k \<Rightarrow> bool"
  assumes honest: "src \<in> set srcs \<Longrightarrow> fst (src_Resolve src user g) = (res, None) \<Longrightarrow>
    k \<in> set (rr_Keys res) \<Longrightarrow> vouches (src_Name src) g user k"
begin

lemma answer_vouched:
  assumes "find (hasKey L key) (answersOf srcs user g) = Some a"
  shows "\<exists>g' k. vouches (fst a) g' user k \<and> ssh_Marshal L k = ssh_Marshal L key"
proof -
  from assms have "a \<in> set (answersOf srcs user g)" "hasKey L key a" by (auto simp: find_Some_iff)
  from answersOf_source [OF this(1)] obtain src g' where src: "src \<in> set srcs" "src_Name src = fst a"
    "fst (src_Resolve src user g') = snd a" by blast
  from \<open>hasKey L key a\<close> obtain k where "k \<in> set (rr_Keys (fst (snd a)))" "ssh_Marshal L k = ssh_Marshal L key"
    and "snd (snd a) = None"
    by (auto simp: hasKey_def knows_def matchesAnyParsed_def list_ex_iff)
  with src honest [of src user g' "fst (snd a)" k] show ?thesis by (metis prod.collapse)
qed

text \<open>Success without a trusted proxy key means that a source vouches for a key with the same bytes.\<close>

lemma success_vouched:
  assumes "fst (Authenticate L txt au login key g) = Inr r" "au_sources au = srcs"
    and "map_of (au_proxyKeys au) (ssh_Fingerprint L key) = None"
  shows "\<exists>g' k. vouches (ap_Source (ar_AuthPath r)) g' (ar_User r) k \<and> ssh_Marshal L k = ssh_Marshal L key"
proof -
  from assms(1) obtain user pod where p: "ParseLoginName login = Inr (user, pod)"
    by (auto simp: Authenticate_def split: sum.splits)
  obtain a g1 where dp: "getDevPod au user pod g = (a, g1)" by (metis prod.exhaust)
  with assms(1) p obtain d where a: "a = Inr d" by (cases a) (auto simp: Authenticate_def)
  let ?ap = "auth_path0\<lparr>ap_User := user, ap_Pod := pod, ap_Kind := ''direct''\<rparr>"
  obtain ap known matched g2 where t: "trySources L txt key user srcs ?ap False g1 = ((ap, known, matched), g2)"
    by (metis prod.exhaust)
  with assms p dp a have m: matched and r: "finalize d user pod ap = Inr r"
    by (auto simp: Authenticate_def Let_def split: if_splits)
  from r have "ar_AuthPath r = ap" "ar_User r = user" by (auto simp: finalize_def split: if_splits)
  moreover from trySources_eq [OF t] m obtain x where "find (hasKey L key) (answersOf srcs user g1) = Some x" "ap_Source ap = fst x"
    by (cases "find (hasKey L key) (answersOf srcs user g1)") auto
  ultimately show ?thesis using answer_vouched by metis
qed

end

text \<open>
  Every chain of sources is honest in the weakest sense: it vouches for what it returns when asked.
\<close>

definition asked_vouches :: "('g, 'k) source list \<Rightarrow> string \<Rightarrow> 'g \<Rightarrow> string \<Rightarrow> 'k \<Rightarrow> bool" where
  "asked_vouches srcs name g user k \<longleftrightarrow>
     (\<exists>src\<in>set srcs. src_Name src = name \<and> (\<exists>res. fst (src_Resolve src user g) = (res, None) \<and> k \<in> set (rr_Keys res)))"

interpretation asked: identity_sources srcs "asked_vouches srcs" for srcs
  by unfold_locales (auto simp: asked_vouches_def)

subsection \<open>Properties\<close>

text \<open>
  C3. \<open>Authenticate\<close> implements the policy: for every state of the cluster, every source and every key,
  the reason of a denial and the path of an admission are those of \<open>policy\<close> applied to the login, the
  DevPod found, the trusted proxy keys and the answers of the sources.  In particular the first
  source that has the key decides, a source that fails or does not know the user is passed over,
  and the owner and collaborator check applies to trusted proxies as well.
\<close>

theorem Authenticate_refines_policy:
  "verdictOf (fst (Authenticate L txt au login key g)) =
     (case loginOf login of
        None \<Rightarrow> Deny ''bad_login_format''
      | Some (user, pod) \<Rightarrow>
          (case getDevPod au user pod g of
             (got, g') \<Rightarrow> policy L key (Some (user, pod)) got (map_of (au_proxyKeys au) (ssh_Fingerprint L key))
                            (answersOf (au_sources au) user g')))"
proof (cases "ParseLoginName login")
  case (Inl e)
  then show ?thesis by (simp add: Authenticate_def loginOf_def verdictOf_def classify_simps)
next
  case (Inr up)
  obtain user pod where up: "up = (user, pod)" by (cases up)
  obtain a g1 where dp: "getDevPod au user pod g = (a, g1)" by (metis prod.exhaust)
  show ?thesis
  proof (cases a)
    case (Inl e)
    with Inr up dp show ?thesis
      by (simp add: Authenticate_def loginOf_def policy_def verdictOf_def classify_simps Let_def)
  next
    case dpr: (Inr d)
    show ?thesis
    proof (cases "map_of (au_proxyKeys au) (ssh_Fingerprint L key)")
      case None
      with Authenticate_direct [of login user pod au g d g1 L key "txt"] Inr up dp dpr show ?thesis
        by (simp add: loginOf_def)
    next
      case (Some al)
      with Inr up dp dpr show ?thesis
        by (simp add: Authenticate_def loginOf_def policy_def identified_def verdictOf_finalize Let_def)
    qed
  qed
qed

text \<open>
  Whoever gets in is entitled to: the login names a user and a pod, the DevPod was just read from
  the gateway's namespace under the owner-scoped or the bare name, the user is its owner or a
  collaborator, it is Running, the session goes to its own endpoint, and the key either is a
  configured proxy key or has the bytes of a key that one of the sources returned for this user.
\<close>

theorem Authenticate_sound:
  assumes "fst (Authenticate L txt au login key g) = Inr r"
  shows "\<exists>user pod dp g1.
     login = user @ ''+'' @ pod \<and> ar_User r = user \<and>
     (fst (au_get au (au_dpNS au, DevPodResourceName user pod) g1) = Inr dp \<or> fst (au_get au (au_dpNS au, pod) g1) = Inr dp) \<and>
     (user = dp_Owner dp \<or> user \<in> set (ds_Collaborators (dp_Spec dp))) \<and>
     dst_Phase (dp_Status dp) = DevPodRunning \<and> ar_Endpoint r = dst_Endpoint (dp_Status dp) \<and> ar_Endpoint r \<noteq> [] \<and>
     ar_DevPodName r = dp_Name dp \<and>
     (map_of (au_proxyKeys au) (ssh_Fingerprint L key) \<noteq> None \<or>
      (\<exists>src\<in>set (au_sources au). \<exists>g2 res. src_Name src = ap_Source (ar_AuthPath r) \<and>
         fst (src_Resolve src user g2) = (res, None) \<and>
         (\<exists>k\<in>set (rr_Keys res). ssh_Marshal L k = ssh_Marshal L key)))"
proof -
  from assms obtain user pod where p: "ParseLoginName login = Inr (user, pod)"
    by (auto simp: Authenticate_def split: sum.splits)
  then have login: "login = user @ ''+'' @ pod" by (auto simp: ParseLoginName_def Cut_Some_iff split: option.splits if_splits)
  obtain a g1 where dp: "getDevPod au user pod g = (a, g1)" by (metis prod.exhaust)
  with assms p obtain d where a: "a = Inr d" by (cases a) (auto simp: Authenticate_def)
  have get: "\<exists>g1. fst (au_get au (au_dpNS au, DevPodResourceName user pod) g1) = Inr d \<or> fst (au_get au (au_dpNS au, pod) g1) = Inr d"
    using dp a by (auto simp: getDevPod_def split: prod.splits if_splits) (metis fst_conv)+
  have fin: "\<exists>ap. finalize d user pod ap = Inr r"
    using assms p dp a by (auto simp: Authenticate_def Let_def split: option.splits prod.splits if_splits)
  then have ok: "ar_User r = user" "user = dp_Owner d \<or> user \<in> set (ds_Collaborators (dp_Spec d))"
    "dst_Phase (dp_Status d) = DevPodRunning" "ar_Endpoint r = dst_Endpoint (dp_Status d)" "ar_Endpoint r \<noteq> []"
    "ar_DevPodName r = dp_Name d"
    by (auto simp: finalize_def accessAllowed_iff split: if_splits)
  have key: "\<exists>src\<in>set (au_sources au). \<exists>g2 res. src_Name src = ap_Source (ar_AuthPath r) \<and>
         fst (src_Resolve src user g2) = (res, None) \<and> (\<exists>k\<in>set (rr_Keys res). ssh_Marshal L k = ssh_Marshal L key)"
    if "map_of (au_proxyKeys au) (ssh_Fingerprint L key) = None"
    using asked.success_vouched [OF assms refl that] ok(1) by (auto simp: asked_vouches_def)
  show ?thesis using login get ok key by blast
qed

subsection \<open>A closed example\<close>

definition ex_ssh :: "string ssh_lib" where
  "ex_ssh = \<lparr>ssh_Marshal = (\<lambda>k. k), ssh_Fingerprint = (\<lambda>k. ''fp:'' @ k),
     ssh_ParseAuthorizedKey = (\<lambda>l. if l = [] then None else Some l)\<rparr>"

definition ex_au :: "(mem, string) authenticator" where
  "ex_au = \<lparr>au_get = k_get_devpod mem_kube, au_dpNS = ''devpods'', au_proxyKeys = [(''fp:kp'', ''jump'')],
     au_sources = [NewCRDSource ex_ssh (k_get_user mem_kube)]\<rparr>"

definition ex_auth_mem :: mem where
  "ex_auth_mem = mem0\<lparr>
     m_devpods := [ex_dp\<lparr>dp_Status := devpod_status0\<lparr>dst_Phase := DevPodRunning, dst_Endpoint := ''10.0.0.7:2222''\<rparr>\<rparr>],
     m_users := [user0\<lparr>u_Meta := object_meta0\<lparr>meta_Name := ''alice''\<rparr>, u_Spec := user_spec0\<lparr>us_Pubkeys := [''k0'', ''k1'']\<rparr>\<rparr>]\<rparr>"

definition ex_result :: auth_result where
  "ex_result = \<lparr>ar_User = ''alice'', ar_DevPodName = ''alice-dev'', ar_Endpoint = ''10.0.0.7:2222'',
     ar_AuthPath = auth_path0\<lparr>ap_Kind := ''direct'', ap_User := ''alice'', ap_Pod := ''dev'', ap_Source := ''crd''\<rparr>\<rparr>"

lemma ex_authenticated: "fst (Authenticate ex_ssh (\<lambda>_. []) ex_au ''alice+dev'' ''k1'' ex_auth_mem) = Inr ex_result"
  by code_simp

theorem Authenticate_sound_witness:
  "\<exists>user pod dp g1. ''alice+dev'' = user @ ''+'' @ pod \<and> ar_User ex_result = user \<and>
     (fst (au_get ex_au (au_dpNS ex_au, DevPodResourceName user pod) g1) = Inr dp \<or> fst (au_get ex_au (au_dpNS ex_au, pod) g1) = Inr dp) \<and>
     (user = dp_Owner dp \<or> user \<in> set (ds_Collaborators (dp_Spec dp)))"
  using Authenticate_sound [OF ex_authenticated] by blast

subsection \<open>Failing sources stay visible\<close>

definition hardError :: "'k answer \<Rightarrow> bool" where
  "hardError a = (case snd (snd a) of None \<Rightarrow> False | Some e \<Rightarrow> \<not> errors_Is e ErrIdentityNotFound)"

lemma trySources_lastErr:
  assumes "trySources L txt key user srcs ap known g = ((ap', known', False), g')"
  shows "ap_LastSourceErr ap' \<noteq> [] \<longleftrightarrow> ap_LastSourceErr ap \<noteq> [] \<or> list_ex hardError (answersOf srcs user g)"
  using assms
proof (induction srcs arbitrary: ap known g)
  case (Cons src srcs)
  obtain res err g1 where r: "src_Resolve src user g = ((res, err), g1)" by (metis surj_pair)
  from Cons.prems r show ?case
    by (cases err) (auto simp: hardError_def split: if_splits dest: Cons.IH)
qed simp

text \<open>
  A denial for want of an identity shows upstream failures: when no source has the key, the error
  carries the text of the last source error exactly when some source failed for another reason
  than not knowing the user.  So an outage of the directory is never logged as a plain unknown user.
\<close>

theorem Authenticate_reports_source_errors:
  assumes "ParseLoginName login = Inr (user, pod)" and "getDevPod au user pod g = (Inr dp, g')"
    and "map_of (au_proxyKeys au) (ssh_Fingerprint L key) = None"
    and "\<not> list_ex (hasKey L key) (answersOf (au_sources au) user g')"
  shows "\<exists>e. fst (Authenticate L txt au login key g) = Inl e \<and>
     (ap_LastSourceErr (ae_AuthPath e) \<noteq> [] \<longleftrightarrow> list_ex hardError (answersOf (au_sources au) user g'))"
proof -
  let ?ap = "auth_path0\<lparr>ap_User := user, ap_Pod := pod, ap_Kind := ''direct''\<rparr>"
  obtain ap known matched g2 where t: "trySources L txt key user (au_sources au) ?ap False g' = ((ap, known, matched), g2)"
    by (metis prod.exhaust)
  have "find (hasKey L key) (answersOf (au_sources au) user g') = None"
    using assms(4) by (auto simp: find_None_iff list_ex_iff)
  with trySources_eq [OF t] have "\<not> matched" by simp
  with trySources_lastErr [of L "txt" key user "au_sources au" ?ap False g' ap known g2] t assms show ?thesis
    by (auto simp: Authenticate_def Let_def auth_path0_def)
qed

definition ex_down :: "(mem, string) authenticator" where
  "ex_down = ex_au\<lparr>au_sources := [\<lparr>src_Name = ''ldap'', src_Resolve = (\<lambda>u g. ((noKeys, Some (Errorf ''ldap search: down'' [] None)), g))\<rparr>]\<rparr>"

theorem Authenticate_reports_source_errors_witness:
  "\<exists>e. fst (Authenticate ex_ssh (\<lambda>_. []) ex_down ''alice+dev'' ''k1'' ex_auth_mem) = Inl e \<and> ap_LastSourceErr (ae_AuthPath e) \<noteq> []"
proof -
  have "ParseLoginName ''alice+dev'' = Inr (''alice'', ''dev'')" by code_simp
  moreover have "getDevPod ex_down ''alice'' ''dev'' ex_auth_mem = (Inr (hd (m_devpods ex_auth_mem)), ex_auth_mem)"
    by code_simp
  ultimately show ?thesis
    using Authenticate_reports_source_errors [of "''alice+dev''" "''alice''" "''dev''" ex_down ex_auth_mem
        "hd (m_devpods ex_auth_mem)" ex_auth_mem ex_ssh "''k1''" "\<lambda>_. []"]
    by (auto simp: ex_down_def ex_au_def ex_ssh_def hasKey_def knows_def hardError_def)
qed

end
