(* ===== verification/Ldap_Source.thy ===== *)
theory Ldap_Source
  imports Gateway_Auth "HOL-Library.Signed_Division"
begin

section \<open>Gateway: the LDAP identity source\<close>

text \<open>
  \<open>src/internal/gateway/ldap.go\<close>.  The client library \<open>go-ldap\<close> and the clock are the record
  \<open>ldap_lib\<close>, over an opaque state \<open>'e\<close> of the network; a parsed \<open>text/template\<close> is the function that
  executes it on a user name.  The fields of \<open>ldapSource\<close> that change (connection, cache, warning
  times), the process-wide metrics it sets and the log rows it writes are one record, threaded
  through every operation together with the network.  The sections that \<open>Resolve\<close> runs under the
  cache lock are the pure functions \<open>cacheCheck\<close> and \<open>settle\<close>: \<open>Resolve\<close> composes them for one
  caller, and the relation \<open>ldap_step\<close> interleaves any number of callers through \<open>singleflight\<close>.
\<close>

subsection \<open>Data\<close>

record ldap_config =
  lc_URL :: string
  lc_CAPath :: string
  lc_BindDN :: string
  lc_BindPasswordPath :: string
  lc_BaseDN :: string
  lc_UserFilter :: string
  lc_PubkeyAttribute :: string
  lc_RequestTimeout :: duration
  lc_CacheTTL :: duration
  lc_NegativeCacheTTL :: duration
  lc_StaleGrace :: duration

definition DefaultUserFilter :: string where
  "DefaultUserFilter = ''(&(objectClass=posixAccount)(uid={{.Username}}))''"

definition defaultPubkeyAttribute :: string where
  "defaultPubkeyAttribute = ''sshPublicKey''"

type_synonym filter_tmpl = "string \<Rightarrow> go_error + string"

record tls_config =
  tls_RootCAs :: string
  tls_ServerName :: string
  tls_MinVersion :: nat

text \<open>The arguments of \<open>ldap.NewSearchRequest\<close>, by their documented constants.\<close>

datatype ldap_scope = ScopeBaseObject | ScopeSingleLevel | ScopeWholeSubtree
datatype ldap_deref = NeverDerefAliases | DerefInSearching | DerefFindingBaseObj | DerefAlways

record search_request =
  sq_BaseDN :: string
  sq_Scope :: ldap_scope
  sq_DerefAliases :: ldap_deref
  sq_SizeLimit :: int
  sq_TimeLimit :: int
  sq_TypesOnly :: bool
  sq_Filter :: string
  sq_Attributes :: "string list"

text \<open>An entry of a search result is known by its \<open>GetAttributeValues\<close>.\<close>

type_synonym ldap_entry = "string \<Rightarrow> string list"

record ('c, 'e) ldap_lib =
  lib_DialURL :: "string \<Rightarrow> tls_config \<Rightarrow> 'e \<Rightarrow> (go_error + 'c) \<times> 'e"
  lib_SetTimeout :: "'c \<Rightarrow> duration \<Rightarrow> 'e \<Rightarrow> 'e"
  lib_Bind :: "'c \<Rightarrow> string \<Rightarrow> string \<Rightarrow> 'e \<Rightarrow> go_error option \<times> 'e"
  lib_Search :: "'c \<Rightarrow> search_request \<Rightarrow> 'e \<Rightarrow> (go_error + ldap_entry list) \<times> 'e"
  lib_Close :: "'c \<Rightarrow> 'e \<Rightarrow> 'e"
  lib_Now :: "'e \<Rightarrow> timestamp \<times> 'e"
  lib_Hostname :: "string \<Rightarrow> string option"

text \<open>\<open>ce_keys = None\<close> is Go's nil slice, the negative entry; \<open>ce_lastErrAt = None\<close> the zero time.\<close>

record 'k ldap_cache_entry =
  ce_keys :: "'k list option"
  ce_fetchedAt :: timestamp
  ce_lastErrAt :: "timestamp option"

type_synonym 'k ldap_cache = "(string \<times> 'k ldap_cache_entry) list"

datatype log_level = LogWarn | LogDebug

text \<open>A row of \<open>ldap_lookup_failed\<close>: its level, the clock reading, and the user and class that key it.\<close>

type_synonym warn_row = "log_level \<times> timestamp \<times> string"

record ('k, 'c) ldap_source =
  ls_cfg :: ldap_config
  ls_bindPass :: string
  ls_caPool :: string
  ls_filterTmpl :: filter_tmpl
  ls_pubkeyAttr :: string
  ls_conn :: "'c option"
  ls_cache :: "'k ldap_cache"
  ls_lastWarn :: "(string \<times> timestamp) list"
  ls_LookupsTotal :: "string list"
  ls_CacheEntries :: "nat \<times> nat"
  ls_ConnectionState :: nat
  ls_log :: "warn_row list"

subsection \<open>Errors and durations\<close>

definition classifyLDAPError :: "string option \<Rightarrow> string" where
  "classifyLDAPError err =
     (case err of
        None \<Rightarrow> ''ok''
      | Some s \<Rightarrow>
          if Contains s ''Network Error'' \<or> Contains s ''connection refused'' \<or> Contains s ''i/o timeout'' \<or>
             Contains s ''no such host'' then ''network''
          else if Contains s ''Invalid Credentials'' then ''bind''
          else if Contains s ''Time Limit Exceeded'' then ''timeout''
          else ''other'')"

definition roundUpSeconds :: "duration \<Rightarrow> int" where
  "roundUpSeconds d =
     (let secs = d sdiv Second;
          secs = (if d smod Second > 0 then secs + 1 else secs)
      in if secs < 1 then 1 else secs)"

definition warnRateLimited ::
  "('c, 'e) ldap_lib \<Rightarrow> (api_error \<Rightarrow> string) \<Rightarrow> string \<Rightarrow> go_error \<Rightarrow> ('k, 'c) ldap_source \<times> 'e \<Rightarrow> ('k, 'c) ldap_source \<times> 'e" where
  "warnRateLimited LIB txt username err = (\<lambda>(s, e).
     let cls = classifyLDAPError (Some (Error txt err));
         key = username @ ''|'' @ cls
     in case lib_Now LIB e of
          (now, e') \<Rightarrow>
            let fresh = (case map_of (ls_lastWarn s) key of None \<Rightarrow> True | Some prev \<Rightarrow> time_Sub now prev \<ge> Minute);
                s' = (if fresh then s\<lparr>ls_lastWarn := AList.update key now (ls_lastWarn s)\<rparr> else s)
            in (s'\<lparr>ls_log := ls_log s @ [(if fresh then LogWarn else LogDebug, now, key)]\<rparr>, e'))"

subsection \<open>The connection\<close>

definition tlsConfig :: "('c, 'e) ldap_lib \<Rightarrow> ('k, 'c) ldap_source \<Rightarrow> tls_config" where
  "tlsConfig LIB s =
     (let host = (case lib_Hostname LIB (lc_URL (ls_cfg s)) of
                    Some h \<Rightarrow> if h \<noteq> [] then h else lc_URL (ls_cfg s)
                  | None \<Rightarrow> lc_URL (ls_cfg s))
      in \<lparr>tls_RootCAs = ls_caPool s, tls_ServerName = host, tls_MinVersion = 0x0303\<rparr>)"

definition acquireConn ::
  "('c, 'e) ldap_lib \<Rightarrow> ('k, 'c) ldap_source \<times> 'e \<Rightarrow> (go_error + 'c) \<times> ('k, 'c) ldap_source \<times> 'e" where
  "acquireConn LIB = (\<lambda>(s, e).
     case ls_conn s of
       Some c \<Rightarrow> (Inr c, s, e)
     | None \<Rightarrow>
         (case lib_DialURL LIB (lc_URL (ls_cfg s)) (tlsConfig LIB s) e of
            (Inl err, e1) \<Rightarrow> (Inl err, s, e1)
          | (Inr c, e1) \<Rightarrow>
              (case lib_Bind LIB c (lc_BindDN (ls_cfg s)) (ls_bindPass s) (lib_SetTimeout LIB c (lc_RequestTimeout (ls_cfg s)) e1) of
                 (Some err, e2) \<Rightarrow> (Inl err, s, lib_Close LIB c e2)
               | (None, e2) \<Rightarrow> (Inr c, s\<lparr>ls_conn := Some c, ls_ConnectionState := 1\<rparr>, e2))))"

definition resetConn :: "('c, 'e) ldap_lib \<Rightarrow> ('k, 'c) ldap_source \<times> 'e \<Rightarrow> ('k, 'c) ldap_source \<times> 'e" where
  "resetConn LIB = (\<lambda>(s, e).
     case ls_conn s of
       None \<Rightarrow> (s, e)
     | Some c \<Rightarrow> (s\<lparr>ls_conn := None, ls_ConnectionState := 0\<rparr>, lib_Close LIB c e))"

definition Close :: "('c, 'e) ldap_lib \<Rightarrow> ('k, 'c) ldap_source \<times> 'e \<Rightarrow> ('k, 'c) ldap_source \<times> 'e" where
  "Close LIB st = resetConn LIB st"

subsection \<open>One lookup on the wire\<close>

definition renderFilter :: "('k, 'c) ldap_source \<Rightarrow> string \<Rightarrow> go_error + string" where
  "renderFilter s username = ls_filterTmpl s (escapeRFC4515 username)"

definition searchRequest :: "('k, 'c) ldap_source \<Rightarrow> string \<Rightarrow> search_request" where
  "searchRequest s filt =
     \<lparr>sq_BaseDN = lc_BaseDN (ls_cfg s), sq_Scope = ScopeWholeSubtree, sq_DerefAliases = DerefAlways, sq_SizeLimit = 2,
      sq_TimeLimit = roundUpSeconds (lc_RequestTimeout (ls_cfg s)), sq_TypesOnly = False, sq_Filter = filt,
      sq_Attributes = [ls_pubkeyAttr s]\<rparr>"

text \<open>\<open>conn.Search\<close>, and on an error one more try on a fresh connection.\<close>

definition searchFailed ::
  "('c, 'e) ldap_lib \<Rightarrow> (api_error \<Rightarrow> string) \<Rightarrow> string \<Rightarrow> go_error \<Rightarrow> ('k, 'c) ldap_source \<times> 'e \<Rightarrow>
   (go_error + ldap_entry list) \<times> ('k, 'c) ldap_source \<times> 'e" where
  "searchFailed LIB txt username err st =
     (let werr = Errorf ''ldap search: %w'' [] (Some err)
      in (Inl werr, warnRateLimited LIB txt username werr (resetConn LIB st)))"

definition searchRetry ::
  "('c, 'e) ldap_lib \<Rightarrow> (api_error \<Rightarrow> string) \<Rightarrow> string \<Rightarrow> 'c \<Rightarrow> search_request \<Rightarrow> ('k, 'c) ldap_source \<times> 'e \<Rightarrow>
   (go_error + ldap_entry list) \<times> ('k, 'c) ldap_source \<times> 'e" where
  "searchRetry LIB txt username c req = (\<lambda>(s, e).
     case lib_Search LIB c req e of
       (Inr res, e1) \<Rightarrow> (Inr res, s, e1)
     | (Inl err, e1) \<Rightarrow>
         (case acquireConn LIB (resetConn LIB (s, e1)) of
            (Inl rerr, st2) \<Rightarrow> searchFailed LIB txt username err st2
          | (Inr c', s2, e2) \<Rightarrow>
              (case lib_Search LIB c' req e2 of
                 (Inr res, e3) \<Rightarrow> (Inr res, s2, e3)
               | (Inl err', e3) \<Rightarrow> searchFailed LIB txt username err' (s2, e3))))"

definition lookupBody ::
  "('c, 'e) ldap_lib \<Rightarrow> 'k ssh_lib \<Rightarrow> (api_error \<Rightarrow> string) \<Rightarrow> string \<Rightarrow> ('k, 'c) ldap_source \<times> 'e \<Rightarrow>
   (go_error + 'k list option) \<times> ('k, 'c) ldap_source \<times> 'e" where
  "lookupBody LIB L txt username st =
     (case acquireConn LIB st of
        (Inl err, st1) \<Rightarrow>
          (let werr = Errorf ''ldap dial/bind: %w'' [] (Some err)
           in (Inl werr, warnRateLimited LIB txt username werr st1))
      | (Inr c, s1, e1) \<Rightarrow>
          (case renderFilter s1 username of
             Inl err \<Rightarrow> (Inl (Errorf ''ldap render filter: %w'' [] (Some err)), s1, e1)
           | Inr filt \<Rightarrow>
               (case searchRetry LIB txt username c (searchRequest s1 filt) (s1, e1) of
                  (Inl werr, st2) \<Rightarrow> (Inl werr, st2)
                | (Inr entries, st2) \<Rightarrow>
                    (Inr (case entries of
                            [] \<Rightarrow> None
                          | ent # _ \<Rightarrow> Some (parseKeys L (ent (ls_pubkeyAttr s1)))), st2))))"

text \<open>\<open>liveLookup\<close> reads the clock before and, in its deferred function, after the lookup.\<close>

definition liveLookup ::
  "('c, 'e) ldap_lib \<Rightarrow> 'k ssh_lib \<Rightarrow> (api_error \<Rightarrow> string) \<Rightarrow> string \<Rightarrow> ('k, 'c) ldap_source \<times> 'e \<Rightarrow>
   (go_error + 'k list option) \<times> ('k, 'c) ldap_source \<times> 'e" where
  "liveLookup LIB L txt username = (\<lambda>(s, e).
     case lookupBody LIB L txt username (s, snd (lib_Now LIB e)) of
       (r, s', e') \<Rightarrow> (r, s', snd (lib_Now LIB e')))"

subsection \<open>The cache\<close>

definition entryTTL :: "ldap_config \<Rightarrow> 'k ldap_cache_entry \<Rightarrow> duration" where
  "entryTTL cfg en = (if ce_keys en = None then lc_NegativeCacheTTL cfg else lc_CacheTTL cfg)"

definition resolveResultFromEntry :: "'k ldap_cache_entry \<Rightarrow> bool \<Rightarrow> 'k resolve_result \<times> go_error option" where
  "resolveResultFromEntry en stale =
     (case ce_keys en of
        None \<Rightarrow> (\<lparr>rr_Keys = [], rr_ServedStale = stale\<rparr>, Some ErrIdentityNotFound)
      | Some keys \<Rightarrow> (\<lparr>rr_Keys = keys, rr_ServedStale = stale\<rparr>, None))"

text \<open>The check under the read lock: the entry to serve and whether it is stale.\<close>

definition cacheCheck :: "ldap_config \<Rightarrow> 'k ldap_cache \<Rightarrow> string \<Rightarrow> timestamp \<Rightarrow> ('k ldap_cache_entry \<times> bool) option" where
  "cacheCheck cfg cache username now =
     (case map_of cache username of
        None \<Rightarrow> None
      | Some en \<Rightarrow>
          (let ttl = entryTTL cfg en; age = time_Sub now (ce_fetchedAt en)
           in if ce_lastErrAt en = None \<and> age < ttl then Some (en, False)
              else if ce_lastErrAt en \<noteq> None \<and> age < wrap64 (ttl + lc_StaleGrace cfg) then Some (en, True)
              else None))"

text \<open>What the closure given to \<open>flight.Do\<close> returns.\<close>

datatype 'k flight = FlightKeys "'k list" | FlightEntry "'k ldap_cache_entry" | FlightErr go_error

text \<open>
  The part of that closure under the write lock, with the labels it counts: the new cache from the
  answer of the live lookup.
\<close>

definition settle ::
  "ldap_config \<Rightarrow> string \<Rightarrow> timestamp \<Rightarrow> go_error + 'k list option \<Rightarrow> 'k ldap_cache \<Rightarrow> 'k flight \<times> 'k ldap_cache \<times> string list" where
  "settle cfg username now ans cache =
     (case ans of
        Inl lerr \<Rightarrow>
          (case map_of cache username of
             Some existing \<Rightarrow>
               (let existing' = existing\<lparr>ce_lastErrAt := Some now\<rparr>;
                    cache' = AList.update username existing' cache
                in if time_Sub now (ce_fetchedAt existing) < wrap64 (entryTTL cfg existing + lc_StaleGrace cfg)
                   then (FlightEntry existing', cache', [''error'', ''cache_stale''])
                   else (FlightErr lerr, cache', [''error'']))
           | None \<Rightarrow> (FlightErr lerr, cache, [''error'']))
      | Inr keys \<Rightarrow>
          (let cache' = AList.update username \<lparr>ce_keys = keys, ce_fetchedAt = now, ce_lastErrAt = None\<rparr> cache
           in case keys of
                None \<Rightarrow> (FlightErr ErrIdentityNotFound, cache', [''miss''])
              | Some ks \<Rightarrow> (FlightKeys ks, cache', [''hit''])))"

definition updateCacheGauges :: "'k ldap_cache \<Rightarrow> nat \<times> nat" where
  "updateCacheGauges cache =
     (length (filter (\<lambda>(u, en). ce_keys en \<noteq> None) cache), length (filter (\<lambda>(u, en). ce_keys en = None) cache))"

definition deliver :: "'k flight \<Rightarrow> 'k resolve_result \<times> go_error option" where
  "deliver v =
     (case v of
        FlightErr err \<Rightarrow> (noKeys, Some err)
      | FlightKeys keys \<Rightarrow> (\<lparr>rr_Keys = keys, rr_ServedStale = False\<rparr>, None)
      | FlightEntry en \<Rightarrow> resolveResultFromEntry en True)"

text \<open>\<open>Resolve\<close> of one caller with no other in flight.\<close>

definition Resolve ::
  "('c, 'e) ldap_lib \<Rightarrow> 'k ssh_lib \<Rightarrow> (api_error \<Rightarrow> string) \<Rightarrow> string \<Rightarrow> ('k, 'c) ldap_source \<times> 'e \<Rightarrow>
   ('k resolve_result \<times> go_error option) \<times> ('k, 'c) ldap_source \<times> 'e" where
  "Resolve LIB L txt username = (\<lambda>(s, e).
     case lib_Now LIB e of
       (now, e1) \<Rightarrow>
         (case cacheCheck (ls_cfg s) (ls_cache s) username now of
            Some (en, stale) \<Rightarrow>
              (resolveResultFromEntry en stale,
               s\<lparr>ls_LookupsTotal := ls_LookupsTotal s @ [if stale then ''cache_stale'' else ''cache_fresh'']\<rparr>, e1)
          | None \<Rightarrow>
              (case liveLookup LIB L txt username (s, e1) of
                 (ans, s2, e2) \<Rightarrow>
                   (case settle (ls_cfg s2) username now ans (ls_cache s2) of
                      (v, cache', labels) \<Rightarrow>
                        (deliver v,
                         s2\<lparr>ls_cache := cache', ls_LookupsTotal := ls_LookupsTotal s2 @ labels,
                            ls_CacheEntries := (case ans of Inl _ \<Rightarrow> ls_CacheEntries s2 | Inr _ \<Rightarrow> updateCacheGauges cache')\<rparr>,
                         e2)))))"

subsection \<open>Construction\<close>

text \<open>
  What \<open>NewLDAPSource\<close> calls: the files of the mounted Secrets, whether a text holds a PEM
  certificate, and the template parser.
\<close>

record ldap_host =
  lh_ReadFile :: "string \<Rightarrow> go_error + string"
  lh_HasPEM :: "string \<Rightarrow> bool"
  lh_Parse :: "string \<Rightarrow> go_error + filter_tmpl"

definition TrimRight :: "string \<Rightarrow> string \<Rightarrow> string" where
  "TrimRight s cutset = rev (dropWhile (\<lambda>c. c \<in> set cutset) (rev s))"

definition ldapProbe :: string where "ldapProbe = ''DEVPODPROBE0''"

definition newSource :: "ldap_config \<Rightarrow> string \<Rightarrow> string \<Rightarrow> filter_tmpl \<Rightarrow> ('k, 'c) ldap_source" where
  "newSource cfg pw pool tmpl =
     \<lparr>ls_cfg = cfg, ls_bindPass = TrimRight pw [CHR 0x0D, CHR 0x0A], ls_caPool = pool, ls_filterTmpl = tmpl,
      ls_pubkeyAttr = (if lc_PubkeyAttribute cfg = [] then defaultPubkeyAttribute else lc_PubkeyAttribute cfg),
      ls_conn = None, ls_cache = [], ls_lastWarn = [], ls_LookupsTotal = [], ls_CacheEntries = (0, 0),
      ls_ConnectionState = 0, ls_log = []\<rparr>"

definition NewLDAPSource ::
  "ldap_host \<Rightarrow> ('c, 'e) ldap_lib \<Rightarrow> ldap_config \<Rightarrow> 'e \<Rightarrow> (go_error + ('k, 'c) ldap_source) \<times> 'e" where
  "NewLDAPSource H LIB cfg e =
     (if \<not> HasPrefix (lc_URL cfg) ''ldaps://''
      then (Inl (Errorf ''ldap: URL must use ldaps:// scheme, got %q'' [lc_URL cfg] None), e)
      else case lh_ReadFile H (lc_CAPath cfg) of
        Inl err \<Rightarrow> (Inl (Errorf ''ldap: read CA: %w'' [] (Some err)), e)
      | Inr caBytes \<Rightarrow>
          if \<not> lh_HasPEM H (TrimSpace caBytes)
          then (Inl (ErrSentinel ''ldap: CA file did not contain any PEM certificates''), e)
          else case lh_ReadFile H (lc_BindPasswordPath cfg) of
            Inl err \<Rightarrow> (Inl (Errorf ''ldap: read bind password: %w'' [] (Some err)), e)
          | Inr pw \<Rightarrow>
              (let filterSrc = (if lc_UserFilter cfg = [] then DefaultUserFilter else lc_UserFilter cfg)
               in case lh_Parse H filterSrc of
                    Inl err \<Rightarrow> (Inl (Errorf ''ldap: parse UserFilter: %w'' [] (Some err)), e)
                  | Inr tmpl \<Rightarrow>
                      (case tmpl ldapProbe of
                         Inl err \<Rightarrow> (Inl (Errorf ''ldap: execute UserFilter (probe): %w'' [] (Some err)), e)
                       | Inr out \<Rightarrow>
                           if \<not> Contains out ldapProbe
                           then (Inl (Errorf ''ldap: UserFilter must reference {{.Username}}; got %q'' [filterSrc] None), e)
                           else case acquireConn LIB (newSource cfg pw (TrimSpace caBytes) tmpl, e) of
                                  (r, s, e') \<Rightarrow> (Inr s, e'))))"

subsection \<open>The invariant of a source\<close>

text \<open>
  Two warnings of one user and class are a minute apart; the connection gauge says whether there
  is a connection; the cache has one entry per user and its gauges count them.
\<close>

definition warn_apart :: "warn_row \<Rightarrow> warn_row \<Rightarrow> bool" where
  "warn_apart r r' \<longleftrightarrow>
     (fst r = LogWarn \<and> fst r' = LogWarn \<and> snd (snd r) = snd (snd r') \<longrightarrow> fst (snd r) + Minute \<le> fst (snd r'))"

definition warned :: "(string \<times> timestamp) list \<Rightarrow> warn_row \<Rightarrow> bool" where
  "warned last_warn r \<longleftrightarrow>
     (fst r = LogWarn \<longrightarrow> (\<exists>t. map_of last_warn (snd (snd r)) = Some t \<and> fst (snd r) \<le> t))"

definition warn_ok :: "('k, 'c) ldap_source \<Rightarrow> bool" where
  "warn_ok s \<longleftrightarrow> sorted_wrt warn_apart (ls_log s) \<and> list_all (warned (ls_lastWarn s)) (ls_log s)"

definition conn_ok :: "('k, 'c) ldap_source \<Rightarrow> bool" where
  "conn_ok s \<longleftrightarrow> ls_ConnectionState s = (case ls_conn s of None \<Rightarrow> 0 | Some _ \<Rightarrow> 1)"

definition cache_ok :: "('k, 'c) ldap_source \<Rightarrow> bool" where
  "cache_ok s \<longleftrightarrow> distinct (map fst (ls_cache s)) \<and> ls_CacheEntries s = updateCacheGauges (ls_cache s)"

definition ldap_inv :: "('k, 'c) ldap_source \<Rightarrow> bool" where
  "ldap_inv s \<longleftrightarrow> warn_ok s \<and> conn_ok s \<and> cache_ok s"

text \<open>What a lookup on the wire leaves alone: everything but the connection and the warnings.\<close>

definition wire_frame :: "('k, 'c) ldap_source \<Rightarrow> ('k, 'c) ldap_source \<Rightarrow> bool" where
  "wire_frame s s' \<longleftrightarrow>
     ls_cfg s' = ls_cfg s \<and> ls_bindPass s' = ls_bindPass s \<and> ls_caPool s' = ls_caPool s \<and>
     ls_filterTmpl s' = ls_filterTmpl s \<and> ls_pubkeyAttr s' = ls_pubkeyAttr s \<and> ls_cache s' = ls_cache s \<and>
     ls_LookupsTotal s' = ls_LookupsTotal s \<and> ls_CacheEntries s' = ls_CacheEntries s \<and>
     (warn_ok s \<longrightarrow> warn_ok s') \<and> (conn_ok s \<longrightarrow> conn_ok s')"

lemma wire_frame_refl [simp]: "wire_frame s s"
  by (simp add: wire_frame_def)

lemma wire_frame_trans [trans]: "wire_frame s s' \<Longrightarrow> wire_frame s' s'' \<Longrightarrow> wire_frame s s''"
  by (simp add: wire_frame_def)

lemma wire_frame_sel:
  assumes "wire_frame s s'"
  shows "ls_cfg s' = ls_cfg s" "ls_cache s' = ls_cache s" "ls_CacheEntries s' = ls_CacheEntries s"
    "ls_LookupsTotal s' = ls_LookupsTotal s" "ls_pubkeyAttr s' = ls_pubkeyAttr s" "ls_filterTmpl s' = ls_filterTmpl s"
  using assms by (auto simp: wire_frame_def)

lemma time_Sub_ge: "d < 2 ^ 63 \<Longrightarrow> - (2 ^ 63) < d \<Longrightarrow> d \<le> time_Sub t u \<longleftrightarrow> d \<le> t - u"
  by (auto simp: time_Sub_def)

lemma time_Sub_less: "d < 2 ^ 63 \<Longrightarrow> - (2 ^ 63) < d \<Longrightarrow> time_Sub t u < d \<longleftrightarrow> t - u < d"
  by (auto simp: time_Sub_def)

lemma warn_ok_log:
  assumes ok: "warn_ok s" and fresh: "map_of (ls_lastWarn s) key = Some t \<Longrightarrow> lvl = LogWarn \<Longrightarrow> t + Minute \<le> now"
    and prev: "\<And>t. map_of (ls_lastWarn s) key = Some t \<Longrightarrow> lvl = LogWarn \<Longrightarrow> t + Minute \<le> now"
  shows "warn_ok (s\<lparr>ls_lastWarn := (if lvl = LogWarn then AList.update key now (ls_lastWarn s) else ls_lastWarn s),
                    ls_log := ls_log s @ [(lvl, now, key)]\<rparr>)"
proof (cases "lvl = LogWarn")
  case True
  have old: "warned (ls_lastWarn s) r" if "r \<in> set (ls_log s)" for r
    using ok that by (auto simp: warn_ok_def list_all_iff)
  have "warn_apart r (lvl, now, key)" if "r \<in> set (ls_log s)" for r
    using old [OF that] prev True by (fastforce simp: warn_apart_def warned_def)
  moreover have "warned (AList.update key now (ls_lastWarn s)) r" if "r \<in> set (ls_log s)" for r
    using old [OF that] prev True by (fastforce simp: warned_def)
  ultimately show ?thesis
    using ok True by (auto simp: warn_ok_def sorted_wrt_append list_all_iff warned_def)
next
  case False
  with ok show ?thesis by (auto simp: warn_ok_def sorted_wrt_append warn_apart_def warned_def)
qed

lemma warnRateLimited_frame:
  "wire_frame (fst st) (fst (warnRateLimited LIB txt username err st))"
proof -
  obtain s e where st: "st = (s, e)" by (cases st)
  obtain now e' where n: "lib_Now LIB e = (now, e')" by (cases "lib_Now LIB e")
  define key where "key = username @ ''|'' @ classifyLDAPError (Some (Error txt err))"
  define lvl where "lvl = (case map_of (ls_lastWarn s) key of None \<Rightarrow> LogWarn
    | Some prev \<Rightarrow> if time_Sub now prev \<ge> Minute then LogWarn else LogDebug)"
  let ?s = "s\<lparr>ls_lastWarn := (if lvl = LogWarn then AList.update key now (ls_lastWarn s) else ls_lastWarn s),
              ls_log := ls_log s @ [(lvl, now, key)]\<rparr>"
  have eq: "fst (warnRateLimited LIB txt username err st) = ?s"
    unfolding st warnRateLimited_def prod.case n Let_def key_def [symmetric]
    by (auto simp: lvl_def split: option.splits)
  have "t + Minute \<le> now" if "map_of (ls_lastWarn s) key = Some t" "lvl = LogWarn" for t
    using that by (auto simp: lvl_def time_Sub_def split: if_splits)
  then have "warn_ok s \<longrightarrow> warn_ok ?s" using warn_ok_log [of s key] by blast
  with eq show ?thesis by (simp add: st wire_frame_def conn_ok_def)
qed

lemma resetConn_frame: "wire_frame (fst st) (fst (resetConn LIB st))"
  by (auto simp: resetConn_def wire_frame_def warn_ok_def conn_ok_def split: option.splits prod.splits)

lemma acquireConn_frame: "wire_frame (fst st) (fst (snd (acquireConn LIB st)))"
  by (auto simp: acquireConn_def wire_frame_def warn_ok_def conn_ok_def split: option.splits prod.splits sum.splits)

lemma acquireConn_frameD: "acquireConn LIB st = (r, s', e') \<Longrightarrow> wire_frame (fst st) s'"
  using acquireConn_frame [of st LIB] by simp

lemma searchFailed_frame: "wire_frame (fst st) (fst (snd (searchFailed LIB txt username err st)))"
  unfolding searchFailed_def Let_def snd_conv by (rule wire_frame_trans [OF resetConn_frame warnRateLimited_frame])

lemma searchRetry_frame: "wire_frame (fst st) (fst (snd (searchRetry LIB txt username c req st)))"
proof (cases "lib_Search LIB c req (snd st)")
  case (Pair a e1)
  show ?thesis
  proof (cases a)
    case (Inl err)
    obtain r s2 e2 where acq: "acquireConn LIB (resetConn LIB (fst st, e1)) = (r, s2, e2)" by (metis prod.exhaust)
    have f2: "wire_frame (fst st) s2"
      using wire_frame_trans [OF resetConn_frame [of "(fst st, e1)" LIB] acquireConn_frameD [OF acq]] by simp
    then have fail: "wire_frame (fst st) (fst (snd (searchFailed LIB txt username x (s2, e))))" for x e
      using wire_frame_trans [OF _ searchFailed_frame [of "(s2, e)"]] by simp
    show ?thesis using Pair Inl acq f2 fail by (simp add: searchRetry_def case_prod_unfold split: sum.splits)
  qed (simp add: searchRetry_def Pair case_prod_unfold)
qed

lemma lookupBody_frame: "wire_frame (fst st) (fst (snd (lookupBody LIB L txt username st)))"
proof -
  obtain r s1 e1 where acq: "acquireConn LIB st = (r, s1, e1)" by (metis prod.exhaust)
  note f1 = acquireConn_frameD [OF acq]
  have "wire_frame (fst st) (fst (warnRateLimited LIB txt username x (s1, e1)))" for x
    using wire_frame_trans [OF f1 warnRateLimited_frame [of "(s1, e1)", unfolded fst_conv]] .
  moreover have "wire_frame (fst st) (fst (snd (searchRetry LIB txt username c req (s1, e1))))" for c req
    using wire_frame_trans [OF f1 searchRetry_frame [of "(s1, e1)", unfolded fst_conv]] .
  ultimately show ?thesis
    using acq f1 by (simp add: lookupBody_def Let_def case_prod_unfold split: sum.splits)
qed

lemma liveLookup_frame: "wire_frame (fst st) (fst (snd (liveLookup LIB L txt username st)))"
  using lookupBody_frame [of "(fst st, snd (lib_Now LIB (snd st)))"] by (simp add: liveLookup_def case_prod_unfold)

lemma liveLookup_frameD: "liveLookup LIB L txt username (s, e) = (ans, s', e') \<Longrightarrow> wire_frame s s'"
  using liveLookup_frame [of "(s, e)" LIB L "txt" username] by simp

text \<open>\<open>Resolve\<close> by its two outcomes.\<close>

lemma Resolve_cached:
  assumes "lib_Now LIB e = (now, e1)" "cacheCheck (ls_cfg s) (ls_cache s) username now = Some (en, stale)"
  shows "Resolve LIB L txt username (s, e) =
    (resolveResultFromEntry en stale,
     s\<lparr>ls_LookupsTotal := ls_LookupsTotal s @ [if stale then ''cache_stale'' else ''cache_fresh'']\<rparr>, e1)"
  using assms by (simp add: Resolve_def)

lemma Resolve_live:
  assumes "lib_Now LIB e = (now, e1)" "cacheCheck (ls_cfg s) (ls_cache s) username now = None"
    and "liveLookup LIB L txt username (s, e1) = (ans, s2, e2)"
    and "settle (ls_cfg s) username now ans (ls_cache s) = (v, cache', labels)"
  shows "Resolve LIB L txt username (s, e) =
    (deliver v,
     s2\<lparr>ls_cache := cache', ls_LookupsTotal := ls_LookupsTotal s @ labels,
        ls_CacheEntries := (case ans of Inl _ \<Rightarrow> ls_CacheEntries s | Inr _ \<Rightarrow> updateCacheGauges cache')\<rparr>, e2)"
  using assms wire_frame_sel [OF liveLookup_frameD [OF assms(3)]] by (cases ans) (simp_all add: Resolve_def)

lemma Resolve_cases:
  obtains (cached) now e1 en stale where
      "lib_Now LIB e = (now, e1)" "cacheCheck (ls_cfg s) (ls_cache s) username now = Some (en, stale)"
  | (live) now e1 ans s2 e2 v cache' labels where
      "lib_Now LIB e = (now, e1)" "cacheCheck (ls_cfg s) (ls_cache s) username now = None"
      "liveLookup LIB L T username (s, e1) = (ans, s2, e2)"
      "settle (ls_cfg s) username now ans (ls_cache s) = (v, cache', labels)"
proof (cases "lib_Now LIB e")
  case (Pair now e1)
  show thesis
  proof (cases "cacheCheck (ls_cfg s) (ls_cache s) username now")
    case None
    with Pair live show thesis by (metis prod.exhaust)
  qed (use Pair cached in force)
qed

text \<open>Marking an entry with the time of an error changes no gauge.\<close>

lemma updateCacheGauges_mark:
  assumes "map_of cache u = Some en" "ce_keys en' = ce_keys en" "distinct (map fst cache)"
  shows "updateCacheGauges (AList.update u en' cache) = updateCacheGauges cache"
  using assms by (induction cache) (auto simp: updateCacheGauges_def split: if_splits)

lemma settle_distinct:
  "settle cfg u now ans cache = (v, cache', labels) \<Longrightarrow> distinct (map fst cache) \<Longrightarrow> distinct (map fst cache')"
  by (auto simp: settle_def Let_def distinct_update split: sum.splits option.splits if_splits)

lemma settle_error_gauges:
  "settle cfg u now (Inl err) cache = (v, cache', labels) \<Longrightarrow> distinct (map fst cache) \<Longrightarrow>
   updateCacheGauges cache' = updateCacheGauges cache"
  by (auto simp: settle_def Let_def updateCacheGauges_mark split: option.splits if_splits)

lemma Resolve_inv:
  assumes "ldap_inv s"
  shows "ldap_inv (fst (snd (Resolve LIB L txt username (s, e))))"
proof (cases rule: Resolve_cases [where LIB = LIB and e = e and s = s and username = username and L = L and T = "txt"])
  case cached
  with assms show ?thesis by (simp add: Resolve_cached ldap_inv_def warn_ok_def conn_ok_def cache_ok_def)
next
  case (live now e1 ans s2 e2 v cache' labels)
  note f = liveLookup_frameD [OF live(3)]
  from assms have "warn_ok s2" "conn_ok s2" "distinct (map fst cache')"
    and "ans = Inl err \<Longrightarrow> updateCacheGauges cache' = ls_CacheEntries s" for err
    using f settle_distinct [OF live(4)] settle_error_gauges [of _ _ _ err] live(4)
    by (auto simp: ldap_inv_def cache_ok_def wire_frame_def)
  with live show ?thesis
    by (auto simp: Resolve_live ldap_inv_def warn_ok_def conn_ok_def cache_ok_def split: sum.splits)
qed

text \<open>
  The life of one source: it is built, asked any number of times and closed, while the network
  changes in any way in between.
\<close>

inductive ldap_run :: "ldap_host \<Rightarrow> ('c, 'e) ldap_lib \<Rightarrow> 'k ssh_lib \<Rightarrow> (api_error \<Rightarrow> string) \<Rightarrow> ('k, 'c) ldap_source \<Rightarrow> bool"
  for H LIB L "txt" where
  run_new: "NewLDAPSource H LIB cfg e = (Inr s, e') \<Longrightarrow> ldap_run H LIB L txt s"
| run_resolve: "ldap_run H LIB L txt s \<Longrightarrow> Resolve LIB L txt username (s, e) = (r, s', e') \<Longrightarrow> ldap_run H LIB L txt s'"
| run_close: "ldap_run H LIB L txt s \<Longrightarrow> Close LIB (s, e) = (s', e') \<Longrightarrow> ldap_run H LIB L txt s'"

lemma newSource_inv: "ldap_inv (newSource cfg pw pool tmpl)"
  by (simp add: ldap_inv_def newSource_def warn_ok_def conn_ok_def cache_ok_def updateCacheGauges_def)

lemma wire_frame_inv: "wire_frame s s' \<Longrightarrow> ldap_inv s \<Longrightarrow> ldap_inv s'"
  by (auto simp: wire_frame_def ldap_inv_def cache_ok_def)

text \<open>\<open>NewLDAPSource\<close> succeeds exactly on a configuration it can use.\<close>

definition usable_config :: "ldap_host \<Rightarrow> ldap_config \<Rightarrow> string \<Rightarrow> string \<Rightarrow> filter_tmpl \<Rightarrow> bool" where
  "usable_config H cfg pw ca tmpl \<longleftrightarrow>
     HasPrefix (lc_URL cfg) ''ldaps://'' \<and> lh_ReadFile H (lc_CAPath cfg) = Inr ca \<and> lh_HasPEM H (TrimSpace ca) \<and>
     lh_ReadFile H (lc_BindPasswordPath cfg) = Inr pw \<and>
     lh_Parse H (if lc_UserFilter cfg = [] then DefaultUserFilter else lc_UserFilter cfg) = Inr tmpl \<and>
     (\<exists>out. tmpl ldapProbe = Inr out \<and> Contains out ldapProbe)"

lemma NewLDAPSource_iff:
  "NewLDAPSource H LIB cfg e = (Inr s, e') \<longleftrightarrow>
   (\<exists>pw ca tmpl r. usable_config H cfg pw ca tmpl \<and> acquireConn LIB (newSource cfg pw (TrimSpace ca) tmpl, e) = (r, s, e'))"
  by (auto simp: NewLDAPSource_def usable_config_def Let_def split: sum.splits if_splits prod.splits)

lemma ldap_run_inv:
  assumes "ldap_run H LIB L txt s"
  shows "ldap_inv s"
  using assms
proof induction
  case (run_new cfg e s e')
  then obtain pw ca tmpl r where "acquireConn LIB (newSource cfg pw (TrimSpace ca) tmpl, e) = (r, s, e')"
    by (auto simp: NewLDAPSource_iff)
  from acquireConn_frameD [OF this] show ?case by (rule wire_frame_inv) (simp add: newSource_inv)
next
  case (run_resolve s username e r s' e')
  with Resolve_inv [of s LIB L "txt" username e] show ?case by simp
next
  case (run_close s e s' e')
  with wire_frame_inv [OF resetConn_frame [of "(s, e)" LIB]] show ?case by (simp add: Close_def)
qed

subsection \<open>Concurrent callers\<close>

text \<open>
  Any number of calls of \<open>Resolve\<close>, numbered: a call reads the clock and the cache under the read
  lock (\<open>callEnter\<close>); when that does not answer it, it enters the flight of its user name
  (\<open>callFly\<close>), as the leader when there is none, whose clock reading then counts, and as a follower
  otherwise; when the leader's lookup returns (\<open>flightLand\<close>), its answer is settled under the
  write lock and handed to all who wait.  \<open>lk_answers\<close> records, for the statements only, every
  answer of the directory with the clock reading of its flight.
\<close>

datatype 'k ldap_call =
    Idle
  | Missed string timestamp
  | Waiting string
  | Returned string timestamp "'k resolve_result \<times> go_error option"

record 'k ldap_conc =
  lk_cache :: "'k ldap_cache"
  lk_calls :: "nat \<Rightarrow> 'k ldap_call"
  lk_flights :: "string \<rightharpoonup> timestamp"
  lk_answers :: "(string \<times> timestamp \<times> 'k list option) set"

definition callEnter :: "ldap_config \<Rightarrow> nat \<Rightarrow> string \<Rightarrow> timestamp \<Rightarrow> 'k ldap_conc \<Rightarrow> 'k ldap_conc" where
  "callEnter cfg i username now S =
     S\<lparr>lk_calls := (lk_calls S)(i :=
         (case cacheCheck cfg (lk_cache S) username now of
            Some (en, stale) \<Rightarrow> Returned username now (resolveResultFromEntry en stale)
          | None \<Rightarrow> Missed username now))\<rparr>"

definition callFly :: "nat \<Rightarrow> string \<Rightarrow> timestamp \<Rightarrow> 'k ldap_conc \<Rightarrow> 'k ldap_conc" where
  "callFly i username now S =
     S\<lparr>lk_calls := (lk_calls S)(i := Waiting username),
       lk_flights := (case lk_flights S username of
                        None \<Rightarrow> (lk_flights S)(username \<mapsto> now)
                      | Some _ \<Rightarrow> lk_flights S)\<rparr>"

definition flightLand :: "ldap_config \<Rightarrow> string \<Rightarrow> timestamp \<Rightarrow> go_error + 'k list option \<Rightarrow> 'k ldap_conc \<Rightarrow> 'k ldap_conc" where
  "flightLand cfg username now ans S =
     (case settle cfg username now ans (lk_cache S) of
        (v, cache', labels) \<Rightarrow>
          S\<lparr>lk_cache := cache',
            lk_calls := (\<lambda>i. if lk_calls S i = Waiting username then Returned username now (deliver v) else lk_calls S i),
            lk_flights := (lk_flights S)(username := None),
            lk_answers := (case ans of Inl _ \<Rightarrow> lk_answers S | Inr keys \<Rightarrow> insert (username, now, keys) (lk_answers S))\<rparr>)"

inductive ldap_step :: "ldap_config \<Rightarrow> 'k ldap_conc \<Rightarrow> 'k ldap_conc \<Rightarrow> bool" for cfg where
  step_enter: "lk_calls S i = Idle \<Longrightarrow> ldap_step cfg S (callEnter cfg i username now S)"
| step_fly: "lk_calls S i = Missed username now \<Longrightarrow> ldap_step cfg S (callFly i username now S)"
| step_land: "lk_flights S username = Some now \<Longrightarrow> ldap_step cfg S (flightLand cfg username now ans S)"
| step_done: "lk_calls S i = Returned username now r \<Longrightarrow> ldap_step cfg S (S\<lparr>lk_calls := (lk_calls S)(i := Idle)\<rparr>)"

definition conc0 :: "'k ldap_conc" where
  "conc0 = \<lparr>lk_cache = [], lk_calls = (\<lambda>_. Idle), lk_flights = Map.empty, lk_answers = {}\<rparr>"

abbreviation ldap_reach :: "ldap_config \<Rightarrow> 'k ldap_conc \<Rightarrow> bool" where
  "ldap_reach cfg S \<equiv> (ldap_step cfg)\<^sup>*\<^sup>* conc0 S"

text \<open>A result that the directory backs: keys it answered, and not too long before.\<close>

definition backed ::
  "ldap_config \<Rightarrow> (string \<times> timestamp \<times> 'k list option) set \<Rightarrow> string \<Rightarrow> timestamp \<Rightarrow> 'k resolve_result \<times> go_error option \<Rightarrow> bool" where
  "backed cfg A username now r \<longleftrightarrow>
     (snd r = None \<longrightarrow>
       (\<exists>t. (username, t, Some (rr_Keys (fst r))) \<in> A \<and>
          (t = now \<or> time_Sub now t < (if rr_ServedStale (fst r) then wrap64 (lc_CacheTTL cfg + lc_StaleGrace cfg) else lc_CacheTTL cfg))))"

definition conc_inv :: "ldap_config \<Rightarrow> 'k ldap_conc \<Rightarrow> bool" where
  "conc_inv cfg S \<longleftrightarrow>
     (\<forall>u en. map_of (lk_cache S) u = Some en \<longrightarrow> (u, ce_fetchedAt en, ce_keys en) \<in> lk_answers S) \<and>
     (\<forall>i u t r. lk_calls S i = Returned u t r \<longrightarrow> backed cfg (lk_answers S) u t r)"

lemma backed_mono: "backed cfg A u t r \<Longrightarrow> A \<subseteq> B \<Longrightarrow> backed cfg B u t r"
  unfolding backed_def by blast

lemma cacheCheck_backed:
  assumes "cacheCheck cfg cache u now = Some (en, stale)" "(u, ce_fetchedAt en, ce_keys en) \<in> A"
  shows "backed cfg A u now (resolveResultFromEntry en stale)"
  using assms by (auto simp: cacheCheck_def backed_def resolveResultFromEntry_def entryTTL_def Let_def split: option.splits if_splits)

lemma cacheCheck_entry: "cacheCheck cfg cache u now = Some (en, stale) \<Longrightarrow> map_of cache u = Some en"
  by (auto simp: cacheCheck_def Let_def split: option.splits if_splits)

text \<open>Settling keeps the cache backed, and so is what it hands out.\<close>

lemma settle_backed:
  assumes s: "settle cfg u now ans cache = (v, cache', labels)"
    and A: "\<And>u en. map_of cache u = Some en \<Longrightarrow> (u, ce_fetchedAt en, ce_keys en) \<in> A"
    and B: "B = (case ans of Inl _ \<Rightarrow> A | Inr keys \<Rightarrow> insert (u, now, keys) A)"
  shows "map_of cache' x = Some en \<Longrightarrow> (x, ce_fetchedAt en, ce_keys en) \<in> B" "backed cfg B u now (deliver v)"
proof -
  show "(x, ce_fetchedAt en, ce_keys en) \<in> B" if "map_of cache' x = Some en"
    using s A [of x] A [of u] that
    by (cases ans) (auto simp: settle_def B Let_def split: option.splits if_splits)
  show "backed cfg B u now (deliver v)"
  proof (cases ans)
    case (Inl err)
    with s A [of u] show ?thesis
      by (auto simp: settle_def B Let_def deliver_def backed_def resolveResultFromEntry_def entryTTL_def
            split: option.splits if_splits)
  next
    case (Inr keys)
    with s show ?thesis
      by (cases keys) (auto simp: settle_def B Let_def deliver_def backed_def)
  qed
qed

lemma conc_inv_step:
  assumes "ldap_step cfg S S'" "conc_inv cfg S"
  shows "conc_inv cfg S'"
  using assms
proof cases
  case (step_enter i username now)
  then show ?thesis using assms(2) cacheCheck_backed [of cfg "lk_cache S" username now _ _ "lk_answers S"]
      cacheCheck_entry [of cfg "lk_cache S" username now]
    by (auto simp: conc_inv_def callEnter_def split: option.splits)
next
  case (step_land username now ans)
  obtain v cache' labels where st: "settle cfg username now ans (lk_cache S) = (v, cache', labels)" by (metis prod.exhaust)
  define B where "B = (case ans of Inl _ \<Rightarrow> lk_answers S | Inr keys \<Rightarrow> insert (username, now, keys) (lk_answers S))"
  have sub: "lk_answers S \<subseteq> B" by (auto simp: B_def split: sum.splits)
  from assms(2) have "\<And>u en. map_of (lk_cache S) u = Some en \<Longrightarrow> (u, ce_fetchedAt en, ce_keys en) \<in> lk_answers S"
    by (simp add: conc_inv_def)
  note sb = settle_backed [OF st this B_def]
  have "backed cfg B u t r" if "lk_calls S i = Returned u t r" for i u t r
    using backed_mono [OF _ sub] assms(2) that by (cases r) (auto simp: conc_inv_def)
  with sb step_land st show ?thesis by (auto simp: conc_inv_def flightLand_def B_def [symmetric])
qed (auto simp: conc_inv_def callFly_def)

lemma conc_inv_reach: "ldap_reach cfg S \<Longrightarrow> conc_inv cfg S"
proof (induction rule: rtranclp_induct)
  case base
  show ?case by (simp add: conc_inv_def conc0_def)
qed (rule conc_inv_step)

subsection \<open>Properties\<close>

text \<open>
  C9. However calls of \<open>Resolve\<close> overlap, and whatever the directory answers or fails to answer: keys that a
  call returns without an error are exactly the keys the directory answered for that user name in
  some flight, and that answer is either the one of this very call's flight or younger than the
  cache's TTL, or younger than TTL plus grace when the result says that it was served stale.
\<close>

theorem ldap_keys_bounded_age:
  assumes "ldap_reach cfg S" "lk_calls S i = Returned username now (res, None)"
    and "0 \<le> lc_CacheTTL cfg" "0 \<le> lc_StaleGrace cfg" "lc_CacheTTL cfg + lc_StaleGrace cfg < 2 ^ 63"
  shows "\<exists>t. (username, t, Some (rr_Keys res)) \<in> lk_answers S \<and>
    (t = now \<or> now - t < lc_CacheTTL cfg + (if rr_ServedStale res then lc_StaleGrace cfg else 0))"
proof -
  from conc_inv_reach [OF assms(1)] assms(2) have "backed cfg (lk_answers S) username now (res, None)"
    unfolding conc_inv_def by blast
  moreover have "wrap64 (lc_CacheTTL cfg + lc_StaleGrace cfg) = lc_CacheTTL cfg + lc_StaleGrace cfg"
    using assms by (intro wrap64_id) simp_all
  ultimately show ?thesis using assms(3-5) by (auto simp: backed_def time_Sub_less split: if_splits)
qed

definition ex_ldap_cfg :: ldap_config where
  "ex_ldap_cfg = \<lparr>lc_URL = ''ldaps://d'', lc_CAPath = ''ca'', lc_BindDN = ''cn'', lc_BindPasswordPath = ''pw'', lc_BaseDN = ''dc'',
     lc_UserFilter = [], lc_PubkeyAttribute = [], lc_RequestTimeout = 5, lc_CacheTTL = 10, lc_NegativeCacheTTL = 3,
     lc_StaleGrace = 20\<rparr>"

text \<open>A lookup at time 0, and at time 15 one that fails and is answered from the cache.\<close>

definition ex_conc :: "string ldap_conc" where
  "ex_conc =
     flightLand ex_ldap_cfg ''u'' 15 (Inl (ErrSentinel ''down''))
       (callFly 1 ''u'' 15 (callEnter ex_ldap_cfg 1 ''u'' 15
         (flightLand ex_ldap_cfg ''u'' 0 (Inr (Some [''k''])) (callFly 0 ''u'' 0 (callEnter ex_ldap_cfg 0 ''u'' 0 conc0)))))"

lemmas conc_run = conc0_def callEnter_def callFly_def flightLand_def cacheCheck_def settle_def deliver_def
  resolveResultFromEntry_def entryTTL_def ex_ldap_cfg_def time_Sub_def wrap64_def Let_def

lemma ex_conc_reach: "ldap_reach ex_ldap_cfg ex_conc"
proof -
  let ?S1 = "callEnter ex_ldap_cfg 0 ''u'' 0 (conc0 :: string ldap_conc)"
  let ?S3 = "flightLand ex_ldap_cfg ''u'' 0 (Inr (Some [''k''])) (callFly 0 ''u'' 0 ?S1)"
  let ?S4 = "callEnter ex_ldap_cfg 1 ''u'' 15 ?S3"
  note step = rtranclp.rtrancl_into_rtrancl
  have "ldap_reach ex_ldap_cfg ?S1" by (rule r_into_rtranclp, rule step_enter) (simp add: conc0_def)
  then have "ldap_reach ex_ldap_cfg (callFly 0 ''u'' 0 ?S1)" by (rule step, intro step_fly) (simp add: conc_run)
  then have "ldap_reach ex_ldap_cfg ?S3" by (rule step, intro step_land) (simp add: conc_run)
  then have "ldap_reach ex_ldap_cfg ?S4" by (rule step, intro step_enter) (simp add: conc_run)
  then have "ldap_reach ex_ldap_cfg (callFly 1 ''u'' 15 ?S4)" by (rule step, intro step_fly) (simp add: conc_run)
  then show ?thesis unfolding ex_conc_def by (rule step, intro step_land) (simp add: conc_run)
qed

lemma ex_conc_call: "lk_calls ex_conc 1 = Returned ''u'' 15 (\<lparr>rr_Keys = [''k''], rr_ServedStale = True\<rparr>, None)"
  by (simp add: ex_conc_def conc_run)

theorem ldap_keys_bounded_age_witness:
  "\<exists>t. (''u'', t, Some [''k'']) \<in> lk_answers ex_conc \<and> (t = 15 \<or> 15 - t < (30 :: int))"
  using ldap_keys_bounded_age [OF ex_conc_reach ex_conc_call] by (simp add: ex_ldap_cfg_def)

text \<open>
  C10. A call of \<open>Resolve\<close> on its own is a run of the concurrent system: from any state in which no flight for
  the user name is in the air, the steps of one more call lead to the result of \<open>Resolve\<close> and
  to the cache it leaves.
\<close>

theorem Resolve_refines_flights:
  assumes "lk_calls S i = Idle" "lk_flights S username = None" "\<forall>j. lk_calls S j \<noteq> Waiting username" "lk_cache S = ls_cache s"
    and "Resolve LIB L txt username (s, e) = (r, s', e')"
  shows "\<exists>S' now. (ldap_step (ls_cfg s))\<^sup>*\<^sup>* S S' \<and> lk_cache S' = ls_cache s' \<and>
    lk_calls S' = (lk_calls S)(i := Returned username now r)"
proof (cases rule: Resolve_cases [where LIB = LIB and e = e and s = s and username = username and L = L and T = "txt"])
  case (cached now e1 en stale)
  let ?S = "callEnter (ls_cfg s) i username now S"
  have "(ldap_step (ls_cfg s))\<^sup>*\<^sup>* S ?S" using step_enter [OF assms(1)] by blast
  with assms cached show ?thesis
    by (intro exI [of _ ?S] exI [of _ now]) (auto simp: callEnter_def Resolve_cached)
next
  case (live now e1 ans s2 e2 v cache' labels)
  let ?S1 = "callEnter (ls_cfg s) i username now S"
  let ?S2 = "callFly i username now ?S1"
  let ?S3 = "flightLand (ls_cfg s) username now ans ?S2"
  have "ldap_step (ls_cfg s) S ?S1" using step_enter [OF assms(1)] .
  moreover have "ldap_step (ls_cfg s) ?S1 ?S2"
    by (rule step_fly) (simp add: callEnter_def live assms)
  moreover have "ldap_step (ls_cfg s) ?S2 ?S3"
    by (rule step_land) (simp add: callEnter_def callFly_def assms)
  ultimately have "(ldap_step (ls_cfg s))\<^sup>*\<^sup>* S ?S3" by (meson converse_rtranclp_into_rtranclp rtranclp.rtrancl_refl)
  with assms live show ?thesis
    by (intro exI [of _ ?S3] exI [of _ now])
      (auto simp: callEnter_def callFly_def flightLand_def Resolve_live fun_eq_iff)
qed

text \<open>
  Once a lookup has failed, the entry it left is served, marked stale, until TTL plus grace have passed,
  and the directory is not asked again before: the call reads the clock and touches neither the
  network nor the cache, even when the directory answers again.
\<close>

theorem stale_entry_is_not_retried:
  assumes "map_of (ls_cache s) username = Some \<lparr>ce_keys = Some keys, ce_fetchedAt = t, ce_lastErrAt = Some err_at\<rparr>"
    and "lib_Now LIB e = (now, e1)" "now - t < lc_CacheTTL (ls_cfg s) + lc_StaleGrace (ls_cfg s)"
    and "0 \<le> lc_CacheTTL (ls_cfg s)" "0 \<le> lc_StaleGrace (ls_cfg s)" "lc_CacheTTL (ls_cfg s) + lc_StaleGrace (ls_cfg s) < 2 ^ 63"
  shows "fst (Resolve LIB L txt username (s, e)) = (\<lparr>rr_Keys = keys, rr_ServedStale = True\<rparr>, None) \<and>
    snd (snd (Resolve LIB L txt username (s, e))) = e1 \<and> ls_cache (fst (snd (Resolve LIB L txt username (s, e)))) = ls_cache s"
proof -
  have "wrap64 (lc_CacheTTL (ls_cfg s) + lc_StaleGrace (ls_cfg s)) = lc_CacheTTL (ls_cfg s) + lc_StaleGrace (ls_cfg s)"
    using assms by (intro wrap64_id) simp_all
  with assms show ?thesis
    by (simp add: Resolve_def cacheCheck_def entryTTL_def Let_def time_Sub_less resolveResultFromEntry_def)
qed

text \<open>
  In the whole life of a source: two warnings about one user and one class of error are at least a minute
  apart; the connection gauge is 1 exactly when there is a connection; the cache holds one entry
  per user, and the two gauges count its positive and its negative entries.
\<close>

theorem ldap_source_invariant:
  assumes "ldap_run H LIB L txt s"
  shows "sorted_wrt warn_apart (ls_log s) \<and> ls_ConnectionState s = (if ls_conn s = None then 0 else 1) \<and>
    distinct (map fst (ls_cache s)) \<and> ls_CacheEntries s = updateCacheGauges (ls_cache s)"
  using ldap_run_inv [OF assms] by (auto simp: ldap_inv_def warn_ok_def conn_ok_def cache_ok_def split: option.splits)

text \<open>
  The time limit sent to the directory is the request timeout in seconds rounded up, and never less than
  one: zero would mean no limit.
\<close>

theorem roundUpSeconds_ceiling:
  "roundUpSeconds d = max 1 (- ((- d) div Second)) \<and> d \<le> roundUpSeconds d * Second"
proof -
  have *: "d sdiv Second = (if 0 \<le> d then d div Second else - ((- d) div Second))"
    "d smod Second = (if 0 \<le> d then d mod Second else - ((- d) mod Second))"
    by (simp_all add: signed_divide_int_def signed_modulo_int_def sgn_if)
  have "roundUpSeconds d = max 1 (- ((- d) div Second))"
  proof (cases "0 \<le> d")
    case True
    have "- ((- d) div Second) = d div Second + (if d mod Second > 0 then 1 else 0)"
      using pos_mod_sign [of Second d] by (auto simp: zdiv_zminus1_eq_if)
    with True show ?thesis by (simp add: roundUpSeconds_def * Let_def)
  next
    case False
    then have "0 \<le> (- d) div Second" "\<not> 0 < - ((- d) mod Second)"
      by (simp_all add: pos_imp_zdiv_nonneg_iff)
    with False show ?thesis by (simp add: roundUpSeconds_def * Let_def)
  qed
  moreover have "d \<le> (- ((- d) div Second)) * Second" using div_mult_mod_eq [of "- d" Second] pos_mod_sign [of Second "- d"] by linarith
  ultimately show ?thesis by (simp add: max_def)
qed

subsection \<open>A small directory\<close>

text \<open>A directory that is up or down, and a clock that stands still: the state is the pair of both.\<close>

definition ex_lib :: "(unit, timestamp \<times> bool) ldap_lib" where
  "ex_lib = \<lparr>lib_DialURL = (\<lambda>u t e. (if snd e then Inr () else Inl (ErrSentinel ''connection refused''), e)),
     lib_SetTimeout = (\<lambda>c d e. e), lib_Bind = (\<lambda>c dn p e. (None, e)),
     lib_Search = (\<lambda>c q e. (if snd e then Inr [\<lambda>a. [''k'']] else Inl (ErrSentinel ''Network Error''), e)),
     lib_Close = (\<lambda>c e. e), lib_Now = (\<lambda>e. (fst e, e)), lib_Hostname = (\<lambda>u. Some ''d'')\<rparr>"

definition ex_host :: ldap_host where
  "ex_host = \<lparr>lh_ReadFile = (\<lambda>p. Inr p), lh_HasPEM = (\<lambda>s. True), lh_Parse = (\<lambda>s. Inr (\<lambda>u. Inr (''(uid='' @ u @ '')'')))\<rparr>"

definition ex_src :: "(string, unit) ldap_source" where
  "ex_src = (newSource ex_ldap_cfg ''pw'' ''ca'' (\<lambda>u. Inr (''(uid='' @ u @ '')'')))\<lparr>ls_conn := Some (), ls_ConnectionState := 1\<rparr>"

lemma ex_src_new: "NewLDAPSource ex_host ex_lib ex_ldap_cfg (0, True) = (Inr ex_src, (0, True))"
proof -
  have "TrimSpace ''ca'' = ''ca''" "Contains (''(uid='' @ ldapProbe @ '')'') ldapProbe" "HasPrefix ''ldaps://d'' ''ldaps://''"
    by code_simp+
  then show ?thesis
    by (simp add: NewLDAPSource_def ex_host_def ex_lib_def ex_src_def ex_ldap_cfg_def acquireConn_def newSource_def)
qed

definition ex_src_down :: "(string, unit) ldap_source" where
  "ex_src_down = fst (snd (Resolve ex_lib ex_ssh (\<lambda>_. []) ''u'' (ex_src, (7, False))))"

lemma ex_src_down_run: "ldap_run ex_host ex_lib ex_ssh (\<lambda>_. []) ex_src_down"
  by (rule run_resolve [OF run_new [OF ex_src_new], where username = "''u''" and e = "(7, False)"])
    (simp add: ex_src_down_def prod_eq_iff)

theorem ldap_source_invariant_witness:
  "sorted_wrt warn_apart (ls_log ex_src_down) \<and> ls_ConnectionState ex_src_down = (if ls_conn ex_src_down = None then 0 else 1) \<and>
   distinct (map fst (ls_cache ex_src_down)) \<and> ls_CacheEntries ex_src_down = updateCacheGauges (ls_cache ex_src_down)"
  by (rule ldap_source_invariant [OF ex_src_down_run])

theorem Resolve_refines_flights_witness:
  "\<exists>S' now. (ldap_step ex_ldap_cfg)\<^sup>*\<^sup>* conc0 S' \<and> lk_cache S' = ls_cache ex_src_down \<and>
    lk_calls S' = (lk_calls conc0)(0 := Returned ''u'' now (fst (Resolve ex_lib ex_ssh (\<lambda>_. []) ''u'' (ex_src, (7, False)))))"
proof -
  have "ls_cfg ex_src = ex_ldap_cfg" "ls_cache ex_src = []" by (simp_all add: ex_src_def newSource_def)
  then show ?thesis
    using Resolve_refines_flights [of conc0 0 "''u''" ex_src ex_lib ex_ssh "\<lambda>_. []" "(7, False)" _ ex_src_down]
    by (simp add: conc0_def ex_src_down_def prod_eq_iff)
qed

definition ex_stale_src :: "(string, unit) ldap_source" where
  "ex_stale_src = ex_src\<lparr>ls_cache := [(''u'', \<lparr>ce_keys = Some [''old''], ce_fetchedAt = 0, ce_lastErrAt = Some 12\<rparr>)]\<rparr>"

theorem stale_entry_is_not_retried_witness:
  "fst (Resolve ex_lib ex_ssh (\<lambda>_. []) ''u'' (ex_stale_src, (20, True))) = (\<lparr>rr_Keys = [''old''], rr_ServedStale = True\<rparr>, None)"
  using stale_entry_is_not_retried [of ex_stale_src "''u''" "[''old'']" 0 12 ex_lib "(20, True)" 20 "(20, True)" ex_ssh "\<lambda>_. []"]
  by (simp add: ex_stale_src_def ex_src_def newSource_def ex_ldap_cfg_def ex_lib_def)

end
