(* ===== verification/Gateway_Proxy.thy ===== *)
theory Gateway_Proxy
  imports Encoding
begin

section \<open>Gateway: bridging SSH channels\<close>

text \<open>
  \<open>src/internal/gateway/proxy.go\<close>.  One bridged channel is a state machine: the five goroutines of
  \<open>proxyChannel\<close> are program counters, the Go channels \<open>startProgSent\<close>, \<open>stdup\<close> and
  \<open>stddown\<close> are flags that are set once, and each inductive rule is one goroutine's next action on the
  two SSH channels.  The peers act in between in any order (\<open>peer_step\<close>).  Writes may fail at any
  time.  The SSH library is known by what its documentation says of a channel: what a peer has sent
  is read in order, also after the peer's end of file or close, and a close ends the requests.
\<close>

subsection \<open>Requests and data\<close>

record chan_req =
  rq_Type :: string
  rq_WantReply :: bool
  rq_Payload :: string

type_synonym chunk = string

text \<open>What the gateway does to the two channels, in order.\<close>

datatype chan_event =
    ToRemote chan_req | ToLocal chan_req
  | ReplyLocal chan_req bool | ReplyRemote chan_req bool
  | DataToRemote chunk | DataToLocal chunk | StderrToLocal chunk
  | EofRemote | EofLocal | CloseRemote | CloseLocal

definition starts_program :: "chan_req \<Rightarrow> bool" where
  "starts_program r \<longleftrightarrow> rq_Type r = ''shell'' \<or> rq_Type r = ''exec'' \<or> rq_Type r = ''subsystem''"

text \<open>\<open>countingReader.Read\<close>: \<open>atomic.Int64\<close> wraps.\<close>

definition countingReader :: "bool \<Rightarrow> int \<Rightarrow> chunk \<Rightarrow> int" where
  "countingReader counting n c = (if counting \<and> length c > 0 then wrap64 (n + int (length c)) else n)"

text \<open>One side of the channel: what it has sent that is not read yet, and all the data it ever sent.\<close>

record peer =
  pr_data :: "chunk list"
  pr_stderr :: "chunk list"
  pr_reqs :: "chan_req list"
  pr_eof :: bool
  pr_closed :: bool
  pr_all_data :: "chunk list"
  pr_all_reqs :: "chan_req list"

definition peer0 :: peer where
  "peer0 = \<lparr>pr_data = [], pr_stderr = [], pr_reqs = [], pr_eof = False, pr_closed = False, pr_all_data = [], pr_all_reqs = []\<rparr>"

inductive peer_step :: "peer \<Rightarrow> peer \<Rightarrow> bool" where
  peer_data: "\<not> pr_eof p \<Longrightarrow> peer_step p (p\<lparr>pr_data := pr_data p @ [c], pr_all_data := pr_all_data p @ [c]\<rparr>)"
| peer_stderr: "\<not> pr_eof p \<Longrightarrow> peer_step p (p\<lparr>pr_stderr := pr_stderr p @ [c]\<rparr>)"
| peer_req: "\<not> pr_closed p \<Longrightarrow> peer_step p (p\<lparr>pr_reqs := pr_reqs p @ [r], pr_all_reqs := pr_all_reqs p @ [r]\<rparr>)"
| peer_eof: "peer_step p (p\<lparr>pr_eof := True\<rparr>)"
| peer_close: "peer_step p (p\<lparr>pr_eof := True, pr_closed := True\<rparr>)"

subsection \<open>The goroutines of proxyChannel\<close>

datatype fwd_pc = Forwarding | AwaitPump | FwdDone
datatype pump_pc = Copying | AwaitStart | PumpDone

record chan_state =
  cs_session :: bool
  cs_counting :: bool
  cs_local :: peer
  cs_remote :: peer
  startProgSent :: bool
  stdup :: bool
  stddown :: bool
  lreqs_pc :: fwd_pc
  rreqs_pc :: fwd_pc
  up_pc :: pump_pc
  down_pc :: pump_pc
  err_done :: bool
  up_bytes :: int
  down_bytes :: int
  cs_lost :: bool
  cs_trace :: "chan_event list"

definition chan0 :: "string \<Rightarrow> bool \<Rightarrow> chan_state" where
  "chan0 channelType counting =
     \<lparr>cs_session = (channelType = ''session''), cs_counting = counting, cs_local = peer0, cs_remote = peer0,
      startProgSent = (channelType \<noteq> ''session''), stdup = False, stddown = False,
      lreqs_pc = Forwarding, rreqs_pc = Forwarding, up_pc = Copying, down_pc = Copying, err_done = False,
      up_bytes = 0, down_bytes = 0, cs_lost = False, cs_trace = []\<rparr>"

inductive gw_step :: "chan_state \<Rightarrow> chan_state \<Rightarrow> bool" where
  lreq_forward: "lreqs_pc S = Forwarding \<Longrightarrow> pr_reqs (cs_local S) = r # rs \<Longrightarrow>
    gw_step S (S\<lparr>cs_local := (cs_local S)\<lparr>pr_reqs := rs\<rparr>, cs_trace := cs_trace S @ [ToRemote r, ReplyLocal r ok],
                 startProgSent := startProgSent S \<or> starts_program r\<rparr>)"
| lreq_drained: "lreqs_pc S = Forwarding \<Longrightarrow> pr_reqs (cs_local S) = [] \<Longrightarrow> pr_closed (cs_local S) \<Longrightarrow>
    gw_step S (S\<lparr>startProgSent := True, lreqs_pc := AwaitPump\<rparr>)"
| lreq_close: "lreqs_pc S = AwaitPump \<Longrightarrow> stddown S \<Longrightarrow>
    gw_step S (S\<lparr>cs_trace := cs_trace S @ [CloseRemote], lreqs_pc := FwdDone\<rparr>)"
| rreq_forward: "rreqs_pc S = Forwarding \<Longrightarrow> pr_reqs (cs_remote S) = r # rs \<Longrightarrow>
    gw_step S (S\<lparr>cs_remote := (cs_remote S)\<lparr>pr_reqs := rs\<rparr>, cs_trace := cs_trace S @ [ToLocal r, ReplyRemote r ok]\<rparr>)"
| rreq_drained: "rreqs_pc S = Forwarding \<Longrightarrow> pr_reqs (cs_remote S) = [] \<Longrightarrow> pr_closed (cs_remote S) \<Longrightarrow>
    gw_step S (S\<lparr>rreqs_pc := AwaitPump\<rparr>)"
| rreq_close: "rreqs_pc S = AwaitPump \<Longrightarrow> stdup S \<Longrightarrow>
    gw_step S (S\<lparr>cs_trace := cs_trace S @ [CloseLocal], rreqs_pc := FwdDone\<rparr>)"
| err_copy: "\<not> err_done S \<Longrightarrow> pr_stderr (cs_remote S) = c # cs \<Longrightarrow> CloseLocal \<notin> set (cs_trace S) \<Longrightarrow>
    gw_step S (S\<lparr>cs_remote := (cs_remote S)\<lparr>pr_stderr := cs\<rparr>, cs_trace := cs_trace S @ [StderrToLocal c]\<rparr>)"
| err_end: "\<not> err_done S \<Longrightarrow> pr_stderr (cs_remote S) = [] \<Longrightarrow> pr_eof (cs_remote S) \<Longrightarrow> gw_step S (S\<lparr>err_done := True\<rparr>)"
| err_fail: "\<not> err_done S \<Longrightarrow> pr_stderr (cs_remote S) = c # cs \<Longrightarrow> CloseLocal \<in> set (cs_trace S) \<Longrightarrow>
    gw_step S (S\<lparr>cs_remote := (cs_remote S)\<lparr>pr_stderr := cs\<rparr>, err_done := True\<rparr>)"
| up_copy: "up_pc S = Copying \<Longrightarrow> pr_data (cs_remote S) = c # cs \<Longrightarrow>
    gw_step S (S\<lparr>cs_remote := (cs_remote S)\<lparr>pr_data := cs\<rparr>, cs_trace := cs_trace S @ [DataToLocal c],
                 up_bytes := countingReader (cs_counting S) (up_bytes S) c\<rparr>)"
| up_fail: "up_pc S = Copying \<Longrightarrow> pr_data (cs_remote S) = c # cs \<Longrightarrow>
    gw_step S (S\<lparr>cs_remote := (cs_remote S)\<lparr>pr_data := cs\<rparr>, up_bytes := countingReader (cs_counting S) (up_bytes S) c,
                 cs_lost := True, cs_trace := cs_trace S @ [EofLocal], stdup := True, up_pc := PumpDone\<rparr>)"
| up_end: "up_pc S = Copying \<Longrightarrow> pr_data (cs_remote S) = [] \<Longrightarrow> pr_eof (cs_remote S) \<Longrightarrow>
    gw_step S (S\<lparr>cs_trace := cs_trace S @ [EofLocal], stdup := True, up_pc := PumpDone\<rparr>)"
| down_copy: "down_pc S = Copying \<Longrightarrow> pr_data (cs_local S) = c # cs \<Longrightarrow>
    gw_step S (S\<lparr>cs_local := (cs_local S)\<lparr>pr_data := cs\<rparr>, cs_trace := cs_trace S @ [DataToRemote c],
                 down_bytes := countingReader (cs_counting S) (down_bytes S) c\<rparr>)"
| down_fail: "down_pc S = Copying \<Longrightarrow> pr_data (cs_local S) = c # cs \<Longrightarrow>
    gw_step S (S\<lparr>cs_local := (cs_local S)\<lparr>pr_data := cs\<rparr>, down_bytes := countingReader (cs_counting S) (down_bytes S) c,
                 cs_lost := True, down_pc := AwaitStart\<rparr>)"
| down_end: "down_pc S = Copying \<Longrightarrow> pr_data (cs_local S) = [] \<Longrightarrow> pr_eof (cs_local S) \<Longrightarrow>
    gw_step S (S\<lparr>down_pc := AwaitStart\<rparr>)"
| down_close: "down_pc S = AwaitStart \<Longrightarrow> startProgSent S \<Longrightarrow>
    gw_step S (S\<lparr>cs_trace := cs_trace S @ [EofRemote], stddown := True, down_pc := PumpDone\<rparr>)"

inductive chan_step :: "chan_state \<Rightarrow> chan_state \<Rightarrow> bool" where
  chan_gw: "gw_step S S' \<Longrightarrow> chan_step S S'"
| chan_local: "peer_step (cs_local S) p \<Longrightarrow> chan_step S (S\<lparr>cs_local := p\<rparr>)"
| chan_remote: "peer_step (cs_remote S) p \<Longrightarrow> chan_step S (S\<lparr>cs_remote := p\<rparr>)"

abbreviation chan_reach :: "string \<Rightarrow> bool \<Rightarrow> chan_state \<Rightarrow> bool" where
  "chan_reach ty counting S \<equiv> chan_step\<^sup>*\<^sup>* (chan0 ty counting) S"

text \<open>Opening: the remote channel first, then the local one is accepted or rejected.\<close>

datatype open_error = OpenChannelError nat string | OtherOpenError string

datatype open_action = RejectLocal nat string | CloseRemoteChannel | Bridge

definition proxyChannel_open :: "open_error option \<Rightarrow> bool \<Rightarrow> open_action" where
  "proxyChannel_open opened accepted =
     (case opened of
        Some (OpenChannelError reason message) \<Rightarrow> RejectLocal reason message
      | Some (OtherOpenError err) \<Rightarrow> RejectLocal 2 (''open channel: '' @ err)
      | None \<Rightarrow> if \<not> accepted then CloseRemoteChannel else Bridge)"

subsection \<open>What the trace shows\<close>

definition dataToRemote :: "chan_event list \<Rightarrow> chunk list" where
  "dataToRemote es = concat (map (\<lambda>e. case e of DataToRemote c \<Rightarrow> [c] | _ \<Rightarrow> []) es)"

definition dataToLocal :: "chan_event list \<Rightarrow> chunk list" where
  "dataToLocal es = concat (map (\<lambda>e. case e of DataToLocal c \<Rightarrow> [c] | _ \<Rightarrow> []) es)"

definition reqsToRemote :: "chan_event list \<Rightarrow> chan_req list" where
  "reqsToRemote es = concat (map (\<lambda>e. case e of ToRemote r \<Rightarrow> [r] | _ \<Rightarrow> []) es)"

definition reqsToLocal :: "chan_event list \<Rightarrow> chan_req list" where
  "reqsToLocal es = concat (map (\<lambda>e. case e of ToLocal r \<Rightarrow> [r] | _ \<Rightarrow> []) es)"

lemmas sent_defs = dataToRemote_def dataToLocal_def reqsToRemote_def reqsToLocal_def

lemma sent_simps [simp]:
  "dataToRemote [] = []" "dataToLocal [] = []" "reqsToRemote [] = []" "reqsToLocal [] = []"
  "dataToRemote (es @ fs) = dataToRemote es @ dataToRemote fs" "dataToLocal (es @ fs) = dataToLocal es @ dataToLocal fs"
  "reqsToRemote (es @ fs) = reqsToRemote es @ reqsToRemote fs" "reqsToLocal (es @ fs) = reqsToLocal es @ reqsToLocal fs"
  "dataToRemote (e # es) = (case e of DataToRemote c \<Rightarrow> [c] | _ \<Rightarrow> []) @ dataToRemote es"
  "dataToLocal (e # es) = (case e of DataToLocal c \<Rightarrow> [c] | _ \<Rightarrow> []) @ dataToLocal es"
  "reqsToRemote (e # es) = (case e of ToRemote r \<Rightarrow> [r] | _ \<Rightarrow> []) @ reqsToRemote es"
  "reqsToLocal (e # es) = (case e of ToLocal r \<Rightarrow> [r] | _ \<Rightarrow> []) @ reqsToLocal es"
  by (simp_all add: sent_defs)

text \<open>What may come after what on one channel: nothing after its close, no data after its end of file.\<close>

fun to_remote :: "chan_event \<Rightarrow> bool" where
  "to_remote (ToRemote _) = True"
| "to_remote (DataToRemote _) = True"
| "to_remote EofRemote = True"
| "to_remote CloseRemote = True"
| "to_remote _ = False"

fun to_local :: "chan_event \<Rightarrow> bool" where
  "to_local (ToLocal _) = True"
| "to_local (DataToLocal _) = True"
| "to_local EofLocal = True"
| "to_local CloseLocal = True"
| "to_local _ = False"

fun may_precede :: "chan_event \<Rightarrow> chan_event \<Rightarrow> bool" where
  "may_precede CloseRemote b = (\<not> to_remote b)"
| "may_precede CloseLocal b = (\<not> to_local b)"
| "may_precede EofRemote b = (case b of DataToRemote _ \<Rightarrow> False | EofRemote \<Rightarrow> False | _ \<Rightarrow> True)"
| "may_precede EofLocal b = (case b of DataToLocal _ \<Rightarrow> False | EofLocal \<Rightarrow> False | _ \<Rightarrow> True)"
| "may_precede _ b = True"

lemma may_precede_iff:
  "may_precede a b \<longleftrightarrow>
     (a = CloseRemote \<longrightarrow> \<not> to_remote b) \<and> (a = CloseLocal \<longrightarrow> \<not> to_local b) \<and>
     (a = EofRemote \<longrightarrow> (case b of DataToRemote _ \<Rightarrow> False | EofRemote \<Rightarrow> False | _ \<Rightarrow> True)) \<and>
     (a = EofLocal \<longrightarrow> (case b of DataToLocal _ \<Rightarrow> False | EofLocal \<Rightarrow> False | _ \<Rightarrow> True))"
  by (cases a) simp_all

text \<open>The end of file reaches a session's backend only after a request that starts a program.\<close>

fun gate :: "bool \<Rightarrow> chan_event list \<Rightarrow> bool" where
  "gate started [] = True"
| "gate started (e # es) =
     ((e = EofRemote \<longrightarrow> started) \<and> gate (started \<or> (case e of ToRemote r \<Rightarrow> starts_program r | _ \<Rightarrow> False)) es)"

lemma gate_append:
  "gate started (es @ fs) \<longleftrightarrow> gate started es \<and> gate (started \<or> list_ex starts_program (reqsToRemote es)) fs"
  by (induction es arbitrary: started) (auto split: chan_event.splits)

subsection \<open>The invariant\<close>

text \<open>Where the goroutines stand, by what they have done.\<close>

definition pcs_ok :: "chan_state \<Rightarrow> bool" where
  "pcs_ok S \<longleftrightarrow>
     (lreqs_pc S = FwdDone \<longleftrightarrow> CloseRemote \<in> set (cs_trace S)) \<and> (lreqs_pc S = FwdDone \<longrightarrow> stddown S) \<and>
     (rreqs_pc S = FwdDone \<longleftrightarrow> CloseLocal \<in> set (cs_trace S)) \<and> (rreqs_pc S = FwdDone \<longrightarrow> stdup S) \<and>
     (down_pc S = PumpDone \<longleftrightarrow> stddown S) \<and> (stddown S \<longleftrightarrow> EofRemote \<in> set (cs_trace S)) \<and>
     (up_pc S = PumpDone \<longleftrightarrow> stdup S) \<and> (stdup S \<longleftrightarrow> EofLocal \<in> set (cs_trace S)) \<and> up_pc S \<noteq> AwaitStart"

definition drained_ok :: "chan_state \<Rightarrow> bool" where
  "drained_ok S \<longleftrightarrow>
     (pr_closed (cs_local S) \<longrightarrow> pr_eof (cs_local S)) \<and> (pr_closed (cs_remote S) \<longrightarrow> pr_eof (cs_remote S)) \<and>
     (lreqs_pc S \<noteq> Forwarding \<longrightarrow> pr_closed (cs_local S) \<and> pr_reqs (cs_local S) = [] \<and> startProgSent S) \<and>
     (rreqs_pc S \<noteq> Forwarding \<longrightarrow> pr_closed (cs_remote S) \<and> pr_reqs (cs_remote S) = [])"

definition sent_ok :: "chan_state \<Rightarrow> bool" where
  "sent_ok S \<longleftrightarrow>
     reqsToRemote (cs_trace S) @ pr_reqs (cs_local S) = pr_all_reqs (cs_local S) \<and>
     reqsToLocal (cs_trace S) @ pr_reqs (cs_remote S) = pr_all_reqs (cs_remote S) \<and>
     (\<not> cs_lost S \<longrightarrow>
        dataToRemote (cs_trace S) @ pr_data (cs_local S) = pr_all_data (cs_local S) \<and>
        dataToLocal (cs_trace S) @ pr_data (cs_remote S) = pr_all_data (cs_remote S) \<and>
        (down_pc S \<noteq> Copying \<longrightarrow> pr_data (cs_local S) = [] \<and> pr_eof (cs_local S)) \<and>
        (up_pc S \<noteq> Copying \<longrightarrow> pr_data (cs_remote S) = [] \<and> pr_eof (cs_remote S)))"

definition started_ok :: "chan_state \<Rightarrow> bool" where
  "started_ok S \<longleftrightarrow> (cs_session S \<and> lreqs_pc S = Forwarding \<longrightarrow>
     gate False (cs_trace S) \<and> (startProgSent S \<longrightarrow> list_ex starts_program (reqsToRemote (cs_trace S))))"

definition chan_inv :: "chan_state \<Rightarrow> bool" where
  "chan_inv S \<longleftrightarrow> pcs_ok S \<and> drained_ok S \<and> sent_ok S \<and> started_ok S \<and> sorted_wrt may_precede (cs_trace S)"

lemma chan_inv0: "chan_inv (chan0 ty counting)"
  by (simp add: chan_inv_def pcs_ok_def drained_ok_def sent_ok_def started_ok_def chan0_def peer0_def)

lemma pcs_step: "gw_step S S' \<Longrightarrow> pcs_ok S \<Longrightarrow> pcs_ok S'"
  by (induction rule: gw_step.induct) (auto simp: pcs_ok_def)

lemma drained_step: "gw_step S S' \<Longrightarrow> drained_ok S \<Longrightarrow> drained_ok S'"
  by (induction rule: gw_step.induct) (auto simp: drained_ok_def)

lemma sent_step: "gw_step S S' \<Longrightarrow> sent_ok S \<Longrightarrow> pcs_ok S \<Longrightarrow> sent_ok S'"
  by (induction rule: gw_step.induct) (auto simp: sent_ok_def pcs_ok_def)

lemma started_step: "gw_step S S' \<Longrightarrow> started_ok S \<Longrightarrow> pcs_ok S \<Longrightarrow> started_ok S'"
  by (induction rule: gw_step.induct) (auto simp: started_ok_def pcs_ok_def gate_append)

lemma order_step: "gw_step S S' \<Longrightarrow> sorted_wrt may_precede (cs_trace S) \<Longrightarrow> pcs_ok S \<Longrightarrow> sorted_wrt may_precede (cs_trace S')"
  by (induction rule: gw_step.induct) (auto simp: pcs_ok_def sorted_wrt_append may_precede_iff)

lemma peer_irrelevant [simp]:
  "pcs_ok (S\<lparr>cs_local := p\<rparr>) = pcs_ok S" "pcs_ok (S\<lparr>cs_remote := p\<rparr>) = pcs_ok S"
  "started_ok (S\<lparr>cs_local := p\<rparr>) = started_ok S" "started_ok (S\<lparr>cs_remote := p\<rparr>) = started_ok S"
  by (simp_all add: pcs_ok_def started_ok_def)

lemma drained_peer:
  "peer_step (cs_local S) p \<Longrightarrow> drained_ok S \<Longrightarrow> drained_ok (S\<lparr>cs_local := p\<rparr>)"
  "peer_step (cs_remote S) p \<Longrightarrow> drained_ok S \<Longrightarrow> drained_ok (S\<lparr>cs_remote := p\<rparr>)"
  by (erule peer_step.cases; force simp: drained_ok_def)+

lemma sent_peer:
  "peer_step (cs_local S) p \<Longrightarrow> sent_ok S \<Longrightarrow> sent_ok (S\<lparr>cs_local := p\<rparr>)"
  "peer_step (cs_remote S) p \<Longrightarrow> sent_ok S \<Longrightarrow> sent_ok (S\<lparr>cs_remote := p\<rparr>)"
  by (erule peer_step.cases; force simp: sent_ok_def)+

lemma local_step: "peer_step (cs_local S) p \<Longrightarrow> chan_inv S \<Longrightarrow> chan_inv (S\<lparr>cs_local := p\<rparr>)"
  by (simp add: chan_inv_def drained_peer sent_peer)

lemma remote_step: "peer_step (cs_remote S) p \<Longrightarrow> chan_inv S \<Longrightarrow> chan_inv (S\<lparr>cs_remote := p\<rparr>)"
  by (simp add: chan_inv_def drained_peer sent_peer)

lemma gw_step_inv: "gw_step S S' \<Longrightarrow> chan_inv S \<Longrightarrow> chan_inv S'"
  using pcs_step drained_step sent_step started_step order_step unfolding chan_inv_def by blast

lemma chan_step_inv: "chan_step S S' \<Longrightarrow> chan_inv S \<Longrightarrow> chan_inv S'"
  by (erule chan_step.cases) (use gw_step_inv local_step remote_step in auto)

lemma chan_reach_inv: "chan_reach ty counting S \<Longrightarrow> chan_inv S"
  by (induction rule: rtranclp_induct) (auto intro: chan_inv0 chan_step_inv)


subsection \<open>Progress\<close>







lemma gw_step_session: "gw_step S S' \<Longrightarrow> cs_session S' = cs_session S"
  by (induction rule: gw_step.induct) auto




subsection \<open>Properties\<close>


text \<open>
  The backend of a session sees the client's end of file only after a shell, exec or subsystem request
  was forwarded to it, or when the client has closed the channel and all its requests were
  forwarded without one.
\<close>

theorem bridge_holds_early_eof:
  assumes "chan_reach ''session'' counting S"
  shows "gate False (cs_trace S) \<or> pr_closed (cs_local S) \<and> reqsToRemote (cs_trace S) = pr_all_reqs (cs_local S)"
proof -
  have "cs_session S" using assms
  proof (induction rule: rtranclp_induct)
    case (step S T)
    then show ?case by (auto dest: gw_step_session elim!: chan_step.cases)
  qed (simp add: chan0_def)
  with chan_reach_inv [OF assms] show ?thesis
    by (cases "lreqs_pc S = Forwarding") (auto simp: chan_inv_def started_ok_def drained_ok_def sent_ok_def)
qed



subsection \<open>A run\<close>

text \<open>The backend writes a byte to each of its outputs and closes; the gateway copies the first and closes.\<close>

definition ex_sent :: chan_state where
  "ex_sent = (chan0 ''session'' True)\<lparr>cs_remote := peer0\<lparr>pr_data := [''o''], pr_all_data := [''o''], pr_stderr := [''e''],
     pr_eof := True, pr_closed := True\<rparr>\<rparr>"

definition ex_copied :: chan_state where
  "ex_copied = ex_sent\<lparr>cs_remote := (cs_remote ex_sent)\<lparr>pr_data := []\<rparr>, cs_trace := [DataToLocal ''o'', EofLocal], up_bytes := 1,
     stdup := True, up_pc := PumpDone, rreqs_pc := AwaitPump\<rparr>"

definition ex_closed :: chan_state where
  "ex_closed = ex_copied\<lparr>cs_trace := [DataToLocal ''o'', EofLocal, CloseLocal], rreqs_pc := FwdDone\<rparr>"

lemma ex_sent_reach: "chan_reach ''session'' True ex_sent"
proof -
  let ?S0 = "chan0 ''session'' True"
  let ?p1 = "peer0\<lparr>pr_data := [''o''], pr_all_data := [''o'']\<rparr>"
  let ?p2 = "?p1\<lparr>pr_stderr := [''e'']\<rparr>"
  have "peer_step peer0 ?p1" using peer_data [of peer0 "''o''"] by (simp add: peer0_def)
  moreover have "peer_step ?p1 ?p2" using peer_stderr [of ?p1 "''e''"] by (simp add: peer0_def)
  moreover have "peer_step ?p2 (?p2\<lparr>pr_eof := True, pr_closed := True\<rparr>)" by (rule peer_close)
  ultimately have "chan_step ?S0 (?S0\<lparr>cs_remote := ?p1\<rparr>)" "chan_step (?S0\<lparr>cs_remote := ?p1\<rparr>) (?S0\<lparr>cs_remote := ?p2\<rparr>)"
    "chan_step (?S0\<lparr>cs_remote := ?p2\<rparr>) (?S0\<lparr>cs_remote := ?p2\<lparr>pr_eof := True, pr_closed := True\<rparr>\<rparr>)"
    using chan_remote [of ?S0 ?p1] chan_remote [of "?S0\<lparr>cs_remote := ?p1\<rparr>" ?p2]
      chan_remote [of "?S0\<lparr>cs_remote := ?p2\<rparr>" "?p2\<lparr>pr_eof := True, pr_closed := True\<rparr>"]
    by (simp_all add: chan0_def)
  then show ?thesis unfolding ex_sent_def by simp
qed

lemmas ex_chan_defs = ex_closed_def ex_copied_def ex_sent_def chan0_def peer0_def countingReader_def wrap64_def

lemma ex_closed_reach: "chan_reach ''session'' True ex_closed"
proof -
  let ?A = "ex_sent\<lparr>cs_remote := (cs_remote ex_sent)\<lparr>pr_data := []\<rparr>, cs_trace := [DataToLocal ''o''], up_bytes := 1\<rparr>"
  let ?B = "?A\<lparr>cs_trace := [DataToLocal ''o'', EofLocal], stdup := True, up_pc := PumpDone\<rparr>"
  have "gw_step ex_sent ?A" using up_copy [of ex_sent "''o''" "[]"] by (simp add: ex_chan_defs)
  moreover have "gw_step ?A ?B" using up_end [of ?A] by (simp add: ex_chan_defs)
  moreover have "gw_step ?B ex_copied" using rreq_drained [of ?B] by (simp add: ex_chan_defs)
  moreover have "gw_step ex_copied ex_closed" using rreq_close [of ex_copied] by (simp add: ex_chan_defs)
  ultimately have "chan_step\<^sup>*\<^sup>* ex_sent ex_closed" by (meson chan_gw converse_rtranclp_into_rtranclp rtranclp.rtrancl_refl)
  with ex_sent_reach show ?thesis by simp
qed


theorem bridge_holds_early_eof_witness: "gate False (cs_trace ex_closed)"
  using bridge_holds_early_eof [OF ex_closed_reach] by (simp add: ex_chan_defs)



text \<open>
  Nothing waits for the copy of the error output: a session is possible in which no data write fails and the
  gateway closes the client's channel while what the backend wrote to its error output is unread;
  the next write then fails and the text is lost.
\<close>

theorem bridge_may_lose_stderr:
  "\<exists>S S'. chan_reach ''session'' True S \<and> \<not> cs_lost S \<and> CloseLocal \<in> set (cs_trace S) \<and> pr_stderr (cs_remote S) = [''e''] \<and>
     gw_step S S' \<and> err_done S' \<and> (\<forall>c. StderrToLocal c \<notin> set (cs_trace S'))"
proof -
  let ?S' = "ex_closed\<lparr>cs_remote := (cs_remote ex_closed)\<lparr>pr_stderr := []\<rparr>, err_done := True\<rparr>"
  have "gw_step ex_closed ?S'" using err_fail [of ex_closed "''e''" "[]"] by (simp add: ex_chan_defs)
  with ex_closed_reach show ?thesis by (intro exI [of _ ex_closed] exI [of _ ?S']) (simp add: ex_chan_defs)
qed

end
