(* ===== verification/Gateway_Session.thy ===== *)
theory Gateway_Session
  imports Ldap_Source Gateway_Proxy
begin

section \<open>Gateway: start-up and SSH sessions\<close>

text \<open>
  \<open>src/cmd/gateway/main.go\<close>, with the event recorder (\<open>src/internal/gateway/events.go\<close>), the
  PROXY-protocol policy (\<open>proxyproto.go\<close>) and \<open>SessionClose\<close> of \<open>audit.go\<close>.  The state of a running
  gateway is the LDAP source it may have built together with the outside world \<open>'e\<close> (API server,
  network, clock).  What one connection does to the outside is a list of actions, in order.
\<close>

type_synonym ('k, 'c, 'e) gw_state = "('k, 'c) ldap_source option \<times> 'e"

definition outside :: "('e \<Rightarrow> 'a \<times> 'e) \<Rightarrow> ('k, 'c, 'e) gw_state \<Rightarrow> 'a \<times> ('k, 'c, 'e) gw_state" where
  "outside f g = (case f (snd g) of (a, e) \<Rightarrow> (a, (fst g, e)))"

lemma outside_simps [simp]: "fst (outside f g) = fst (f (snd g))" "snd (outside f g) = (fst g, snd (f (snd g)))"
  by (simp_all add: outside_def split: prod.splits)

subsection \<open>Start-up\<close>

text \<open>The trusted proxy keys by fingerprint; a line that does not parse ends the process.\<close>

fun trustedProxyIndex :: "'k ssh_lib \<Rightarrow> trusted_proxy_key list \<Rightarrow> smap \<Rightarrow> string + smap" where
  "trustedProxyIndex L [] idx = Inr idx"
| "trustedProxyIndex L (k # ks) idx =
     (case ssh_ParseAuthorizedKey L (tpk_Pubkey k) of
        None \<Rightarrow> Inl (tpk_Alias k)
      | Some pk \<Rightarrow> trustedProxyIndex L ks (AList.update (ssh_Fingerprint L pk) (tpk_Alias k) idx))"

definition seconds :: "int32 \<Rightarrow> duration" where
  "seconds n = wrap64 (sint n * Second)"

definition ldapConfigOf :: "string \<Rightarrow> ldap_spec \<Rightarrow> ldap_config" where
  "ldapConfigOf ldapSecretDir ld =
     \<lparr>lc_URL = ld_URL ld, lc_CAPath = filepath_Join [ldapSecretDir, ''ca.crt''], lc_BindDN = ld_BindDN ld,
      lc_BindPasswordPath = filepath_Join [ldapSecretDir, ''password''], lc_BaseDN = ld_BaseDN ld,
      lc_UserFilter = ld_UserFilter ld, lc_PubkeyAttribute = ld_PubkeyAttribute ld,
      lc_RequestTimeout = seconds (ld_RequestTimeoutSeconds ld), lc_CacheTTL = seconds (ld_CacheTTLSeconds ld),
      lc_NegativeCacheTTL = seconds (ld_NegativeCacheTTLSeconds ld), lc_StaleGrace = seconds (ld_StaleGraceSeconds ld)\<rparr>"

text \<open>
  The two sources on the gateway's state.  The LDAP source is in the chain only when it was built,
  so the case without one does not arise.
\<close>

definition crdSource :: "'k ssh_lib \<Rightarrow> (string \<Rightarrow> 'e \<Rightarrow> (api_error + user) \<times> 'e) \<Rightarrow> (('k, 'c, 'e) gw_state, 'k) source" where
  "crdSource L getUser = NewCRDSource L (\<lambda>name. outside (getUser name))"

definition ldapSource ::
  "('c, 'e) ldap_lib \<Rightarrow> 'k ssh_lib \<Rightarrow> (api_error \<Rightarrow> string) \<Rightarrow> (('k, 'c, 'e) gw_state, 'k) source" where
  "ldapSource LIB L txt =
     \<lparr>src_Name = ''ldap'',
      src_Resolve = (\<lambda>username (so, e).
        case so of
          Some s \<Rightarrow> (case Resolve LIB L txt username (s, e) of (r, s', e') \<Rightarrow> (r, (Some s', e')))
        | None \<Rightarrow> ((noKeys, Some ErrIdentityNotFound), (None, e)))\<rparr>"

definition buildIdentitySources ::
  "ldap_host \<Rightarrow> ('c, 'e) ldap_lib \<Rightarrow> 'k ssh_lib \<Rightarrow> (api_error \<Rightarrow> string) \<Rightarrow> (string \<Rightarrow> 'e \<Rightarrow> (api_error + user) \<times> 'e) \<Rightarrow>
   gateway_config_spec \<Rightarrow> string \<Rightarrow> 'e \<Rightarrow> (go_error + (('k, 'c, 'e) gw_state, 'k) source list) \<times> ('k, 'c, 'e) gw_state" where
  "buildIdentitySources H LIB L txt getUser gw ldapSecretDir e =
     (let srcs = [crdSource L getUser]
      in case gc_LDAP gw of
           None \<Rightarrow> (Inr srcs, (None, e))
         | Some ld \<Rightarrow>
             (case NewLDAPSource H LIB (ldapConfigOf ldapSecretDir ld) e of
                (Inl err, e') \<Rightarrow> (Inl (Errorf ''ldap source: %w'' [] (Some err)), (None, e'))
              | (Inr s, e') \<Rightarrow> (Inr (srcs @ [ldapSource LIB L txt]), (Some s, e'))))"

text \<open>The files of the two keys, the second under one of two names.\<close>

fun firstReadable :: "(string \<Rightarrow> go_error + string) \<Rightarrow> string list \<Rightarrow> go_error + string" where
  "firstReadable readFile [p] = readFile p"
| "firstReadable readFile (p # ps) = (case readFile p of Inr b \<Rightarrow> Inr b | Inl _ \<Rightarrow> firstReadable readFile ps)"
| "firstReadable readFile [] = Inr []"

definition loadKeys ::
  "(string \<Rightarrow> go_error + string) \<Rightarrow> (string \<Rightarrow> go_error + 'sg) \<Rightarrow> string \<Rightarrow> go_error + 'sg \<times> 'sg" where
  "loadKeys readFile parsePrivateKey dir =
     (case readFile (filepath_Join [dir, ''ssh_host_ed25519_key'']) of
        Inl err \<Rightarrow> Inl (Errorf ''read host key: %w'' [] (Some err))
      | Inr hostBytes \<Rightarrow>
          (case parsePrivateKey hostBytes of
             Inl err \<Rightarrow> Inl (Errorf ''parse host key: %w'' [] (Some err))
           | Inr host \<Rightarrow>
               (let candidates = [filepath_Join [dir, ''internal'', ''ssh_host_ed25519_key''], filepath_Join [dir, ''internal_key'']]
                in case firstReadable readFile candidates of
                     Inl readErr \<Rightarrow>
                       Inl (Errorf ''read internal key (looked in %v): %w'' [''['' @ Join candidates '' '' @ '']''] (Some readErr))
                   | Inr intBytes \<Rightarrow>
                       (case parsePrivateKey intBytes of
                          Inl err \<Rightarrow> Inl (Errorf ''parse internal key: %w'' [] (Some err))
                        | Inr internal \<Rightarrow> Inr (host, internal)))))"

definition loadGatewayConfig ::
  "(string \<Rightarrow> 'e \<Rightarrow> (api_error + gateway_config_spec) \<times> 'e) \<Rightarrow> 'e \<Rightarrow> (go_error + gateway_config_spec) \<times> 'e" where
  "loadGatewayConfig getConfig e =
     (case getConfig ''default'' e of
        (Inl err, e') \<Rightarrow> (Inl (Errorf ''get gatewayconfig/default: %w'' [] (Some (ErrApi err))), e')
      | (Inr gc, e') \<Rightarrow> (Inr gc, e'))"

record banner_data =
  bd_Now :: timestamp
  bd_ClientIP :: string
  bd_Login :: string
  bd_User :: string
  bd_Pod :: string
  bd_Host :: string

text \<open>The banner: the template is executed for every connection; when that fails it is empty.\<close>

definition buildBannerFunc ::
  "(string \<Rightarrow> go_error + (banner_data \<Rightarrow> go_error + string)) \<Rightarrow> string \<Rightarrow> string \<Rightarrow>
   go_error + (timestamp \<Rightarrow> string \<Rightarrow> string \<Rightarrow> string) option" where
  "buildBannerFunc parse host tmplSrc =
     (if TrimSpace tmplSrc = [] then Inr None
      else case parse tmplSrc of
        Inl err \<Rightarrow> Inl (Errorf ''parse template: %w'' [] (Some err))
      | Inr tmpl \<Rightarrow>
          Inr (Some (\<lambda>now clientIP login.
            (let (user, pod) = (case ParseLoginName login of Inr up \<Rightarrow> up | Inl _ \<Rightarrow> ([], []))
             in case tmpl \<lparr>bd_Now = now, bd_ClientIP = clientIP, bd_Login = login, bd_User = user, bd_Pod = pod, bd_Host = host\<rparr> of
                  Inl _ \<Rightarrow> []
                | Inr s \<Rightarrow> s))))"

subsection \<open>The PROXY protocol policy\<close>

datatype 'ip net_addr = TCPAddr "'ip option" | UDPAddr "'ip option" | OtherAddr string

datatype proxy_policy = USE | REJECT

definition remoteIP :: "(string \<Rightarrow> 'ip option) \<Rightarrow> 'ip net_addr \<Rightarrow> 'ip option" where
  "remoteIP parseIP addr =
     (case addr of
        TCPAddr ip \<Rightarrow> ip
      | UDPAddr ip \<Rightarrow> ip
      | OtherAddr s \<Rightarrow> (case SplitHostPort s of Inl _ \<Rightarrow> None | Inr (host, _) \<Rightarrow> parseIP host))"

text \<open>A network is the predicate of the addresses it contains; it never contains the nil address.\<close>

definition WrapProxyProtocolListener :: "(string \<Rightarrow> 'ip option) \<Rightarrow> ('ip \<Rightarrow> bool) list \<Rightarrow> 'ip net_addr \<Rightarrow> proxy_policy" where
  "WrapProxyProtocolListener parseIP trusted upstream =
     (case remoteIP parseIP upstream of
        None \<Rightarrow> REJECT
      | Some ip \<Rightarrow> if list_ex (\<lambda>n. n ip) trusted then USE else REJECT)"

fun trustedNets :: "(string \<Rightarrow> go_error + ('ip \<Rightarrow> bool)) \<Rightarrow> string list \<Rightarrow> go_error + ('ip \<Rightarrow> bool) list" where
  "trustedNets parseCIDR [] = Inr []"
| "trustedNets parseCIDR (c # cs) =
     (case parseCIDR c of
        Inl err \<Rightarrow> Inl (Errorf ''trusted CIDR %q: %w'' [c] (Some err))
      | Inr n \<Rightarrow> (case trustedNets parseCIDR cs of Inl e \<Rightarrow> Inl e | Inr ns \<Rightarrow> Inr (n # ns)))"

subsection \<open>Events\<close>

record k8s_event =
  kev_GenerateName :: string
  kev_Namespace :: string
  kev_ObjectName :: string
  kev_ObjectUID :: string
  kev_Type :: string
  kev_Reason :: string
  kev_Message :: string
  kev_Time :: timestamp

record 'g event_recorder =
  er_get :: "namespaced_name \<Rightarrow> 'g \<Rightarrow> (api_error + devpod) \<times> 'g"
  er_create :: "k8s_event \<Rightarrow> 'g \<Rightarrow> api_error option \<times> 'g"
  er_Now :: "'g \<Rightarrow> timestamp \<times> 'g"
  er_dpNS :: string

text \<open>\<open>record\<close>, with the events it asks the server to create; a nil recorder records nothing.\<close>

definition record_event ::
  "'g event_recorder option \<Rightarrow> string \<Rightarrow> string \<Rightarrow> string \<Rightarrow> string \<Rightarrow> 'g \<Rightarrow> k8s_event list \<times> 'g" where
  "record_event rec podName eventType reason message g =
     (case rec of
        None \<Rightarrow> ([], g)
      | Some r \<Rightarrow>
          (case er_get r (er_dpNS r, podName) g of
             (Inl err, g1) \<Rightarrow> ([], g1)
           | (Inr dp, g1) \<Rightarrow>
               (case er_Now r g1 of
                  (now, g2) \<Rightarrow>
                    (let ev = \<lparr>kev_GenerateName = dp_Name dp @ ''-'', kev_Namespace = meta_Namespace (dp_Meta dp),
                               kev_ObjectName = dp_Name dp, kev_ObjectUID = meta_UID (dp_Meta dp), kev_Type = eventType,
                               kev_Reason = reason, kev_Message = message, kev_Time = now\<rparr>
                     in ([ev], snd (er_create r ev g2))))))"

definition SessionConnected :: "'g event_recorder option \<Rightarrow> string \<Rightarrow> string \<Rightarrow> string \<Rightarrow> string \<Rightarrow> 'g \<Rightarrow> k8s_event list \<times> 'g" where
  "SessionConnected rec podName user clientIP authPath =
     record_event rec podName ''Normal'' ''SessionConnected'' (Sprintf ''SSH session from %s by %s (%s)'' [clientIP, user, authPath])"

definition SessionDisconnected :: "'g event_recorder option \<Rightarrow> string \<Rightarrow> string \<Rightarrow> string \<Rightarrow> 'g \<Rightarrow> k8s_event list \<times> 'g" where
  "SessionDisconnected rec podName user reason =
     record_event rec podName ''Normal'' ''SessionDisconnected'' (Sprintf ''SSH session ended for %s: %s'' [user, reason])"

definition AuthRejected :: "'g event_recorder option \<Rightarrow> string \<Rightarrow> string \<Rightarrow> string \<Rightarrow> string \<Rightarrow> 'g \<Rightarrow> k8s_event list \<times> 'g" where
  "AuthRejected rec podName user clientIP reason =
     record_event rec podName ''Warning'' ''AuthRejected'' (Sprintf ''Auth rejected for %s from %s: %s'' [user, clientIP, reason])"

definition DialFailed :: "'g event_recorder option \<Rightarrow> string \<Rightarrow> string \<Rightarrow> string \<Rightarrow> 'g \<Rightarrow> k8s_event list \<times> 'g" where
  "DialFailed rec podName endpoint errMsg =
     record_event rec podName ''Warning'' ''DialFailed'' (Sprintf ''Failed to dial backend %s: %s'' [endpoint, errMsg])"

subsection \<open>Authentication of a connection\<close>

text \<open>The JSON of an \<open>AuthPath\<close>, by the tags of its fields, and back.\<close>

definition authPathFields :: "auth_path \<Rightarrow> (string \<times> json) list" where
  "authPathFields ap =
     (let opt = (\<lambda>k v. if v \<noteq> [] then [(k, JStr v)] else [])
      in [(''kind'', JStr (ap_Kind ap))] @ opt ''alias'' (ap_Alias ap) @ opt ''user'' (ap_User ap) @ opt ''pod'' (ap_Pod ap) @
         opt ''source'' (ap_Source ap) @ (if ap_ServedStale ap then [(''served_stale'', JBool True)] else []) @
         opt ''last_source_err'' (ap_LastSourceErr ap))"

definition setField :: "string \<times> json \<Rightarrow> auth_path \<Rightarrow> auth_path" where
  "setField kv ap =
     (case kv of
        (k, JStr s) \<Rightarrow>
          if k = ''kind'' then ap\<lparr>ap_Kind := s\<rparr> else if k = ''alias'' then ap\<lparr>ap_Alias := s\<rparr>
          else if k = ''user'' then ap\<lparr>ap_User := s\<rparr> else if k = ''pod'' then ap\<lparr>ap_Pod := s\<rparr>
          else if k = ''source'' then ap\<lparr>ap_Source := s\<rparr>
          else if k = ''last_source_err'' then ap\<lparr>ap_LastSourceErr := s\<rparr> else ap
      | (k, JBool b) \<Rightarrow> if k = ''served_stale'' then ap\<lparr>ap_ServedStale := b\<rparr> else ap
      | (k, JObj _) \<Rightarrow> ap)"

definition authPathOf :: "string \<Rightarrow> auth_path" where
  "authPathOf raw = (case json_Unmarshal raw of None \<Rightarrow> auth_path0 | Some fs \<Rightarrow> fold setField fs auth_path0)"


record callback_out =
  co_Audit :: "log_row list"
  co_AuthFailures :: "(string \<times> string) list"
  co_Events :: "k8s_event list"

definition publicKeyCallback ::
  "'k ssh_lib \<Rightarrow> (api_error \<Rightarrow> string) \<Rightarrow> ('g, 'k) authenticator \<Rightarrow> smap \<Rightarrow> 'g event_recorder option \<Rightarrow> string \<Rightarrow> string \<Rightarrow> 'k \<Rightarrow> 'g \<Rightarrow>
   (auth_error + smap) \<times> callback_out \<times> 'g" where
  "publicKeyCallback L txt authn proxyKeys rec remoteAddr login key g =
     (case Authenticate L txt authn login key g of
        (Inl err, g1) \<Rightarrow>
          (let reason = classifyAuthErr (ae_Err err);
               (parsedUser, parsedPod) = (case ParseLoginName login of Inr up \<Rightarrow> up | Inl _ \<Rightarrow> ([], []));
               fp = ssh_Fingerprint L key;
               (ap, alias) = (case map_of proxyKeys fp of Some a \<Rightarrow> (''trusted_proxy'', a) | None \<Rightarrow> (''direct'', []));
               lastSourceErr = ap_LastSourceErr (ae_AuthPath err);
               (events, g2) = (if parsedPod \<noteq> [] then AuthRejected rec parsedPod parsedUser remoteAddr reason g1 else ([], g1))
           in (Inl err,
               \<lparr>co_Audit = [AuthFailure reason ap alias fp parsedUser parsedPod lastSourceErr], co_AuthFailures = [(reason, ap)],
                co_Events = events\<rparr>, g2))
      | (Inr res, g1) \<Rightarrow>
          (Inr [(''devpod.io/user'', ar_User res), (''devpod.io/devpod'', ar_DevPodName res), (''devpod.io/endpoint'', ar_Endpoint res),
                (''devpod.io/auth-path'', json_Marshal (JObj (authPathFields (ar_AuthPath res)))),
                (''devpod.io/pubkey-fp'', ssh_Fingerprint L key)],
           \<lparr>co_Audit = [], co_AuthFailures = [], co_Events = []\<rparr>, g1))"

subsection \<open>A session\<close>

definition isCleanDisconnect :: "string option \<Rightarrow> bool" where
  "isCleanDisconnect err =
     (case err of None \<Rightarrow> True | Some msg \<Rightarrow> Contains msg ''disconnected by user'' \<or> Contains msg ''reason 11'')"

definition classifyDialErr :: "string option \<Rightarrow> string" where
  "classifyDialErr err =
     (case err of
        None \<Rightarrow> []
      | Some msg \<Rightarrow>
          if Contains msg ''deadline exceeded'' \<or> Contains msg ''i/o timeout'' then ''timeout''
          else if Contains msg ''connection refused'' then ''refused''
          else ''other'')"

record session_close =
  sc_SessionID :: string
  sc_Duration :: duration
  sc_BytesIn :: int
  sc_BytesOut :: int
  sc_Reason :: string

definition SessionClose :: "string \<Rightarrow> duration \<Rightarrow> int \<Rightarrow> int \<Rightarrow> string \<Rightarrow> session_close" where
  "SessionClose sessionID duration bytesIn bytesOut reason =
     \<lparr>sc_SessionID = sessionID, sc_Duration = duration, sc_BytesIn = bytesIn, sc_BytesOut = bytesOut, sc_Reason = reason\<rparr>"

datatype session_action =
    AuditOpen log_row
  | DialBackend string
  | DialFailure string string
  | Event k8s_event
  | BridgeRun
  | BackendConnClosed
  | AuditClose session_close
  | SessionCounted string string string string
  | ClientConnClosed

text \<open>
  What the session depends on: the clock, the dialer with its error text, and the bridge with its
  error text and the bytes it counted.
\<close>

record 'g session_env =
  se_Now :: "'g \<Rightarrow> timestamp \<times> 'g"
  se_Dial :: "string \<Rightarrow> 'g \<Rightarrow> string option \<times> 'g"
  se_Proxy :: "'g \<Rightarrow> (string option \<times> int \<times> int) \<times> 'g"

text \<open>The deferred function: the closing audit row, the counters and the event.\<close>

definition closeSession ::
  "'g session_env \<Rightarrow> 'g event_recorder option \<Rightarrow> string \<Rightarrow> auth_path \<Rightarrow> string \<Rightarrow> timestamp \<Rightarrow> int \<times> int \<Rightarrow> string \<Rightarrow> string \<Rightarrow> 'g \<Rightarrow>
   session_action list \<times> 'g" where
  "closeSession SE rec sessionID ap devpodName start bytes sessionResult closeReason g =
     (case se_Now SE g of
        (now, g1) \<Rightarrow>
          (case SessionDisconnected rec devpodName (ap_User ap) closeReason g1 of
             (events, g2) \<Rightarrow>
               ([AuditClose (SessionClose sessionID (time_Sub now start) (fst bytes) (snd bytes) closeReason),
                 SessionCounted (ap_User ap) (ap_Pod ap) (ap_Kind ap) sessionResult] @ map Event events, g2)))"

text \<open>The session result and the close reason after the bridge.\<close>

definition bridgeVerdict :: "string option \<Rightarrow> string \<times> string" where
  "bridgeVerdict err =
     (if err = None \<or> isCleanDisconnect err then (''ok'', ''client_disconnect'') else (''error'', ''proxy_error''))"

definition dialAndProxy ::
  "'g session_env \<Rightarrow> 'g event_recorder option \<Rightarrow> string \<Rightarrow> auth_path \<Rightarrow> string \<Rightarrow> string \<Rightarrow> string \<Rightarrow> timestamp \<Rightarrow> 'g \<Rightarrow>
   session_action list \<times> 'g" where
  "dialAndProxy SE rec sessionID ap devpodName clientIP endpoint start g =
     (case se_Dial SE endpoint g of
        (Some err, g1) \<Rightarrow>
          (case DialFailed rec devpodName endpoint err g1 of
             (events, g2) \<Rightarrow>
               (case closeSession SE rec sessionID ap devpodName start (0, 0) ''error'' ''dial_failed'' g2 of
                  (acts, g3) \<Rightarrow>
                    ([DialBackend endpoint, DialFailure (ap_Pod ap) (classifyDialErr (Some err))] @ map Event events @ acts, g3)))
      | (None, g1) \<Rightarrow>
          (case SessionConnected rec devpodName (ap_User ap) clientIP (ap_Kind ap) g1 of
             (events, g2) \<Rightarrow>
               (case se_Proxy SE g2 of
                  ((err, bytes), g3) \<Rightarrow>
                    (case closeSession SE rec sessionID ap devpodName start bytes (fst (bridgeVerdict err)) (snd (bridgeVerdict err)) g3 of
                       (acts, g4) \<Rightarrow>
                         ([DialBackend endpoint] @ map Event events @ [BridgeRun, BackendConnClosed] @ acts, g4)))))"

text \<open>
  \<open>handle\<close> after the handshake: \<open>ssh.NewServerConn\<close> gave the extensions of the callback that accepted
  the client, or failed.
\<close>

definition handle ::
  "'g session_env \<Rightarrow> 'g event_recorder option \<Rightarrow> nat \<Rightarrow> string \<Rightarrow> smap option \<Rightarrow> 'g \<Rightarrow> session_action list \<times> 'g" where
  "handle SE rec cid remoteAddr handshake g =
     (case handshake of
        None \<Rightarrow> ([ClientConnClosed], g)
      | Some ext \<Rightarrow>
          (let raw = mget ext ''devpod.io/auth-path'';
               ap = (if raw \<noteq> [] then authPathOf raw else auth_path0);
               devpodName = (if mget ext ''devpod.io/devpod'' = [] then ap_Pod ap else mget ext ''devpod.io/devpod'');
               fp = mget ext ''devpod.io/pubkey-fp'';
               sessionID = ''sid-'' @ nat_digits cid;
               open_row = SessionOpen sessionID ap remoteAddr fp
           in case se_Now SE g of
                (start, g1) \<Rightarrow>
                  (case dialAndProxy SE rec sessionID ap devpodName remoteAddr (mget ext ''devpod.io/endpoint'') start g1 of
                     (acts, g2) \<Rightarrow> ([AuditOpen open_row] @ acts @ [ClientConnClosed], g2))))"

subsection \<open>Who vouches for a key\<close>

definition gatewayChain ::
  "('c, 'e) ldap_lib \<Rightarrow> 'k ssh_lib \<Rightarrow> (api_error \<Rightarrow> string) \<Rightarrow> (string \<Rightarrow> 'e \<Rightarrow> (api_error + user) \<times> 'e) \<Rightarrow> bool \<Rightarrow>
   (('k, 'c, 'e) gw_state, 'k) source list" where
  "gatewayChain LIB L txt getUser ldap = crdSource L getUser # (if ldap then [ldapSource LIB L txt] else [])"

lemma buildIdentitySources_chain:
  "buildIdentitySources H LIB L txt getUser gw dir e = (Inr srcs, g) \<Longrightarrow> srcs = gatewayChain LIB L txt getUser (gc_LDAP gw \<noteq> None)"
  by (auto simp: buildIdentitySources_def gatewayChain_def Let_def split: option.splits prod.splits sum.splits)

text \<open>
  The directory vouches for a key: the cache holds it in an entry young enough to be served, or the
  lookup made now answers with it.
\<close>

definition ldap_vouches :: "('c, 'e) ldap_lib \<Rightarrow> 'k ssh_lib \<Rightarrow> (api_error \<Rightarrow> string) \<Rightarrow> ('k, 'c) ldap_source \<Rightarrow> 'e \<Rightarrow> string \<Rightarrow> 'k \<Rightarrow> bool" where
  "ldap_vouches LIB L txt s e username k \<longleftrightarrow>
     (\<exists>en keys. map_of (ls_cache s) username = Some en \<and> ce_keys en = Some keys \<and> k \<in> set keys \<and>
        time_Sub (fst (lib_Now LIB e)) (ce_fetchedAt en) <
          max (lc_CacheTTL (ls_cfg s)) (wrap64 (lc_CacheTTL (ls_cfg s) + lc_StaleGrace (ls_cfg s)))) \<or>
     (\<exists>keys. fst (liveLookup LIB L txt username (s, snd (lib_Now LIB e))) = Inr (Some keys) \<and> k \<in> set keys)"

definition crd_vouches :: "'k ssh_lib \<Rightarrow> (string \<Rightarrow> 'e \<Rightarrow> (api_error + user) \<times> 'e) \<Rightarrow> 'e \<Rightarrow> string \<Rightarrow> 'k \<Rightarrow> bool" where
  "crd_vouches L getUser e username k \<longleftrightarrow>
     (\<exists>u. fst (getUser username e) = Inr u \<and> (\<exists>line\<in>set (us_Pubkeys (u_Spec u)). ssh_ParseAuthorizedKey L line = Some k))"

definition chain_vouches ::
  "('c, 'e) ldap_lib \<Rightarrow> 'k ssh_lib \<Rightarrow> (api_error \<Rightarrow> string) \<Rightarrow> (string \<Rightarrow> 'e \<Rightarrow> (api_error + user) \<times> 'e) \<Rightarrow> bool \<Rightarrow>
   string \<Rightarrow> ('k, 'c, 'e) gw_state \<Rightarrow> string \<Rightarrow> 'k \<Rightarrow> bool" where
  "chain_vouches LIB L txt getUser ldap name g username k \<longleftrightarrow>
     name = ''crd'' \<and> crd_vouches L getUser (snd g) username k \<or>
     ldap \<and> name = ''ldap'' \<and> (\<exists>s. fst g = Some s \<and> ldap_vouches LIB L txt s (snd g) username k)"

lemma Resolve_vouched:
  assumes "fst (Resolve LIB L txt username (s, e)) = (res, None)" "k \<in> set (rr_Keys res)"
  shows "ldap_vouches LIB L txt s e username k"
proof (cases rule: Resolve_cases [where LIB = LIB and e = e and s = s and username = username and L = L and T = "txt"])
  case (cached now e1 en stale)
  with assms have "ce_keys en = Some (rr_Keys res)" by (auto simp: Resolve_cached resolveResultFromEntry_def split: option.splits)
  moreover from cached this have "map_of (ls_cache s) username = Some en"
    "time_Sub now (ce_fetchedAt en) < max (lc_CacheTTL (ls_cfg s)) (wrap64 (lc_CacheTTL (ls_cfg s) + lc_StaleGrace (ls_cfg s)))"
    by (auto simp: cacheCheck_def entryTTL_def Let_def split: option.splits if_splits)
  ultimately show ?thesis using assms(2) cached(1) by (auto simp: ldap_vouches_def)
next
  case (live now e1 ans s2 e2 v cache' labels)
  from assms live have v: "deliver v = (res, None)" by (simp add: Resolve_live)
  show ?thesis
  proof (cases ans)
    case (Inl err)
    with v live(4) obtain en where "map_of (ls_cache s) username = Some en" "ce_keys en = Some (rr_Keys res)"
      "time_Sub now (ce_fetchedAt en) < wrap64 (lc_CacheTTL (ls_cfg s) + lc_StaleGrace (ls_cfg s))"
      by (auto simp: settle_def deliver_def resolveResultFromEntry_def entryTTL_def Let_def split: option.splits if_splits)
    with assms(2) live(1) show ?thesis by (auto simp: ldap_vouches_def less_max_iff_disj)
  next
    case (Inr keys)
    with v live(4) have "keys = Some (rr_Keys res)" by (cases keys) (auto simp: settle_def deliver_def Let_def)
    with assms(2) live(1,3) Inr show ?thesis by (auto simp: ldap_vouches_def)
  qed
qed

interpretation chain: identity_sources "gatewayChain LIB L txt getUser ldap" "chain_vouches LIB L txt getUser ldap"
  for LIB :: "('c, 'e) ldap_lib" and L :: "'k ssh_lib" and "txt" getUser ldap
proof
  fix src user g res k
  assume src: "src \<in> set (gatewayChain LIB L txt getUser ldap)" "fst (src_Resolve src user g) = (res, None)" "k \<in> set (rr_Keys res)"
  obtain so e where g: "g = (so, e)" by (cases g)
  from src(1) consider "src = crdSource L getUser" | "ldap" "src = ldapSource LIB L txt"
    by (auto simp: gatewayChain_def split: if_splits)
  then show "chain_vouches LIB L txt getUser ldap (src_Name src) g user k"
  proof cases
    case 1
    with src(2,3) show ?thesis
      by (auto simp: crdSource_def NewCRDSource_def crdResolve_def chain_vouches_def crd_vouches_def outside_def g set_parseKeys
          split: prod.splits sum.splits)
  next
    case 2
    with src(2) g obtain s where "so = Some s" "fst (Resolve LIB L txt user (s, e)) = (res, None)"
      by (auto simp: ldapSource_def split: option.splits prod.splits)
    with 2 g src(3) Resolve_vouched show ?thesis by (auto simp: chain_vouches_def ldapSource_def)
  qed
qed

subsection \<open>Properties\<close>

text \<open>
  With the sources the gateway builds from its configuration, a key that is no trusted proxy key is
  admitted only if its bytes are those of a key the User object of that name lists, or, when LDAP is
  configured, of a key that the directory answers with now or answered within TTL plus grace.
\<close>

theorem admitted_key_is_vouched:
  assumes "buildIdentitySources H LIB L txt getUser gw dir e0 = (Inr srcs, g0)" "au_sources au = srcs"
    and "fst (Authenticate L txt au login key g) = Inr r" "map_of (au_proxyKeys au) (ssh_Fingerprint L key) = None"
  shows "\<exists>g' k. ssh_Marshal L k = ssh_Marshal L key \<and>
    (ap_Source (ar_AuthPath r) = ''crd'' \<and> crd_vouches L getUser (snd g') (ar_User r) k \<or>
     gc_LDAP gw \<noteq> None \<and> ap_Source (ar_AuthPath r) = ''ldap'' \<and>
       (\<exists>s. fst g' = Some s \<and> ldap_vouches LIB L txt s (snd g') (ar_User r) k))"
proof -
  have "au_sources au = gatewayChain LIB L txt getUser (gc_LDAP gw \<noteq> None)"
    using buildIdentitySources_chain [OF assms(1)] assms(2) by simp
  from chain.success_vouched [OF assms(3) this assms(4)] show ?thesis unfolding chain_vouches_def by blast
qed





text \<open>The shape of a session: the dial, and then either its failure or the bridge, and the close.\<close>

lemma closeSession_shape:
  obtains close evs where "fst (closeSession SE rec sid ap name start bytes res reason g) =
      [AuditClose close, SessionCounted (ap_User ap) (ap_Pod ap) (ap_Kind ap) res] @ map Event evs"
    "sc_SessionID close = sid" "sc_Reason close = reason"
proof (cases "se_Now SE g")
  case (Pair now g1)
  show thesis
  proof (cases "SessionDisconnected rec name (ap_User ap) reason g1")
    case (Pair evs g2)
    with \<open>se_Now SE g = (now, g1)\<close> show thesis
      by (intro that [of "SessionClose sid (time_Sub now start) (fst bytes) (snd bytes) reason" evs])
        (simp_all add: closeSession_def SessionClose_def)
  qed
qed

lemma dialAndProxy_shape:
  obtains (failed) evs close evs' f1 f2 where
      "fst (dialAndProxy SE rec sid ap name addr ep start g) = [DialBackend ep, DialFailure f1 f2] @ map Event evs @
         [AuditClose close, SessionCounted (ap_User ap) (ap_Pod ap) (ap_Kind ap) ''error''] @ map Event evs'"
      "sc_SessionID close = sid" "sc_Reason close = ''dial_failed''"
  | (bridged) evs close res evs' where
      "fst (dialAndProxy SE rec sid ap name addr ep start g) = [DialBackend ep] @ map Event evs @ [BridgeRun, BackendConnClosed] @
         [AuditClose close, SessionCounted (ap_User ap) (ap_Pod ap) (ap_Kind ap) res] @ map Event evs'"
      "sc_SessionID close = sid" "(res, sc_Reason close) \<in> {(''ok'', ''client_disconnect''), (''error'', ''proxy_error'')}"
proof -
  obtain d g1 where d: "se_Dial SE ep g = (d, g1)" by (metis prod.exhaust)
  show thesis
  proof (cases d)
    case (Some err)
    obtain evs g2 where e: "DialFailed rec name ep err g1 = (evs, g2)" by (metis prod.exhaust)
    obtain close evs' where "fst (closeSession SE rec sid ap name start (0, 0) ''error'' ''dial_failed'' g2) =
        [AuditClose close, SessionCounted (ap_User ap) (ap_Pod ap) (ap_Kind ap) ''error''] @ map Event evs'"
      "sc_SessionID close = sid" "sc_Reason close = ''dial_failed''" by (rule closeSession_shape)
    with d e Some show thesis by (intro failed) (simp_all add: dialAndProxy_def case_prod_unfold)
  next
    case None
    obtain evs g2 where e: "SessionConnected rec name (ap_User ap) addr (ap_Kind ap) g1 = (evs, g2)" by (metis prod.exhaust)
    obtain err bytes g3 where p: "se_Proxy SE g2 = ((err, bytes), g3)" by (metis prod.exhaust)
    obtain close evs' where "fst (closeSession SE rec sid ap name start bytes (fst (bridgeVerdict err)) (snd (bridgeVerdict err)) g3) =
        [AuditClose close, SessionCounted (ap_User ap) (ap_Pod ap) (ap_Kind ap) (fst (bridgeVerdict err))] @ map Event evs'"
      "sc_SessionID close = sid" "sc_Reason close = snd (bridgeVerdict err)" by (rule closeSession_shape)
    moreover have "bridgeVerdict err \<in> {(''ok'', ''client_disconnect''), (''error'', ''proxy_error'')}"
      by (simp add: bridgeVerdict_def)
    ultimately show thesis using d e p None
      by (intro bridged [of evs close "fst (bridgeVerdict err)" evs']) (auto simp: dialAndProxy_def case_prod_unfold)
  qed
qed

lemma handle_shape:
  obtains row ap start g1 name where
    "fst (handle SE rec cid addr (Some ext) g) =
       [AuditOpen row] @ fst (dialAndProxy SE rec (''sid-'' @ nat_digits cid) ap name addr (mget ext ''devpod.io/endpoint'') start g1) @ [ClientConnClosed]"
    "row = SessionOpen (''sid-'' @ nat_digits cid) ap addr (mget ext ''devpod.io/pubkey-fp'')"
    "ap = (if mget ext ''devpod.io/auth-path'' \<noteq> [] then authPathOf (mget ext ''devpod.io/auth-path'') else auth_path0)"
  by (auto simp: handle_def Let_def case_prod_unfold intro: that [OF _ refl refl])




fun audits :: "session_action \<Rightarrow> bool" where
  "audits (AuditOpen _) = True" | "audits (AuditClose _) = True" | "audits (SessionCounted _ _ _ _) = True" | "audits _ = False"

lemma not_audits: "filter audits (map Event evs) = []"
  by (induction evs) auto

text \<open>
  Every session that opens is closed and counted exactly once, in this order and under one session id, and
  the three ways to end agree: the result is ok exactly when the reason is the client's disconnect,
  and a failed dial never reaches the bridge.
\<close>

theorem session_audit_balanced:
  "\<exists>row close u p k res.
     filter audits (fst (handle SE rec cid addr (Some ext) g)) = [AuditOpen row, AuditClose close, SessionCounted u p k res] \<and>
     (''session_id'', sc_SessionID close) \<in> set (snd row) \<and>
     (res, sc_Reason close) \<in> {(''ok'', ''client_disconnect''), (''error'', ''dial_failed''), (''error'', ''proxy_error'')} \<and>
     (sc_Reason close = ''dial_failed'' \<longleftrightarrow> BridgeRun \<notin> set (fst (handle SE rec cid addr (Some ext) g))) \<and>
     last (fst (handle SE rec cid addr (Some ext) g)) = ClientConnClosed"
proof -
  obtain row ap start g1 name where h: "fst (handle SE rec cid addr (Some ext) g) =
       [AuditOpen row] @ fst (dialAndProxy SE rec (''sid-'' @ nat_digits cid) ap name addr (mget ext ''devpod.io/endpoint'') start g1) @ [ClientConnClosed]"
    and row: "row = SessionOpen (''sid-'' @ nat_digits cid) ap addr (mget ext ''devpod.io/pubkey-fp'')"
    by (rule handle_shape)
  have sid: "(''session_id'', ''sid-'' @ nat_digits cid) \<in> set (snd row)" by (simp add: row SessionOpen_def)
  have events: "BridgeRun \<notin> set (map Event evs)" for evs by auto
  show ?thesis
    by (rule dialAndProxy_shape [of SE rec "''sid-'' @ nat_digits cid" ap name addr "mget ext ''devpod.io/endpoint''" start g1];
        use h sid events in \<open>auto simp: not_audits\<close>)
qed

text \<open>
  A rejected login is audited with its reason, but the event recorder is given the bare pod segment of the
  login: when the DevPod is stored under its owner-scoped name only, the recorder does not find it
  and no event is written.
\<close>

theorem rejection_event_dropped:
  assumes "publicKeyCallback L txt authn proxyKeys (Some r) addr login key g = (Inl err, out, g')"
    and "ParseLoginName login = Inr (user, pod)"
    and "fst (er_get r (er_dpNS r, pod) (snd (Authenticate L txt authn login key g))) = Inl NotFound"
  shows "co_Events out = [] \<and> (''reason'', classifyAuthErr (ae_Err err)) \<in> set (snd (hd (co_Audit out)))"
proof -
  from assms(1) obtain g1 where a: "Authenticate L txt authn login key g = (Inl err, g1)"
    by (auto simp: publicKeyCallback_def Let_def split: prod.splits sum.splits)
  with assms(3) obtain g2 where "er_get r (er_dpNS r, pod) g1 = (Inl NotFound, g2)" by (metis prod.collapse snd_conv)
  with assms(1,2) a show ?thesis
    by (auto simp: publicKeyCallback_def AuthRejected_def record_event_def AuthFailure_def Let_def split: option.splits if_splits)
qed

text \<open>
  The durations of the configuration are exact: 32-bit counts of seconds become 64-bit nanoseconds, and
  the TTL plus the grace period, without wrap-around.
\<close>

theorem ldap_durations_exact:
  "seconds n = sint n * Second \<and> wrap64 (seconds n + seconds m) = seconds n + seconds m"
proof -
  have b: "- (2 ^ 31) \<le> sint (x :: int32) \<and> sint x < 2 ^ 31" for x
    using sint_lt [of x] sint_ge [of x] by simp
  have s: "seconds x = sint x * Second" for x
    unfolding seconds_def using b [of x] by (intro wrap64_id) simp_all
  then show ?thesis using b [of n] b [of m] by (auto intro!: wrap64_id)
qed

subsection \<open>A session in the sample cluster\<close>

definition ex_recorder :: "mem event_recorder" where
  "ex_recorder = \<lparr>er_get = k_get_devpod mem_kube, er_create = (\<lambda>ev g. (None, g)), er_Now = (\<lambda>g. (0, g)), er_dpNS = ''devpods''\<rparr>"





lemma ex_rejected:
  "publicKeyCallback ex_ssh (\<lambda>_. []) ex_au [] (Some ex_recorder) ''c'' ''alice+dev'' ''zz'' ex_auth_mem =
     (Inl \<lparr>ae_Err = Errorf ''%w: user %q'' [''alice''] (Some ErrPubkeyMismatch),
           ae_AuthPath = auth_path0\<lparr>ap_Kind := ''direct'', ap_User := ''alice'', ap_Pod := ''dev''\<rparr>\<rparr>,
      \<lparr>co_Audit = [AuthFailure ''key_mismatch'' ''direct'' [] ''fp:zz'' ''alice'' ''dev'' []],
       co_AuthFailures = [(''key_mismatch'', ''direct'')], co_Events = []\<rparr>, ex_auth_mem)"
  by code_simp

lemma ex_bare_name: "fst (er_get ex_recorder (er_dpNS ex_recorder, ''dev'') (snd (Authenticate ex_ssh (\<lambda>_. []) ex_au ''alice+dev'' ''zz'' ex_auth_mem))) = Inl NotFound"
  by code_simp

lemma ex_login: "ParseLoginName ''alice+dev'' = Inr (''alice'', ''dev'')"
  by code_simp

theorem rejection_event_dropped_witness:
  "co_Events (fst (snd (publicKeyCallback ex_ssh (\<lambda>_. []) ex_au [] (Some ex_recorder) ''c'' ''alice+dev'' ''zz'' ex_auth_mem))) = []"
  using rejection_event_dropped [OF ex_rejected ex_login ex_bare_name] ex_rejected by simp

definition ex_get_user :: "string \<Rightarrow> mem \<Rightarrow> (api_error + user) \<times> mem" where
  "ex_get_user = k_get_user mem_kube"

definition ex_no_ldap :: "(unit, mem) ldap_lib" where
  "ex_no_ldap = \<lparr>lib_DialURL = (\<lambda>u t e. (Inl (ErrSentinel ''no directory''), e)), lib_SetTimeout = (\<lambda>c d e. e),
     lib_Bind = (\<lambda>c dn p e. (None, e)), lib_Search = (\<lambda>c q e. (Inr [], e)), lib_Close = (\<lambda>c e. e), lib_Now = (\<lambda>e. (0, e)),
     lib_Hostname = (\<lambda>u. None)\<rparr>"

definition ex_gw_au :: "((string, unit, mem) gw_state, string) authenticator" where
  "ex_gw_au = \<lparr>au_get = (\<lambda>n. outside (k_get_devpod mem_kube n)), au_dpNS = ''devpods'', au_proxyKeys = [],
     au_sources = [crdSource ex_ssh ex_get_user]\<rparr>"

lemma ex_gw_admits: "fst (Authenticate ex_ssh (\<lambda>_. []) ex_gw_au ''alice+dev'' ''k1'' (None, ex_auth_mem)) = Inr ex_result"
  by code_simp

theorem admitted_key_is_vouched_witness:
  "\<exists>g' k. ssh_Marshal ex_ssh k = ''k1'' \<and> crd_vouches ex_ssh ex_get_user (snd (g' :: (string, unit, mem) gw_state)) ''alice'' k"
  using admitted_key_is_vouched [of ex_host ex_no_ldap ex_ssh "\<lambda>_. []" ex_get_user gateway_config0 "''d''" ex_auth_mem,
      OF _ refl ex_gw_admits]
  by (auto simp: buildIdentitySources_def gateway_config0_def ex_gw_au_def ex_ssh_def ex_result_def)

end
