(* ===== verification/Gateway_Main.thy ===== *)
theory Gateway_Main
  imports Gateway_Session
begin

section \<open>Gateway: the process\<close>

text \<open>
  \<open>main\<close>, \<open>newCachedClient\<close> and \<open>run\<close> of \<open>src/cmd/gateway/main.go\<close>, with the construction of the
  authenticator (\<open>src/internal/gateway/auth.go\<close>).  Start-up is fail-fast: the left side of its result is the message
  the process logs before it exits with code 1.  The metrics server, the goroutine of the HTTP server
  and logging are left out.  The accept loop reads the answers of \<open>Accept\<close>; for a failed one it is also given whether the
  context was cancelled.
\<close>

subsection \<open>Flags and the host\<close>

record gw_flags =
  gf_listenAddr :: string
  gf_hostKeyDir :: string
  gf_devpodNamespace :: string
  gf_metricsAddr :: string
  gf_ldapSecretDir :: string
  gf_httpListenAddr :: string
  gf_httpBaseDomain :: string
  gf_httpSubdomainSuffix :: string

definition gw_flags0 :: gw_flags where
  "gw_flags0 = \<lparr>gf_listenAddr = '':22'', gf_hostKeyDir = ''/etc/devpod/gateway'', gf_devpodNamespace = ''devpods'',
     gf_metricsAddr = '':8080'', gf_ldapSecretDir = ''/etc/devpod/gateway/ldap'', gf_httpListenAddr = [], gf_httpBaseDomain = [], gf_httpSubdomainSuffix = []\<rparr>"

text \<open>What the process finds: files, parsers, the cluster's configuration and the cache.\<close>

record ('sg, 'cfg, 'e) gw_host =
  gh_ReadFile :: "string \<Rightarrow> go_error + string"
  gh_ParsePrivateKey :: "string \<Rightarrow> go_error + 'sg"
  gh_GetConfig :: "go_error + 'cfg"
  gh_NewForConfig :: "'cfg \<Rightarrow> go_error option"
  gh_NewCache :: "'cfg \<Rightarrow> go_error option"
  gh_GetInformer :: "string \<Rightarrow> go_error option"
  gh_WaitForCacheSync :: bool
  gh_getGatewayConfig :: "string \<Rightarrow> 'e \<Rightarrow> (api_error + gateway_config_spec) \<times> 'e"
  gh_getUser :: "string \<Rightarrow> 'e \<Rightarrow> (api_error + user) \<times> 'e"
  gh_getDevPod :: "namespaced_name \<Rightarrow> 'e \<Rightarrow> (api_error + devpod) \<times> 'e"
  gh_ParseTemplate :: "string \<Rightarrow> go_error + (banner_data \<Rightarrow> go_error + string)"
  gh_Hostname :: string

subsection \<open>The authenticator\<close>

definition NewAuthenticator ::
  "'k ssh_lib \<Rightarrow> (namespaced_name \<Rightarrow> 'g \<Rightarrow> (api_error + devpod) \<times> 'g) \<Rightarrow> (string \<Rightarrow> 'g \<Rightarrow> (api_error + user) \<times> 'g) \<Rightarrow> string \<Rightarrow>
   ('g, 'k) authenticator" where
  "NewAuthenticator L getDP getU devpodNamespace =
     \<lparr>au_get = getDP, au_dpNS = devpodNamespace, au_proxyKeys = [], au_sources = [NewCRDSource L getU]\<rparr>"

definition WithProxyKeys :: "smap \<Rightarrow> ('g, 'k) authenticator \<Rightarrow> ('g, 'k) authenticator" where
  "WithProxyKeys idx a = a\<lparr>au_proxyKeys := idx\<rparr>"

definition WithSources :: "('g, 'k) source list \<Rightarrow> ('g, 'k) authenticator \<Rightarrow> ('g, 'k) authenticator" where
  "WithSources srcs a = a\<lparr>au_sources := srcs\<rparr>"

subsection \<open>Start-up\<close>

fun startInformers :: "(string \<Rightarrow> go_error option) \<Rightarrow> string list \<Rightarrow> go_error option" where
  "startInformers getInformer [] = None"
| "startInformers getInformer (kind # kinds) =
     (case getInformer kind of
        Some err \<Rightarrow> Some (Errorf (''informer '' @ kind @ '': %w'') [] (Some err))
      | None \<Rightarrow> startInformers getInformer kinds)"

definition newCachedClient :: "('sg, 'cfg, 'e) gw_host \<Rightarrow> 'cfg \<Rightarrow> go_error option" where
  "newCachedClient G cfg =
     (case gh_NewCache G cfg of
        Some err \<Rightarrow> Some (Errorf ''create cache: %w'' [] (Some err))
      | None \<Rightarrow>
          (case startInformers (gh_GetInformer G) [''User'', ''DevPod'', ''GatewayConfig''] of
             Some err \<Rightarrow> Some err
           | None \<Rightarrow> if gh_WaitForCacheSync G then None else Some (ErrSentinel ''cache failed to sync'')))"

record ('g, 'k, 'sg) gw_process =
  gp_hostSigner :: 'sg
  gp_internalSigner :: 'sg
  gp_config :: gateway_config_spec
  gp_proxyKeys :: smap
  gp_authn :: "('g, 'k) authenticator"
  gp_banner :: "(timestamp \<Rightarrow> string \<Rightarrow> string \<Rightarrow> string) option"
  gp_http :: "(string \<times> http_proxy) option"

text \<open>\<open>if err != nil { slog.Error(tag, ...); os.Exit(1) }\<close>.\<close>

definition must :: "string \<Rightarrow> 'e + 'a \<Rightarrow> ('a \<Rightarrow> (string + 'b) \<times> 'g) \<Rightarrow> 'g \<Rightarrow> (string + 'b) \<times> 'g" where
  "must tag r f g = (case r of Inl _ \<Rightarrow> (Inl tag, g) | Inr a \<Rightarrow> f a)"

definition check :: "string \<Rightarrow> 'e option \<Rightarrow> (string + 'b) \<times> 'g \<Rightarrow> 'g \<Rightarrow> (string + 'b) \<times> 'g" where
  "check tag r rest g = (case r of Some _ \<Rightarrow> (Inl tag, g) | None \<Rightarrow> rest)"

definition httpProxyOf :: "gw_flags \<Rightarrow> (string \<times> http_proxy) option" where
  "httpProxyOf fl =
     (if gf_httpListenAddr fl \<noteq> [] \<and> gf_httpBaseDomain fl \<noteq> []
      then Some (gf_httpListenAddr fl, \<lparr>hp_dpNS = gf_devpodNamespace fl, hp_baseDomain = gf_httpBaseDomain fl,
                                        hp_suffix = gf_httpSubdomainSuffix fl\<rparr>)
      else None)"

definition startGateway ::
  "ldap_host \<Rightarrow> ('c, 'e) ldap_lib \<Rightarrow> 'k ssh_lib \<Rightarrow> (api_error \<Rightarrow> string) \<Rightarrow> ('sg, 'cfg, 'e) gw_host \<Rightarrow> gw_flags \<Rightarrow> 'e \<Rightarrow>
   (string + (('k, 'c, 'e) gw_state, 'k, 'sg) gw_process) \<times> ('k, 'c, 'e) gw_state" where
  "startGateway H LIB L txt G fl e0 =
     must ''load_keys'' (loadKeys (gh_ReadFile G) (gh_ParsePrivateKey G) (gf_hostKeyDir fl)) (\<lambda>(hostSigner, internalSigner).
     must ''load_kubeconfig'' (gh_GetConfig G) (\<lambda>cfg.
     check ''create_clientset'' (gh_NewForConfig G cfg) (
     check ''cache'' (newCachedClient G cfg) (
     (case loadGatewayConfig (gh_getGatewayConfig G) e0 of
        (gc, e1) \<Rightarrow>
          must ''load_gatewayconfig'' gc (\<lambda>gw.
          must ''parse_trusted_proxy_key'' (trustedProxyIndex L (gc_TrustedProxyKeys gw) []) (\<lambda>proxyKeys.
          (case buildIdentitySources H LIB L txt (gh_getUser G) gw (gf_ldapSecretDir fl) e1 of
             (srcs, g2) \<Rightarrow>
               must ''build_identity_sources'' srcs (\<lambda>srcs.
               let authn = WithSources srcs (WithProxyKeys proxyKeys
                     (NewAuthenticator L (\<lambda>n. outside (gh_getDevPod G n)) (\<lambda>n. outside (gh_getUser G n)) (gf_devpodNamespace fl)))
               in must ''parse_banner_template'' (buildBannerFunc (gh_ParseTemplate G) (gh_Hostname G) (gc_Banner gw)) (\<lambda>bannerFn.
                    (Inr \<lparr>gp_hostSigner = hostSigner, gp_internalSigner = internalSigner, gp_config = gw, gp_proxyKeys = proxyKeys,
                          gp_authn = authn, gp_banner = bannerFn, gp_http = httpProxyOf fl\<rparr>, g2)) g2) g2)) (None, e1)) (None, e1)))
     (None, e0)) (None, e0)) (None, e0)) (None, e0)"

subsection \<open>The accept loop\<close>


text \<open>
  How the loop stands at the end of the given answers: still accepting, returned after it waited for all handlers, or
  returned an error.
\<close>

datatype run_end = Accepting | Drained | RunErr go_error



subsection \<open>The end of the process\<close>

text \<open>The sources with a \<open>Close\<close> are closed; only the LDAP source has one.\<close>

definition closeSources :: "('c, 'e) ldap_lib \<Rightarrow> ('k, 'c, 'e) gw_state \<Rightarrow> ('k, 'c, 'e) gw_state" where
  "closeSources LIB g =
     (case g of
        (None, e) \<Rightarrow> (None, e)
      | (Some s, e) \<Rightarrow> (case Close LIB (s, e) of (s', e') \<Rightarrow> (Some s', e')))"

abbreviation context_Canceled :: go_error where "context_Canceled \<equiv> ErrSentinel ''context canceled''"

text \<open>The exit code once \<open>run\<close> has returned.\<close>

definition exitCode :: "run_end \<Rightarrow> int option" where
  "exitCode r =
     (case r of
        Accepting \<Rightarrow> None
      | Drained \<Rightarrow> Some 0
      | RunErr err \<Rightarrow> Some (if errors_Is err context_Canceled then 0 else 1))"

subsection \<open>What a started process has\<close>

lemma trustedProxyIndex_sound:
  "trustedProxyIndex L ks idx0 = Inr idx \<Longrightarrow> map_of idx fp = Some a \<Longrightarrow>
     map_of idx0 fp = Some a \<or>
     (\<exists>k\<in>set ks. \<exists>pk. ssh_ParseAuthorizedKey L (tpk_Pubkey k) = Some pk \<and> ssh_Fingerprint L pk = fp \<and> tpk_Alias k = a)"
proof (induction ks arbitrary: idx0)
  case (Cons k ks)
  then obtain pk where pk: "ssh_ParseAuthorizedKey L (tpk_Pubkey k) = Some pk" by (auto split: option.splits)
  with Cons.IH [of "AList.update (ssh_Fingerprint L pk) (tpk_Alias k) idx0"] Cons.prems
  show ?case by (auto simp: AList.update_conv' split: if_splits)
qed simp

lemma must_Inr: "must tag r f g = (Inr b, g') \<longleftrightarrow> (\<exists>a. r = Inr a \<and> f a = (Inr b, g'))"
  by (cases r) (simp_all add: must_def)

lemma check_Inr: "check tag r rest g = (Inr b, g') \<longleftrightarrow> r = None \<and> rest = (Inr b, g')"
  by (cases r) (simp_all add: check_def)

lemma startGateway_built:
  assumes "startGateway H LIB L txt G fl e0 = (Inr p, g0)"
  obtains e1 srcs where "loadGatewayConfig (gh_getGatewayConfig G) e0 = (Inr (gp_config p), e1)"
    "trustedProxyIndex L (gc_TrustedProxyKeys (gp_config p)) [] = Inr (gp_proxyKeys p)"
    "buildIdentitySources H LIB L txt (gh_getUser G) (gp_config p) (gf_ldapSecretDir fl) e1 = (Inr srcs, g0)"
    "gp_authn p = \<lparr>au_get = (\<lambda>n. outside (gh_getDevPod G n)), au_dpNS = gf_devpodNamespace fl, au_proxyKeys = gp_proxyKeys p, au_sources = srcs\<rparr>"
    "gp_http p = httpProxyOf fl"
proof -
  obtain gc e1 where gc: "loadGatewayConfig (gh_getGatewayConfig G) e0 = (gc, e1)" by (metis prod.exhaust)
  with assms obtain gw where gw: "gc = Inr gw" by (auto simp: startGateway_def must_Inr check_Inr)
  obtain srcs g2 where srcs: "buildIdentitySources H LIB L txt (gh_getUser G) gw (gf_ldapSecretDir fl) e1 = (srcs, g2)" by (metis prod.exhaust)
  from assms gc gw srcs obtain xs hs ins bn where "trustedProxyIndex L (gc_TrustedProxyKeys gw) [] = Inr (gp_proxyKeys p)" "srcs = Inr xs" "g2 = g0"
    "p = \<lparr>gp_hostSigner = hs, gp_internalSigner = ins, gp_config = gw, gp_proxyKeys = gp_proxyKeys p,
       gp_authn = \<lparr>au_get = (\<lambda>n. outside (gh_getDevPod G n)), au_dpNS = gf_devpodNamespace fl, au_proxyKeys = gp_proxyKeys p, au_sources = xs\<rparr>,
       gp_banner = bn, gp_http = httpProxyOf fl\<rparr>"
    by (auto simp: startGateway_def must_Inr check_Inr NewAuthenticator_def WithSources_def WithProxyKeys_def Let_def)
  moreover from this(4) have "gp_config p = gw" "gp_http p = httpProxyOf fl" 
    "gp_authn p = \<lparr>au_get = (\<lambda>n. outside (gh_getDevPod G n)), au_dpNS = gf_devpodNamespace fl, au_proxyKeys = gp_proxyKeys p, au_sources = xs\<rparr>"
    by (metis gw_process.select_convs)+
  ultimately show thesis using gc gw srcs by (intro that [of e1 xs]) simp_all
qed

lemma Authenticate_trusted:
  assumes "fst (Authenticate L txt au login key g) = Inr r" "map_of (au_proxyKeys au) (ssh_Fingerprint L key) = Some a"
  shows "ap_Kind (ar_AuthPath r) = ''trusted_proxy'' \<and> ap_Alias (ar_AuthPath r) = a"
  using assms by (auto simp: Authenticate_def Let_def finalize_def split: sum.splits prod.splits if_splits)

text \<open>
  C6. From start-up to admission: a gateway process that started runs under the cluster's configuration, and from then on, in any
  state, admits a login only for the owner or a collaborator of a running DevPod of its namespace, and only with a key that has
  the fingerprint of a trusted proxy key of that configuration, under its alias, or the bytes of a key that the User object
  of that name lists or, when the configuration has LDAP, that the directory vouches for within TTL plus grace.
\<close>

theorem process_admits_vouched:
  assumes "startGateway H LIB L txt G fl e0 = (Inr p, g0)" "fst (Authenticate L txt (gp_authn p) login key g) = Inr r"
  shows "fst (gh_getGatewayConfig G ''default'' e0) = Inr (gp_config p) \<and>
    (\<exists>user pod dp e. login = user @ ''+'' @ pod \<and> ar_User r = user \<and>
       (fst (gh_getDevPod G (gf_devpodNamespace fl, DevPodResourceName user pod) e) = Inr dp \<or>
        fst (gh_getDevPod G (gf_devpodNamespace fl, pod) e) = Inr dp) \<and>
       accessAllowed dp user \<and> dst_Phase (dp_Status dp) = DevPodRunning \<and> ar_Endpoint r = dst_Endpoint (dp_Status dp)) \<and>
    ((\<exists>t\<in>set (gc_TrustedProxyKeys (gp_config p)). \<exists>pk. ssh_ParseAuthorizedKey L (tpk_Pubkey t) = Some pk \<and>
        ssh_Fingerprint L pk = ssh_Fingerprint L key \<and> ap_Alias (ar_AuthPath r) = tpk_Alias t) \<or>
     (\<exists>g' k. ssh_Marshal L k = ssh_Marshal L key \<and>
        (crd_vouches L (gh_getUser G) (snd g') (ar_User r) k \<or>
         gc_LDAP (gp_config p) \<noteq> None \<and> (\<exists>s. fst g' = Some s \<and> ldap_vouches LIB L txt s (snd g') (ar_User r) k))))"
proof -
  from assms(1) obtain e1 srcs where b: "loadGatewayConfig (gh_getGatewayConfig G) e0 = (Inr (gp_config p), e1)"
    "trustedProxyIndex L (gc_TrustedProxyKeys (gp_config p)) [] = Inr (gp_proxyKeys p)"
    "buildIdentitySources H LIB L txt (gh_getUser G) (gp_config p) (gf_ldapSecretDir fl) e1 = (Inr srcs, g0)"
    "gp_authn p = \<lparr>au_get = (\<lambda>n. outside (gh_getDevPod G n)), au_dpNS = gf_devpodNamespace fl, au_proxyKeys = gp_proxyKeys p, au_sources = srcs\<rparr>"
    by (rule startGateway_built)
  have cfg: "fst (gh_getGatewayConfig G ''default'' e0) = Inr (gp_config p)"
    using b(1) by (auto simp: loadGatewayConfig_def split: prod.splits sum.splits)
  have key: "(\<exists>t\<in>set (gc_TrustedProxyKeys (gp_config p)). \<exists>pk. ssh_ParseAuthorizedKey L (tpk_Pubkey t) = Some pk \<and>
        ssh_Fingerprint L pk = ssh_Fingerprint L key \<and> ap_Alias (ar_AuthPath r) = tpk_Alias t) \<or>
     (\<exists>g' k. ssh_Marshal L k = ssh_Marshal L key \<and>
        (crd_vouches L (gh_getUser G) (snd g') (ar_User r) k \<or>
         gc_LDAP (gp_config p) \<noteq> None \<and> (\<exists>s. fst g' = Some s \<and> ldap_vouches LIB L txt s (snd g') (ar_User r) k)))"
  proof (cases "map_of (gp_proxyKeys p) (ssh_Fingerprint L key)")
    case None
    have "au_sources (gp_authn p) = gatewayChain LIB L txt (gh_getUser G) (gc_LDAP (gp_config p) \<noteq> None)"
      using buildIdentitySources_chain [OF b(3)] b(4) by simp
    from chain.success_vouched [OF assms(2) this] None b(4) show ?thesis unfolding chain_vouches_def by auto
  next
    case (Some a)
    then have "ap_Alias (ar_AuthPath r) = a" using Authenticate_trusted [OF assms(2)] b(4) by simp
    then show ?thesis using trustedProxyIndex_sound [OF b(2) Some] by (metis map_of.simps(1) option.distinct(1))
  qed
  have "\<exists>user pod dp e. login = user @ ''+'' @ pod \<and> ar_User r = user \<and>
       (fst (gh_getDevPod G (gf_devpodNamespace fl, DevPodResourceName user pod) e) = Inr dp \<or>
        fst (gh_getDevPod G (gf_devpodNamespace fl, pod) e) = Inr dp) \<and>
       accessAllowed dp user \<and> dst_Phase (dp_Status dp) = DevPodRunning \<and> ar_Endpoint r = dst_Endpoint (dp_Status dp)"
    using Authenticate_sound [OF assms(2)] b(4) by (fastforce simp: accessAllowed_iff)
  with cfg key show ?thesis by blast
qed

subsection \<open>Connections\<close>










subsection \<open>Examples\<close>

definition ex_gw_config :: gateway_config_spec where
  "ex_gw_config = gateway_config0\<lparr>gc_TrustedProxyKeys := [\<lparr>tpk_Alias = ''jump'', tpk_Pubkey = ''kp''\<rparr>]\<rparr>"

definition ex_gw_host :: "(string, unit, mem) gw_host" where
  "ex_gw_host = \<lparr>gh_ReadFile = (\<lambda>p. Inr p), gh_ParsePrivateKey = (\<lambda>b. Inr b), gh_GetConfig = Inr (), gh_NewForConfig = (\<lambda>_. None),
     gh_NewCache = (\<lambda>_. None), gh_GetInformer = (\<lambda>_. None), gh_WaitForCacheSync = True,
     gh_getGatewayConfig = (\<lambda>_ e. (Inr ex_gw_config, e)), gh_getUser = ex_get_user, gh_getDevPod = k_get_devpod mem_kube,
     gh_ParseTemplate = (\<lambda>_. Inr (\<lambda>_. Inr [])), gh_Hostname = ''gw''\<rparr>"

definition ex_process :: "((string, unit, mem) gw_state, string, string) gw_process" where
  "ex_process = \<lparr>gp_hostSigner = ''/etc/devpod/gateway/ssh_host_ed25519_key'',
     gp_internalSigner = ''/etc/devpod/gateway/internal/ssh_host_ed25519_key'', gp_config = ex_gw_config,
     gp_proxyKeys = [(''fp:kp'', ''jump'')],
     gp_authn = \<lparr>au_get = (\<lambda>n. outside (k_get_devpod mem_kube n)), au_dpNS = ''devpods'', au_proxyKeys = [(''fp:kp'', ''jump'')],
       au_sources = [crdSource ex_ssh ex_get_user]\<rparr>,
     gp_banner = None, gp_http = None\<rparr>"

lemma ex_process_starts:
  "startGateway ex_host ex_no_ldap ex_ssh (\<lambda>_. []) ex_gw_host gw_flags0 ex_auth_mem = (Inr ex_process, (None, ex_auth_mem))"
proof -
  have "loadKeys (\<lambda>p. Inr p) (\<lambda>b. Inr b) ''/etc/devpod/gateway'' =
      Inr (''/etc/devpod/gateway/ssh_host_ed25519_key'', ''/etc/devpod/gateway/internal/ssh_host_ed25519_key'')" "TrimSpace [] = []"
    by code_simp+
  then show ?thesis
    by (simp add: startGateway_def ex_gw_host_def gw_flags0_def must_def check_def newCachedClient_def loadGatewayConfig_def
        ex_gw_config_def gateway_config0_def ex_ssh_def buildIdentitySources_def buildBannerFunc_def httpProxyOf_def ex_process_def
        NewAuthenticator_def WithSources_def WithProxyKeys_def)
qed

lemma ex_process_admits: "fst (Authenticate ex_ssh (\<lambda>_. []) (gp_authn ex_process) ''alice+dev'' ''k1'' (None, ex_auth_mem)) = Inr ex_result"
  by code_simp

theorem process_admits_vouched_witness:
  "\<exists>user pod dp e. ''alice+dev'' = user @ ''+'' @ pod \<and>
     (fst (k_get_devpod mem_kube (''devpods'', DevPodResourceName user pod) e) = Inr dp \<or> fst (k_get_devpod mem_kube (''devpods'', pod) e) = Inr dp) \<and>
     accessAllowed dp user \<and> ar_Endpoint ex_result = dst_Endpoint (dp_Status dp)"
  using process_admits_vouched [OF ex_process_starts ex_process_admits] by (auto simp: ex_gw_host_def gw_flags0_def)




end
