(* ===== verification/Gateway_Connection.thy ===== *)
theory Gateway_Connection
  imports Gateway_Proxy
begin

section \<open>Gateway: bridging two SSH connections\<close>

text \<open>
  The dialer of \<open>src/internal/gateway/dialer.go\<close>, and \<open>Proxy\<close> of \<open>proxy.go\<close>: four loops that pass on the new channels and the global requests of
  the client and of the backend, two goroutines that wait for the connections to end, and the main one that
  closes both when the first has.  Each is a program counter, each rule of \<open>px_step\<close> one action of
  one of them; the connections act in between in any order (\<open>px_env\<close>).  Of the SSH library only this is used: what
  came in before a connection ended is still delivered, then its two Go channels are closed and \<open>Wait\<close>
  returns; and a request that waits for a reply fails when the connection it was sent on ends.  What
  happens on one bridged channel is the matter of \<open>Gateway_Proxy\<close>.
\<close>

subsection \<open>dialer.go\<close>

definition DialTimeout :: duration where "DialTimeout = 5 * Second"

record 'k client_config =
  cc_User :: string
  cc_Auth :: "'k list"
  cc_ChecksHostKey :: bool
  cc_Timeout :: duration
  cc_ClientVersion :: string

record 'k dialer =
  dl_signer :: 'k

definition NewDialer :: "'k \<Rightarrow> 'k dialer" where
  "NewDialer internalKey = \<lparr>dl_signer = internalKey\<rparr>"

definition backendConfig :: "'k dialer \<Rightarrow> 'k client_config" where
  "backendConfig d = \<lparr>cc_User = ''root'', cc_Auth = [dl_signer d], cc_ChecksHostKey = False, cc_Timeout = DialTimeout,
     cc_ClientVersion = ''SSH-2.0-devpod-gateway''\<rparr>"

text \<open>
  The TCP connection and the SSH handshake are arguments; the second result lists the TCP connections closed
  on the way.
\<close>

definition Dial ::
  "'k dialer \<Rightarrow> (duration \<Rightarrow> string \<Rightarrow> go_error + 't) \<Rightarrow> ('t \<Rightarrow> string \<Rightarrow> 'k client_config \<Rightarrow> go_error + 'c) \<Rightarrow> string \<Rightarrow>
   (go_error + 'c) \<times> 't list" where
  "Dial d dialContext newClientConn addr =
     (case dialContext DialTimeout addr of
        Inl err \<Rightarrow> (Inl (Errorf ''dial %s: %w'' [addr] (Some err)), [])
      | Inr tcp \<Rightarrow>
          (case newClientConn tcp addr (backendConfig d) of
             Inl err \<Rightarrow> (Inl (Errorf ''ssh handshake to %s: %w'' [addr] (Some err)), [tcp])
           | Inr conn \<Rightarrow> (Inr conn, [])))"

subsection \<open>The two connections\<close>

datatype side = ClientSide | BackendSide

fun other :: "side \<Rightarrow> side" where
  "other ClientSide = BackendSide"
| "other BackendSide = ClientSide"

lemma other_simps [simp]: "other s \<noteq> s" "s \<noteq> other s" "other s = other s' \<longleftrightarrow> s = s'"
  by (cases s; cases s'; simp)+

datatype reason = EOF | ConnErr string

text \<open>\<open>cn_own\<close> tells an end of the connection's own from one that a call of \<open>Close\<close> brought about.\<close>

record conn =
  cn_newChans :: "string list"
  cn_reqs :: "chan_req list"
  cn_end :: "reason option"
  cn_own :: bool
  cn_allChans :: "string list"
  cn_allReqs :: "chan_req list"

definition conn0 :: conn where
  "conn0 = \<lparr>cn_newChans = [], cn_reqs = [], cn_end = None, cn_own = False, cn_allChans = [], cn_allReqs = []\<rparr>"

definition closeConn :: "reason \<Rightarrow> conn \<Rightarrow> conn" where
  "closeConn why c = (if cn_end c = None then c\<lparr>cn_end := Some why\<rparr> else c)"

text \<open>What the gateway does, in order: a channel handed to \<open>proxyChannel\<close>, a request sent on, a request answered.\<close>

datatype px_event =
    Bridged side string bool
  | SentOn side chan_req
  | Answered side chan_req bool string

datatype req_pc = ReqIdle | Sending chan_req | Returned chan_req bool string | ReqDone
datatype main_pc = MWait | MCloseClient reason | MCloseBackend reason | MJoin reason | MReturned "reason option"

record px_state =
  px_conn :: "side \<Rightarrow> conn"
  px_chansDone :: "side \<Rightarrow> bool"
  px_reqs :: "side \<Rightarrow> req_pc"
  px_waited :: "side \<Rightarrow> bool"
  px_closeErr :: "reason list"
  px_main :: main_pc
  px_trace :: "px_event list"

definition px0 :: px_state where
  "px0 = \<lparr>px_conn = (\<lambda>_. conn0), px_chansDone = (\<lambda>_. False), px_reqs = (\<lambda>_. ReqIdle), px_waited = (\<lambda>_. False),
     px_closeErr = [], px_main = MWait, px_trace = []\<rparr>"

definition hostkeys :: "side \<Rightarrow> chan_req \<Rightarrow> bool" where
  "hostkeys s r \<longleftrightarrow> s = BackendSide \<and> rq_Type r = ''hostkeys-00@openssh.com''"

definition setConn :: "side \<Rightarrow> conn \<Rightarrow> px_state \<Rightarrow> px_state" where
  "setConn s c S = S\<lparr>px_conn := (px_conn S)(s := c)\<rparr>"

definition setReqs :: "side \<Rightarrow> req_pc \<Rightarrow> px_state \<Rightarrow> px_state" where
  "setReqs s pc S = S\<lparr>px_reqs := (px_reqs S)(s := pc)\<rparr>"

definition emit :: "px_event list \<Rightarrow> px_state \<Rightarrow> px_state" where
  "emit es S = S\<lparr>px_trace := px_trace S @ es\<rparr>"

text \<open>The end of a connection in good order is no error.\<close>

definition closeReason :: "reason \<Rightarrow> reason option" where
  "closeReason e = (if e = EOF then None else Some e)"

text \<open>The steps of the goroutines; bytes are counted only on channels the client opened.\<close>

inductive px_step :: "px_state \<Rightarrow> px_state \<Rightarrow> bool" where
  chan_bridge: "\<not> px_chansDone S s \<Longrightarrow> cn_newChans (px_conn S s) = nc # ncs \<Longrightarrow>
    px_step S (emit [Bridged s nc (s = ClientSide)] (setConn s ((px_conn S s)\<lparr>cn_newChans := ncs\<rparr>) S))"
| chan_end: "\<not> px_chansDone S s \<Longrightarrow> cn_newChans (px_conn S s) = [] \<Longrightarrow> cn_end (px_conn S s) \<noteq> None \<Longrightarrow>
    px_step S (S\<lparr>px_chansDone := (px_chansDone S)(s := True)\<rparr>)"
| req_drop: "px_reqs S s = ReqIdle \<Longrightarrow> cn_reqs (px_conn S s) = r # rs \<Longrightarrow> hostkeys s r \<Longrightarrow>
    px_step S (emit (if rq_WantReply r then [Answered s r False []] else []) (setConn s ((px_conn S s)\<lparr>cn_reqs := rs\<rparr>) S))"
| req_send: "px_reqs S s = ReqIdle \<Longrightarrow> cn_reqs (px_conn S s) = r # rs \<Longrightarrow> \<not> hostkeys s r \<Longrightarrow>
    px_step S (emit [SentOn (other s) r] (setReqs s (Sending r) (setConn s ((px_conn S s)\<lparr>cn_reqs := rs\<rparr>) S)))"
| req_noreply: "px_reqs S s = Sending r \<Longrightarrow> \<not> rq_WantReply r \<Longrightarrow> px_step S (setReqs s (Returned r False []) S)"
| req_broken: "px_reqs S s = Sending r \<Longrightarrow> cn_end (px_conn S (other s)) \<noteq> None \<Longrightarrow> px_step S (setReqs s (Returned r False []) S)"
| req_answer: "px_reqs S s = Returned r ok payload \<Longrightarrow> px_step S (emit [Answered s r ok payload] (setReqs s ReqIdle S))"
| req_end: "px_reqs S s = ReqIdle \<Longrightarrow> cn_reqs (px_conn S s) = [] \<Longrightarrow> cn_end (px_conn S s) \<noteq> None \<Longrightarrow>
    px_step S (setReqs s ReqDone S)"
| conn_wait: "\<not> px_waited S s \<Longrightarrow> cn_end (px_conn S s) = Some e \<Longrightarrow>
    px_step S (S\<lparr>px_waited := (px_waited S)(s := True), px_closeErr := px_closeErr S @ [e]\<rparr>)"
| main_first: "px_main S = MWait \<Longrightarrow> px_closeErr S = e # es \<Longrightarrow>
    px_step S (S\<lparr>px_main := MCloseClient e, px_closeErr := es\<rparr>)"
| main_close_client: "px_main S = MCloseClient e \<Longrightarrow>
    px_step S (setConn ClientSide (closeConn why (px_conn S ClientSide)) (S\<lparr>px_main := MCloseBackend e\<rparr>))"
| main_close_backend: "px_main S = MCloseBackend e \<Longrightarrow>
    px_step S (setConn BackendSide (closeConn why (px_conn S BackendSide)) (S\<lparr>px_main := MJoin e\<rparr>))"
| main_join: "px_main S = MJoin e \<Longrightarrow> (\<And>s. px_chansDone S s) \<Longrightarrow> (\<And>s. px_reqs S s = ReqDone) \<Longrightarrow>
    px_step S (S\<lparr>px_main := MReturned (closeReason e)\<rparr>)"

text \<open>The peers: new channels and requests while a connection lasts, its end, the reply to a request sent on.\<close>

inductive px_env :: "px_state \<Rightarrow> px_state \<Rightarrow> bool" where
  env_chan: "cn_end (px_conn S s) = None \<Longrightarrow>
    px_env S (setConn s ((px_conn S s)\<lparr>cn_newChans := cn_newChans (px_conn S s) @ [nc], cn_allChans := cn_allChans (px_conn S s) @ [nc]\<rparr>) S)"
| env_req: "cn_end (px_conn S s) = None \<Longrightarrow>
    px_env S (setConn s ((px_conn S s)\<lparr>cn_reqs := cn_reqs (px_conn S s) @ [r], cn_allReqs := cn_allReqs (px_conn S s) @ [r]\<rparr>) S)"
| env_end: "cn_end (px_conn S s) = None \<Longrightarrow> px_env S (setConn s ((px_conn S s)\<lparr>cn_end := Some e, cn_own := True\<rparr>) S)"
| env_reply: "px_reqs S s = Sending r \<Longrightarrow> rq_WantReply r \<Longrightarrow> cn_end (px_conn S (other s)) = None \<Longrightarrow>
    px_env S (setReqs s (Returned r ok payload) S)"

inductive px_reach :: "px_state \<Rightarrow> bool" where
  reach0: "px_reach px0"
| reach_step: "px_reach S \<Longrightarrow> px_step S S' \<Longrightarrow> px_reach S'"
| reach_env: "px_reach S \<Longrightarrow> px_env S S' \<Longrightarrow> px_reach S'"

lemma px_set [simp]:
  "px_conn (setConn s c S) = (px_conn S)(s := c)" "px_chansDone (setConn s c S) = px_chansDone S" "px_reqs (setConn s c S) = px_reqs S"
  "px_waited (setConn s c S) = px_waited S" "px_closeErr (setConn s c S) = px_closeErr S" "px_main (setConn s c S) = px_main S"
  "px_trace (setConn s c S) = px_trace S"
  "px_conn (setReqs s pc S) = px_conn S" "px_chansDone (setReqs s pc S) = px_chansDone S" "px_reqs (setReqs s pc S) = (px_reqs S)(s := pc)"
  "px_waited (setReqs s pc S) = px_waited S" "px_closeErr (setReqs s pc S) = px_closeErr S" "px_main (setReqs s pc S) = px_main S"
  "px_trace (setReqs s pc S) = px_trace S"
  "px_conn (emit es S) = px_conn S" "px_chansDone (emit es S) = px_chansDone S" "px_reqs (emit es S) = px_reqs S"
  "px_waited (emit es S) = px_waited S" "px_closeErr (emit es S) = px_closeErr S" "px_main (emit es S) = px_main S"
  "px_trace (emit es S) = px_trace S @ es"
  by (simp_all add: setConn_def setReqs_def emit_def)

lemma closeConn_simps [simp]:
  "cn_newChans (closeConn why c) = cn_newChans c" "cn_reqs (closeConn why c) = cn_reqs c" "cn_own (closeConn why c) = cn_own c"
  "cn_allChans (closeConn why c) = cn_allChans c" "cn_allReqs (closeConn why c) = cn_allReqs c"
  "\<exists>e. cn_end (closeConn why c) = Some e" "cn_end c = Some e \<Longrightarrow> cn_end (closeConn why c) = Some e"
  by (simp_all add: closeConn_def)

section \<open>Invariants\<close>

lemma px_invariant:
  assumes "\<And>S S'. P S \<Longrightarrow> px_step S S' \<Longrightarrow> P S'" "\<And>S S'. P S \<Longrightarrow> px_env S S' \<Longrightarrow> P S'" "P px0" "px_reach S"
  shows "P S"
  using assms(4) by (induction rule: px_reach.induct) (blast intro: assms(1-3))+

fun ended_reason :: "main_pc \<Rightarrow> reason option" where
  "ended_reason (MCloseClient e) = Some e"
| "ended_reason (MCloseBackend e) = Some e"
| "ended_reason (MJoin e) = Some e"
| "ended_reason _ = None"

text \<open>The reason that is returned belongs to a connection that ended by itself.\<close>

definition own_end :: "px_state \<Rightarrow> reason \<Rightarrow> bool" where
  "own_end S e \<longleftrightarrow> (\<exists>s. cn_end (px_conn S s) = Some e \<and> cn_own (px_conn S s))"

definition own_return :: "px_state \<Rightarrow> reason option \<Rightarrow> bool" where
  "own_return S r \<longleftrightarrow> (\<exists>e. own_end S e \<and> r = closeReason e)"

definition ends_inv :: "px_state \<Rightarrow> bool" where
  "ends_inv S \<longleftrightarrow>
     (px_main S = MWait \<longrightarrow>
        (\<forall>s. cn_end (px_conn S s) \<noteq> None \<longrightarrow> cn_own (px_conn S s)) \<and> (\<forall>e\<in>set (px_closeErr S). own_end S e) \<and>
        (\<forall>s. px_waited S s \<longrightarrow> px_closeErr S \<noteq> [])) \<and>
     (\<forall>e. ended_reason (px_main S) = Some e \<longrightarrow> own_end S e) \<and>
     (\<forall>r. px_main S = MReturned r \<longrightarrow> own_return S r)"

text \<open>A connection that has ended stays as it ended.\<close>

lemma conn_stable:
  assumes "px_step S S' \<or> px_env S S'" "cn_end (px_conn S s) = Some e"
  shows "cn_end (px_conn S' s) = Some e" "cn_own (px_conn S' s) = cn_own (px_conn S s)"
  using assms by (auto elim!: px_step.cases px_env.cases split: if_splits)

lemma ended_stable: "px_step S S' \<Longrightarrow> cn_end (px_conn S s) \<noteq> None \<Longrightarrow> cn_end (px_conn S' s) \<noteq> None"
  using conn_stable(1) by blast

lemma own_end_stable: "px_step S S' \<or> px_env S S' \<Longrightarrow> own_end S e \<Longrightarrow> own_end S' e"
  unfolding own_end_def using conn_stable by blast

lemma own_endI: "cn_end (px_conn S s) = Some e \<Longrightarrow> cn_own (px_conn S s) \<Longrightarrow> own_end S e"
  by (auto simp: own_end_def)

lemma ends_inv_step:
  assumes "ends_inv S" "px_step S S'"
  shows "ends_inv S'"
proof -
  have keep: "own_end S e \<Longrightarrow> own_end S' e" "own_return S r \<Longrightarrow> own_return S' r" for e r
    using own_end_stable assms(2) by (blast, auto simp: own_return_def)
  from assms(2) show ?thesis
  proof cases
    case (conn_wait s e)
    then have "px_main S = MWait \<Longrightarrow> own_end S e" using assms(1) by (auto simp: ends_inv_def intro: own_endI)
    with conn_wait assms(1) keep show ?thesis by (auto simp: ends_inv_def)
  next
    case (main_first e es)
    then have "own_end S e" using assms(1) by (auto simp: ends_inv_def)
    with main_first keep show ?thesis by (auto simp: ends_inv_def)
  next
    case (main_join e)
    then have "own_return S' (closeReason e)" using assms(1) keep by (auto simp: ends_inv_def own_return_def)
    with main_join show ?thesis by (auto simp: ends_inv_def)
  qed (use assms(1) keep in \<open>auto simp: ends_inv_def\<close>)
qed

lemma ends_inv_env:
  assumes "ends_inv S" "px_env S S'"
  shows "ends_inv S'"
proof -
  have keep: "own_end S e \<Longrightarrow> own_end S' e" "own_return S r \<Longrightarrow> own_return S' r" for e r
    using own_end_stable assms(2) by (blast, auto simp: own_return_def)
  from assms(2) show ?thesis by cases (use assms(1) keep in \<open>auto simp: ends_inv_def\<close>)
qed

lemma ends_inv_reach: "px_reach S \<Longrightarrow> ends_inv S"
  using ends_inv_step ends_inv_env by (rule px_invariant) (simp_all add: px0_def conn0_def ends_inv_def)

text \<open>From the close of a connection on, it has ended; and the main goroutine returns only when the loops have.\<close>

definition close_inv :: "px_state \<Rightarrow> bool" where
  "close_inv S \<longleftrightarrow>
     (case px_main S of
        MWait \<Rightarrow> True
      | MCloseClient _ \<Rightarrow> True
      | MCloseBackend _ \<Rightarrow> cn_end (px_conn S ClientSide) \<noteq> None
      | MJoin _ \<Rightarrow> \<forall>s. cn_end (px_conn S s) \<noteq> None
      | MReturned _ \<Rightarrow> \<forall>s. cn_end (px_conn S s) \<noteq> None \<and> px_chansDone S s \<and> px_reqs S s = ReqDone) \<and>
     (\<forall>s. px_chansDone S s \<longrightarrow> cn_end (px_conn S s) \<noteq> None \<and> cn_newChans (px_conn S s) = []) \<and>
     (\<forall>s. px_reqs S s = ReqDone \<longrightarrow> cn_end (px_conn S s) \<noteq> None \<and> cn_reqs (px_conn S s) = [])"

lemma side_all: "(\<forall>s. P s) \<longleftrightarrow> P ClientSide \<and> P BackendSide"
  by (metis side.exhaust)

lemma close_inv_step: "close_inv S \<Longrightarrow> px_step S S' \<Longrightarrow> close_inv S'"
  by (erule px_step.cases) (auto simp: close_inv_def side_all split: main_pc.splits)

lemma close_inv_env: "close_inv S \<Longrightarrow> px_env S S' \<Longrightarrow> close_inv S'"
  by (erule px_env.cases) (auto simp: close_inv_def side_all split: main_pc.splits)

lemma close_inv_reach: "px_reach S \<Longrightarrow> close_inv S"
  using close_inv_step close_inv_env by (rule px_invariant) (simp_all add: px0_def conn0_def close_inv_def)

text \<open>What each side received is what was passed on, in order, and what is still waiting.\<close>

definition sentOn :: "side \<Rightarrow> px_event list \<Rightarrow> chan_req list" where
  "sentOn s es = List.map_filter (\<lambda>e. case e of SentOn s' r \<Rightarrow> if s' = s then Some r else None | _ \<Rightarrow> None) es"

definition bridged :: "side \<Rightarrow> px_event list \<Rightarrow> (string \<times> bool) list" where
  "bridged s es = List.map_filter (\<lambda>e. case e of Bridged s' nc cnt \<Rightarrow> if s' = s then Some (nc, cnt) else None | _ \<Rightarrow> None) es"

lemma sentOn_simps [simp]:
  "sentOn s [] = []" "sentOn s (es @ es') = sentOn s es @ sentOn s es'"
  "sentOn s [SentOn s' r] = (if s' = s then [r] else [])" "sentOn s [Answered s' r ok payload] = []" "sentOn s [Bridged s' nc cnt] = []"
  by (simp_all add: sentOn_def map_filter_def)

lemma bridged_simps [simp]:
  "bridged s [] = []" "bridged s (es @ es') = bridged s es @ bridged s es'"
  "bridged s [Bridged s' nc cnt] = (if s' = s then [(nc, cnt)] else [])" "bridged s [SentOn s' r] = []" "bridged s [Answered s' r ok payload] = []"
  by (simp_all add: bridged_def map_filter_def)

definition in_order :: "side \<Rightarrow> px_state \<Rightarrow> bool" where
  "in_order s S \<longleftrightarrow>
     sentOn (other s) (px_trace S) @ filter (\<lambda>r. \<not> hostkeys s r) (cn_reqs (px_conn S s)) =
       filter (\<lambda>r. \<not> hostkeys s r) (cn_allReqs (px_conn S s)) \<and>
     bridged s (px_trace S) @ map (\<lambda>nc. (nc, s = ClientSide)) (cn_newChans (px_conn S s)) =
       map (\<lambda>nc. (nc, s = ClientSide)) (cn_allChans (px_conn S s))"

lemma in_order_step: "in_order s S \<Longrightarrow> px_step S S' \<Longrightarrow> in_order s S'"
  by (erule px_step.cases) (auto simp: in_order_def)

lemma in_order_env: "in_order s S \<Longrightarrow> px_env S S' \<Longrightarrow> in_order s S'"
  by (erule px_env.cases) (auto simp: in_order_def simp flip: append_assoc)

lemma in_order_reach: "px_reach S \<Longrightarrow> in_order s S"
  using in_order_step in_order_env by (rule px_invariant) (simp_all add: px0_def conn0_def in_order_def)

section \<open>The bridge comes to an end\<close>

fun req_weight :: "req_pc \<Rightarrow> nat" where
  "req_weight ReqIdle = 1"
| "req_weight (Sending _) = 3"
| "req_weight (Returned _ _ _) = 2"
| "req_weight ReqDone = 0"

fun main_weight :: "main_pc \<Rightarrow> nat" where
  "main_weight MWait = 4"
| "main_weight (MCloseClient _) = 3"
| "main_weight (MCloseBackend _) = 2"
| "main_weight (MJoin _) = 1"
| "main_weight (MReturned _) = 0"

definition side_weight :: "px_state \<Rightarrow> side \<Rightarrow> nat" where
  "side_weight S s =
     length (cn_newChans (px_conn S s)) + (if px_chansDone S s then 0 else 1) +
     3 * length (cn_reqs (px_conn S s)) + req_weight (px_reqs S s) + (if px_waited S s then 0 else 2)"

definition px_weight :: "px_state \<Rightarrow> nat" where
  "px_weight S = side_weight S ClientSide + side_weight S BackendSide + length (px_closeErr S) + main_weight (px_main S)"

text \<open>The goroutines alone take finitely many steps.\<close>

lemma px_weight_at:
  "px_weight S = side_weight S s + side_weight S (other s) + length (px_closeErr S) + main_weight (px_main S)"
  by (cases s) (simp_all add: px_weight_def)

lemma px_step_weight: "px_step S S' \<Longrightarrow> px_weight S' < px_weight S"
proof (induction rule: px_step.induct)
  case (chan_bridge S s nc ncs)
  then show ?case by (simp add: px_weight_at [of _ s] side_weight_def)
next
  case (chan_end S s)
  then show ?case by (simp add: px_weight_at [of _ s] side_weight_def)
next
  case (req_drop S s r rs)
  then show ?case by (simp add: px_weight_at [of _ s] side_weight_def)
next
  case (req_send S s r rs)
  then show ?case by (simp add: px_weight_at [of _ s] side_weight_def)
next
  case (req_noreply S s r)
  then show ?case by (simp add: px_weight_at [of _ s] side_weight_def)
next
  case (req_broken S s r)
  then show ?case by (simp add: px_weight_at [of _ s] side_weight_def)
next
  case (req_answer S s r ok payload)
  then show ?case by (simp add: px_weight_at [of _ s] side_weight_def)
next
  case (req_end S s)
  then show ?case by (simp add: px_weight_at [of _ s] side_weight_def)
next
  case (conn_wait S s e)
  then show ?case by (simp add: px_weight_at [of _ s] side_weight_def)
qed (simp_all add: px_weight_def side_weight_def)

text \<open>And while it has not returned, one of them can go on, once a connection has ended.\<close>

lemma loop_progress:
  assumes "\<forall>s. cn_end (px_conn S s) \<noteq> None" "\<not> px_chansDone S s \<or> px_reqs S s \<noteq> ReqDone"
  shows "\<exists>S'. px_step S S'"
proof (cases "px_chansDone S s")
  case False
  with assms(1) show ?thesis by (cases "cn_newChans (px_conn S s)") (blast intro: chan_bridge chan_end)+
next
  case True
  with assms(2) have "px_reqs S s \<noteq> ReqDone" by blast
  then show ?thesis
  proof (cases "px_reqs S s")
    case ReqIdle
    with assms(1) show ?thesis by (cases "cn_reqs (px_conn S s)") (blast intro: req_drop req_send req_end)+
  qed (use assms(1) in \<open>blast intro: req_broken req_answer\<close>)+
qed

lemma px_progress:
  assumes "px_reach S" "cn_end (px_conn S s) \<noteq> None" "\<nexists>r. px_main S = MReturned r"
  shows "\<exists>S'. px_step S S'"
proof (cases "px_main S")
  case MWait
  show ?thesis
  proof (cases "px_waited S s")
    case True
    with ends_inv_reach [OF assms(1)] MWait have "px_closeErr S \<noteq> []" by (auto simp: ends_inv_def)
    then show ?thesis using main_first [OF MWait] by (cases "px_closeErr S") blast+
  qed (use assms(2) conn_wait in blast)
next
  case (MJoin e)
  with close_inv_reach [OF assms(1)] have "\<forall>s. cn_end (px_conn S s) \<noteq> None" by (simp add: close_inv_def)
  with loop_progress main_join [OF MJoin] show ?thesis by blast
qed (use assms(3) in \<open>blast intro: main_close_client main_close_backend\<close>)+

lemma px_drains:
  "px_reach S \<Longrightarrow> cn_end (px_conn S s) \<noteq> None \<Longrightarrow> \<exists>S' r. px_step\<^sup>*\<^sup>* S S' \<and> px_main S' = MReturned r"
proof (induction "px_weight S" arbitrary: S rule: less_induct)
  case less
  show ?case
  proof (cases "\<exists>r. px_main S = MReturned r")
    case False
    with px_progress [OF less.prems] obtain S1 where step: "px_step S S1" by blast
    from ended_stable [OF step less.prems(2)] have "cn_end (px_conn S1 s) \<noteq> None" .
    with less.hyps [OF px_step_weight [OF step]] reach_step [OF less.prems(1) step] show ?thesis
      using step by (blast intro: converse_rtranclp_into_rtranclp)
  qed blast
qed

section \<open>Properties\<close>

text \<open>
  C23. Once the client's connection or the backend's has ended, the bridge comes to its end whatever the peers do: its
  goroutines can only take finitely many steps, one of them can always go on, and so it reaches the return.
\<close>

theorem proxy_returns:
  assumes "px_reach S" "cn_end (px_conn S s) \<noteq> None"
  shows "wfp (\<lambda>S2 S1. px_step S1 S2) \<and> (\<exists>S' r. px_step\<^sup>*\<^sup>* S S' \<and> px_main S' = MReturned r) \<and>
    (\<forall>S'. px_step\<^sup>*\<^sup>* S S' \<longrightarrow> (\<exists>r. px_main S' = MReturned r) \<or> (\<exists>S''. px_step S' S''))"
proof (intro conjI allI impI)
  have "wfp (\<lambda>S2 S1. px_weight S2 < px_weight S1)"
    using wfp_if_convertible_to_nat [of "\<lambda>S2 S1. px_weight S2 < px_weight S1" px_weight] by blast
  then show "wfp (\<lambda>S2 S1. px_step S1 S2)" by (rule wfp_subset) (auto intro: px_step_weight)
  show "\<exists>S' r. px_step\<^sup>*\<^sup>* S S' \<and> px_main S' = MReturned r" using assms by (rule px_drains)
  fix S' assume "px_step\<^sup>*\<^sup>* S S'"
  then have "px_reach S' \<and> cn_end (px_conn S' s) \<noteq> None"
  proof induction
    case (step y z)
    then show ?case using reach_step ended_stable by blast
  qed (use assms in blast)
  then show "(\<exists>r. px_main S' = MReturned r) \<or> (\<exists>S''. px_step S' S'')" using px_progress by blast
qed

text \<open>
  C24. What the bridge has done when it returns: the reason is that of a connection that ended by itself, never of one
  the bridge closed, and none for an end in good order; both connections are closed; every channel either side
  opened was bridged, counted only for the client's; every request was sent on in order, except the backend's
  announcements of host keys, of which the client sees none.
\<close>

theorem proxy_return_complete:
  assumes "px_reach S" "px_main S = MReturned r"
  shows "(\<exists>s e. cn_end (px_conn S s) = Some e \<and> cn_own (px_conn S s) \<and> r = closeReason e) \<and>
    (\<forall>s. cn_end (px_conn S s) \<noteq> None \<and>
       bridged s (px_trace S) = map (\<lambda>nc. (nc, s = ClientSide)) (cn_allChans (px_conn S s)) \<and>
       sentOn (other s) (px_trace S) = filter (\<lambda>r. \<not> hostkeys s r) (cn_allReqs (px_conn S s)))"
proof -
  from ends_inv_reach [OF assms(1)] assms(2) have "own_return S r" by (simp add: ends_inv_def)
  moreover have "cn_end (px_conn S s) \<noteq> None \<and> cn_newChans (px_conn S s) = [] \<and> cn_reqs (px_conn S s) = []" for s
    using close_inv_reach [OF assms(1)] assms(2) by (auto simp: close_inv_def)
  ultimately show ?thesis using in_order_reach [OF assms(1)] by (auto simp: own_return_def own_end_def in_order_def)
qed

subsection \<open>Examples\<close>

text \<open>A client that sends one request and leaves.\<close>

definition ex_left :: px_state where
  "ex_left = (let S = setConn ClientSide (conn0\<lparr>cn_reqs := [\<lparr>rq_Type = ''keepalive@openssh.com'', rq_WantReply = True, rq_Payload = []\<rparr>],
      cn_allReqs := [\<lparr>rq_Type = ''keepalive@openssh.com'', rq_WantReply = True, rq_Payload = []\<rparr>]\<rparr>) px0
    in setConn ClientSide ((px_conn S ClientSide)\<lparr>cn_end := Some EOF, cn_own := True\<rparr>) S)"

lemma ex_left_reach: "px_reach ex_left" "cn_end (px_conn ex_left ClientSide) \<noteq> None"
proof -
  let ?r = "\<lparr>rq_Type = ''keepalive@openssh.com'', rq_WantReply = True, rq_Payload = []\<rparr>"
  let ?S = "setConn ClientSide (conn0\<lparr>cn_reqs := [?r], cn_allReqs := [?r]\<rparr>) px0"
  have "px_env px0 ?S" using env_req [of px0 ClientSide ?r] by (simp add: px0_def conn0_def)
  then have "px_reach ?S" by (rule reach_env [OF reach0])
  moreover have "px_env ?S ex_left" using env_end [of ?S ClientSide EOF] by (simp add: ex_left_def conn0_def)
  ultimately show "px_reach ex_left" by (rule reach_env)
qed (simp add: ex_left_def)

lemma reach_steps: "px_step\<^sup>*\<^sup>* S S' \<Longrightarrow> px_reach S \<Longrightarrow> px_reach S'"
  by (induction rule: rtranclp_induct) (auto intro: reach_step)

theorem proxy_returns_witness:
  "wfp (\<lambda>S2 S1. px_step S1 S2) \<and> (\<exists>S' r. px_step\<^sup>*\<^sup>* ex_left S' \<and> px_main S' = MReturned r)"
  using proxy_returns [OF ex_left_reach] by blast

theorem proxy_return_complete_witness:
  "\<exists>S r. px_step\<^sup>*\<^sup>* ex_left S \<and> px_main S = MReturned r \<and>
    (\<exists>s e. cn_end (px_conn S s) = Some e \<and> cn_own (px_conn S s) \<and> r = closeReason e) \<and>
    sentOn BackendSide (px_trace S) = filter (\<lambda>r. \<not> hostkeys ClientSide r) (cn_allReqs (px_conn S ClientSide))"
proof -
  obtain S r where S: "px_step\<^sup>*\<^sup>* ex_left S" "px_main S = MReturned r" using px_drains [OF ex_left_reach] by blast
  from proxy_return_complete [OF reach_steps [OF S(1) ex_left_reach(1)] S(2)] S show ?thesis
    by (intro exI [of _ S] exI [of _ r] conjI) (force dest: spec [of _ ClientSide])+
qed

end
