(* ===== verification/Supervisor.thy ===== *)
theory Supervisor
  imports Encoding
begin

section \<open>The in-pod supervisor\<close>

text \<open>
  \<open>src/cmd/supervisor/main.go\<close> and \<open>shell.go\<close>: the process that runs as PID 1 of a DevPod's container,
  starts sshd and the user's command, reaps children and decides when the container ends.  The
  kernel's answers to \<open>Wait4\<close> are a list, each with the value of \<open>shuttingDown\<close> that the loop
  loads after it; a loop that runs out of answers is still blocked and has the value \<open>None\<close>.  The
  environment, \<open>/etc/passwd\<close> and the file system are arguments, as they are in the code.
\<close>

subsection \<open>main.go: waiting for children\<close>

datatype wait_status = Exited int | Signaled int | OtherStatus
datatype errno = EINTR | ECHILD | OtherErrno
datatype wait_result = WaitErr errno | Waited int wait_status

record child =
  ch_name :: string
  ch_pid :: "int option"
  ch_exit :: "int option"

type_synonym wait_input = "(wait_result \<times> bool) list"

definition waitStatusToExit :: "wait_status \<Rightarrow> int" where
  "waitStatusToExit ws = (case ws of Exited n \<Rightarrow> n | Signaled s \<Rightarrow> 128 + s | OtherStatus \<Rightarrow> 1)"

text \<open>The child of a process id that has not been reaped, and its reaping.\<close>

definition tracked :: "int \<Rightarrow> child \<Rightarrow> bool" where
  "tracked pid c \<longleftrightarrow> ch_exit c = None \<and> ch_pid c = Some pid"

definition reap :: "int \<Rightarrow> int \<Rightarrow> child list \<Rightarrow> child list" where
  "reap pid code children =
     (case map_first (tracked pid) (\<lambda>c. c\<lparr>ch_exit := Some code\<rparr>) children of None \<Rightarrow> children | Some cs \<Rightarrow> cs)"

definition userReaped :: "child list \<Rightarrow> bool" where
  "userReaped children = (case find (\<lambda>c. ch_name c = ''user'') children of None \<Rightarrow> False | Some c \<Rightarrow> ch_exit c \<noteq> None)"

definition allTrackedReaped :: "child list \<Rightarrow> bool" where
  "allTrackedReaped children = list_all (\<lambda>c. ch_exit c \<noteq> None) children"

definition userExitOr :: "child list \<Rightarrow> int \<Rightarrow> int" where
  "userExitOr children fallback =
     (case find (\<lambda>c. ch_name c = ''user'' \<and> ch_exit c \<noteq> None) children of
        None \<Rightarrow> fallback
      | Some c \<Rightarrow> (case ch_exit c of Some n \<Rightarrow> n | None \<Rightarrow> fallback))"

definition alive :: "child \<Rightarrow> bool" where
  "alive c \<longleftrightarrow> ch_exit c = None \<and> ch_pid c \<noteq> None"

fun drainReapsBlocking :: "child list \<Rightarrow> wait_input \<Rightarrow> (child list \<times> wait_input) option" where
  "drainReapsBlocking children ws =
     (if \<not> list_ex alive children then Some (children, ws)
      else case ws of
             [] \<Rightarrow> None
           | (w, _) # ws' \<Rightarrow>
               (case w of
                  WaitErr e \<Rightarrow> if e = EINTR then drainReapsBlocking children ws' else Some (children, ws')
                | Waited pid st \<Rightarrow> drainReapsBlocking (reap pid (waitStatusToExit st) children) ws'))"

declare drainReapsBlocking.simps [simp del]

text \<open>Signals go to the process groups of the children that are still alive.\<close>

abbreviation SIGTERM :: int where "SIGTERM \<equiv> 15"

definition killAlive :: "int \<Rightarrow> child list \<Rightarrow> (int \<times> int) list" where
  "killAlive sig children = map (\<lambda>c. (- (case ch_pid c of Some p \<Rightarrow> p | None \<Rightarrow> 0), sig)) (filter alive children)"

record wait_out =
  wo_code :: int
  wo_children :: "child list"
  wo_kills :: "(int \<times> int) list"
  wo_rest :: wait_input

definition stopAll :: "int \<Rightarrow> child list \<Rightarrow> wait_input \<Rightarrow> wait_out option" where
  "stopAll code children ws =
     (case drainReapsBlocking children ws of
        None \<Rightarrow> None
      | Some (cs, rest) \<Rightarrow> Some \<lparr>wo_code = code, wo_children = cs, wo_kills = killAlive SIGTERM children, wo_rest = rest\<rparr>)"

fun waitForChildren :: "bool \<Rightarrow> child list \<Rightarrow> int option \<Rightarrow> wait_input \<Rightarrow> wait_out option" where
  "waitForChildren exitOnUserCmd children firstTrackedExit [] = None"
| "waitForChildren exitOnUserCmd children firstTrackedExit ((WaitErr e, shuttingDown) # ws) =
     (if e = EINTR then waitForChildren exitOnUserCmd children firstTrackedExit ws
      else if e = ECHILD
      then Some \<lparr>wo_code = (case firstTrackedExit of Some c \<Rightarrow> c | None \<Rightarrow> 0), wo_children = children, wo_kills = [], wo_rest = ws\<rparr>
      else Some \<lparr>wo_code = 1, wo_children = children, wo_kills = [], wo_rest = ws\<rparr>)"
| "waitForChildren exitOnUserCmd children firstTrackedExit ((Waited pid st, shuttingDown) # ws) =
     (case find (tracked pid) children of
        None \<Rightarrow> waitForChildren exitOnUserCmd children firstTrackedExit ws
      | Some hit \<Rightarrow>
          (let code = waitStatusToExit st;
               children' = reap pid code children;
               first = (case firstTrackedExit of None \<Rightarrow> code | Some c \<Rightarrow> c)
           in if shuttingDown
              then if userReaped children' \<or> allTrackedReaped children'
                   then Some \<lparr>wo_code = userExitOr children' first, wo_children = children', wo_kills = [], wo_rest = ws\<rparr>
                   else waitForChildren exitOnUserCmd children' (Some first) ws
              else if ch_name hit = ''sshd'' then stopAll code children' ws
              else if ch_name hit = ''user'' \<and> exitOnUserCmd then stopAll code children' ws
              else waitForChildren exitOnUserCmd children' (Some first) ws))"

text \<open>\<open>main\<close>: the forwarder of signals, the arguments of sshd and the children it tracks.\<close>

definition forwardSignal :: "int \<Rightarrow> child list \<Rightarrow> (int \<times> int) list" where
  "forwardSignal sig children =
     concat (map (\<lambda>c. case ch_pid c of None \<Rightarrow> [] | Some p \<Rightarrow> [(- p, sig)]) children)"

definition envOr :: "(string \<Rightarrow> string) \<Rightarrow> string \<Rightarrow> string \<Rightarrow> string" where
  "envOr getenv k def = (if getenv k \<noteq> [] then getenv k else def)"

definition splitSemis :: "string \<Rightarrow> string list" where
  "splitSemis s = (if s = [] then [] else Split (CHR '';'') s)"

subsection \<open>shell.go: the root shell\<close>

definition allowedShells :: "(string \<times> string) list" where
  "allowedShells = [(''bash'', ''/opt/devpod/bin/bash''), (''zsh'', ''/opt/devpod/bin/zsh''), (''fish'', ''/opt/devpod/bin/fish'')]"

definition nologinShells :: "string list" where
  "nologinShells = [''/sbin/nologin'', ''/usr/sbin/nologin'', ''/bin/false'', ''/usr/bin/false'']"

abbreviation newline :: char where "newline \<equiv> CHR 0x0A"

fun rootShellIn :: "string list \<Rightarrow> string" where
  "rootShellIn [] = []"
| "rootShellIn (line # lines) =
     (if \<not> HasPrefix line ''root:'' then rootShellIn lines
      else let fields = Split (CHR '':'') line
           in if length fields < 7 then [] else fields ! 6)"

definition rootShellFromPasswd :: "string \<Rightarrow> string" where
  "rootShellFromPasswd data = rootShellIn (Split newline data)"

text \<open>\<open>stat\<close> is reduced to what is asked of it: the file is there and has an execute bit.\<close>

definition resolveShell ::
  "(string \<Rightarrow> string) \<Rightarrow> (unit \<Rightarrow> string option) option \<Rightarrow> (string \<Rightarrow> bool) \<Rightarrow> string \<times> string" where
  "resolveShell getenv passwd executable =
     (let want = getenv ''DEVPOD_SHELL'';
          bundled = (''bash'', ''/opt/devpod/bin/bash'')
      in if want \<noteq> [] then (case map_of allowedShells want of Some p \<Rightarrow> (want, p) | None \<Rightarrow> bundled)
         else case passwd of
                None \<Rightarrow> bundled
              | Some rd \<Rightarrow>
                  (case rd () of
                     None \<Rightarrow> bundled
                   | Some data \<Rightarrow>
                       (let rootShell = rootShellFromPasswd data
                        in if rootShell \<noteq> [] \<and> rootShell \<notin> set nologinShells \<and> executable rootShell
                           then (rootShell, []) else bundled)))"

text \<open>The loop of \<open>rewriteRootPasswd\<close>: \<open>Inl\<close> the unchanged verdict, \<open>Inr\<close> the lines with the entry replaced.\<close>

fun rewriteLines :: "string \<Rightarrow> string \<Rightarrow> string list \<Rightarrow> (unit + string list) option" where
  "rewriteLines wantShell wantHome [] = None"
| "rewriteLines wantShell wantHome (line # lines) =
     (let fields = Split (CHR '':'') line;
          rest = (case rewriteLines wantShell wantHome lines of
                    Some (Inr ls) \<Rightarrow> Some (Inr (line # ls))
                  | r \<Rightarrow> r)
      in if \<not> HasPrefix line ''root:'' \<or> length fields < 7 then rest
         else let f1 = (if wantShell \<noteq> [] \<and> fields ! 6 \<noteq> wantShell then fields[6 := wantShell] else fields);
                  f2 = (if wantHome \<noteq> [] \<and> fields ! 5 \<noteq> wantHome then f1[5 := wantHome] else f1)
              in if f2 = fields then Some (Inl ()) else Some (Inr (Join f2 '':'' # lines)))"

definition rewriteRootPasswd :: "string \<Rightarrow> string \<Rightarrow> string \<Rightarrow> string \<times> bool" where
  "rewriteRootPasswd data wantShell wantHome =
     (case rewriteLines wantShell wantHome (Split newline data) of
        Some (Inl _) \<Rightarrow> (data, False)
      | Some (Inr lines) \<Rightarrow> (Join lines [newline], True)
      | None \<Rightarrow>
          (let home = (if wantHome = [] then ''/root'' else wantHome);
               shell = (if wantShell = [] then ''/bin/bash'' else wantShell);
               root = ''root:x:0:0:root:'' @ home @ '':'' @ shell
           in (root @ [newline] @ data, True)))"

definition patchPasswdRootShell :: "string \<Rightarrow> string \<Rightarrow> string option \<Rightarrow> string option" where
  "patchPasswdRootShell wantShell wantHome readPasswd =
     (if wantShell = [] \<and> wantHome = [] then None
      else case rewriteRootPasswd (case readPasswd of None \<Rightarrow> [] | Some d \<Rightarrow> d) wantShell wantHome of
             (patched, changed) \<Rightarrow> if \<not> changed then None else Some patched)"

subsection \<open>shell.go: the environment of a session\<close>

definition skipEnvExact :: "string list" where
  "skipEnvExact = [''PATH'', ''TERMINFO'', ''TERMINFO_DIRS'', ''FPATH'', ''HOME'', ''HOSTNAME'', ''PWD'', ''SHLVL'', ''OLDPWD'', ''_'', ''TERM'']"

definition escapeSetEnv :: "string \<Rightarrow> string" where
  "escapeSetEnv v =
     (let v1 = concat (map (\<lambda>c. if c = bslash then [bslash, bslash] else [c]) v)
      in concat (map (\<lambda>c. if c = dquote then [bslash, dquote] else [c]) v1))"

definition quoteSetEnvPair :: "string \<Rightarrow> string \<Rightarrow> string" where
  "quoteSetEnvPair k v =
     (if \<not> ContainsAny v [CHR '' '', CHR 0x09, dquote, bslash] then k @ ''='' @ v
      else k @ ''='' @ [dquote] @ escapeSetEnv v @ [dquote])"

definition forwarded :: "string \<Rightarrow> bool" where
  "forwarded k \<longleftrightarrow> k \<noteq> [] \<and> k \<notin> set skipEnvExact \<and>
     \<not> (HasPrefix k ''SUPERVISOR_'' \<or> HasPrefix k ''DEVPOD_'' \<or> HasPrefix k ''KUBERNETES_'')"

fun containerEnvForSetEnv :: "string list \<Rightarrow> string list" where
  "containerEnvForSetEnv [] = []"
| "containerEnvForSetEnv (kv # environ) =
     (case Cut kv (CHR ''='') of
        None \<Rightarrow> containerEnvForSetEnv environ
      | Some (k, v) \<Rightarrow>
          if \<not> forwarded k \<or> ContainsAny v [newline, CHR 0x0D] then containerEnvForSetEnv environ
          else quoteSetEnvPair k v # containerEnvForSetEnv environ)"

definition zshFunctionsGlob :: string where
  "zshFunctionsGlob = ''/opt/devpod/share/zsh/*/functions''"

definition bundledZshFunctionsDir :: "(string \<Rightarrow> string list option) \<Rightarrow> string" where
  "bundledZshFunctionsDir glob =
     (case glob zshFunctionsGlob of None \<Rightarrow> [] | Some matches \<Rightarrow> if matches = [] then [] else last matches)"

definition shellArgsForChosen :: "string \<Rightarrow> string list \<Rightarrow> (string \<Rightarrow> string list option) \<Rightarrow> string list" where
  "shellArgsForChosen chosen containerEnv glob =
     (let dir = bundledZshFunctionsDir glob;
          envPairs =
            [''PATH=/usr/local/sbin:/usr/local/bin:/usr/sbin:/usr/bin:/sbin:/bin:/opt/devpod/bin'',
             ''TERMINFO=/opt/devpod/share/terminfo'',
             ''TERMINFO_DIRS=/opt/devpod/share/terminfo:/usr/share/terminfo:/etc/terminfo:/lib/terminfo''] @
            (if dir \<noteq> [] then [''FPATH='' @ dir @ '':/usr/share/zsh/functions:/usr/local/share/zsh/site-functions''] else []) @
            [''DEVPOD_ACTIVE_SHELL='' @ chosen] @ containerEnv
      in [''-o'', ''SetEnv='' @ Join envPairs '' ''])"

definition prepareShellArgs ::
  "(string \<Rightarrow> string) \<Rightarrow> (unit \<Rightarrow> string option) option \<Rightarrow> (string \<Rightarrow> bool) \<Rightarrow> (string \<Rightarrow> string list option) \<Rightarrow> string list" where
  "prepareShellArgs getenv passwd executable glob = shellArgsForChosen (fst (resolveShell getenv passwd executable)) [] glob"

text \<open>\<open>main\<close> up to the start of sshd: its arguments, from the environment.\<close>

definition sshdArgs :: "(string \<Rightarrow> string) \<Rightarrow> string list \<Rightarrow> string \<Rightarrow> (string \<Rightarrow> string list option) \<Rightarrow> string list" where
  "sshdArgs getenv environ chosen glob =
     splitSemis (envOr getenv ''SUPERVISOR_SSHD_ARGS'' ''-D;-e;-f;/opt/devpod/etc/sshd_config'') @
     (if getenv ''SUPERVISOR_SSHD_PORT'' \<noteq> [] then [''-p'', getenv ''SUPERVISOR_SSHD_PORT''] else []) @
     shellArgsForChosen chosen (containerEnvForSetEnv environ) glob"

subsection \<open>When the supervisor exits\<close>

text \<open>The children as \<open>main\<close> starts them: sshd first, and nothing else with its name or process id.\<close>

definition sshd_first :: "int \<Rightarrow> child list \<Rightarrow> bool" where
  "sshd_first p cs \<longleftrightarrow>
     (\<exists>rest. cs = \<lparr>ch_name = ''sshd'', ch_pid = Some p, ch_exit = None\<rparr> # rest \<and>
        (\<forall>c\<in>set rest. ch_name c \<noteq> ''sshd'' \<and> ch_pid c \<noteq> Some p))"

text \<open>An answer that says nothing about the process \<open>p\<close> and is no failure of the wait.\<close>

definition quiet :: "int \<Rightarrow> bool \<Rightarrow> wait_result \<times> bool \<Rightarrow> bool" where
  "quiet p shutting wi \<longleftrightarrow> snd wi = shutting \<and> (case fst wi of WaitErr e \<Rightarrow> e = EINTR | Waited pid st \<Rightarrow> pid \<noteq> p)"

lemma map_first_set:
  "map_first P f xs = Some ys \<Longrightarrow> y \<in> set ys \<Longrightarrow> \<exists>x\<in>set xs. y = x \<or> y = f x"
  by (induction xs arbitrary: ys) (auto split: if_splits option.splits)

lemma reap_Cons: "\<not> tracked pid c \<Longrightarrow> reap pid code (c # cs) = c # reap pid code cs"
  by (auto simp: reap_def simp del: map_first_None_iff split: option.splits)

lemma set_reap: "y \<in> set (reap pid code cs) \<Longrightarrow> \<exists>x\<in>set cs. ch_name y = ch_name x \<and> ch_pid y = ch_pid x"
  by (auto simp: reap_def split: option.splits dest!: map_first_set)

lemma sshd_first_reap:
  assumes "sshd_first p cs" "pid \<noteq> p"
  shows "sshd_first p (reap pid code cs)"
proof -
  from assms(1) obtain rest where cs: "cs = \<lparr>ch_name = ''sshd'', ch_pid = Some p, ch_exit = None\<rparr> # rest"
    and rest: "\<forall>c\<in>set rest. ch_name c \<noteq> ''sshd'' \<and> ch_pid c \<noteq> Some p" by (auto simp: sshd_first_def)
  have "\<not> tracked pid \<lparr>ch_name = ''sshd'', ch_pid = Some p, ch_exit = None\<rparr>" using assms(2) by (simp add: tracked_def)
  with cs have "reap pid code cs = \<lparr>ch_name = ''sshd'', ch_pid = Some p, ch_exit = None\<rparr> # reap pid code rest"
    by (simp add: reap_Cons)
  moreover have "ch_name c \<noteq> ''sshd'' \<and> ch_pid c \<noteq> Some p" if "c \<in> set (reap pid code rest)" for c
    using set_reap [OF that] rest by auto
  ultimately show ?thesis by (auto simp: sshd_first_def)
qed

lemma find_other:
  assumes "sshd_first p cs" "pid \<noteq> p" "find (tracked pid) cs = Some hit"
  shows "ch_name hit \<noteq> ''sshd''"
  using assms by (auto simp: sshd_first_def tracked_def find_Some_iff nth_Cons' split: if_splits)

lemma find_sshd: "sshd_first p cs \<Longrightarrow> \<exists>hit. find (tracked p) cs = Some hit \<and> ch_name hit = ''sshd''"
  by (auto simp: sshd_first_def tracked_def)

lemma drain_returns: "(WaitErr ECHILD, b) \<in> set ws \<Longrightarrow> \<exists>r. drainReapsBlocking cs ws = Some r"
proof (induction ws arbitrary: cs)
  case (Cons w ws)
  then show ?case by (subst drainReapsBlocking.simps) (auto split: wait_result.splits prod.splits)
qed simp

text \<open>Nothing that happens to other children ends the wait, outside a shutdown and without the opt-in.\<close>

lemma wait_quiet:
  assumes "sshd_first p cs" "list_all (quiet p False) pre"
  shows "\<exists>cs' first'. sshd_first p cs' \<and> waitForChildren False cs first (pre @ ws) = waitForChildren False cs' first' ws"
  using assms
proof (induction pre arbitrary: cs first)
  case Nil
  then show ?case by auto
next
  case (Cons wi pre)
  obtain w where wi: "wi = (w, False)" using Cons.prems by (cases wi) (simp add: quiet_def)
  show ?case
  proof (cases w)
    case (WaitErr e)
    with Cons wi show ?thesis by (simp add: quiet_def)
  next
    case (Waited pid st)
    with Cons.prems wi have pid: "pid \<noteq> p" by (simp add: quiet_def)
    show ?thesis
    proof (cases "find (tracked pid) cs")
      case None
      with Cons wi Waited show ?thesis by simp
    next
      case (Some hit)
      from find_other [OF Cons.prems(1) pid Some] sshd_first_reap [OF Cons.prems(1) pid]
        Cons.IH [of "reap pid (waitStatusToExit st) cs"] Cons.prems Some wi Waited show ?thesis
        by (simp add: Let_def)
    qed
  qed
qed

text \<open>
  The container lives as long as sshd: without a shutdown and without the opt-in to follow the user's
  command, the supervisor keeps waiting whatever else exits, the user's command and adopted orphans
  included; and when sshd exits, the supervisor stops the others, returns (once the kernel reports
  that no child is left) and passes on sshd's own exit code.
\<close>

theorem supervisor_follows_sshd:
  assumes "sshd_first p children" "list_all (quiet p False) pre" "(WaitErr ECHILD, b) \<in> set post"
  shows "waitForChildren False children None pre = None \<and>
    (\<exists>out. waitForChildren False children None (pre @ (Waited p st, False) # post) = Some out \<and> wo_code out = waitStatusToExit st)"
proof
  from wait_quiet [OF assms(1,2), of None "[]"] show "waitForChildren False children None pre = None" by auto
  from wait_quiet [OF assms(1,2), of None "(Waited p st, False) # post"] obtain cs first where
    cs: "sshd_first p cs" and eq: "waitForChildren False children None (pre @ (Waited p st, False) # post) =
      waitForChildren False cs first ((Waited p st, False) # post)" by auto
  obtain r where "drainReapsBlocking (reap p (waitStatusToExit st) cs) post = Some r"
    using drain_returns [OF assms(3)] by blast
  with find_sshd [OF cs]
  show "\<exists>out. waitForChildren False children None (pre @ (Waited p st, False) # post) = Some out \<and> wo_code out = waitStatusToExit st"
    by (auto simp: eq stopAll_def Let_def split: option.splits prod.splits)
qed

theorem supervisor_follows_sshd_witness:
  "\<exists>out. waitForChildren False [\<lparr>ch_name = ''sshd'', ch_pid = Some 7, ch_exit = None\<rparr>, \<lparr>ch_name = ''user'', ch_pid = Some 8, ch_exit = None\<rparr>] None
      ([(Waited 8 (Exited 3), False)] @ (Waited 7 (Signaled 9), False) # [(WaitErr ECHILD, False)]) = Some out \<and> wo_code out = 137"
  using supervisor_follows_sshd [of 7 "[\<lparr>ch_name = ''sshd'', ch_pid = Some 7, ch_exit = None\<rparr>, \<lparr>ch_name = ''user'', ch_pid = Some 8, ch_exit = None\<rparr>]"
      "[(Waited 8 (Exited 3), False)]" False "[(WaitErr ECHILD, False)]" "Signaled 9"]
  by (simp add: sshd_first_def quiet_def waitStatusToExit_def)

text \<open>The two children \<open>main\<close> starts, the user's command not reaped yet.\<close>

definition both :: "int \<Rightarrow> int option \<Rightarrow> int \<Rightarrow> child list" where
  "both p e q = [\<lparr>ch_name = ''sshd'', ch_pid = Some p, ch_exit = e\<rparr>, \<lparr>ch_name = ''user'', ch_pid = Some q, ch_exit = None\<rparr>]"

lemma reap_both:
  "p \<noteq> q \<Longrightarrow> reap p code (both p None q) = both p (Some code) q"
  "p \<noteq> q \<Longrightarrow> reap q code (both p e q) =
     [\<lparr>ch_name = ''sshd'', ch_pid = Some p, ch_exit = e\<rparr>, \<lparr>ch_name = ''user'', ch_pid = Some q, ch_exit = Some code\<rparr>]"
  by (simp_all add: reap_def both_def tracked_def)

lemma both_not_reaped: "\<not> userReaped (both p e q)" "\<not> allTrackedReaped (both p e q)"
  by (simp_all add: both_def userReaped_def allTrackedReaped_def)

lemma wait_shutdown:
  assumes "p \<noteq> q" "list_all (quiet q True) pre"
  shows "\<exists>e' first'. waitForChildren ex (both p e q) first (pre @ ws) = waitForChildren ex (both p e' q) first' ws"
  using assms(2)
proof (induction pre arbitrary: e first)
  case Nil
  then show ?case by auto
next
  case (Cons wi pre)
  obtain w where wi: "wi = (w, True)" using Cons.prems by (cases wi) (simp add: quiet_def)
  show ?case
  proof (cases w)
    case (WaitErr err)
    with Cons wi show ?thesis by (simp add: quiet_def)
  next
    case (Waited pid st)
    with Cons.prems wi have pid: "pid \<noteq> q" by (simp add: quiet_def)
    show ?thesis
    proof (cases "pid = p \<and> e = None")
      case True
      then have "find (tracked pid) (both p e q) = Some \<lparr>ch_name = ''sshd'', ch_pid = Some p, ch_exit = None\<rparr>"
        by (simp add: both_def tracked_def)
      with True Cons wi Waited assms(1) show ?thesis by (simp add: Let_def reap_both both_not_reaped)
    next
      case False
      then have "find (tracked pid) (both p e q) = None" using pid by (auto simp: both_def tracked_def)
      with Cons wi Waited show ?thesis by simp
    qed
  qed
qed

text \<open>
  In a shutdown the user's command decides: whatever else was reaped before, sshd included, once the user's
  command is reaped the supervisor returns its exit code at once, without waiting for sshd.
\<close>

theorem shutdown_returns_user_code:
  assumes "p \<noteq> q" "list_all (quiet q True) pre"
  shows "\<exists>out. waitForChildren exitOnUserCmd (both p None q) None (pre @ (Waited q st, True) # post) = Some out \<and>
    wo_code out = waitStatusToExit st \<and> wo_rest out = post"
proof -
  from wait_shutdown [OF assms, of exitOnUserCmd None None "(Waited q st, True) # post"] obtain e first where
    eq: "waitForChildren exitOnUserCmd (both p None q) None (pre @ (Waited q st, True) # post) =
      waitForChildren exitOnUserCmd (both p e q) first ((Waited q st, True) # post)" by blast
  have "find (tracked q) (both p e q) = Some \<lparr>ch_name = ''user'', ch_pid = Some q, ch_exit = None\<rparr>"
    using assms(1) by (simp add: both_def tracked_def)
  with assms(1) show ?thesis by (simp add: eq Let_def reap_both userReaped_def userExitOr_def)
qed

theorem shutdown_returns_user_code_witness:
  "\<exists>out. waitForChildren False (both 7 None 8) None ([(WaitErr EINTR, True), (Waited 7 (Exited 255), True)] @ (Waited 8 (Exited 4), True) # []) = Some out \<and>
     wo_code out = 4"
  using shutdown_returns_user_code [of 7 8 "[(WaitErr EINTR, True), (Waited 7 (Exited 255), True)]" False "Exited 4" "[]"]
  by (auto simp: quiet_def waitStatusToExit_def)

subsection \<open>The root shell\<close>

text \<open>Whatever the environment says: the shell is a bundled one, or root's own when it can be run.\<close>

lemma resolveShell_usable:
  "case resolveShell getenv passwd executable of
     (chosen, force) \<Rightarrow>
       (chosen, force) \<in> set allowedShells \<or>
       force = [] \<and> chosen \<noteq> [] \<and> chosen \<notin> set nologinShells \<and> executable chosen \<and>
         (\<exists>rd data. passwd = Some rd \<and> rd () = Some data \<and> chosen = rootShellFromPasswd data)"
  unfolding resolveShell_def Let_def
  by (auto simp: allowedShells_def split: option.splits if_splits dest: map_of_SomeD)

text \<open>Every root entry of the file has its seven fields.\<close>

definition passwd_ok :: "string list \<Rightarrow> bool" where
  "passwd_ok lines = list_all (\<lambda>l. HasPrefix l ''root:'' \<longrightarrow> 7 \<le> length (Split (CHR '':'') l)) lines"

definition plain_field :: "string \<Rightarrow> bool" where
  "plain_field s \<longleftrightarrow> CHR '':'' \<notin> set s \<and> newline \<notin> set s"

lemma Split_root:
  assumes "HasPrefix l ''root:''"
  shows "\<exists>fs. Split (CHR '':'') l = ''root'' # fs"
proof -
  from assms obtain t where "l = ''root'' @ CHR '':'' # t" by (auto simp: HasPrefix_iff)
  with Split_append [of "CHR '':''" "''root''" t] show ?thesis by simp
qed

lemma set_Split: "p \<in> set (Split c s) \<Longrightarrow> set p \<subseteq> set s"
  by (induction c s arbitrary: p rule: Split.induct) (fastforce split: list.splits if_splits)+

lemma set_Join: "x \<in> set (Join ps sep) \<Longrightarrow> x \<in> set sep \<or> (\<exists>p\<in>set ps. x \<in> set p)"
  by (induction ps sep rule: Join.induct) auto

fun rootEntry :: "string list \<Rightarrow> string list option" where
  "rootEntry [] = None"
| "rootEntry (l # ls) = (if HasPrefix l ''root:'' then Some (Split (CHR '':'') l) else rootEntry ls)"

definition entry_set :: "string \<Rightarrow> string \<Rightarrow> string list \<Rightarrow> bool" where
  "entry_set wantShell wantHome fs \<longleftrightarrow>
     7 \<le> length fs \<and> (wantShell \<noteq> [] \<longrightarrow> fs ! 6 = wantShell) \<and> (wantHome \<noteq> [] \<longrightarrow> fs ! 5 = wantHome)"

lemma rootShellIn_entry: "passwd_ok lines \<Longrightarrow> rootShellIn lines = (case rootEntry lines of None \<Rightarrow> [] | Some fs \<Rightarrow> fs ! 6)"
  by (induction lines) (auto simp: passwd_ok_def Let_def)

text \<open>The entry after the edit, written out as the code does it.\<close>

definition edited :: "string \<Rightarrow> string \<Rightarrow> string list \<Rightarrow> string list" where
  "edited wantShell wantHome fs =
     (let f1 = (if wantShell \<noteq> [] \<and> fs ! 6 \<noteq> wantShell then fs[6 := wantShell] else fs)
      in if wantHome \<noteq> [] \<and> fs ! 5 \<noteq> wantHome then f1[5 := wantHome] else f1)"

lemma edited_props:
  assumes "7 \<le> length fs"
  shows "length (edited sh home fs) = length fs" "entry_set sh home (edited sh home fs)" "edited sh home fs ! 0 = fs ! 0"
    "edited sh home fs = fs \<longleftrightarrow> entry_set sh home fs" "set (edited sh home fs) \<subseteq> set fs \<union> {sh, home}"
proof -
  have upd: "fs[6 := sh] = fs \<longleftrightarrow> fs ! 6 = sh" "fs[5 := home] = fs \<longleftrightarrow> fs ! 5 = home" "(fs[6 := sh])[5 := home] = fs \<longleftrightarrow> fs ! 6 = sh \<and> fs ! 5 = home"
    using assms by (auto simp: list_update_same_conv list_eq_iff_nth_eq nth_list_update)
  show "edited sh home fs = fs \<longleftrightarrow> entry_set sh home fs"
    using assms upd by (auto simp: edited_def entry_set_def Let_def)
  show "set (edited sh home fs) \<subseteq> set fs \<union> {sh, home}"
    using set_update_subset_insert [of fs 6 sh] set_update_subset_insert [of "fs[6 := sh]" 5 home] set_update_subset_insert [of fs 5 home]
    unfolding edited_def Let_def by auto
qed (use assms in \<open>auto simp: edited_def entry_set_def Let_def nth_list_update\<close>)

lemma edited_line:
  assumes l: "HasPrefix l ''root:''" "7 \<le> length (Split (CHR '':'') l)" and "plain_field sh" "plain_field home"
  shows "HasPrefix (Join (edited sh home (Split (CHR '':'') l)) '':'') ''root:''"
    "Split (CHR '':'') (Join (edited sh home (Split (CHR '':'') l)) '':'') = edited sh home (Split (CHR '':'') l)"
proof -
  let ?fs = "Split (CHR '':'') l" and ?e = "edited sh home (Split (CHR '':'') l)"
  note e = edited_props [OF l(2), of sh home]
  have "CHR '':'' \<notin> set p" if "p \<in> set ?e" for p
    using that e(5) assms(3,4) Split_parts_no_sep [of p "CHR '':''" l] by (auto simp: plain_field_def)
  moreover have ne: "?e \<noteq> []" using e(1) by auto
  ultimately show "Split (CHR '':'') (Join ?e '':'') = ?e" using Split_Join [of ?e "CHR '':''"] by blast
  from Split_root [OF l(1)] e(3) ne obtain gs where gs: "?e = ''root'' # gs" by (cases ?e) auto
  moreover have "gs \<noteq> []" using e(1) l(2) gs by (cases gs) auto
  ultimately show "HasPrefix (Join ?e '':'') ''root:''" by (simp add: Join_Cons HasPrefix_iff)
qed

lemma rewriteLines_Cons:
  "rewriteLines sh home (l # ls) =
     (if \<not> HasPrefix l ''root:'' \<or> length (Split (CHR '':'') l) < 7
      then (case rewriteLines sh home ls of Some (Inr rs) \<Rightarrow> Some (Inr (l # rs)) | r \<Rightarrow> r)
      else if edited sh home (Split (CHR '':'') l) = Split (CHR '':'') l then Some (Inl ())
      else Some (Inr (Join (edited sh home (Split (CHR '':'') l)) '':'' # ls)))"
  by (simp add: edited_def Let_def)

lemma rewriteLines_spec:
  assumes "passwd_ok lines" "plain_field sh" "plain_field home" "\<forall>l\<in>set lines. newline \<notin> set l"
  shows "case rewriteLines sh home lines of
      None \<Rightarrow> rootEntry lines = None
    | Some (Inl _) \<Rightarrow> \<exists>fs. rootEntry lines = Some fs \<and> entry_set sh home fs
    | Some (Inr rs) \<Rightarrow> passwd_ok rs \<and> (\<exists>fs. rootEntry rs = Some fs \<and> entry_set sh home fs) \<and> rs \<noteq> [] \<and> (\<forall>l\<in>set rs. newline \<notin> set l)"
  using assms
proof (induction lines)
  case (Cons l ls)
  have IH: "case rewriteLines sh home ls of
      None \<Rightarrow> rootEntry ls = None
    | Some (Inl _) \<Rightarrow> \<exists>fs. rootEntry ls = Some fs \<and> entry_set sh home fs
    | Some (Inr rs) \<Rightarrow> passwd_ok rs \<and> (\<exists>fs. rootEntry rs = Some fs \<and> entry_set sh home fs) \<and> rs \<noteq> [] \<and> (\<forall>l\<in>set rs. newline \<notin> set l)"
    using Cons by (simp add: passwd_ok_def)
  show ?case
  proof (cases "HasPrefix l ''root:''")
    case False
    with IH Cons.prems show ?thesis
      by (auto simp: rewriteLines_Cons passwd_ok_def split: option.splits sum.splits simp del: rewriteLines.simps)
  next
    case True
    with Cons.prems have len: "7 \<le> length (Split (CHR '':'') l)" by (simp add: passwd_ok_def)
    note e = edited_props [OF len, of sh home] and el = edited_line [OF True len Cons.prems(2,3)]
    have "newline \<notin> set p" if "p \<in> set (edited sh home (Split (CHR '':'') l))" for p
      using that e(5) Cons.prems(2-4) by (auto simp: plain_field_def dest: set_Split)
    then have "newline \<notin> set (Join (edited sh home (Split (CHR '':'') l)) '':'')" by (auto dest: set_Join)
    with True len e el Cons.prems show ?thesis
      by (auto simp: rewriteLines_Cons passwd_ok_def simp del: rewriteLines.simps)
  qed
qed simp

lemma rewriteLines_unchanged:
  "passwd_ok lines \<Longrightarrow> rootEntry lines = Some fs \<Longrightarrow> entry_set sh home fs \<Longrightarrow> rewriteLines sh home lines = Some (Inl ())"
  by (induction lines) (auto simp: rewriteLines_Cons passwd_ok_def edited_props split: if_splits simp del: rewriteLines.simps)

text \<open>
  The rewritten password file does what it is for: on a file whose root entries have their seven fields,
  reading root's shell back gives the shell that was asked for, and rewriting once more changes
  nothing.
\<close>

theorem rewriteRootPasswd_effective:
  assumes "passwd_ok (Split newline data)" "plain_field wantShell" "plain_field wantHome" "wantShell \<noteq> []"
  shows "rootShellFromPasswd (fst (rewriteRootPasswd data wantShell wantHome)) = wantShell \<and>
    snd (rewriteRootPasswd (fst (rewriteRootPasswd data wantShell wantHome)) wantShell wantHome) = False"
proof -
  let ?out = "fst (rewriteRootPasswd data wantShell wantHome)"
  have nl: "\<forall>l\<in>set (Split newline data). newline \<notin> set l" using Split_parts_no_sep by blast
  note spec = rewriteLines_spec [OF assms(1-3) nl]
  have "\<exists>lines fs. Split newline ?out = lines \<and> passwd_ok lines \<and> rootEntry lines = Some fs \<and> entry_set wantShell wantHome fs"
  proof (cases "rewriteLines wantShell wantHome (Split newline data)")
    case None
    define home where "home = (if wantHome = [] then ''/root'' else wantHome)"
    let ?root = "''root:x:0:0:root:'' @ home @ '':'' @ wantShell"
    have out: "?out = ?root @ newline # data" using None assms(4) by (simp add: rewriteRootPasswd_def home_def Let_def)
    have plain: "CHR '':'' \<notin> set home" "newline \<notin> set home" "CHR '':'' \<notin> set wantShell" "newline \<notin> set wantShell"
      using assms(2,3) by (auto simp: home_def plain_field_def)
    then have "newline \<notin> set ?root" by simp
    then have lines: "Split newline ?out = ?root # Split newline data" using Split_append [of newline ?root data] out by simp
    have fields: "Split (CHR '':'') ?root = [''root'', ''x'', ''0'', ''0'', ''root'', home, wantShell]"
      using plain by (simp add: Split_append Split_no_sep)
    have "HasPrefix ?root ''root:''" by (simp add: HasPrefix_iff)
    with lines fields assms(1) show ?thesis by (simp add: passwd_ok_def entry_set_def home_def)
  next
    case (Some r)
    show ?thesis
    proof (cases r)
      case (Inl u)
      with Some spec assms(1) show ?thesis by (simp add: rewriteRootPasswd_def)
    next
      case (Inr rs)
      with Some spec have rs: "passwd_ok rs" "\<exists>fs. rootEntry rs = Some fs \<and> entry_set wantShell wantHome fs" "rs \<noteq> []" "\<forall>l\<in>set rs. newline \<notin> set l"
        by simp_all
      moreover have "Split newline ?out = rs" using Split_Join [of rs newline] rs(3,4) Some Inr by (simp add: rewriteRootPasswd_def)
      ultimately show ?thesis by blast
    qed
  qed
  then obtain fs where out: "passwd_ok (Split newline ?out)" "rootEntry (Split newline ?out) = Some fs" "entry_set wantShell wantHome fs" by blast
  then have "rewriteLines wantShell wantHome (Split newline ?out) = Some (Inl ())" by (rule rewriteLines_unchanged)
  with out assms(4) show ?thesis
    by (simp add: rootShellFromPasswd_def rootShellIn_entry entry_set_def) (simp add: rewriteRootPasswd_def)
qed

definition ex_passwd :: string where
  "ex_passwd = ''daemon:x:1:1:d:/:/bin/false'' @ [newline] @ ''root:x:0:0:root:/root:/sbin/nologin'' @ [newline]"

theorem rewriteRootPasswd_effective_witness:
  "rootShellFromPasswd (fst (rewriteRootPasswd ex_passwd ''/opt/devpod/bin/bash'' ''/home/a'')) = ''/opt/devpod/bin/bash''"
proof -
  have "passwd_ok (Split newline ex_passwd)" "plain_field ''/opt/devpod/bin/bash''" "plain_field ''/home/a''"
    unfolding plain_field_def by code_simp+
  from rewriteRootPasswd_effective [OF this] show ?thesis by simp
qed

subsection \<open>The environment of a session\<close>

text \<open>
  The format the comment on \<open>quoteSetEnvPair\<close> describes, as a reader: words are separated by blanks outside
  double quotes; inside them a backslash takes the next character as it is.
\<close>

fun words :: "bool \<Rightarrow> string \<Rightarrow> string \<Rightarrow> string list" where
  "words inq acc [] = [rev acc]"
| "words False acc (c # s) =
     (if c = CHR '' '' \<or> c = CHR 0x09 then rev acc # words False [] s
      else if c = dquote then words True acc s
      else words False (c # acc) s)"
| "words True acc (c # s) =
     (if c = dquote then words False acc s
      else if c = bslash then (case s of [] \<Rightarrow> [rev acc] | d # s' \<Rightarrow> words True (d # acc) s')
      else words True (c # acc) s)"

definition bare :: "string \<Rightarrow> bool" where
  "bare s \<longleftrightarrow> CHR '' '' \<notin> set s \<and> CHR 0x09 \<notin> set s \<and> dquote \<notin> set s"

lemma words_bare: "bare s \<Longrightarrow> words False acc (s @ r) = words False (rev s @ acc) r"
  by (induction s arbitrary: acc) (auto simp: bare_def)

lemma escapeSetEnv_Cons:
  "escapeSetEnv (c # v) = (if c = bslash then [bslash, bslash] else if c = dquote then [bslash, dquote] else [c]) @ escapeSetEnv v"
  by (simp add: escapeSetEnv_def Let_def)

lemma words_quoted: "words True acc (escapeSetEnv v @ dquote # r) = words False (rev v @ acc) r"
proof (induction v arbitrary: acc)
  case (Cons c v)
  then show ?case by (simp add: escapeSetEnv_Cons)
qed (simp add: escapeSetEnv_def)

lemma words_pair:
  assumes k: "bare k"
  shows "words False acc (quoteSetEnvPair k v @ r) = words False (rev (k @ ''='' @ v) @ acc) r"
proof (cases "ContainsAny v [CHR '' '', CHR 0x09, dquote, bslash]")
  case True
  from k have k': "bare (k @ ''='')" by (simp add: bare_def)
  with True words_bare [OF k', of acc "dquote # escapeSetEnv v @ dquote # r"] show ?thesis
    by (simp add: quoteSetEnvPair_def words_quoted)
next
  case False
  with k have "bare (k @ ''='' @ v)" by (auto simp: bare_def ContainsAny_def list_ex_iff)
  from words_bare [OF this, of acc r] False show ?thesis by (simp add: quoteSetEnvPair_def)
qed

text \<open>The entries of the container's environment that are forwarded.\<close>

definition wanted :: "string \<Rightarrow> bool" where
  "wanted kv = (case Cut kv (CHR ''='') of None \<Rightarrow> False | Some (k, v) \<Rightarrow> forwarded k \<and> \<not> ContainsAny v [newline, CHR 0x0D])"

definition pairOf :: "string \<Rightarrow> string" where
  "pairOf kv = (case Cut kv (CHR ''='') of None \<Rightarrow> [] | Some (k, v) \<Rightarrow> quoteSetEnvPair k v)"

lemma containerEnv_eq: "containerEnvForSetEnv environ = map pairOf (filter wanted environ)"
proof (induction environ)
  case (Cons kv environ)
  have "containerEnvForSetEnv (kv # environ) = (if wanted kv then [pairOf kv] else []) @ containerEnvForSetEnv environ"
    by (cases "Cut kv (CHR ''='')") (auto simp: wanted_def pairOf_def simp del: Cut_None_iff split: if_splits)
  with Cons show ?case by simp
qed simp

lemma words_pairOf:
  assumes "wanted kv" "\<forall>k v. Cut kv (CHR ''='') = Some (k, v) \<longrightarrow> bare k"
  shows "words False [] (pairOf kv @ r) = words False (rev kv) r"
  using assms words_pair [of _ "[]" _ r] by (auto simp: wanted_def pairOf_def Cut_Some_iff split: option.splits)

lemma words_Join:
  assumes "kvs \<noteq> []" "\<forall>kv\<in>set kvs. wanted kv \<and> (\<forall>k v. Cut kv (CHR ''='') = Some (k, v) \<longrightarrow> bare k)"
  shows "words False [] (Join (map pairOf kvs) '' '') = kvs"
  using assms
proof (induction kvs)
  case (Cons kv kvs)
  then show ?case
    using words_pairOf [of kv "[]"] words_pairOf [of kv "'' '' @ Join (map pairOf kvs) '' ''"]
    by (cases "kvs = []") (simp_all add: Join_Cons)
qed simp

text \<open>
  The environment reaches the session intact: what \<open>containerEnvForSetEnv\<close> hands to sshd, joined with blanks,
  reads back as exactly the wanted entries of the container's environment, in order, whatever
  blanks, quotes and backslashes their values hold.
\<close>

theorem containerEnv_round_trip:
  assumes "\<forall>kv\<in>set environ. \<forall>k v. Cut kv (CHR ''='') = Some (k, v) \<longrightarrow> bare k" "filter wanted environ \<noteq> []"
  shows "words False [] (Join (containerEnvForSetEnv environ) '' '') = filter wanted environ"
proof -
  have "\<forall>kv\<in>set (filter wanted environ). wanted kv \<and> (\<forall>k v. Cut kv (CHR ''='') = Some (k, v) \<longrightarrow> bare k)"
    using assms(1) by auto
  from words_Join [OF assms(2) this] show ?thesis by (simp only: containerEnv_eq)
qed

theorem containerEnv_round_trip_witness:
  "words False [] (Join (containerEnvForSetEnv [''HOME=/r'', ''A=b c'', ''D=x'']) '' '') = [''A=b c'', ''D=x'']"
proof -
  have cut: "Cut ''HOME=/r'' (CHR ''='') = Some (''HOME'', ''/r'')" "Cut ''A=b c'' (CHR ''='') = Some (''A'', ''b c'')"
    "Cut ''D=x'' (CHR ''='') = Some (''D'', ''x'')" by code_simp+
  have "filter wanted [''HOME=/r'', ''A=b c'', ''D=x''] = [''A=b c'', ''D=x'']" by code_simp
  moreover have "\<forall>kv\<in>set [''HOME=/r'', ''A=b c'', ''D=x'']. \<forall>k v. Cut kv (CHR ''='') = Some (k, v) \<longrightarrow> bare k"
    by (simp add: cut bare_def)
  ultimately show ?thesis using containerEnv_round_trip [of "[''HOME=/r'', ''A=b c'', ''D=x'']"] by simp
qed

end
