(* ===== verification/Supervisor_Boot.thy ===== *)
theory Supervisor_Boot
  imports Supervisor
begin

section \<open>The supervisor: from its start to the wait\<close>

text \<open>
  \<open>main\<close> of \<open>src/cmd/supervisor/main.go\<close> and \<open>installProfileScripts\<close> of \<open>shell.go\<close>: what process 1 does before it
  waits, as a list of actions in order with their outcome.  The environment, the password file, the outcomes of
  file operations and of starting a process are arguments.  The subcommand \<open>bootstrap\<close>, which copies a
  directory in the init container, is in \<open>Supervisor_Bootstrap\<close>.
\<close>

subsection \<open>Profile scripts\<close>

definition profileShContent :: string where \<open>
  profileShContent = concat (map (\<lambda>l. l @ [newline])
    [''# DevPod supervisor: re-add bundle to PATH after /etc/profile resets it.'',
     ''case ":${PATH}:" in'',
     ''    *:/opt/devpod/bin:*) ;;'',
     ''    *) export PATH="${PATH}:/opt/devpod/bin" ;;'',
     ''esac'',
     ''export TERMINFO="${TERMINFO:-/opt/devpod/share/terminfo}"'',
     ''case ":${TERMINFO_DIRS}:" in'',
     ''    *:/opt/devpod/share/terminfo:*) ;;'',
     ''    *) export TERMINFO_DIRS="/opt/devpod/share/terminfo:${TERMINFO_DIRS:-/usr/share/terminfo:/etc/terminfo:/lib/terminfo}" ;;'',
     ''esac''])\<close>

definition profileFishContent :: string where \<open>
  profileFishContent = concat (map (\<lambda>l. l @ [newline])
    [''# DevPod supervisor: ensure bundle is on PATH for fish login shells.'',
     ''if not contains /opt/devpod/bin $PATH'',
     ''    set -gx PATH $PATH /opt/devpod/bin'',
     ''end'',
     ''set -gx TERMINFO /opt/devpod/share/terminfo'',
     ''if not contains /opt/devpod/share/terminfo $TERMINFO_DIRS'',
     ''    set -gx TERMINFO_DIRS /opt/devpod/share/terminfo /usr/share/terminfo /etc/terminfo /lib/terminfo'',
     ''end''])\<close>

datatype boot_action =
    MkdirAll string
  | WriteFile string string
  | StartProcess string "string list"
  | KillGroup int int

definition profileEntries :: "(string \<times> string \<times> string) list" where
  "profileEntries = [(''/etc/profile.d'', ''devpod.sh'', profileShContent), (''/etc/fish/conf.d'', ''devpod.fish'', profileFishContent)]"

text \<open>The loop over the entries, with the first error so far.\<close>

fun installEntries ::
  "(string \<Rightarrow> go_error option) \<Rightarrow> (string \<Rightarrow> go_error option) \<Rightarrow> go_error option \<Rightarrow> (string \<times> string \<times> string) list \<Rightarrow>
   boot_action list \<times> go_error option" where
  "installEntries mkdirAll writeFile firstErr [] = ([], firstErr)"
| "installEntries mkdirAll writeFile firstErr ((dir, file, body) # es) =
     (let path = dir @ ''/'' @ file;
          keep = (\<lambda>err. if firstErr = None then err else firstErr)
      in case mkdirAll dir of
           Some err \<Rightarrow>
             (case installEntries mkdirAll writeFile (keep (Some err)) es of (acts, r) \<Rightarrow> (MkdirAll dir # acts, r))
         | None \<Rightarrow>
             (case installEntries mkdirAll writeFile (keep (writeFile path)) es of
                (acts, r) \<Rightarrow> (MkdirAll dir # WriteFile path body # acts, r)))"

definition installProfileScripts ::
  "(string \<Rightarrow> go_error option) \<Rightarrow> (string \<Rightarrow> go_error option) \<Rightarrow> boot_action list \<times> go_error option" where
  "installProfileScripts mkdirAll writeFile = installEntries mkdirAll writeFile None profileEntries"

subsection \<open>main\<close>

record boot_env =
  be_Getenv :: "string \<Rightarrow> string"
  be_Environ :: "string list"
  be_Getpid :: int
  be_passwd :: "string option"
  be_executable :: "string \<Rightarrow> bool"
  be_Glob :: "string \<Rightarrow> string list option"
  be_MkdirAll :: "string \<Rightarrow> go_error option"
  be_WriteFile :: "string \<Rightarrow> go_error option"
  be_Start :: "string \<Rightarrow> string list \<Rightarrow> go_error + int"

abbreviation passwdFile :: string where "passwdFile \<equiv> ''/etc/passwd''"

text \<open>What only process 1 does: the password file, when it changes, and the profile scripts. Failures are logged.\<close>

definition bootFiles :: "boot_env \<Rightarrow> string \<Rightarrow> boot_action list" where
  "bootFiles B force =
     (if be_Getpid B \<noteq> 1 then []
      else (case patchPasswdRootShell force (be_Getenv B ''HOME'') (be_passwd B) of
              None \<Rightarrow> []
            | Some patched \<Rightarrow> [WriteFile passwdFile patched]) @
           fst (installProfileScripts (be_MkdirAll B) (be_WriteFile B)))"

definition trackedChild :: "string \<Rightarrow> int \<Rightarrow> child" where
  "trackedChild name pid = \<lparr>ch_name = name, ch_pid = Some pid, ch_exit = None\<rparr>"

abbreviation SIGKILL :: int where "SIGKILL \<equiv> 9"

text \<open>Up to the wait: \<open>Inl\<close> the exit code, or the children to wait for.\<close>

definition supervisorBoot :: "boot_env \<Rightarrow> string list \<Rightarrow> boot_action list \<times> (int + child list)" where
  "supervisorBoot B userArgs =
     (let sshdPath = envOr (be_Getenv B) ''SUPERVISOR_SSHD_PATH'' ''/opt/devpod/sbin/sshd'';
          (chosen, force) = resolveShell (be_Getenv B) (Some (\<lambda>_. be_passwd B)) (be_executable B);
          args = sshdArgs (be_Getenv B) (be_Environ B) chosen (be_Glob B);
          acts = MkdirAll ''/var/empty'' # bootFiles B force @ [StartProcess sshdPath args]
      in case be_Start B sshdPath args of
           Inl _ \<Rightarrow> (acts, Inl 1)
         | Inr sshd \<Rightarrow>
             (case userArgs of
                [] \<Rightarrow> (acts, Inr [trackedChild ''sshd'' sshd])
              | cmd # rest \<Rightarrow>
                  (case be_Start B cmd rest of
                     Inl _ \<Rightarrow> (acts @ [StartProcess cmd rest, KillGroup (- sshd) SIGKILL], Inl 1)
                   | Inr user \<Rightarrow> (acts @ [StartProcess cmd rest], Inr [trackedChild ''sshd'' sshd, trackedChild ''user'' user]))))"


subsection \<open>What the start-up establishes\<close>

text \<open>The content of a file after some actions, under the given outcomes of writes.\<close>

fun fileAfter :: "(string \<Rightarrow> go_error option) \<Rightarrow> string \<Rightarrow> string option \<Rightarrow> boot_action list \<Rightarrow> string option" where
  "fileAfter writeFile path now [] = now"
| "fileAfter writeFile path now (WriteFile p body # acts) =
     fileAfter writeFile path (if p = path \<and> writeFile p = None then Some body else now) acts"
| "fileAfter writeFile path now (_ # acts) = fileAfter writeFile path now acts"

lemma fileAfter_append: "fileAfter wr path now (xs @ ys) = fileAfter wr path (fileAfter wr path now xs) ys"
  by (induction wr path now xs rule: fileAfter.induct) simp_all

lemma profiles_keep_passwd:
  "fileAfter wr passwdFile now (fst (installProfileScripts mkdirAll wr)) = now"
  by (simp add: installProfileScripts_def profileEntries_def Let_def split: option.splits prod.splits)

text \<open>Without a wanted shell the rewriting keeps root's shell.\<close>

lemma rewriteLines_keeps_shell:
  "rewriteLines [] home lines = Some (Inr rs) \<Longrightarrow> plain_field home \<Longrightarrow> passwd_ok lines \<Longrightarrow> rootShellIn rs = rootShellIn lines"
proof (induction lines arbitrary: rs)
  case (Cons l ls)
  show ?case
  proof (cases "HasPrefix l ''root:''")
    case False
    with Cons obtain ts where "rewriteLines [] home ls = Some (Inr ts)" "rs = l # ts"
      by (auto simp: rewriteLines_Cons split: option.splits sum.splits simp del: rewriteLines.simps)
    with False Cons.IH [of ts] Cons.prems(2,3) show ?thesis by (simp add: passwd_ok_def)
  next
    case True
    with Cons.prems(3) have len: "7 \<le> length (Split (CHR '':'') l)" by (simp add: passwd_ok_def)
    let ?e = "edited [] home (Split (CHR '':'') l)"
    from True len Cons.prems(1) have "rs = Join ?e '':'' # ls"
      by (auto simp: rewriteLines_Cons split: if_splits simp del: rewriteLines.simps)
    moreover have "?e ! 6 = Split (CHR '':'') l ! 6" by (simp add: edited_def Let_def nth_list_update)
    ultimately show ?thesis
      using True len edited_line [OF True len, of "[]" home] edited_props(1) [OF len, of "[]" home] Cons.prems(2)
      by (simp add: plain_field_def Let_def)
  qed
qed simp

lemma rewrite_keeps_shell:
  assumes "passwd_ok (Split newline data)" "plain_field home" "rootShellFromPasswd data \<noteq> []"
  shows "rootShellFromPasswd (fst (rewriteRootPasswd data [] home)) = rootShellFromPasswd data"
proof -
  have nl: "\<forall>l\<in>set (Split newline data). newline \<notin> set l" using Split_parts_no_sep by blast
  have plain: "plain_field []" by (simp add: plain_field_def)
  note spec = rewriteLines_spec [OF assms(1) plain assms(2) nl]
  show ?thesis
  proof (cases "rewriteLines [] home (Split newline data)")
    case None
    with spec assms(1,3) show ?thesis by (simp add: rootShellFromPasswd_def rootShellIn_entry)
  next
    case (Some r)
    then show ?thesis
    proof (cases r)
      case (Inr rs)
      with Some spec have "Split newline (Join rs [newline]) = rs" using Split_Join [of rs newline] by simp
      with Some Inr rewriteLines_keeps_shell [OF _ assms(2,1)] show ?thesis
        by (simp add: rewriteRootPasswd_def rootShellFromPasswd_def)
    qed (simp add: rewriteRootPasswd_def)
  qed
qed

text \<open>The password file once process 1 has patched it.\<close>

abbreviation passwd_of :: "string option \<Rightarrow> string" where
  "passwd_of d \<equiv> (case d of None \<Rightarrow> [] | Some s \<Rightarrow> s)"

lemma passwd_ok_Nil: "passwd_ok (Split newline [])"
  by (simp add: passwd_ok_def HasPrefix_iff)

lemma rewriteRootPasswd_False: "rewriteRootPasswd data sh home = (out, False) \<Longrightarrow> out = data"
  by (auto simp: rewriteRootPasswd_def Let_def split: option.splits sum.splits)

lemma allowedShells_plain: "(n, p) \<in> set allowedShells \<Longrightarrow> plain_field p \<and> p \<noteq> []"
  by (auto simp: allowedShells_def plain_field_def)

lemma bootFiles_passwd:
  assumes "be_Getpid B = 1" "be_WriteFile B passwdFile = None"
    and "passwd_ok (Split newline (passwd_of (be_passwd B)))" "plain_field (be_Getenv B ''HOME'')"
    and sh: "resolveShell (be_Getenv B) (Some (\<lambda>_. be_passwd B)) (be_executable B) = (chosen, force)"
  shows "rootShellFromPasswd (passwd_of (fileAfter (be_WriteFile B) passwdFile (be_passwd B) (bootFiles B force))) =
    (if force = [] then chosen else force)"
proof -
  let ?home = "be_Getenv B ''HOME''" and ?d = "passwd_of (be_passwd B)"
  have after: "passwd_of (fileAfter (be_WriteFile B) passwdFile (be_passwd B) (bootFiles B force)) =
      (if force = [] \<and> ?home = [] then ?d else fst (rewriteRootPasswd ?d force ?home))"
    using assms(1,2)
    by (auto simp: bootFiles_def fileAfter_append profiles_keep_passwd patchPasswdRootShell_def
        split: option.splits prod.splits if_splits dest: rewriteRootPasswd_False)
  show ?thesis
  proof (cases "force = []")
    case True
    with resolveShell_usable [where getenv = "be_Getenv B" and passwd = "Some (\<lambda>_. be_passwd B)" and executable = "be_executable B"] sh
    have "chosen = rootShellFromPasswd ?d" "chosen \<noteq> []" by (auto dest: allowedShells_plain)
    with rewrite_keeps_shell [OF assms(3,4)] after True show ?thesis by simp
  next
    case False
    with resolveShell_usable [where getenv = "be_Getenv B" and passwd = "Some (\<lambda>_. be_passwd B)" and executable = "be_executable B"] sh
    have "plain_field force" by (auto dest: allowedShells_plain)
    with rewriteRootPasswd_effective [OF assms(3) _ assms(4) False] after False show ?thesis by simp
  qed
qed

lemma supervisorBoot_starts:
  assumes "resolveShell (be_Getenv B) (Some (\<lambda>_. be_passwd B)) (be_executable B) = (chosen, force)"
  shows "\<exists>path post. fst (supervisorBoot B userArgs) =
    (MkdirAll ''/var/empty'' # bootFiles B force) @ StartProcess path (sshdArgs (be_Getenv B) (be_Environ B) chosen (be_Glob B)) # post"
  using assms by (auto simp: supervisorBoot_def Let_def split: sum.splits list.splits)

text \<open>
  The shell a session is told about is the shell sshd starts: when process 1 starts sshd, the password file has been
  written, root's shell in it is the one that was decided, bundled or root's own, and the same decision is announced in
  the arguments of sshd.
\<close>

theorem announced_shell_is_root_shell:
  assumes "supervisorBoot B userArgs = (acts, Inr children)" "be_Getpid B = 1" "be_WriteFile B passwdFile = None"
    and "passwd_ok (Split newline (passwd_of (be_passwd B)))" "plain_field (be_Getenv B ''HOME'')"
  shows "\<exists>pre path args post chosen force.
    acts = pre @ StartProcess path args # post \<and>
    resolveShell (be_Getenv B) (Some (\<lambda>_. be_passwd B)) (be_executable B) = (chosen, force) \<and>
    args = sshdArgs (be_Getenv B) (be_Environ B) chosen (be_Glob B) \<and>
    rootShellFromPasswd (passwd_of (fileAfter (be_WriteFile B) passwdFile (be_passwd B) pre)) = (if force = [] then chosen else force)"
proof -
  obtain chosen force where sh: "resolveShell (be_Getenv B) (Some (\<lambda>_. be_passwd B)) (be_executable B) = (chosen, force)"
    by (metis prod.exhaust)
  have "rootShellFromPasswd (passwd_of (fileAfter (be_WriteFile B) passwdFile (be_passwd B) (MkdirAll ''/var/empty'' # bootFiles B force))) =
      (if force = [] then chosen else force)"
    using bootFiles_passwd [OF assms(2-5) sh] by simp
  with supervisorBoot_starts [OF sh, of userArgs] sh show ?thesis unfolding assms(1) fst_conv by blast
qed



subsection \<open>Examples\<close>

definition ex_boot :: boot_env where
  "ex_boot = \<lparr>be_Getenv = (\<lambda>k. if k = ''DEVPOD_SHELL'' then ''zsh'' else []), be_Environ = [], be_Getpid = 1, be_passwd = Some ex_passwd,
     be_executable = (\<lambda>_. False), be_Glob = (\<lambda>_. None), be_MkdirAll = (\<lambda>_. None), be_WriteFile = (\<lambda>_. None),
     be_Start = (\<lambda>path args. Inr (if path = ''sleep'' then 8 else 7))\<rparr>"

lemma ex_boot_runs:
  "\<exists>acts. supervisorBoot ex_boot [''sleep'', ''1''] = (acts, Inr (trackedChild ''sshd'' 7 # [trackedChild ''user'' 8]))"
  by (simp add: supervisorBoot_def ex_boot_def envOr_def Let_def split: prod.splits)

theorem announced_shell_is_root_shell_witness:
  "\<exists>pre path args post. fst (supervisorBoot ex_boot [''sleep'', ''1'']) = pre @ StartProcess path args # post \<and>
     rootShellFromPasswd (passwd_of (fileAfter (\<lambda>_. None) passwdFile (Some ex_passwd) pre)) = ''/opt/devpod/bin/zsh''"
proof -
  obtain acts where acts: "supervisorBoot ex_boot [''sleep'', ''1''] = (acts, Inr (trackedChild ''sshd'' 7 # [trackedChild ''user'' 8]))"
    using ex_boot_runs by blast
  have "passwd_ok (Split newline (passwd_of (be_passwd ex_boot)))" by code_simp
  moreover have "resolveShell (be_Getenv ex_boot) (Some (\<lambda>_. be_passwd ex_boot)) (be_executable ex_boot) = (''zsh'', ''/opt/devpod/bin/zsh'')"
    by (simp add: resolveShell_def ex_boot_def allowedShells_def Let_def)
  ultimately show ?thesis
    using announced_shell_is_root_shell [OF acts] acts by (fastforce simp: ex_boot_def plain_field_def)
qed


end
