(* ===== verification/Supervisor_Bootstrap.thy ===== *)
theory Supervisor_Bootstrap
  imports Supervisor "HOL-Library.AList" "HOL-Library.Word"
begin

section \<open>The supervisor: filling the shared volume\<close>

text \<open>
  \<open>runBootstrap\<close> and \<open>copyFile\<close> of \<open>src/cmd/supervisor/main.go\<close>, the work of the init container: the tree of the
  image is copied into the empty volume that the DevPod's own container sees under \<open>/opt/devpod\<close>.  The source, which
  does not change, is a tree; the destination is a file system with directories, files and symbolic links, on which the
  calls of package \<open>os\<close> have their POSIX meaning for a process that may write everywhere.  Any call may fail:
  \<open>flt\<close> names the ones that do, and \<open>short\<close> how much of a file was written before copying it failed.  Paths are
  lists of names; a relative path starts at \<open>/\<close>.
\<close>

unbundle bit_operations_syntax

type_synonym path = "string list"
type_synonym mode = "32 word"

datatype fs_error = ENOENT | ENOTDIR | EEXIST | EISDIR | ENOTEMPTY | ELOOP | EINJECTED

datatype node = DirN mode | FileN mode string | LinkN string

type_synonym store = "(path \<times> node) list"

datatype src_tree = SDir mode "(string \<times> src_tree) list" | SFile mode string | SLink string

datatype os_op =
    OpLstat path | OpInfo path | OpReadDir path | OpReadlink path | OpOpen path
  | OpMkdir path | OpRemove path | OpSymlink path | OpCreate path | OpCopy path | OpClose path

type_synonym faults = "os_op \<Rightarrow> bool"

subsection \<open>Package os\<close>

definition Perm :: "mode \<Rightarrow> mode" where
  "Perm m = m AND 0x1FF"

text \<open>Following a path, through at most \<open>n\<close> symbolic links; the last name may be missing.\<close>

function resolve :: "nat \<Rightarrow> store \<Rightarrow> path \<Rightarrow> path \<Rightarrow> fs_error + path" where
  "resolve n fs cur [] = Inr cur"
| "resolve n fs cur (x # xs) =
     (if x = [] \<or> x = ''.'' then resolve n fs cur xs
      else if x = ''..'' then resolve n fs (butlast cur) xs
      else case map_of fs (cur @ [x]) of
             None \<Rightarrow> if xs = [] then Inr (cur @ [x]) else Inl ENOENT
           | Some (DirN _) \<Rightarrow> resolve n fs (cur @ [x]) xs
           | Some (FileN _ _) \<Rightarrow> if xs = [] then Inr (cur @ [x]) else Inl ENOTDIR
           | Some (LinkN t) \<Rightarrow>
               (case n of
                  0 \<Rightarrow> Inl ELOOP
                | Suc n' \<Rightarrow> resolve n' fs (if HasPrefix t ''/'' then [] else cur) (Split (CHR ''/'') t @ xs)))"
  by pat_completeness auto
termination by (relation "measures [\<lambda>(n, _). n, \<lambda>(_, _, _, xs). length xs]") auto

definition maxLinks :: nat where "maxLinks = 40"

definition os_Stat :: "store \<Rightarrow> path \<Rightarrow> fs_error + node" where
  "os_Stat fs p =
     (case resolve maxLinks fs [] p of
        Inl e \<Rightarrow> Inl e
      | Inr q \<Rightarrow> (case map_of fs q of None \<Rightarrow> Inl ENOENT | Some n \<Rightarrow> Inr n))"

text \<open>Where a name lives: its directory is followed, the name itself is not.\<close>

definition locate :: "store \<Rightarrow> path \<Rightarrow> fs_error + path" where
  "locate fs p =
     (if p = [] then Inr []
      else case resolve maxLinks fs [] (butlast p) of
             Inl e \<Rightarrow> Inl e
           | Inr d \<Rightarrow>
               (case map_of fs d of
                  Some (DirN _) \<Rightarrow> Inr (d @ [last p])
                | Some _ \<Rightarrow> Inl ENOTDIR
                | None \<Rightarrow> Inl ENOENT))"

definition os_Lstat :: "store \<Rightarrow> path \<Rightarrow> fs_error + node" where
  "os_Lstat fs p =
     (case locate fs p of
        Inl e \<Rightarrow> Inl e
      | Inr q \<Rightarrow> (case map_of fs q of None \<Rightarrow> Inl ENOENT | Some n \<Rightarrow> Inr n))"

definition os_Mkdir :: "mode \<Rightarrow> faults \<Rightarrow> mode \<Rightarrow> store \<Rightarrow> path \<Rightarrow> fs_error option \<times> store" where
  "os_Mkdir umask flt perm fs p =
     (if flt (OpMkdir p) then (Some EINJECTED, fs)
      else case locate fs p of
             Inl e \<Rightarrow> (Some e, fs)
           | Inr q \<Rightarrow>
               (case map_of fs q of
                  Some _ \<Rightarrow> (Some EEXIST, fs)
                | None \<Rightarrow> (None, AList.update q (DirN (perm AND NOT umask)) fs)))"

function os_MkdirAll :: "mode \<Rightarrow> faults \<Rightarrow> mode \<Rightarrow> store \<Rightarrow> path \<Rightarrow> fs_error option \<times> store" where
  "os_MkdirAll umask flt perm fs p =
     (case os_Stat fs p of
        Inr (DirN _) \<Rightarrow> (None, fs)
      | Inr _ \<Rightarrow> (Some ENOTDIR, fs)
      | Inl _ \<Rightarrow>
          (case (if length p \<le> 1 then (None, fs) else os_MkdirAll umask flt perm fs (butlast p)) of
             (Some e, fs1) \<Rightarrow> (Some e, fs1)
           | (None, fs1) \<Rightarrow>
               (case os_Mkdir umask flt perm fs1 p of
                  (None, fs2) \<Rightarrow> (None, fs2)
                | (Some e, fs2) \<Rightarrow> (case os_Lstat fs2 p of Inr (DirN _) \<Rightarrow> (None, fs2) | _ \<Rightarrow> (Some e, fs2)))))"
  by pat_completeness auto
termination by (relation "measure (\<lambda>(_, _, _, _, p). length p)") auto

declare os_MkdirAll.simps [simp del]

definition hasEntry :: "store \<Rightarrow> path \<Rightarrow> bool" where
  "hasEntry fs d = list_ex (\<lambda>(q, _). q \<noteq> [] \<and> butlast q = d) fs"

definition os_Remove :: "faults \<Rightarrow> store \<Rightarrow> path \<Rightarrow> fs_error option \<times> store" where
  "os_Remove flt fs p =
     (if flt (OpRemove p) then (Some EINJECTED, fs)
      else case locate fs p of
             Inl e \<Rightarrow> (Some e, fs)
           | Inr q \<Rightarrow>
               (case map_of fs q of
                  None \<Rightarrow> (Some ENOENT, fs)
                | Some (DirN _) \<Rightarrow> if q = [] \<or> hasEntry fs q then (Some ENOTEMPTY, fs) else (None, AList.delete q fs)
                | Some _ \<Rightarrow> (None, AList.delete q fs)))"

definition os_Symlink :: "faults \<Rightarrow> string \<Rightarrow> store \<Rightarrow> path \<Rightarrow> fs_error option \<times> store" where
  "os_Symlink flt link fs p =
     (if flt (OpSymlink p) then (Some EINJECTED, fs)
      else if link = [] then (Some ENOENT, fs)
      else case locate fs p of
             Inl e \<Rightarrow> (Some e, fs)
           | Inr q \<Rightarrow> (case map_of fs q of Some _ \<Rightarrow> (Some EEXIST, fs) | None \<Rightarrow> (None, AList.update q (LinkN link) fs)))"

text \<open>\<open>OpenFile\<close> to create or truncate, following a link; a file that exists keeps its mode.\<close>

definition os_Create :: "mode \<Rightarrow> faults \<Rightarrow> mode \<Rightarrow> store \<Rightarrow> path \<Rightarrow> fs_error + path \<times> store" where
  "os_Create umask flt perm fs p =
     (if flt (OpCreate p) then Inl EINJECTED
      else case resolve maxLinks fs [] p of
             Inl e \<Rightarrow> Inl e
           | Inr q \<Rightarrow>
               (case map_of fs q of
                  None \<Rightarrow> Inr (q, AList.update q (FileN (perm AND NOT umask) []) fs)
                | Some (FileN m _) \<Rightarrow> Inr (q, AList.update q (FileN m []) fs)
                | Some _ \<Rightarrow> Inl EISDIR))"

definition writeTo :: "path \<Rightarrow> string \<Rightarrow> store \<Rightarrow> store" where
  "writeTo q body fs = (case map_of fs q of Some (FileN m _) \<Rightarrow> AList.update q (FileN m body) fs | _ \<Rightarrow> fs)"

subsection \<open>The copy\<close>

definition defaultBootstrapSrc :: string where "defaultBootstrapSrc = ''/opt/devpod''"
definition defaultBootstrapDst :: string where "defaultBootstrapDst = ''/devpod-bin''"

definition copyFile :: "mode \<Rightarrow> faults \<Rightarrow> (path \<Rightarrow> nat) \<Rightarrow> path \<Rightarrow> string \<Rightarrow> path \<Rightarrow> mode \<Rightarrow> store \<Rightarrow> fs_error option \<times> store" where
  "copyFile umask flt short src body dst perm fs =
     (if flt (OpOpen src) then (Some EINJECTED, fs)
      else case os_MkdirAll umask flt 0x1ED fs (butlast dst) of
             (Some e, fs1) \<Rightarrow> (Some e, fs1)
           | (None, fs1) \<Rightarrow>
               (case os_Create umask flt perm fs1 dst of
                  Inl e \<Rightarrow> (Some e, fs1)
                | Inr (q, fs2) \<Rightarrow>
                    if flt (OpCopy dst) then (Some EINJECTED, writeTo q (take (short dst) body) fs2)
                    else (if flt (OpClose dst) then Some EINJECTED else None, writeTo q body fs2)))"

text \<open>The function that is called for every entry of the walk, on the path and the target of the entry.\<close>

definition visit :: "mode \<Rightarrow> faults \<Rightarrow> (path \<Rightarrow> nat) \<Rightarrow> path \<Rightarrow> path \<Rightarrow> src_tree \<Rightarrow> store \<Rightarrow> fs_error option \<times> store" where
  "visit umask flt short sp target t fs =
     (if flt (OpInfo sp) then (Some EINJECTED, fs)
      else case t of
             SDir m _ \<Rightarrow> os_MkdirAll umask flt (Perm m) fs target
           | SLink link \<Rightarrow>
               if flt (OpReadlink sp) then (Some EINJECTED, fs)
               else os_Symlink flt link (snd (os_Remove flt fs target)) target
           | SFile m body \<Rightarrow> copyFile umask flt short sp body target (Perm m) fs)"

text \<open>\<open>WalkDir\<close>: an entry, then the entries of a directory in the order it lists them; the first error ends it.\<close>

fun walkDir :: "mode \<Rightarrow> faults \<Rightarrow> (path \<Rightarrow> nat) \<Rightarrow> path \<Rightarrow> path \<Rightarrow> src_tree \<Rightarrow> store \<Rightarrow> fs_error option \<times> store"
  and walkEntries :: "mode \<Rightarrow> faults \<Rightarrow> (path \<Rightarrow> nat) \<Rightarrow> path \<Rightarrow> path \<Rightarrow> (string \<times> src_tree) list \<Rightarrow> store \<Rightarrow> fs_error option \<times> store" where
  "walkDir umask flt short sp target t fs =
     (case visit umask flt short sp target t fs of
        (Some e, fs1) \<Rightarrow> (Some e, fs1)
      | (None, fs1) \<Rightarrow>
          (case t of
             SDir _ kids \<Rightarrow>
               if flt (OpReadDir sp) then (Some EINJECTED, fs1) else walkEntries umask flt short sp target kids fs1
           | _ \<Rightarrow> (None, fs1)))"
| "walkEntries umask flt short sp target [] fs = (None, fs)"
| "walkEntries umask flt short sp target ((x, t) # kids) fs =
     (case walkDir umask flt short (sp @ [x]) (target @ [x]) t fs of
        (Some e, fs1) \<Rightarrow> (Some e, fs1)
      | (None, fs1) \<Rightarrow> walkEntries umask flt short sp target kids fs1)"

definition names :: "string \<Rightarrow> path" where
  "names p = filter (\<lambda>x. x \<noteq> []) (Split (CHR ''/'') (filepath_Clean (''/'' @ p)))"

text \<open>\<open>source\<close> gives the tree under a path of the source, if there is one.\<close>

definition runBootstrap ::
  "(string \<Rightarrow> string) \<Rightarrow> (path \<Rightarrow> src_tree option) \<Rightarrow> mode \<Rightarrow> faults \<Rightarrow> (path \<Rightarrow> nat) \<Rightarrow> store \<Rightarrow> int \<times> store" where
  "runBootstrap getenv source umask flt short fs =
     (let src = names (envOr getenv ''SUPERVISOR_BOOTSTRAP_SRC'' defaultBootstrapSrc);
          dst = names (envOr getenv ''SUPERVISOR_BOOTSTRAP_DST'' defaultBootstrapDst)
      in case source src of
           None \<Rightarrow> (1, fs)
         | Some t \<Rightarrow>
             if flt (OpLstat src) then (1, fs)
             else case walkDir umask flt short src dst t fs of (Some _, fs') \<Rightarrow> (1, fs') | (None, fs') \<Rightarrow> (0, fs'))"

section \<open>What the copy leaves behind\<close>

subsection \<open>The tree that should be there\<close>

definition rootNode :: "mode \<Rightarrow> src_tree \<Rightarrow> node" where
  "rootNode umask t =
     (case t of
        SDir m _ \<Rightarrow> DirN (Perm m AND NOT umask)
      | SFile m body \<Rightarrow> FileN (Perm m AND NOT umask) body
      | SLink link \<Rightarrow> LinkN link)"

text \<open>The copy of a tree, as a map from the paths below its root; of a list of entries, from those below their directory.\<close>

fun treeAt :: "mode \<Rightarrow> src_tree \<Rightarrow> path \<rightharpoonup> node" and entriesAt :: "mode \<Rightarrow> (string \<times> src_tree) list \<Rightarrow> path \<rightharpoonup> node" where
  "treeAt umask t [] = Some (rootNode umask t)"
| "treeAt umask (SDir m kids) (x # p) = entriesAt umask kids (x # p)"
| "treeAt umask (SFile m body) (x # p) = None"
| "treeAt umask (SLink link) (x # p) = None"
| "entriesAt umask kids [] = None"
| "entriesAt umask [] (x # p) = None"
| "entriesAt umask ((y, t) # kids) (x # p) = (if x = y then treeAt umask t p else entriesAt umask kids (x # p))"

definition proper :: "string \<Rightarrow> bool" where
  "proper x \<longleftrightarrow> x \<noteq> [] \<and> x \<noteq> ''.'' \<and> x \<noteq> ''..''"

text \<open>What a file system guarantees of a tree: proper names, none twice, no empty link.\<close>

fun wf_tree :: "src_tree \<Rightarrow> bool" and wf_entries :: "(string \<times> src_tree) list \<Rightarrow> bool" where
  "wf_tree (SDir m kids) = wf_entries kids"
| "wf_tree (SFile m body) = True"
| "wf_tree (SLink link) = (link \<noteq> [])"
| "wf_entries [] = True"
| "wf_entries ((x, t) # kids) = (proper x \<and> x \<notin> fst ` set kids \<and> wf_tree t \<and> wf_entries kids)"

text \<open>A node that a copy cut short may have left where \<open>n'\<close> should be: the same but for the content of a file.\<close>

fun like :: "node \<Rightarrow> node \<Rightarrow> bool" where
  "like (FileN m _) (FileN m' _) = (m = m')"
| "like n n' = (n = n')"

definition partly :: "(path \<rightharpoonup> node) \<Rightarrow> path \<Rightarrow> store \<Rightarrow> bool" where
  "partly im d fs \<longleftrightarrow> (\<forall>p n n'. map_of fs (d @ p) = Some n \<longrightarrow> im p = Some n' \<longrightarrow> like n n')"

definition fully :: "(path \<rightharpoonup> node) \<Rightarrow> path \<Rightarrow> store \<Rightarrow> bool" where
  "fully im d fs \<longleftrightarrow> (\<forall>p n. im p = Some n \<longrightarrow> map_of fs (d @ p) = Some n)"

definition elsewhere :: "(path \<rightharpoonup> node) \<Rightarrow> path \<Rightarrow> store \<Rightarrow> store \<Rightarrow> bool" where
  "elsewhere im d fs fs' \<longleftrightarrow> (\<forall>q. (\<forall>p. im p \<noteq> None \<longrightarrow> q \<noteq> d @ p) \<longrightarrow> map_of fs' q = map_of fs q)"

definition copied :: "faults \<Rightarrow> (path \<rightharpoonup> node) \<Rightarrow> path \<Rightarrow> store \<Rightarrow> fs_error option \<times> store \<Rightarrow> bool" where
  "copied flt im d fs r \<longleftrightarrow>
     partly im d (snd r) \<and> elsewhere im d fs (snd r) \<and> (fst r = None \<longrightarrow> fully im d (snd r)) \<and>
     ((\<forall>x. \<not> flt x) \<longrightarrow> fst r = None)"

lemma like_simps [simp]:
  "like n n" "like n (DirN m) \<longleftrightarrow> n = DirN m" "like n (LinkN l) \<longleftrightarrow> n = LinkN l" "like n (FileN m b) \<longleftrightarrow> (\<exists>c. n = FileN m c)"
  by (cases n; simp; fail)+

lemma copied_single:
  "partly [[] \<mapsto> v] q fs \<longleftrightarrow> (\<forall>n. map_of fs q = Some n \<longrightarrow> like n v)"
  "copied flt [[] \<mapsto> v] q fs r \<longleftrightarrow>
     (\<forall>n. map_of (snd r) q = Some n \<longrightarrow> like n v) \<and> (\<forall>q'. q' \<noteq> q \<longrightarrow> map_of (snd r) q' = map_of fs q') \<and>
     (fst r = None \<longrightarrow> map_of (snd r) q = Some v) \<and> ((\<forall>x. \<not> flt x) \<longrightarrow> fst r = None)"
  by (auto simp: copied_def partly_def fully_def elsewhere_def)

lemma elsewhere_at: "elsewhere im d fs fs' \<Longrightarrow> im p = None \<Longrightarrow> map_of fs' (d @ p) = map_of fs (d @ p)"
  unfolding elsewhere_def by (metis same_append_eq)

subsection \<open>One step after another\<close>

lemma partly_elsewhere:
  assumes "elsewhere im d fs fs'" "partly im2 d fs" "\<And>p. im p = None \<or> im2 p = None"
  shows "partly im2 d fs'"
  using assms elsewhere_at [OF assms(1)] unfolding partly_def by (metis option.distinct(1))

lemma partly_add: "partly im d fs \<Longrightarrow> partly im2 d fs \<Longrightarrow> partly (im ++ im2) d fs"
  by (auto simp: partly_def map_add_def split: option.splits)

lemma partly_split: "partly (im ++ im2) d fs \<Longrightarrow> (\<And>p. im p = None \<or> im2 p = None) \<Longrightarrow> partly im d fs \<and> partly im2 d fs"
  unfolding partly_def map_add_def by (metis option.simps(4,5))

lemma copied_fail:
  assumes "copied flt im d fs (Some e, fs1)" "partly im2 d fs" "\<And>p. im p = None \<or> im2 p = None"
  shows "copied flt (im ++ im2) d fs (Some e, fs1)"
  using assms partly_elsewhere [of im d fs fs1 im2]
  by (auto simp: copied_def intro: partly_add) (auto simp: elsewhere_def map_add_None)

lemma copied_seq:
  assumes "copied flt im d fs (None, fs1)" "copied flt im2 d fs1 r" "\<And>p. im p = None \<or> im2 p = None"
  shows "copied flt (im ++ im2) d fs r"
  unfolding copied_def
proof (intro conjI impI)
  from assms have e1: "elsewhere im d fs fs1" and f1: "fully im d fs1" and p1: "partly im d fs1"
    and e2: "elsewhere im2 d fs1 (snd r)" and p2: "partly im2 d (snd r)" by (simp_all add: copied_def)
  have dis: "im2 p = None \<or> im p = None" for p using assms(3) [of p] by auto
  show "partly (im ++ im2) d (snd r)" using partly_elsewhere [OF e2 p1 dis] p2 by (rule partly_add)
  show "elsewhere (im ++ im2) d fs (snd r)" using e1 e2 by (auto simp: elsewhere_def map_add_None)
  have "fully im d (snd r)" using f1 elsewhere_at [OF e2] dis unfolding fully_def by (metis option.distinct(1))
  moreover assume "fst r = None"
  ultimately show "fully (im ++ im2) d (snd r)"
    using assms(2) by (auto simp: copied_def fully_def map_add_Some_iff)
qed (use assms(2) in \<open>simp add: copied_def\<close>)

text \<open>A subtree of one name, seen from its directory.\<close>

definition below :: "string \<Rightarrow> (path \<rightharpoonup> node) \<Rightarrow> path \<rightharpoonup> node" where
  "below x im p = (case p of [] \<Rightarrow> None | y # p' \<Rightarrow> if y = x then im p' else None)"

lemma below_Some: "below x im p = Some n \<longleftrightarrow> (\<exists>p'. p = x # p' \<and> im p' = Some n)"
  by (auto simp: below_def split: list.splits)

lemma copied_below: "copied flt im (d @ [x]) fs r \<Longrightarrow> copied flt (below x im) d fs r"
  by (auto simp: copied_def partly_def fully_def elsewhere_def below_Some)

lemma partly_below: "partly (below x im) d fs \<Longrightarrow> partly im (d @ [x]) fs"
  by (auto simp: partly_def below_Some)

lemma entriesAt_Cons:
  assumes "x \<notin> fst ` set kids"
  shows "entriesAt umask ((x, t) # kids) = below x (treeAt umask t) ++ entriesAt umask kids"
    and "below x (treeAt umask t) p = None \<or> entriesAt umask kids p = None"
proof -
  have no: "y \<notin> fst ` set ks \<Longrightarrow> entriesAt umask ks (y # p) = None" for y ks p
    by (induction ks) auto
  show "entriesAt umask ((x, t) # kids) = below x (treeAt umask t) ++ entriesAt umask kids"
  proof
    fix p show "entriesAt umask ((x, t) # kids) p = (below x (treeAt umask t) ++ entriesAt umask kids) p"
      by (cases p) (use no assms in \<open>auto simp: below_def map_add_def split: option.splits\<close>)
  qed
  show "below x (treeAt umask t) p = None \<or> entriesAt umask kids p = None"
    using no assms by (auto simp: below_def split: list.splits)
qed

lemma treeAt_SDir:
  "treeAt umask (SDir m kids) = [[] \<mapsto> rootNode umask (SDir m kids)] ++ entriesAt umask kids"
  "[[] \<mapsto> v] p = None \<or> entriesAt umask kids p = None"
proof -
  show "treeAt umask (SDir m kids) = [[] \<mapsto> rootNode umask (SDir m kids)] ++ entriesAt umask kids"
  proof
    fix p show "treeAt umask (SDir m kids) p = ([[] \<mapsto> rootNode umask (SDir m kids)] ++ entriesAt umask kids) p"
      by (cases p) (auto simp: map_add_def split: option.splits)
  qed
  show "[[] \<mapsto> v] p = None \<or> entriesAt umask kids p = None" by (cases p) auto
qed

lemma treeAt_leaf:
  "treeAt umask (SFile m body) = [[] \<mapsto> rootNode umask (SFile m body)]"
  "treeAt umask (SLink link) = [[] \<mapsto> rootNode umask (SLink link)]"
proof -
  have "treeAt umask (SFile m body) p = [[] \<mapsto> rootNode umask (SFile m body)] p"
    "treeAt umask (SLink link) p = [[] \<mapsto> rootNode umask (SLink link)] p" for p by (cases p; simp)+
  then show "treeAt umask (SFile m body) = [[] \<mapsto> rootNode umask (SFile m body)]"
    "treeAt umask (SLink link) = [[] \<mapsto> rootNode umask (SLink link)]" by blast+
qed

subsection \<open>The calls on paths without links\<close>

definition dirs_to :: "store \<Rightarrow> path \<Rightarrow> bool" where
  "dirs_to fs d \<longleftrightarrow> (\<forall>i\<le>length d. \<exists>m. map_of fs (take i d) = Some (DirN m)) \<and> list_all proper d"

lemma dirs_to_self: "dirs_to fs d \<Longrightarrow> \<exists>m. map_of fs d = Some (DirN m)"
  unfolding dirs_to_def by (metis order_refl take_all)

lemma dirs_to_snoc: "dirs_to fs (d @ [x]) \<longleftrightarrow> dirs_to fs d \<and> proper x \<and> (\<exists>m. map_of fs (d @ [x]) = Some (DirN m))"
  unfolding dirs_to_def by (auto simp: le_Suc_eq)

lemma resolve_through:
  assumes "list_all proper d" "\<And>i. i \<in> {1..length d} \<Longrightarrow> \<exists>m. map_of fs (cur @ take i d) = Some (DirN m)"
  shows "resolve n fs cur (d @ xs) = resolve n fs (cur @ d) xs"
  using assms
proof (induction d arbitrary: cur)
  case (Cons x d)
  from Cons.prems(2) [of 1] obtain m where "map_of fs (cur @ [x]) = Some (DirN m)" by auto
  moreover have "\<exists>m. map_of fs ((cur @ [x]) @ take i d) = Some (DirN m)" if "i \<in> {1..length d}" for i
    using Cons.prems(2) [of "Suc i"] that by simp
  ultimately show ?case using Cons.IH [of "cur @ [x]"] Cons.prems(1) by (simp add: proper_def)
qed simp

lemma resolve_dirs: "dirs_to fs d \<Longrightarrow> resolve n fs [] (d @ xs) = resolve n fs d xs"
  using resolve_through [of d fs "[]" n xs] by (auto simp: dirs_to_def)

lemma os_Stat_dir: "dirs_to fs d \<Longrightarrow> \<exists>m. os_Stat fs d = Inr (DirN m)"
  using dirs_to_self [of fs d] resolve_dirs [of fs d _ "[]"] by (auto simp: os_Stat_def)

text \<open>A proper name in a directory that is reached without links.\<close>

definition in_dir :: "store \<Rightarrow> path \<Rightarrow> string \<Rightarrow> bool" where
  "in_dir fs d x \<longleftrightarrow> dirs_to fs d \<and> proper x"

lemma dirs_to_cong: "(\<And>q. length q \<le> length d \<Longrightarrow> map_of fs' q = map_of fs q) \<Longrightarrow> dirs_to fs' d = dirs_to fs d"
  by (simp add: dirs_to_def)

lemma elsewhere_dirs:
  assumes "elsewhere im d fs fs'" "im [] = None"
  shows "dirs_to fs' d = dirs_to fs d"
proof (rule dirs_to_cong)
  fix q :: path assume "length q \<le> length d"
  with assms(2) have "im p \<noteq> None \<longrightarrow> q \<noteq> d @ p" for p by (cases p) auto
  with assms(1) show "map_of fs' q = map_of fs q" by (auto simp: elsewhere_def)
qed

lemma locate_in: "in_dir fs d x \<Longrightarrow> locate fs (d @ [x]) = Inr (d @ [x])"
  using resolve_dirs [of fs d _ "[]"] dirs_to_self [of fs d] by (auto simp: in_dir_def locate_def)

lemma locate_deleted: "in_dir fs d x \<Longrightarrow> locate (AList.delete (d @ [x]) fs) (d @ [x]) = Inr (d @ [x])"
proof -
  have "dirs_to (AList.delete (d @ [x]) fs) d = dirs_to fs d" by (rule dirs_to_cong) (auto simp: delete_conv')
  then show "in_dir fs d x \<Longrightarrow> ?thesis" by (intro locate_in) (simp add: in_dir_def)
qed

lemma resolve_in:
  "in_dir fs d x \<Longrightarrow> \<forall>l. map_of fs (d @ [x]) \<noteq> Some (LinkN l) \<Longrightarrow> resolve n fs [] (d @ [x]) = Inr (d @ [x])"
  using resolve_dirs [of fs d n "[x]"] by (auto simp: in_dir_def proper_def split: option.splits node.splits)

lemma os_MkdirAll_dirs: "dirs_to fs d \<Longrightarrow> os_MkdirAll umask flt perm fs d = (None, fs)"
  using os_Stat_dir [of fs d] by (auto simp: os_MkdirAll.simps)

lemma os_MkdirAll_new:
  assumes "in_dir fs d x" "map_of fs (d @ [x]) = None"
  shows "os_MkdirAll umask flt perm fs (d @ [x]) =
    (if flt (OpMkdir (d @ [x])) then (Some EINJECTED, fs) else (None, AList.update (d @ [x]) (DirN (perm AND NOT umask)) fs))"
proof -
  have "os_Stat fs (d @ [x]) = Inl ENOENT" using assms resolve_in [of fs d x maxLinks] by (simp add: os_Stat_def)
  then have "os_MkdirAll umask flt perm fs (d @ [x]) =
      (case os_Mkdir umask flt perm fs (d @ [x]) of
         (None, fs2) \<Rightarrow> (None, fs2)
       | (Some e, fs2) \<Rightarrow> (case os_Lstat fs2 (d @ [x]) of Inr (DirN _) \<Rightarrow> (None, fs2) | _ \<Rightarrow> (Some e, fs2)))"
    using os_MkdirAll_dirs [of fs d umask flt perm] assms(1) by (subst os_MkdirAll.simps) (simp add: in_dir_def)
  with assms show ?thesis by (simp add: os_Mkdir_def os_Lstat_def locate_in)
qed

lemma visit_dir:
  assumes "in_dir fs d x" "partly [[] \<mapsto> rootNode umask (SDir m kids)] (d @ [x]) fs"
  shows "copied flt [[] \<mapsto> rootNode umask (SDir m kids)] (d @ [x]) fs (visit umask flt short sp (d @ [x]) (SDir m kids) fs)"
proof (cases "map_of fs (d @ [x])")
  case None
  with assms(1) show ?thesis by (auto simp: visit_def os_MkdirAll_new copied_single rootNode_def update_conv')
next
  case (Some n)
  with assms(2) have n: "n = DirN (Perm m AND NOT umask)" by (simp add: copied_single rootNode_def)
  with Some assms(1) have "dirs_to fs (d @ [x])" by (simp add: in_dir_def dirs_to_snoc)
  with Some n show ?thesis by (auto simp: visit_def os_MkdirAll_dirs copied_single rootNode_def)
qed

lemma visit_link:
  assumes "in_dir fs d x" "partly [[] \<mapsto> rootNode umask (SLink link)] (d @ [x]) fs" "link \<noteq> []"
  shows "copied flt [[] \<mapsto> rootNode umask (SLink link)] (d @ [x]) fs (visit umask flt short sp (d @ [x]) (SLink link) fs)"
proof -
  consider "map_of fs (d @ [x]) = None" | "map_of fs (d @ [x]) = Some (LinkN link)"
    using assms(2) by (cases "map_of fs (d @ [x])") (auto simp: copied_single rootNode_def)
  then show ?thesis
    using assms(1,3)
    by cases (auto simp: visit_def os_Remove_def os_Symlink_def locate_in locate_deleted copied_single rootNode_def update_conv' delete_conv')
qed

lemma visit_file:
  assumes "in_dir fs d x" "partly [[] \<mapsto> rootNode umask (SFile m body)] (d @ [x]) fs"
  shows "copied flt [[] \<mapsto> rootNode umask (SFile m body)] (d @ [x]) fs (visit umask flt short sp (d @ [x]) (SFile m body) fs)"
proof -
  have d: "dirs_to fs d" using assms(1) by (simp add: in_dir_def)
  consider "map_of fs (d @ [x]) = None" | c where "map_of fs (d @ [x]) = Some (FileN (Perm m AND NOT umask) c)"
    using assms(2) by (cases "map_of fs (d @ [x])") (auto simp: copied_single rootNode_def)
  then show ?thesis
    using assms(1) d
    by cases (auto simp: visit_def copyFile_def os_MkdirAll_dirs os_Create_def resolve_in writeTo_def copied_single rootNode_def update_conv')
qed

lemma visit_copies:
  assumes "in_dir fs d x" "wf_tree t" "partly [[] \<mapsto> rootNode umask t] (d @ [x]) fs"
  shows "copied flt [[] \<mapsto> rootNode umask t] (d @ [x]) fs (visit umask flt short sp (d @ [x]) t fs)"
proof (cases t)
  case (SDir m kids)
  show ?thesis using assms(3) unfolding SDir by (rule visit_dir [OF assms(1)])
next
  case (SFile m body)
  show ?thesis using assms(3) unfolding SFile by (rule visit_file [OF assms(1)])
next
  case (SLink link)
  with assms(2) have "link \<noteq> []" by simp
  with assms(3) show ?thesis unfolding SLink by (rule visit_link [OF assms(1)])
qed

lemma partly_root: "partly (treeAt umask t) q fs \<Longrightarrow> partly [[] \<mapsto> rootNode umask t] q fs"
proof -
  assume "partly (treeAt umask t) q fs"
  then have "\<forall>n n'. map_of fs (q @ []) = Some n \<longrightarrow> treeAt umask t [] = Some n' \<longrightarrow> like n n'" unfolding partly_def by blast
  then show ?thesis by (simp add: copied_single)
qed

subsection \<open>The walk\<close>

lemma walkDir_leaf:
  "walkDir umask flt short sp target (SFile m body) fs = visit umask flt short sp target (SFile m body) fs"
  "walkDir umask flt short sp target (SLink link) fs = visit umask flt short sp target (SLink link) fs"
  by (auto split: option.splits prod.splits)

lemma walk_copies:
  "in_dir fs d x \<Longrightarrow> wf_tree t \<Longrightarrow> target = d @ [x] \<Longrightarrow> partly (treeAt umask t) target fs \<Longrightarrow>
     copied flt (treeAt umask t) target fs (walkDir umask flt short sp target t fs)"
  "dirs_to fs target \<Longrightarrow> wf_entries kids \<Longrightarrow> partly (entriesAt umask kids) target fs \<Longrightarrow>
     copied flt (entriesAt umask kids) target fs (walkEntries umask flt short sp target kids fs)"
proof (induction umask flt short sp target t fs and umask flt short sp target kids fs arbitrary: d x and rule: walkDir_walkEntries.induct)
  case (1 umask flt short sp target t fs)
  let ?root = "[[] \<mapsto> rootNode umask t]"
  have v: "copied flt ?root target fs (visit umask flt short sp target t fs)"
    using visit_copies [OF "1.prems"(1,2)] partly_root [OF "1.prems"(4)] unfolding "1.prems"(3) by blast
  show ?case
  proof (cases t)
    case (SDir m kids)
    from partly_split [OF "1.prems"(4) [unfolded SDir treeAt_SDir(1)] treeAt_SDir(2)] have rest: "partly (entriesAt umask kids) target fs" ..
    obtain e fs1 where step: "visit umask flt short sp target t fs = (e, fs1)" by fastforce
    show ?thesis
    proof (cases e)
      case None
      with v step have v1: "copied flt ?root target fs (None, fs1)" by simp
      then have same: "elsewhere ?root target fs fs1" and made: "map_of fs1 target = Some (rootNode umask t)"
        and others: "\<And>q. q \<noteq> target \<Longrightarrow> map_of fs1 q = map_of fs q"
        by (simp add: copied_def, simp_all add: copied_single(2))
      have "dirs_to fs1 d = dirs_to fs d" by (rule dirs_to_cong, rule others) (use "1.prems"(3) in auto)
      then have "dirs_to fs1 target"
        using "1.prems"(1,3) made SDir by (simp add: in_dir_def dirs_to_snoc rootNode_def)
      moreover have "partly (entriesAt umask kids) target fs1" using same rest treeAt_SDir(2) by (rule partly_elsewhere)
      ultimately have in1: "dirs_to fs1 target" "partly (entriesAt umask kids) target fs1" by blast+
      have "copied flt (entriesAt umask kids) target fs1 (walkEntries umask flt short sp target kids fs1)" if "\<not> flt (OpReadDir sp)"
        using "1.IH" [of e fs1 m kids] "1.prems"(2) SDir step None in1 that by simp
      with in1 have w: "copied flt (entriesAt umask kids) target fs1
          (if flt (OpReadDir sp) then (Some EINJECTED, fs1) else walkEntries umask flt short sp target kids fs1)"
        by (auto simp: copied_def elsewhere_def)
      from copied_seq [OF v1 w] SDir step None show ?thesis by (simp add: treeAt_SDir)
    next
      case (Some err)
      with v step have "copied flt ?root target fs (Some err, fs1)" by simp
      from copied_fail [OF this rest] SDir step Some show ?thesis by (simp add: treeAt_SDir)
    qed
  next
    case (SFile m body)
    with v show ?thesis by (simp only: walkDir_leaf treeAt_leaf)
  next
    case (SLink link)
    with v show ?thesis by (simp only: walkDir_leaf treeAt_leaf)
  qed
next
  case (2 umask flt short sp target fs)
  have "entriesAt umask [] p = None" for p by (cases p) simp_all
  then show ?case by (simp add: copied_def partly_def fully_def elsewhere_def)
next
  case (3 umask flt short sp target x t kids fs)
  note im = entriesAt_Cons [of x kids umask t]
  from "3.prems"(2) have x: "proper x" "x \<notin> fst ` set kids" "wf_tree t" "wf_entries kids" by simp_all
  from partly_split [OF "3.prems"(3) [unfolded im(1) [OF x(2)]] im(2) [OF x(2)]]
  have p1: "partly (below x (treeAt umask t)) target fs" and p2: "partly (entriesAt umask kids) target fs" by simp_all
  obtain e fs1 where step: "walkDir umask flt short (sp @ [x]) (target @ [x]) t fs = (e, fs1)" by fastforce
  from "3.IH"(1) [of target x] "3.prems"(1) x partly_below [OF p1] step
  have one: "copied flt (below x (treeAt umask t)) target fs (e, fs1)" by (auto simp: in_dir_def intro: copied_below)
  show ?case
  proof (cases e)
    case None
    from one have same: "elsewhere (below x (treeAt umask t)) target fs fs1" by (simp add: copied_def)
    then have "dirs_to fs1 target = dirs_to fs target" by (rule elsewhere_dirs) (simp add: below_def)
    moreover have "partly (entriesAt umask kids) target fs1" using same p2 im(2) [OF x(2)] by (rule partly_elsewhere)
    ultimately have "copied flt (entriesAt umask kids) target fs1 (walkEntries umask flt short sp target kids fs1)"
      using "3.IH"(2) [OF step [symmetric]] "3.prems"(1) x(4) None by simp
    from copied_seq [OF one [unfolded None] this im(2) [OF x(2)]] step None show ?thesis by (simp only: im(1) [OF x(2)]) simp
  next
    case (Some err)
    from copied_fail [OF one [unfolded Some] p2 im(2) [OF x(2)]] step Some show ?thesis by (simp only: im(1) [OF x(2)]) simp
  qed
qed

text \<open>A run over a directory that may hold part of the tree already.\<close>

definition ready :: "mode \<Rightarrow> (string \<times> src_tree) list \<Rightarrow> path \<Rightarrow> store \<Rightarrow> bool" where
  "ready umask kids dst fs \<longleftrightarrow> dirs_to fs dst \<and> partly (entriesAt umask kids) dst fs"

lemma walk_ready:
  assumes "wf_entries kids" "ready umask kids dst fs"
  shows "copied flt (entriesAt umask kids) dst fs (walkDir umask flt short sp dst (SDir m kids) fs)"
  using assms walk_copies(2) [of fs dst kids umask flt short sp]
  by (auto simp: ready_def visit_def os_MkdirAll_dirs copied_def elsewhere_def)

lemma run_ready:
  assumes "wf_entries kids" "ready umask kids dst fs"
    "source (names (envOr getenv ''SUPERVISOR_BOOTSTRAP_SRC'' defaultBootstrapSrc)) = Some (SDir m kids)"
    "dst = names (envOr getenv ''SUPERVISOR_BOOTSTRAP_DST'' defaultBootstrapDst)"
  obtains r where "copied flt (entriesAt umask kids) dst fs r"
    "runBootstrap getenv source umask flt short fs = (if fst r = None then 0 else 1, snd r)"
proof (cases "flt (OpLstat (names (envOr getenv ''SUPERVISOR_BOOTSTRAP_SRC'' defaultBootstrapSrc)))")
  case True
  with assms show ?thesis
    by (intro that [of "(Some EINJECTED, fs)"]) (auto simp: runBootstrap_def Let_def copied_def elsewhere_def ready_def)
next
  case False
  let ?r = "walkDir umask flt short (names (envOr getenv ''SUPERVISOR_BOOTSTRAP_SRC'' defaultBootstrapSrc)) dst (SDir m kids) fs"
  have "runBootstrap getenv source umask flt short fs = (if fst ?r = None then 0 else 1, snd ?r)"
    using False assms(3,4) by (simp add: runBootstrap_def Let_def del: walkDir.simps split: option.splits prod.splits)
  with walk_ready [OF assms(1,2)] show ?thesis by (rule that)
qed

lemma ready_after: "copied flt (entriesAt umask kids) dst fs r \<Longrightarrow> ready umask kids dst fs \<Longrightarrow> ready umask kids dst (snd r)"
  using elsewhere_dirs [of "entriesAt umask kids" dst fs "snd r"] by (simp add: ready_def copied_def)

definition attempts :: "(string \<Rightarrow> string) \<Rightarrow> (path \<Rightarrow> src_tree option) \<Rightarrow> mode \<Rightarrow> (faults \<times> (path \<Rightarrow> nat)) list \<Rightarrow> store \<Rightarrow> store" where
  "attempts getenv source umask as fs = fold (\<lambda>(flt, short) fs. snd (runBootstrap getenv source umask flt short fs)) as fs"

lemma ready_attempts:
  assumes "wf_entries kids" "ready umask kids dst fs"
    "source (names (envOr getenv ''SUPERVISOR_BOOTSTRAP_SRC'' defaultBootstrapSrc)) = Some (SDir m kids)"
    "dst = names (envOr getenv ''SUPERVISOR_BOOTSTRAP_DST'' defaultBootstrapDst)"
  shows "ready umask kids dst (attempts getenv source umask as fs)"
  using assms(2)
proof (induction as arbitrary: fs)
  case (Cons a as)
  obtain flt short where a: "a = (flt, short)" by fastforce
  obtain r where "copied flt (entriesAt umask kids) dst fs r"
    "runBootstrap getenv source umask flt short fs = (if fst r = None then 0 else 1, snd r)"
    by (rule run_ready [where source = source and getenv = getenv, OF assms(1) Cons.prems assms(3,4)])
  with Cons a ready_after show ?case by (simp add: attempts_def)
qed (simp add: attempts_def)

text \<open>The run after any number of attempts, from an empty volume.\<close>

lemma resumed_run:
  assumes src: "source (names (envOr getenv ''SUPERVISOR_BOOTSTRAP_SRC'' defaultBootstrapSrc)) = Some (SDir m kids)" "wf_entries kids"
    and dst: "dst = names (envOr getenv ''SUPERVISOR_BOOTSTRAP_DST'' defaultBootstrapDst)" "dirs_to fs0 dst"
    and empty: "\<And>p. p \<noteq> [] \<Longrightarrow> map_of fs0 (dst @ p) = None"
  obtains r where "copied flt (entriesAt umask kids) dst (attempts getenv source umask failed fs0) r"
    "runBootstrap getenv source umask flt short (attempts getenv source umask failed fs0) = (if fst r = None then 0 else 1, snd r)"
proof -
  have "ready umask kids dst fs0"
    using dst(2) empty by (auto simp: ready_def partly_def) (metis entriesAt.simps(1) option.distinct(1))
  then have now: "ready umask kids dst (attempts getenv source umask failed fs0)"
    by (rule ready_attempts [where source = source and getenv = getenv, OF src(2) _ src(1) dst(1)])
  show ?thesis
    by (rule run_ready [where source = source and getenv = getenv, OF src(2) now src(1) dst(1)]) (rule that)
qed

section \<open>Property\<close>

text \<open>
  C35. The init container fills the volume, however often it is interrupted.  From an empty volume, after any number of
  attempts that failed at any point, a run in which no call fails returns 0; and any run that returns 0 has left
  every directory, file and link of the image in the volume, with its content and its permissions less the umask.
  Nothing outside the volume changes.
\<close>

theorem bootstrap_resumes:
  assumes src: "source (names (envOr getenv ''SUPERVISOR_BOOTSTRAP_SRC'' defaultBootstrapSrc)) = Some (SDir m kids)" "wf_entries kids"
    and dst: "dst = names (envOr getenv ''SUPERVISOR_BOOTSTRAP_DST'' defaultBootstrapDst)" "dirs_to fs0 dst"
    and empty: "\<And>p. p \<noteq> [] \<Longrightarrow> map_of fs0 (dst @ p) = None"
  shows "let fs = attempts getenv source umask failed fs0; (code, fs') = runBootstrap getenv source umask flt short fs in
    ((\<forall>x. \<not> flt x) \<longrightarrow> code = 0) \<and>
    (code = 0 \<longrightarrow> (\<forall>p n. p \<noteq> [] \<longrightarrow> treeAt umask (SDir m kids) p = Some n \<longrightarrow> map_of fs' (dst @ p) = Some n)) \<and>
    (\<forall>q. (\<nexists>p. p \<noteq> [] \<and> q = dst @ p) \<longrightarrow> map_of fs' q = map_of fs q)"
proof -
  obtain r where r: "copied flt (entriesAt umask kids) dst (attempts getenv source umask failed fs0) r"
    "runBootstrap getenv source umask flt short (attempts getenv source umask failed fs0) = (if fst r = None then 0 else 1, snd r)"
    by (rule resumed_run [where source = source and getenv = getenv, OF src dst empty])
  have at: "treeAt umask (SDir m kids) p = entriesAt umask kids p" if "p \<noteq> []" for p using that by (cases p) simp_all
  have "map_of (snd r) q = map_of (attempts getenv source umask failed fs0) q" if "\<nexists>p. p \<noteq> [] \<and> q = dst @ p" for q
    using r(1) that unfolding copied_def elsewhere_def by (metis entriesAt.simps(1))
  with r at show ?thesis by (simp add: Let_def copied_def fully_def)
qed

subsection \<open>Example\<close>

text \<open>An image with a setuid program and a link to it; the first attempt fails after one byte of the program.\<close>

definition ex_kids :: "(string \<times> src_tree) list" where
  "ex_kids = [(''sbin'', SDir 0x1ED [(''sshd'', SFile 0x8001FF ''elf'')]), (''sh'', SLink ''sbin/sshd'')]"

definition ex_image :: "path \<Rightarrow> src_tree option" where
  "ex_image p = (if p = [''opt'', ''devpod''] then Some (SDir 0x1ED ex_kids) else None)"

definition ex_volume :: store where
  "ex_volume = [([], DirN 0x1ED), ([''devpod-bin''], DirN 0x1FF)]"

definition ex_full :: "(faults \<times> (path \<Rightarrow> nat)) list" where
  "ex_full = [(\<lambda>x. x = OpCopy [''devpod-bin'', ''sbin'', ''sshd''], \<lambda>_. 1)]"

lemma ex_names: "names ''/opt/devpod'' = [''opt'', ''devpod'']" "names ''/devpod-bin'' = [''devpod-bin'']"
  by code_simp+

lemma ex_dirs: "dirs_to ex_volume [''devpod-bin'']"
  by (auto simp: dirs_to_def ex_volume_def proper_def le_Suc_eq)

lemma ex_tree: "treeAt 0x12 (SDir 0x1ED ex_kids) [''sbin'', ''sshd''] = Some (FileN 0x1ED ''elf'')"
  by (simp add: ex_kids_def rootNode_def Perm_def)

theorem bootstrap_resumes_witness:
  "\<exists>fs'. runBootstrap (\<lambda>_. []) ex_image 0x12 (\<lambda>_. False) (\<lambda>_. 0) (attempts (\<lambda>_. []) ex_image 0x12 ex_full ex_volume) = (0, fs') \<and>
     map_of fs' [''devpod-bin'', ''sbin'', ''sshd''] = Some (FileN 0x1ED ''elf'')"
proof -
  let ?src = "names (envOr (\<lambda>_. []) ''SUPERVISOR_BOOTSTRAP_SRC'' defaultBootstrapSrc)"
  have src: "ex_image ?src = Some (SDir 0x1ED ex_kids)"
    by (simp add: envOr_def defaultBootstrapSrc_def ex_names ex_image_def)
  have dst: "[''devpod-bin''] = names (envOr (\<lambda>_. []) ''SUPERVISOR_BOOTSTRAP_DST'' defaultBootstrapDst)"
    by (simp add: envOr_def defaultBootstrapDst_def ex_names)
  have fresh: "map_of ex_volume ([''devpod-bin''] @ p) = None" if "p \<noteq> []" for p using that by (simp add: ex_volume_def)
  have wf: "wf_entries ex_kids" by (simp add: ex_kids_def proper_def)
  obtain code fs' where run: "runBootstrap (\<lambda>_. []) ex_image 0x12 (\<lambda>_. False) (\<lambda>_. 0) (attempts (\<lambda>_. []) ex_image 0x12 ex_full ex_volume) = (code, fs')"
    by fastforce
  have "code = 0 \<and> map_of fs' ([''devpod-bin''] @ [''sbin'', ''sshd'']) = Some (FileN 0x1ED ''elf'')"
    using bootstrap_resumes [where getenv = "\<lambda>_. []" and source = ex_image and umask = "0x12" and failed = ex_full and
        flt = "\<lambda>_. False" and short = "\<lambda>_. 0", OF src wf dst ex_dirs fresh] ex_tree
    by (simp only: run Let_def prod.case simp_thms) blast
  with run show ?thesis by simp
qed

end
