(* ===== verification/Webui_Quota.thy ===== *)
theory Webui_Quota
  imports Kube_Types Encoding "HOL-Library.Char_ord" "HOL-Library.List_Lexorder"
begin

section \<open>Web UI: names, quotas and templates\<close>

text \<open>
  The pure part of \<open>src/internal/webui\<close>: \<open>mapping.go\<close>, \<open>quota.go\<close>, \<open>kore.go\<close> and
  \<open>template_apply.go\<close>.  The text of a quantity is the argument \<open>qstr\<close>; strings are ordered by
  their bytes, as \<open>sort.Strings\<close> orders them.  Go ranges over a map in any order: where that
  decides which of several errors is reported, the model takes the order of the list.
\<close>

subsection \<open>mapping.go\<close>

definition MaxDevPodNameLen :: int where "MaxDevPodNameLen = 22"

definition labelByte :: "char \<Rightarrow> bool" where
  "labelByte c \<longleftrightarrow> (CHR ''a'' \<le> c \<and> c \<le> CHR ''z'') \<or> (CHR ''0'' \<le> c \<and> c \<le> CHR ''9'')"

text \<open>The expression \<open>^[a-z0-9]([-a-z0-9]*[a-z0-9])?$\<close>: the hyphens are inside.\<close>

definition dns1123Label :: "string \<Rightarrow> bool" where
  "dns1123Label s \<longleftrightarrow> s \<noteq> [] \<and> labelByte (hd s) \<and> labelByte (last s) \<and> list_all (\<lambda>c. labelByte c \<or> c = CHR ''-'') s"

definition NameBudget :: "string \<Rightarrow> int" where
  "NameBudget owner = MaxDevPodNameLen - int (length owner) - 1"

definition MapUsername :: "string \<Rightarrow> string \<Rightarrow> go_error + string" where
  "MapUsername prefx gitlabUsername =
     (if gitlabUsername = [] then Inl (ErrSentinel ''empty GitLab username'')
      else let name = prefx @ gitlabUsername
           in if \<not> dns1123Label name
              then Inl (Errorf ''mapped username %q is not a valid DNS-1123 label (lowercase alphanumerics and '-' only)'' [name] None)
              else if NameBudget name < 1
              then Inl (Errorf ''mapped username %q leaves no room for DevPod names (limit %d chars incl. %q prefix)''
                          [name, Itoa MaxDevPodNameLen, name @ ''-''] None)
              else Inr name)"

subsection \<open>quota.go\<close>

record quota_violation =
  qv_Resource :: string
  qv_Requested :: string
  qv_Used :: string
  qv_Limit :: string

definition EffectiveQuota :: "user option \<Rightarrow> user_quota \<Rightarrow> user_quota" where
  "EffectiveQuota u def =
     (case u of
        None \<Rightarrow> def
      | Some u' \<Rightarrow>
          (case us_Quota (u_Spec u') of
             None \<Rightarrow> def
           | Some q \<Rightarrow>
               (let out = def;
                    out = (if q_MaxDevPods q \<noteq> None then out\<lparr>q_MaxDevPods := q_MaxDevPods q\<rparr> else out);
                    out = (if q_Compute q \<noteq> None then out\<lparr>q_Compute := q_Compute q\<rparr> else out);
                    out = (if q_Storage q \<noteq> None then out\<lparr>q_Storage := q_Storage q\<rparr> else out)
                in out)))"

text \<open>A missing entry of a resource list reads as the zero quantity.\<close>

definition qty :: "resource_list \<Rightarrow> string \<Rightarrow> quantity" where
  "qty rl name = (case map_of rl name of None \<Rightarrow> 0 | Some q \<Rightarrow> q)"

definition addQty :: "string \<times> quantity \<Rightarrow> resource_list \<Rightarrow> resource_list" where
  "addQty nq acc = AList.update (fst nq) (qty acc (fst nq) + snd nq) acc"

definition addLimits :: "container list \<Rightarrow> resource_list \<Rightarrow> resource_list" where
  "addLimits cs acc = fold (\<lambda>c. fold addQty (rr_Limits (c_Resources c))) cs acc"

definition PodLimits :: "pod_spec \<Rightarrow> resource_list" where
  "PodLimits spec = addLimits (ps_InitContainers spec) (addLimits (ps_Containers spec) [])"

definition requireLimitsIn :: "string \<Rightarrow> container list \<Rightarrow> go_error option" where
  "requireLimitsIn kind cs =
     map_option (\<lambda>c. Errorf ''%s %q must declare cpu and memory limits (required for quota accounting)'' [kind, c_Name c] None)
       (find (\<lambda>c. qty (rr_Limits (c_Resources c)) ''cpu'' = 0 \<or> qty (rr_Limits (c_Resources c)) ''memory'' = 0) cs)"

definition RequireLimits :: "pod_spec \<Rightarrow> go_error option" where
  "RequireLimits spec =
     (case requireLimitsIn ''container'' (ps_Containers spec) of
        Some err \<Rightarrow> Some err
      | None \<Rightarrow> requireLimitsIn ''initContainer'' (ps_InitContainers spec))"

text \<open>The limits of the running DevPods, summed resource by resource.\<close>

definition usedCompute :: "devpod list \<Rightarrow> resource_list" where
  "usedCompute existing =
     fold (\<lambda>dp used.
             case ds_Pod (dp_Spec dp) of
               Some pw \<Rightarrow> if ds_Running (dp_Spec dp) then fold addQty (PodLimits (pw_Spec pw)) used else used
             | None \<Rightarrow> used)
       existing []"

definition computeViolations ::
  "(quantity \<Rightarrow> string) \<Rightarrow> resource_list \<Rightarrow> resource_list \<Rightarrow> resource_list \<Rightarrow> quota_violation list" where
  "computeViolations qstr compute used requested =
     concat (map (\<lambda>name.
       if qty used name + qty requested name > qty compute name
       then [\<lparr>qv_Resource = name, qv_Requested = qstr (qty requested name), qv_Used = qstr (qty used name), qv_Limit = qstr (qty compute name)\<rparr>]
       else []) (sort (map fst compute)))"

definition sizeOf :: "devpod \<Rightarrow> quantity" where
  "sizeOf dp = (case ds_Persistence (dp_Spec dp) of None \<Rightarrow> 0 | Some p \<Rightarrow> per_Size p)"

definition usedStorage :: "devpod list \<Rightarrow> quantity" where
  "usedStorage existing = fold (\<lambda>dp used. used + sizeOf dp) existing 0"

definition countViolations :: "user_quota \<Rightarrow> devpod list \<Rightarrow> quota_violation list" where
  "countViolations q existing =
     (case q_MaxDevPods q of
        Some m \<Rightarrow>
          if sint (of_nat (length existing) + 1 :: int32) > sint m
          then [\<lparr>qv_Resource = ''devpods'', qv_Requested = ''1'', qv_Used = Itoa (int (length existing)), qv_Limit = Itoa (sint m)\<rparr>]
          else []
      | None \<Rightarrow> [])"

definition storageViolations :: "(quantity \<Rightarrow> string) \<Rightarrow> user_quota \<Rightarrow> devpod list \<Rightarrow> devpod \<Rightarrow> quota_violation list" where
  "storageViolations qstr q existing proposed =
     (case q_Storage q of
        Some limit \<Rightarrow>
          if usedStorage existing + sizeOf proposed > limit
          then [\<lparr>qv_Resource = ''storage'', qv_Requested = qstr (sizeOf proposed), qv_Used = qstr (usedStorage existing), qv_Limit = qstr limit\<rparr>]
          else []
      | None \<Rightarrow> [])"

definition CheckQuota :: "(quantity \<Rightarrow> string) \<Rightarrow> user_quota \<Rightarrow> devpod list \<Rightarrow> devpod \<Rightarrow> quota_violation list" where
  "CheckQuota qstr q existing proposed =
     countViolations q existing @
     (case (q_Compute q, ds_Pod (dp_Spec proposed)) of
        (Some compute, Some pw) \<Rightarrow>
          if compute \<noteq> [] \<and> ds_Running (dp_Spec proposed)
          then computeViolations qstr compute (usedCompute existing) (PodLimits (pw_Spec pw)) else []
      | _ \<Rightarrow> []) @
     storageViolations qstr q existing proposed"

definition QuotaError :: "quota_violation list \<Rightarrow> string" where
  "QuotaError vs = ''quota exceeded: '' @
     Join (map (\<lambda>v. Sprintf ''%s: requested %s, used %s, limit %s'' [qv_Resource v, qv_Requested v, qv_Used v, qv_Limit v]) vs) ''; ''"

subsection \<open>kore.go\<close>

definition KorePrefix :: string where "KorePrefix = ''kore.zjusct.io/''"

abbreviation ann :: "string \<Rightarrow> string" where "ann k \<equiv> KorePrefix @ k"

definition allowedBindingValues :: "(string \<times> string list option) list" where
  "allowedBindingValues =
     [(ann ''pin'', Some [''true'']), (ann ''pool'', None), (ann ''pool-size'', None),
      (ann ''numa-policy'', Some [''single'', ''preferred'', ''spread'']),
      (ann ''memory-policy'', Some [''strict'', ''preferred'']),
      (ann ''placement'', Some [''pack'', ''scatter'']),
      (ann ''smt-policy'', Some [''full-core'', ''logical''])]"

definition KoreAnnotationKeys :: "smap \<Rightarrow> string list" where
  "KoreAnnotationKeys anns = sort (filter (\<lambda>k. HasPrefix k KorePrefix) (map fst anns))"

definition annotationError :: "string \<times> string \<Rightarrow> go_error option" where
  "annotationError kv =
     (case map_of allowedBindingValues (fst kv) of
        None \<Rightarrow> Some (Errorf ''annotation %q is not templatable (whitelist: pin, pool, pool-size, numa-policy, memory-policy, placement, smt-policy)'' [fst kv] None)
      | Some None \<Rightarrow> if snd kv = [] then Some (Errorf ''annotation %q must not be empty'' [fst kv] None) else None
      | Some (Some allowed) \<Rightarrow>
          if snd kv \<in> set allowed then None
          else Some (Errorf ''annotation %q: value %q not in %v'' [fst kv, snd kv, ''['' @ Join allowed '' '' @ '']''] None))"

fun firstError :: "('a \<Rightarrow> go_error option) \<Rightarrow> 'a list \<Rightarrow> go_error option" where
  "firstError f [] = None"
| "firstError f (x # xs) = (case f x of Some e \<Rightarrow> Some e | None \<Rightarrow> firstError f xs)"

text \<open>Quantities count nano-units: a whole cpu is a billion of them, a milli-cpu a million.\<close>

definition MilliValue :: "quantity \<Rightarrow> int" where
  "MilliValue q = (if q mod 1000000 = 0 then q div 1000000 else q div 1000000 + 1)"

definition pinError :: "(quantity \<Rightarrow> string) \<Rightarrow> resource_requirements \<Rightarrow> go_error option" where
  "pinError qstr r =
     (let cpu = qty (rr_Limits r) ''cpu''; req = qty (rr_Requests r) ''cpu''
      in if cpu = 0 then Some (ErrSentinel ''pin binding requires an integer cpu limit'')
         else if MilliValue cpu mod 1000 \<noteq> 0 then Some (Errorf ''pin binding requires integer cpu, got %s'' [qstr cpu] None)
         else if req \<noteq> 0 \<and> req \<noteq> cpu
         then Some (Errorf ''pin binding requires cpu requests == limits (%s != %s)'' [qstr req, qstr cpu] None)
         else None)"

definition ValidateBinding :: "(quantity \<Rightarrow> string) \<Rightarrow> binding_spec option \<Rightarrow> go_error option" where
  "ValidateBinding qstr b =
     (case b of
        None \<Rightarrow> Some (ErrSentinel ''binding is nil'')
      | Some b' \<Rightarrow>
          (case firstError annotationError (b_Annotations b') of
             Some e \<Rightarrow> Some e
           | None \<Rightarrow>
               (let pin = mhas (b_Annotations b') (ann ''pin''); pool = mhas (b_Annotations b') (ann ''pool'')
                in if pin \<and> pool then Some (ErrSentinel ''pin and pool are mutually exclusive'')
                   else if \<not> pin \<and> \<not> pool then Some (Errorf ''binding must set %s or %s'' [ann ''pin'', ann ''pool''] None)
                   else if pool
                   then (case map_of (b_Annotations b') (ann ''pool-size'') of
                           None \<Rightarrow> Some (Errorf ''%s requires %s'' [ann ''pool'', ann ''pool-size''] None)
                         | Some sz \<Rightarrow>
                             (case Atoi sz of
                                Some n \<Rightarrow> if n < 1 then Some (Errorf ''%s must be a positive integer, got %q'' [ann ''pool-size'', sz] None) else None
                              | None \<Rightarrow> Some (Errorf ''%s must be a positive integer, got %q'' [ann ''pool-size'', sz] None)))
                   else pinError qstr (b_Resources b'))))"

subsection \<open>template_apply.go\<close>

definition overlay :: "('a \<times> 'b) list \<Rightarrow> ('a \<times> 'b) list \<Rightarrow> ('a \<times> 'b) list" where
  "overlay m upd = fold (\<lambda>(k, v). AList.update k v) upd m"

definition bindContainer :: "resource_requirements \<Rightarrow> container \<Rightarrow> container" where
  "bindContainer r c =
     c\<lparr>c_Resources := \<lparr>rr_Requests = overlay (rr_Requests (c_Resources c)) (rr_Requests r),
                        rr_Limits = overlay (rr_Limits (c_Resources c)) (rr_Limits r)\<rparr>\<rparr>"

definition applyPreset :: "string \<Rightarrow> pod_preset_spec \<Rightarrow> devpod \<Rightarrow> go_error + devpod" where
  "applyPreset tname p dp =
     (if ds_Pod (dp_Spec dp) \<noteq> None
      then Inl (Errorf ''template %q is a full preset; the request must not carry its own pod spec'' [tname] None)
      else Inr (dp\<lparr>dp_Spec := (dp_Spec dp)\<lparr>
             ds_Pod := Some (pp_Pod p),
             ds_Persistence := (if ds_Persistence (dp_Spec dp) = None \<and> pp_Persistence p \<noteq> None then pp_Persistence p else ds_Persistence (dp_Spec dp)),
             ds_Shell := (if ds_Shell (dp_Spec dp) = [] then pp_Shell p else ds_Shell (dp_Spec dp))\<rparr>\<rparr>))"

text \<open>The target: the container that persistence names, else the first.\<close>

definition bindTarget :: "devpod \<Rightarrow> string option" where
  "bindTarget dp =
     (case ds_Persistence (dp_Spec dp) of
        Some per \<Rightarrow> if per_TargetContainer per \<noteq> [] then Some (per_TargetContainer per) else None
      | None \<Rightarrow> None)"

definition applyBinding :: "(quantity \<Rightarrow> string) \<Rightarrow> string \<Rightarrow> binding_spec \<Rightarrow> devpod \<Rightarrow> go_error + devpod" where
  "applyBinding qstr tname b dp =
     (case ValidateBinding qstr (Some b) of
        Some err \<Rightarrow> Inl (Errorf ''template %q binding invalid: %w'' [tname] (Some err))
      | None \<Rightarrow>
          (let missing = Inl (Errorf ''template %q is a binding overlay; the request must supply a pod spec (or use a preset template)'' [tname] None)
           in case ds_Pod (dp_Spec dp) of
                None \<Rightarrow> missing
              | Some pw \<Rightarrow>
                  if ps_Containers (pw_Spec pw) = [] then missing
                  else let pick = (case bindTarget dp of None \<Rightarrow> (\<lambda>c. True) | Some t \<Rightarrow> (\<lambda>c. c_Name c = t))
                       in case map_first pick (bindContainer (b_Resources b)) (ps_Containers (pw_Spec pw)) of
                            None \<Rightarrow> Inl (Errorf ''persistence.targetContainer %q not found'' [the (bindTarget dp)] None)
                          | Some cs \<Rightarrow>
                              Inr (dp\<lparr>dp_Spec := (dp_Spec dp)\<lparr>ds_Pod := Some (pw\<lparr>
                                pw_Metadata := (pw_Metadata pw)\<lparr>pm_Annotations := overlay (pm_Annotations (pw_Metadata pw)) (b_Annotations b)\<rparr>,
                                pw_Spec := (pw_Spec pw)\<lparr>ps_Containers := cs\<rparr>\<rparr>)\<rparr>\<rparr>)))"

definition ApplyTemplate :: "(quantity \<Rightarrow> string) \<Rightarrow> devpod \<Rightarrow> devpod_template \<Rightarrow> go_error + devpod" where
  "ApplyTemplate qstr dp tpl =
     (if ts_PodPreset (tpl_Spec tpl) = None \<and> ts_Binding (tpl_Spec tpl) = None
      then Inl (Errorf ''template %q has neither podPreset nor binding'' [tpl_Name tpl] None)
      else case (case ts_PodPreset (tpl_Spec tpl) of None \<Rightarrow> Inr dp | Some p \<Rightarrow> applyPreset (tpl_Name tpl) p dp) of
             Inl e \<Rightarrow> Inl e
           | Inr dp' \<Rightarrow> (case ts_Binding (tpl_Spec tpl) of None \<Rightarrow> Inr dp' | Some b \<Rightarrow> applyBinding qstr (tpl_Name tpl) b dp'))"

subsection \<open>What the quota check decides\<close>

definition amount :: "string \<Rightarrow> resource_list \<Rightarrow> quantity" where
  "amount n rl = sum_list (map snd (filter (\<lambda>kv. fst kv = n) rl))"

text \<open>The limits of a pod for one resource, and what a DevPod counts: running ones only.\<close>

definition limitOf :: "string \<Rightarrow> pod_spec \<Rightarrow> quantity" where
  "limitOf n spec = sum_list (map (\<lambda>c. amount n (rr_Limits (c_Resources c))) (ps_Containers spec @ ps_InitContainers spec))"

definition computeOf :: "string \<Rightarrow> devpod \<Rightarrow> quantity" where
  "computeOf n dp = (case ds_Pod (dp_Spec dp) of Some pw \<Rightarrow> if ds_Running (dp_Spec dp) then limitOf n (pw_Spec pw) else 0 | None \<Rightarrow> 0)"

lemma qty_addQty: "qty (addQty kv acc) n = qty acc n + (if fst kv = n then snd kv else 0)"
  by (simp add: addQty_def qty_def)

lemma qty_fold_addQty: "qty (fold addQty rl acc) n = qty acc n + amount n rl"
  by (induction rl arbitrary: acc) (simp_all add: qty_addQty amount_def)

lemma distinct_fold_addQty: "distinct (map fst acc) \<Longrightarrow> distinct (map fst (fold addQty rl acc))"
  by (induction rl arbitrary: acc) (simp_all add: addQty_def distinct_update)

lemma distinct_addLimits: "distinct (map fst acc) \<Longrightarrow> distinct (map fst (addLimits cs acc))"
  unfolding addLimits_def by (induction cs arbitrary: acc) (simp_all add: distinct_fold_addQty)

lemma qty_addLimits: "qty (addLimits cs acc) n = qty acc n + sum_list (map (\<lambda>c. amount n (rr_Limits (c_Resources c))) cs)"
  unfolding addLimits_def by (induction cs arbitrary: acc) (simp_all add: qty_fold_addQty)

lemma amount_distinct: "distinct (map fst rl) \<Longrightarrow> amount n rl = qty rl n"
proof (induction rl)
  case (Cons kv rl)
  have "n \<notin> fst ` set rl \<Longrightarrow> filter (\<lambda>kv. fst kv = n) rl = []" by (induction rl) auto
  with Cons show ?case by (cases kv) (auto simp: amount_def qty_def)
qed (simp add: amount_def qty_def)

lemma qty_PodLimits: "qty (PodLimits spec) n = limitOf n spec"
  by (simp add: PodLimits_def qty_addLimits limitOf_def qty_def [of "[]"])

lemma amount_PodLimits: "amount n (PodLimits spec) = limitOf n spec"
  by (simp add: amount_distinct PodLimits_def distinct_addLimits flip: qty_PodLimits)

lemma qty_usedCompute: "qty (usedCompute ds) n = sum_list (map (computeOf n) ds)"
proof -
  have "qty (fold (\<lambda>dp used. case ds_Pod (dp_Spec dp) of
             Some pw \<Rightarrow> if ds_Running (dp_Spec dp) then fold addQty (PodLimits (pw_Spec pw)) used else used | None \<Rightarrow> used) ds acc) n =
      qty acc n + sum_list (map (computeOf n) ds)" for acc
    by (induction ds arbitrary: acc) (simp_all add: computeOf_def qty_fold_addQty amount_PodLimits split: option.splits)
  then show ?thesis by (simp add: usedCompute_def qty_def [of "[]"])
qed

lemma usedStorage_eq: "usedStorage ds = sum_list (map sizeOf ds)"
proof -
  have "fold (\<lambda>dp used. used + sizeOf dp) ds acc = acc + sum_list (map sizeOf ds)" for acc
    by (induction ds arbitrary: acc) simp_all
  then show ?thesis by (simp add: usedStorage_def)
qed

text \<open>A set of DevPods within a quota.\<close>

definition within :: "user_quota \<Rightarrow> devpod list \<Rightarrow> bool" where
  "within q ds \<longleftrightarrow>
     (\<forall>m. q_MaxDevPods q = Some m \<longrightarrow> int (length ds) \<le> sint m) \<and>
     (\<forall>c. q_Compute q = Some c \<longrightarrow> (\<forall>n\<in>fst ` set c. sum_list (map (computeOf n) ds) \<le> qty c n)) \<and>
     (\<forall>l. q_Storage q = Some l \<longrightarrow> sum_list (map sizeOf ds) \<le> l)"

definition computes :: "devpod \<Rightarrow> bool" where
  "computes dp \<longleftrightarrow> ds_Running (dp_Spec dp) \<and> ds_Pod (dp_Spec dp) \<noteq> None"

lemma count_ok:
  assumes "length ds < 2 ^ 31 - 1"
  shows "countViolations q ds = [] \<longleftrightarrow> (\<forall>m. q_MaxDevPods q = Some m \<longrightarrow> int (length ds) + 1 \<le> sint m)"
proof -
  have "sint (of_nat (length ds) + 1 :: int32) = int (length ds) + 1"
    using sint_of_nat_int32 [of "Suc (length ds)"] assms by (simp add: add.commute)
  then show ?thesis by (auto simp: countViolations_def split: option.splits)
qed

lemma concat_if_Nil: "concat (map (\<lambda>x. if P x then [f x] else []) xs) = [] \<longleftrightarrow> (\<forall>x\<in>set xs. \<not> P x)"
  by (induction xs) auto

lemma computeViolations_Nil:
  "computeViolations qstr c used req = [] \<longleftrightarrow> (\<forall>n\<in>fst ` set c. qty used n + qty req n \<le> qty c n)"
  by (auto simp: computeViolations_def concat_if_Nil simp del: concat_eq_Nil_conv)

text \<open>The check, as a statement about sums.\<close>

lemma CheckQuota_Nil:
  assumes "length ds < 2 ^ 31 - 1"
  shows "CheckQuota qstr q ds dp = [] \<longleftrightarrow>
     (\<forall>m. q_MaxDevPods q = Some m \<longrightarrow> int (length ds) + 1 \<le> sint m) \<and>
     (\<forall>c. q_Compute q = Some c \<and> computes dp \<longrightarrow> (\<forall>n\<in>fst ` set c. sum_list (map (computeOf n) ds) + computeOf n dp \<le> qty c n)) \<and>
     (\<forall>l. q_Storage q = Some l \<longrightarrow> sum_list (map sizeOf ds) + sizeOf dp \<le> l)"
proof -
  have "(case (q_Compute q, ds_Pod (dp_Spec dp)) of
        (Some compute, Some pw) \<Rightarrow> if compute \<noteq> [] \<and> ds_Running (dp_Spec dp)
          then computeViolations qstr compute (usedCompute ds) (PodLimits (pw_Spec pw)) else []
      | _ \<Rightarrow> []) = [] \<longleftrightarrow>
    (\<forall>c. q_Compute q = Some c \<and> computes dp \<longrightarrow> (\<forall>n\<in>fst ` set c. sum_list (map (computeOf n) ds) + computeOf n dp \<le> qty c n))"
    by (auto simp: computes_def computeViolations_Nil qty_usedCompute qty_PodLimits computeOf_def split: option.splits)
  moreover have "storageViolations qstr q ds dp = [] \<longleftrightarrow> (\<forall>l. q_Storage q = Some l \<longrightarrow> sum_list (map sizeOf ds) + sizeOf dp \<le> l)"
    by (auto simp: storageViolations_def usedStorage_eq split: option.splits)
  ultimately show ?thesis by (simp add: CheckQuota_def count_ok [OF assms])
qed

text \<open>
  The web UI's operations on one user's DevPods, one at a time: creating and waking pass the check against the
  others, stopping and deleting need none.
\<close>

inductive quota_step :: "(quantity \<Rightarrow> string) \<Rightarrow> user_quota \<Rightarrow> devpod list \<Rightarrow> devpod list \<Rightarrow> bool" for qstr q where
  quota_create: "CheckQuota qstr q ds dp = [] \<Longrightarrow> quota_step qstr q ds (ds @ [dp])"
| quota_wake: "CheckQuota qstr q (xs @ ys) dp' = [] \<Longrightarrow> dp' = dp\<lparr>dp_Spec := (dp_Spec dp)\<lparr>ds_Running := True\<rparr>\<rparr> \<Longrightarrow>
    quota_step qstr q (xs @ dp # ys) (xs @ dp' # ys)"
| quota_sleep: "quota_step qstr q (xs @ dp # ys) (xs @ dp\<lparr>dp_Spec := (dp_Spec dp)\<lparr>ds_Running := False\<rparr>\<rparr> # ys)"
| quota_delete: "quota_step qstr q (xs @ dp # ys) (xs @ ys)"




lemma computeOf_sleep [simp]: "computeOf n (dp\<lparr>dp_Spec := (dp_Spec dp)\<lparr>ds_Running := False\<rparr>\<rparr>) = 0"
  by (simp add: computeOf_def split: option.splits)

lemma sizeOf_running [simp]: "sizeOf (dp\<lparr>dp_Spec := (dp_Spec dp)\<lparr>ds_Running := b\<rparr>\<rparr>) = sizeOf dp"
  by (simp add: sizeOf_def)







text \<open>What a template can put on a DevPod, and what it leaves alone.\<close>

lemma keys_overlay: "fst ` set (overlay m upd) = fst ` set m \<union> fst ` set upd"
  unfolding overlay_def by (induction upd arbitrary: m) (auto simp: dom_update split: prod.splits)

definition podAnnotations :: "devpod \<Rightarrow> string set" where
  "podAnnotations dp = (case ds_Pod (dp_Spec dp) of None \<Rightarrow> {} | Some pw \<Rightarrow> fst ` set (pm_Annotations (pw_Metadata pw)))"

definition templateAnnotations :: "devpod_template \<Rightarrow> string set" where
  "templateAnnotations tpl =
     (case ts_PodPreset (tpl_Spec tpl) of None \<Rightarrow> {} | Some p \<Rightarrow> fst ` set (pm_Annotations (pw_Metadata (pp_Pod p)))) \<union>
     (case ts_Binding (tpl_Spec tpl) of None \<Rightarrow> {} | Some b \<Rightarrow> fst ` set (b_Annotations b))"

lemma applyPreset_spec:
  "applyPreset t p dp = Inr dp' \<Longrightarrow> ds_Pod (dp_Spec dp) = None \<and> ds_Pod (dp_Spec dp') = Some (pp_Pod p) \<and>
     dp_Meta dp' = dp_Meta dp \<and> dp_Owner dp' = dp_Owner dp \<and> ds_VM (dp_Spec dp') = ds_VM (dp_Spec dp) \<and>
     ds_Running (dp_Spec dp') = ds_Running (dp_Spec dp)"
  by (auto simp: applyPreset_def split: if_splits)

lemma applyBinding_spec:
  "applyBinding qstr t b dp = Inr dp' \<Longrightarrow> ValidateBinding qstr (Some b) = None \<and>
     podAnnotations dp' = podAnnotations dp \<union> fst ` set (b_Annotations b) \<and>
     dp_Meta dp' = dp_Meta dp \<and> dp_Owner dp' = dp_Owner dp \<and> ds_VM (dp_Spec dp') = ds_VM (dp_Spec dp) \<and>
     ds_Running (dp_Spec dp') = ds_Running (dp_Spec dp)"
  by (simp add: applyBinding_def Let_def split: option.splits if_splits) (clarsimp simp: podAnnotations_def keys_overlay)+

lemma ApplyTemplate_spec:
  assumes "ApplyTemplate qstr dp tpl = Inr dp'"
  shows "podAnnotations dp' \<subseteq> podAnnotations dp \<union> templateAnnotations tpl"
    "dp_Meta dp' = dp_Meta dp" "dp_Owner dp' = dp_Owner dp" "ds_VM (dp_Spec dp') = ds_VM (dp_Spec dp)"
    "ds_Running (dp_Spec dp') = ds_Running (dp_Spec dp)"
    "\<And>b. ts_Binding (tpl_Spec tpl) = Some b \<Longrightarrow> ValidateBinding qstr (Some b) = None"
  using assms
  by (auto simp: ApplyTemplate_def templateAnnotations_def split: option.splits sum.splits if_splits
      dest!: applyPreset_spec applyBinding_spec) (auto simp: podAnnotations_def)

subsection \<open>Properties\<close>



text \<open>
  The check takes negative quantities at face value, and the must-declare-limits rule asks only for non-zero
  ones: a DevPod with negative limits lowers the sum, and under its cover one that exceeds the quota
  by itself is accepted and stays when the cover is deleted.
\<close>

theorem quota_negative_bypass:
  "\<exists>q ds dp. within q [] \<and> (quota_step qstr q)\<^sup>*\<^sup>* [] ds \<and> ds = [dp] \<and>
     (\<exists>pw. ds_Pod (dp_Spec dp) = Some pw \<and> RequireLimits (pw_Spec pw) = None) \<and> \<not> within q ds"
proof -
  define mk where "mk n = devpod0\<lparr>dp_Spec := devpod_spec0\<lparr>ds_Running := True, ds_Pod := Some
      \<lparr>pw_Metadata = \<lparr>pm_Labels = [], pm_Annotations = []\<rparr>,
       pw_Spec = pod_spec0\<lparr>ps_Containers := [container0\<lparr>c_Resources := \<lparr>rr_Requests = [], rr_Limits = [(''cpu'', n), (''memory'', 1)]\<rparr>\<rparr>]\<rparr>\<rparr>\<rparr>\<rparr>"
    for n :: int
  let ?q = "\<lparr>q_MaxDevPods = None, q_Compute = Some [(''cpu'', 10)], q_Storage = None\<rparr>"
  have run: "computes (mk n)" "computeOf ''cpu'' (mk n) = n" "sizeOf (mk n) = 0" for n
    by (simp_all add: mk_def computes_def computeOf_def limitOf_def amount_def pod_spec0_def sizeOf_def devpod_spec0_def)
  have "quota_step qstr ?q [] ([] @ [mk (- 90)])"
    by (rule quota_create) (subst CheckQuota_Nil; simp add: run qty_def)
  moreover have "quota_step qstr ?q [mk (- 90)] ([mk (- 90)] @ [mk 90])"
    by (rule quota_create) (subst CheckQuota_Nil; simp add: run qty_def)
  moreover have "quota_step qstr ?q ([] @ mk (- 90) # [mk 90]) ([] @ [mk 90])" by (rule quota_delete)
  ultimately have "(quota_step qstr ?q)\<^sup>*\<^sup>* [] [mk 90]"
    by (simp add: converse_rtranclp_into_rtranclp)
  moreover have "\<exists>pw. ds_Pod (dp_Spec (mk 90)) = Some pw \<and> RequireLimits (pw_Spec pw) = None"
    by (simp add: mk_def RequireLimits_def requireLimitsIn_def qty_def pod_spec0_def)
  moreover have "within ?q []" "\<not> within ?q [mk 90]" by (simp_all add: within_def run qty_def)
  ultimately show ?thesis by blast
qed





end
