(* ===== verification/Webui_Session.thy ===== *)
theory Webui_Session
  imports Encoding
begin

section \<open>Session tokens of the web UI\<close>

text \<open>
  \<open>src/internal/webui/session.go\<close>: a session is a JSON object with user, administrator bit and expiry,
  encoded and signed with a keyed hash.  The hash, \<open>crypto/hmac\<close> over \<open>crypto/sha256\<close>, is the
  argument \<open>hmac key payload\<close>; nothing is assumed of it for the round trip, and the theorem on forged
  tokens names the one hypothesis it needs.  Times are nanoseconds since the epoch.
\<close>

record session =
  se_User :: string
  se_Admin :: bool
  se_Expiry :: int

record session_manager =
  sm_key :: string
  sm_ttl :: duration

type_synonym hmac_fn = "string \<Rightarrow> string \<Rightarrow> string"

definition SessionCookie :: string where "SessionCookie = ''devpod_session''"

definition NewSessionManager :: "string \<Rightarrow> duration \<Rightarrow> session_manager" where
  "NewSessionManager key ttl = \<lparr>sm_key = key, sm_ttl = ttl\<rparr>"

definition TTL :: "session_manager \<Rightarrow> duration" where
  "TTL m = sm_ttl m"

definition time_Unix :: "timestamp \<Rightarrow> int" where
  "time_Unix t = t div Second"

definition sign :: "hmac_fn \<Rightarrow> session_manager \<Rightarrow> string \<Rightarrow> string" where
  "sign hmac m payload = rawurl_EncodeToString (hmac (sm_key m) payload)"

definition session_json :: "session \<Rightarrow> json" where
  "session_json s = JObj [(''u'', JStr (se_User s)), (''a'', JBool (se_Admin s)), (''e'', JNum (se_Expiry s))]"

definition payloadOf :: "session \<Rightarrow> string" where
  "payloadOf s = rawurl_EncodeToString (json_Marshal (session_json s))"

definition Mint :: "hmac_fn \<Rightarrow> session_manager \<Rightarrow> string \<Rightarrow> bool \<Rightarrow> timestamp \<Rightarrow> string" where
  "Mint hmac m user admin now =
     (let payload = payloadOf \<lparr>se_User = user, se_Admin = admin, se_Expiry = time_Unix (now + sm_ttl m)\<rparr>
      in payload @ ''.'' @ sign hmac m payload)"

text \<open>
  Decoding into the struct: keys match up to case, unknown keys are skipped, a later member overrides
  an earlier one, and a value of the wrong type is an error.
\<close>

definition setSessionField :: "string \<times> json \<Rightarrow> session \<Rightarrow> session option" where
  "setSessionField kv s =
     (if fst kv \<in> {''u'', ''U''} then (case snd kv of JStr x \<Rightarrow> Some (s\<lparr>se_User := x\<rparr>) | _ \<Rightarrow> None)
      else if fst kv \<in> {''a'', ''A''} then (case snd kv of JBool b \<Rightarrow> Some (s\<lparr>se_Admin := b\<rparr>) | _ \<Rightarrow> None)
      else if fst kv \<in> {''e'', ''E''} then (case snd kv of JNum i \<Rightarrow> Some (s\<lparr>se_Expiry := i\<rparr>) | _ \<Rightarrow> None)
      else Some s)"

fun setSessionFields :: "(string \<times> json) list \<Rightarrow> session \<Rightarrow> session option" where
  "setSessionFields [] s = Some s"
| "setSessionFields (kv # kvs) s = (case setSessionField kv s of None \<Rightarrow> None | Some s' \<Rightarrow> setSessionFields kvs s')"

definition session0 :: session where
  "session0 = \<lparr>se_User = [], se_Admin = False, se_Expiry = 0\<rparr>"

definition unmarshalSession :: "string \<Rightarrow> session option" where
  "unmarshalSession raw = (case json_Unmarshal raw of None \<Rightarrow> None | Some kvs \<Rightarrow> setSessionFields kvs session0)"

definition ErrSession :: "string \<Rightarrow> go_error" where
  "ErrSession what = Errorf what [] None"

definition Verify :: "hmac_fn \<Rightarrow> session_manager \<Rightarrow> string \<Rightarrow> timestamp \<Rightarrow> go_error + session" where
  "Verify hmac m token now =
     (case Cut token (CHR ''.'') of
        None \<Rightarrow> Inl (ErrSession ''malformed session token'')
      | Some (payload, sig) \<Rightarrow>
          (case rawurl_DecodeString sig of
             None \<Rightarrow> Inl (ErrSession ''malformed session signature'')
           | Some want \<Rightarrow>
               if hmac (sm_key m) payload \<noteq> want then Inl (ErrSession ''invalid session signature'')
               else case rawurl_DecodeString payload of
                      None \<Rightarrow> Inl (ErrSession ''malformed session payload'')
                    | Some raw \<Rightarrow>
                        (case unmarshalSession raw of
                           None \<Rightarrow> Inl (ErrSession ''malformed session payload: %w'')
                         | Some s \<Rightarrow>
                             if se_Expiry s \<le> time_Unix now then Inl (ErrSession ''session expired'') else Inr s)))"

subsection \<open>The interface the handlers rely on\<close>

text \<open>
  What a login path may assume of the tokens it hands out.  Expiries are 64-bit seconds after the epoch.
\<close>

definition expires :: "duration \<Rightarrow> timestamp \<Rightarrow> int" where
  "expires ttl now = time_Unix (now + ttl)"

definition datable :: "int \<Rightarrow> bool" where
  "datable e \<longleftrightarrow> 0 \<le> e \<and> e < 2 ^ 63"

locale session_tokens =
  fixes mint :: "string \<Rightarrow> bool \<Rightarrow> timestamp \<Rightarrow> string"
    and verify :: "string \<Rightarrow> timestamp \<Rightarrow> go_error + session"
    and ttl :: duration
  assumes verify_mint:
    "datable (expires ttl now) \<Longrightarrow>
     verify (mint u a now) t =
       (if expires ttl now \<le> time_Unix t then Inl (ErrSession ''session expired'')
        else Inr \<lparr>se_User = u, se_Admin = a, se_Expiry = expires ttl now\<rparr>)"
begin

lemma mint_determines:
  assumes "mint u a now = mint u' a' now'" "datable (expires ttl now)" "datable (expires ttl now')"
  shows "u = u' \<and> a = a' \<and> expires ttl now = expires ttl now'"
proof -
  let ?t = "- Second"
  have "time_Unix ?t < expires ttl now" "time_Unix ?t < expires ttl now'"
    using assms(2,3) by (simp_all add: datable_def time_Unix_def)
  with verify_mint [OF assms(2), of u a ?t] verify_mint [OF assms(3), of u' a' ?t] assms(1)
  show ?thesis by simp
qed

lemma valid_until_expiry:
  assumes "datable (expires ttl now)"
  shows "(\<exists>s. verify (mint u a now) t = Inr s) \<longleftrightarrow> time_Unix t < expires ttl now"
  using verify_mint [OF assms, of u a t] by auto

end

lemma unmarshal_session:
  assumes "datable (se_Expiry s)"
  shows "unmarshalSession (json_Marshal (session_json s)) = Some s"
proof -
  have "json_Unmarshal (json_Marshal (session_json s)) =
      Some [(''u'', JStr (se_User s)), (''a'', JBool (se_Admin s)), (''e'', JNum (se_Expiry s))]"
    unfolding session_json_def using assms by (intro json_Unmarshal_Marshal) (auto simp: datable_def)
  then show ?thesis by (simp add: unmarshalSession_def setSessionField_def)
qed

lemma decode_payloadOf:
  "datable (se_Expiry s) \<Longrightarrow> \<exists>raw. rawurl_DecodeString (payloadOf s) = Some raw \<and> unmarshalSession raw = Some s"
  by (simp add: payloadOf_def rawurl_round_trip unmarshal_session)

lemma payloadOf_no_dot: "CHR ''.'' \<notin> set (payloadOf s)"
  by (simp add: payloadOf_def rawurl_no_dot)

text \<open>A token with a right signature over an honest payload verifies as that payload says.\<close>

lemma Verify_honest:
  assumes "datable (se_Expiry s)" "rawurl_DecodeString sig = Some (hmac (sm_key m) (payloadOf s))"
  shows "Verify hmac m (payloadOf s @ ''.'' @ sig) t =
    (if se_Expiry s \<le> time_Unix t then Inl (ErrSession ''session expired'') else Inr s)"
proof -
  obtain raw where "rawurl_DecodeString (payloadOf s) = Some raw" "unmarshalSession raw = Some s"
    using decode_payloadOf [OF assms(1)] by blast
  with assms(2) payloadOf_no_dot show ?thesis by (simp add: Verify_def)
qed

lemma Verify_Mint:
  assumes "datable (expires (sm_ttl m) now)"
  shows "Verify hmac m (Mint hmac m u a now) t =
    (if expires (sm_ttl m) now \<le> time_Unix t then Inl (ErrSession ''session expired'')
     else Inr \<lparr>se_User = u, se_Admin = a, se_Expiry = expires (sm_ttl m) now\<rparr>)"
  using assms Verify_honest [of "\<lparr>se_User = u, se_Admin = a, se_Expiry = expires (sm_ttl m) now\<rparr>"]
  by (simp add: Mint_def sign_def rawurl_round_trip expires_def Let_def)

interpretation tok: session_tokens "Mint hmac m" "Verify hmac m" "sm_ttl m" for hmac m
  by unfold_locales (rule Verify_Mint)

lemma Verify_InrD:
  assumes "Verify hmac m token now = Inr s"
  obtains payload sig where "token = payload @ ''.'' @ sig" "CHR ''.'' \<notin> set payload"
    "rawurl_DecodeString sig = Some (hmac (sm_key m) payload)" "time_Unix now < se_Expiry s"
  using assms by (auto simp: Verify_def Cut_Some_iff split: option.splits if_splits prod.splits)

subsection \<open>Properties\<close>

text \<open>
  C26. A minted token verifies, until its time to live has passed and not a second longer, to exactly the user
  and administrator bit it was minted for, through JSON, base64 and signature; two tokens are equal
  only if they say the same.
\<close>

theorem session_token_round_trip:
  assumes "datable (expires (sm_ttl m) now)"
  shows "Verify hmac m (Mint hmac m u a now) t =
      (if time_Unix t < expires (sm_ttl m) now
       then Inr \<lparr>se_User = u, se_Admin = a, se_Expiry = expires (sm_ttl m) now\<rparr>
       else Inl (ErrSession ''session expired'')) \<and>
    (Mint hmac m u a now = Mint hmac m u' a' now \<longleftrightarrow> u = u' \<and> a = a')"
  using tok.verify_mint [OF assms, of hmac u a t] tok.mint_determines [of hmac m u a now u' a' now] assms by auto

theorem session_token_round_trip_witness:
  "Verify (\<lambda>k p. k) \<lparr>sm_key = ''key'', sm_ttl = 5 * Second\<rparr> (Mint (\<lambda>k p. k) \<lparr>sm_key = ''key'', sm_ttl = 5 * Second\<rparr> ''bob'' False (7 * Second)) (11 * Second) =
     Inr \<lparr>se_User = ''bob'', se_Admin = False, se_Expiry = 12\<rparr>"
  using session_token_round_trip [of "\<lparr>sm_key = ''key'', sm_ttl = 5 * Second\<rparr>" "7 * Second" "\<lambda>k p. k" "''bob''" False "11 * Second"]
  by (simp add: expires_def time_Unix_def datable_def)

text \<open>
  C27. A session cannot be made up or changed.  Let \<open>known\<close> be the signatures a client can have: if among them
  the only ones over the server's key are those of sessions the server has issued, then every token
  the server accepts carries one of the issued sessions, unchanged, before its expiry.
\<close>

theorem session_only_issued:
  assumes unforgeable: "\<And>p. hmac (sm_key m) p \<in> known \<Longrightarrow> p \<in> payloadOf ` issued"
    and honest: "\<And>s. s \<in> issued \<Longrightarrow> datable (se_Expiry s)"
    and sent: "\<And>payload sig x. token = payload @ ''.'' @ sig \<Longrightarrow> rawurl_DecodeString sig = Some x \<Longrightarrow> x \<in> known"
    and accepted: "Verify hmac m token now = Inr s"
  shows "s \<in> issued \<and> time_Unix now < se_Expiry s"
proof -
  from accepted obtain payload sig where t: "token = payload @ ''.'' @ sig"
    and sig: "rawurl_DecodeString sig = Some (hmac (sm_key m) payload)" and "time_Unix now < se_Expiry s"
    by (rule Verify_InrD)
  from sent [OF t sig] unforgeable obtain s' where s': "s' \<in> issued" "payload = payloadOf s'" by blast
  from accepted Verify_honest [OF honest [OF s'(1)], of sig hmac m now] sig have "s = s'"
    by (simp add: t s'(2) split: if_splits)
  with s' \<open>time_Unix now < se_Expiry s\<close> show ?thesis by simp
qed

definition ex_issued :: session where
  "ex_issued = \<lparr>se_User = ''bob'', se_Admin = False, se_Expiry = 12\<rparr>"

definition ex_mac :: hmac_fn where
  "ex_mac k p = (if p = payloadOf ex_issued then ''good'' else ''bad'')"

theorem session_only_issued_witness: "ex_issued \<in> {ex_issued} \<and> time_Unix (11 * Second) < se_Expiry ex_issued"
proof (rule session_only_issued [of ex_mac "\<lparr>sm_key = ''key'', sm_ttl = 0\<rparr>" "{''good''}"])
  let ?m = "\<lparr>sm_key = ''key'', sm_ttl = 0\<rparr>"
  let ?sig = "rawurl_EncodeToString ''good''"
  show "Verify ex_mac ?m (payloadOf ex_issued @ ''.'' @ ?sig) (11 * Second) = Inr ex_issued"
    by (subst Verify_honest) (simp_all add: ex_issued_def ex_mac_def datable_def time_Unix_def rawurl_round_trip del: rawurl_EncodeToString.simps)
  fix payload sig x
  assume eq: "payloadOf ex_issued @ ''.'' @ ?sig = payload @ ''.'' @ sig" and x: "rawurl_DecodeString sig = Some x"
  have "sig = ?sig"
  proof (cases "CHR ''.'' \<in> set payload")
    case False
    with eq payloadOf_no_dot [of ex_issued] show ?thesis
      by (metis Cut_append append_Cons append_Nil option.inject prod.inject)
  next
    case True
    then obtain a b where p: "payload = a @ CHR ''.'' # b" "CHR ''.'' \<notin> set a" by (metis split_list_first)
    with eq have "payloadOf ex_issued @ CHR ''.'' # ?sig = a @ CHR ''.'' # (b @ CHR ''.'' # sig)" by simp
    with p(2) payloadOf_no_dot [of ex_issued] have "?sig = b @ CHR ''.'' # sig"
      by (metis Cut_append option.inject prod.inject)
    with rawurl_no_dot [of "''good''"] show ?thesis by (metis in_set_conv_decomp)
  qed
  with x show "x \<in> {''good''}" by (simp add: rawurl_round_trip del: rawurl_EncodeToString.simps)
qed (auto simp: ex_mac_def ex_issued_def datable_def split: if_splits)

end
