(* ===== verification/Webui_Server.thy ===== *)
theory Webui_Server
  imports Webui_Quota Webui_Session Kube_Client
begin

section \<open>The web UI server: requests, answers and the DevPod API\<close>

text \<open>
  \<open>src/internal/webui/api_devpods.go\<close>: the server's state, the session check, the ownership check and the
  handlers for DevPods.  A handler is a program over the API client.  A step that may already have
  written the answer, in Go a result with \<open>ok == false\<close>, is a program with result \<open>response + 'a\<close>:
  \<open>Inl\<close> is the answer written, and \<open>andThen\<close> goes on only on \<open>Inr\<close>.

  Request bodies enter decoded: \<open>Inl e\<close> when the JSON decoder reports \<open>e\<close>.  The functions of other
  packages are the record \<open>libs\<close>.
\<close>

record 's libs =
  lib_hmac :: hmac_fn
  lib_QuantityString :: "quantity \<Rightarrow> string"
  lib_ParseQuantity :: "string \<Rightarrow> go_error + quantity"
  lib_yamlUnmarshalStrict :: "string \<Rightarrow> go_error + devpod"
  lib_GenerateFromPassword :: "string \<Rightarrow> 's \<Rightarrow> (go_error + string) \<times> 's"
  lib_CompareHashAndPassword :: "string \<Rightarrow> string \<Rightarrow> go_error option"
  lib_ParseAuthorizedKey :: "string \<Rightarrow> go_error option"
  lib_rand :: "'s \<Rightarrow> string \<times> 's"
  lib_GenerateVerifier :: "'s \<Rightarrow> string \<times> 's"
  lib_AuthCodeURL :: "string \<Rightarrow> string \<Rightarrow> string"
  lib_Exchange :: "string \<Rightarrow> string \<Rightarrow> 's \<Rightarrow> (go_error + string option) \<times> 's"
  lib_VerifyIDToken :: "string \<Rightarrow> 's \<Rightarrow> (go_error + (go_error + string)) \<times> 's"

record oauth =
  oa_prefix :: string
  oa_admins :: "string list"
  oa_sessions :: session_manager
  oa_secure :: bool

record server =
  sv_NS :: string
  sv_Sessions :: session_manager
  sv_OAuth :: "oauth option"
  sv_DefaultQuota :: user_quota
  sv_KoreEnabled :: bool
  sv_Origin :: string
  sv_PubkeySelfService :: bool
  sv_SSHHost :: string
  sv_SSHPort :: int
  sv_SSHLoginSuffix :: string
  sv_PasswordAuth :: bool
  sv_PasswordMinLength :: int
  sv_Admins :: "string list"
  sv_SecureCookies :: bool

subsection \<open>Answers\<close>

record cookie =
  ck_Name :: string
  ck_Value :: string
  ck_Path :: string
  ck_MaxAge :: int
  ck_Secure :: bool

record binding_info =
  bi_AllocatedCpuset :: string
  bi_ReservedNUMA :: string
  bi_Pool :: string
  bi_PoolSize :: string

record usage_info =
  ui_DevPods :: nat
  ui_Running :: nat
  ui_Compute :: smap
  ui_Storage :: string

record me_info =
  me_User :: string
  me_Admin :: bool
  me_NameBudget :: int
  me_Quota :: user_quota
  me_Usage :: usage_info
  me_HasPassword :: bool

record admin_user =
  au_Name :: string
  au_DisplayName :: string
  au_Admin :: bool
  au_HasPassword :: bool
  au_DevPods :: nat
  au_Running :: nat
  au_CPU :: string
  au_Memory :: string
  au_GPU :: string
  au_Storage :: string
  au_Quota :: "user_quota option"

record admin_devpod =
  ad_Name :: string
  ad_Owner :: string
  ad_Phase :: string
  ad_Running :: bool
  ad_CPU :: string
  ad_Memory :: string
  ad_Storage :: string

datatype detail = NoDetail | Keys "string list" | Violations "quota_violation list" | ErrText go_error

datatype payload =
    NoBody
  | ErrBody string go_error detail
  | TextBody string "go_error option"
  | RedirectTo string
  | DevPodBody devpod
  | DevPodsBody "devpod list"
  | DetailBody devpod "binding_info option"
  | TemplatesBody "devpod_template list"
  | MeBody me_info
  | PubkeysBody "string list"
  | UserBody string
  | AuthConfigBody bool bool
  | UsersBody "admin_user list" user_quota
  | AdminUserBody admin_user
  | AdminDevPodsBody "admin_devpod list"

record response =
  rs_Status :: nat
  rs_Body :: payload
  rs_Cookies :: "cookie list"

definition writeJSON :: "nat \<Rightarrow> payload \<Rightarrow> response" where
  "writeJSON status v = \<lparr>rs_Status = status, rs_Body = v, rs_Cookies = []\<rparr>"

definition writeErr :: "nat \<Rightarrow> string \<Rightarrow> go_error \<Rightarrow> detail \<Rightarrow> response" where
  "writeErr status code msg det = writeJSON status (ErrBody code msg det)"

abbreviation msg :: "string \<Rightarrow> go_error" where "msg s \<equiv> ErrSentinel s"

definition internalError :: "api_error \<Rightarrow> response" where
  "internalError e = writeErr 500 ''INTERNAL'' (ErrApi e) NoDetail"

definition badRequest :: "go_error \<Rightarrow> response" where
  "badRequest e = writeErr 400 ''BAD_REQUEST'' e NoDetail"

definition malformedBody :: "go_error \<Rightarrow> response" where
  "malformedBody e = badRequest (Errorf ''malformed request body: %v'' [] (Some e))"

subsection \<open>Programs that may have answered\<close>

definition andThen :: "('s, 'e + 'a) prog \<Rightarrow> ('a \<Rightarrow> ('s, 'e + 'b) prog) \<Rightarrow> ('s, 'e + 'b) prog" where
  "andThen m f = State_Monad.bind m (\<lambda>r. case r of Inl x \<Rightarrow> State_Monad.return (Inl x) | Inr a \<Rightarrow> f a)"

definition answer :: "response \<Rightarrow> ('s, response + 'a) prog" where
  "answer r = State_Monad.return (Inl r)"

definition go_on :: "'a \<Rightarrow> ('s, 'e + 'a) prog" where
  "go_on a = State_Monad.return (Inr a)"

definition guard_ok :: "bool \<Rightarrow> response \<Rightarrow> ('s, response + unit) prog" where
  "guard_ok b r = (if b then go_on () else answer r)"

definition lift_sum :: "('e \<Rightarrow> response) \<Rightarrow> 'e + 'a \<Rightarrow> ('s, response + 'a) prog" where
  "lift_sum f r = (case r of Inl e \<Rightarrow> answer (f e) | Inr a \<Rightarrow> go_on a)"

definition written :: "('s, response + response) prog \<Rightarrow> ('s, response) prog" where
  "written m = State_Monad.bind m (\<lambda>r. State_Monad.return (case r of Inl x \<Rightarrow> x | Inr x \<Rightarrow> x))"

subsection \<open>Sessions and ownership\<close>

definition sessionFrom :: "'s kube \<Rightarrow> 's libs \<Rightarrow> server \<Rightarrow> string option \<Rightarrow> ('s, response + session) prog" where
  "sessionFrom K L sv tok =
     (case tok of
        None \<Rightarrow> answer (writeErr 401 ''UNAUTHORIZED'' (msg ''not logged in'') NoDetail)
      | Some t \<Rightarrow> do {
          now \<leftarrow> api EvNow (k_now K);
          lift_sum (\<lambda>e. writeErr 401 ''UNAUTHORIZED'' e NoDetail) (Verify (lib_hmac L) (sv_Sessions sv) t now) })"

definition ownedOf :: "string \<Rightarrow> devpod list \<Rightarrow> devpod list" where
  "ownedOf owner ds = sort_key dp_Name (filter (\<lambda>dp. dp_Owner dp = owner) ds)"

definition ownedDevPods :: "'s kube \<Rightarrow> server \<Rightarrow> string \<Rightarrow> ('s, api_error + devpod list) prog" where
  "ownedDevPods K sv owner = do {
     l \<leftarrow> api (EvListDevPods (Some (sv_NS sv))) (k_list_devpods K (Some (sv_NS sv)));
     State_Monad.return (case l of Inl e \<Rightarrow> Inl e | Inr ds \<Rightarrow> Inr (ownedOf owner ds)) }"

definition getOwned :: "'s kube \<Rightarrow> server \<Rightarrow> session \<Rightarrow> string \<Rightarrow> ('s, response + devpod) prog" where
  "getOwned K sv sess name = do {
     r \<leftarrow> api (EvGetDevPod (sv_NS sv, name)) (k_get_devpod K (sv_NS sv, name));
     (case r of
        Inl e \<Rightarrow>
          if e = NotFound then answer (writeErr 404 ''NOT_FOUND'' (msg ''devpod not found'') NoDetail)
          else answer (internalError e)
      | Inr dp \<Rightarrow>
          if dp_Owner dp \<noteq> se_User sess \<and> \<not> se_Admin sess
          then answer (writeErr 404 ''NOT_FOUND'' (msg ''devpod not found'') NoDetail)
          else go_on dp) }"

definition offendingKeys :: "devpod \<Rightarrow> string list" where
  "offendingKeys dp =
     KoreAnnotationKeys (meta_Annotations (dp_Meta dp)) @
     (case ds_Pod (dp_Spec dp) of None \<Rightarrow> [] | Some pw \<Rightarrow> KoreAnnotationKeys (pm_Annotations (pw_Metadata pw)))"

definition rejectKore :: "session \<Rightarrow> devpod \<Rightarrow> ('s, response + unit) prog" where
  "rejectKore sess dp =
     (if se_Admin sess then go_on ()
      else guard_ok (offendingKeys dp = [])
             (writeErr 403 ''KORE_ANNOTATIONS_FORBIDDEN''
                (msg ''CPU-binding annotations can only come from a template (pick one via templateRef)'') (Keys (offendingKeys dp))))"

text \<open>Any error of the read means that the defaults apply.\<close>

definition userPtr :: "api_error + user \<Rightarrow> user option" where
  "userPtr r = (case r of Inl _ \<Rightarrow> None | Inr u \<Rightarrow> Some u)"

definition checkQuotaFor ::
  "'s kube \<Rightarrow> 's libs \<Rightarrow> server \<Rightarrow> session \<Rightarrow> devpod \<Rightarrow> string \<Rightarrow> ('s, response + unit) prog" where
  "checkQuotaFor K L sv sess proposed exclude =
     (if se_Admin sess then go_on ()
      else do {
        u \<leftarrow> api (EvGetUser (se_User sess)) (k_get_user K (se_User sess));
        o' \<leftarrow> ownedDevPods K sv (se_User sess);
        (case o' of
           Inl e \<Rightarrow> answer (internalError e)
         | Inr owned \<Rightarrow>
             let existing = filter (\<lambda>dp. dp_Name dp \<noteq> exclude) owned;
                 vs = CheckQuota (lib_QuantityString L) (EffectiveQuota (userPtr u) (sv_DefaultQuota sv)) existing proposed
             in guard_ok (vs = []) (writeErr 409 ''QUOTA_EXCEEDED'' (msg (QuotaError vs)) (Violations vs))) })"

subsection \<open>Reading\<close>

definition handleListDevPods :: "'s kube \<Rightarrow> 's libs \<Rightarrow> server \<Rightarrow> string option \<Rightarrow> ('s, response) prog" where
  "handleListDevPods K L sv tok = written (
     andThen (sessionFrom K L sv tok) (\<lambda>sess. do {
       r \<leftarrow> ownedDevPods K sv (se_User sess);
       (case r of Inl e \<Rightarrow> answer (internalError e) | Inr items \<Rightarrow> go_on (writeJSON 200 (DevPodsBody items))) }))"

definition bindingInfo :: "'s kube \<Rightarrow> server \<Rightarrow> devpod \<Rightarrow> ('s, binding_info option) prog" where
  "bindingInfo K sv dp =
     (case ds_Pod (dp_Spec dp) of
        None \<Rightarrow> State_Monad.return None
      | Some pw \<Rightarrow>
          let desired = pm_Annotations (pw_Metadata pw);
              info = \<lparr>bi_AllocatedCpuset = [], bi_ReservedNUMA = [],
                      bi_Pool = mget desired (ann ''pool''), bi_PoolSize = mget desired (ann ''pool-size'')\<rparr>
          in if \<not> sv_KoreEnabled sv \<or> KoreAnnotationKeys desired = [] then State_Monad.return None
             else case dst_WorkloadRef (dp_Status dp) of
                    None \<Rightarrow> State_Monad.return (Some info)
                  | Some ref \<Rightarrow>
                      if wr_Kind ref \<noteq> ''Pod'' then State_Monad.return (Some info)
                      else do {
                        p \<leftarrow> api (EvGetPod (sv_NS sv, wr_Name ref)) (k_get_pod K (sv_NS sv, wr_Name ref));
                        State_Monad.return (Some (case p of
                          Inl _ \<Rightarrow> info
                        | Inr pod \<Rightarrow> info\<lparr>bi_AllocatedCpuset := mget (meta_Annotations (pod_Meta pod)) (ann ''allocated-cpuset''),
                                          bi_ReservedNUMA := mget (meta_Annotations (pod_Meta pod)) (ann ''reserved-numa'')\<rparr>)) })"

definition handleGetDevPod :: "'s kube \<Rightarrow> 's libs \<Rightarrow> server \<Rightarrow> string option \<Rightarrow> string \<Rightarrow> ('s, response) prog" where
  "handleGetDevPod K L sv tok name = written (
     andThen (sessionFrom K L sv tok) (\<lambda>sess.
     andThen (getOwned K sv sess name) (\<lambda>dp. do {
       b \<leftarrow> bindingInfo K sv dp;
       go_on (writeJSON 200 (DetailBody dp b)) })))"

subsection \<open>Creating\<close>

record create_request =
  cr_Name :: string
  cr_TemplateRef :: string
  cr_YAML :: string
  cr_Image :: string
  cr_CPU :: string
  cr_Memory :: string
  cr_Shell :: string
  cr_Persistence :: "persistence_spec option"

fun parseLimits :: "'s libs \<Rightarrow> (string \<times> string) list \<Rightarrow> resource_list \<Rightarrow> response + resource_list" where
  "parseLimits L [] limits = Inr limits"
| "parseLimits L ((res, val) # rvs) limits =
     (if val = [] then parseLimits L rvs limits
      else case lib_ParseQuantity L val of
             Inl _ \<Rightarrow> Inl (badRequest (Errorf ''invalid %s quantity %q'' [res, val] None))
           | Inr q \<Rightarrow> parseLimits L rvs (AList.update res q limits))"

definition buildFromYAML :: "'s libs \<Rightarrow> server \<Rightarrow> session \<Rightarrow> string \<Rightarrow> response + devpod" where
  "buildFromYAML L sv sess yaml =
     (case lib_yamlUnmarshalStrict L yaml of
        Inl e \<Rightarrow> Inl (badRequest (Errorf ''invalid YAML: %v'' [] (Some e)))
      | Inr dp0 \<Rightarrow>
          let dp1 = dp0\<lparr>dp_Meta := (dp_Meta dp0)\<lparr>meta_Namespace := sv_NS sv\<rparr>\<rparr>;
              dp = (if dp_Owner dp1 = [] then dp1\<lparr>dp_Spec := (dp_Spec dp1)\<lparr>ds_Owner := se_User sess\<rparr>\<rparr> else dp1)
          in if \<not> se_Admin sess \<and> dp_Owner dp \<noteq> se_User sess
             then Inl (writeErr 403 ''FORBIDDEN'' (msg ''owner must be yourself'') NoDetail)
             else if \<not> se_Admin sess \<and> \<not> HasPrefix (dp_Name dp) (se_User sess @ ''-'')
             then Inl (badRequest (Errorf ''name must start with %q (budget: %d chars after the prefix)''
                         [se_User sess @ ''-'', Itoa (NameBudget (se_User sess))] None))
             else Inr dp)"

definition formPod :: "create_request \<Rightarrow> resource_list \<Rightarrow> pod_workload_spec" where
  "formPod req limits =
     \<lparr>pw_Metadata = \<lparr>pm_Labels = [], pm_Annotations = []\<rparr>,
      pw_Spec = pod_spec0\<lparr>ps_Containers := [container0\<lparr>c_Name := ''dev'', c_Image := cr_Image req,
        c_Resources := \<lparr>rr_Requests = [], rr_Limits = limits\<rparr>\<rparr>]\<rparr>\<rparr>"

definition buildFromForm :: "'s libs \<Rightarrow> server \<Rightarrow> session \<Rightarrow> create_request \<Rightarrow> response + devpod" where
  "buildFromForm L sv sess req =
     (if cr_Name req = [] then Inl (badRequest (msg ''name is required''))
      else let name = se_User sess @ ''-'' @ cr_Name req
           in if int (length name) > MaxDevPodNameLen \<or> \<not> dns1123Label name
              then Inl (badRequest (Errorf ''name %q invalid or too long (max %d chars for the suffix)''
                          [name, Itoa (NameBudget (se_User sess))] None))
              else let dp = devpod0\<lparr>dp_Meta := object_meta0\<lparr>meta_Name := name, meta_Namespace := sv_NS sv\<rparr>,
                                   dp_Spec := devpod_spec0\<lparr>ds_Owner := se_User sess, ds_Running := True,
                                     ds_Shell := cr_Shell req, ds_Persistence := cr_Persistence req\<rparr>\<rparr>
                   in if cr_Image req = [] then Inr dp
                      else case parseLimits L [(''cpu'', cr_CPU req), (''memory'', cr_Memory req)] [] of
                             Inl e \<Rightarrow> Inl e
                           | Inr limits \<Rightarrow> Inr (dp\<lparr>dp_Spec := (dp_Spec dp)\<lparr>ds_Pod := Some (formPod req limits)\<rparr>\<rparr>))"

definition buildDevPod :: "'s libs \<Rightarrow> server \<Rightarrow> session \<Rightarrow> create_request \<Rightarrow> response + devpod" where
  "buildDevPod L sv sess req =
     (if cr_YAML req \<noteq> [] then buildFromYAML L sv sess (cr_YAML req) else buildFromForm L sv sess req)"

definition stampTemplate ::
  "'s kube \<Rightarrow> 's libs \<Rightarrow> server \<Rightarrow> string \<Rightarrow> devpod \<Rightarrow> ('s, response + devpod) prog" where
  "stampTemplate K L sv ref dp =
     (if ref = [] then go_on dp
      else do {
        r \<leftarrow> api (EvGetTemplate ref) (k_get_template K ref);
        (case r of
           Inl _ \<Rightarrow> answer (badRequest (Errorf ''template %q not found'' [ref] None))
         | Inr tpl \<Rightarrow>
             if \<not> sv_KoreEnabled sv \<and> ts_Binding (tpl_Spec tpl) \<noteq> None
             then answer (badRequest (msg ''binding templates are unavailable: Kore is not installed''))
             else lift_sum badRequest (ApplyTemplate (lib_QuantityString L) dp tpl)) })"

definition meterable :: "session \<Rightarrow> devpod \<Rightarrow> ('s, response + unit) prog" where
  "meterable sess dp =
     (if se_Admin sess then go_on ()
      else if ds_VM (dp_Spec dp) \<noteq> None
      then answer (badRequest (msg ''vm workloads cannot be metered for quota; admins only''))
      else case ds_Pod (dp_Spec dp) of
             None \<Rightarrow> answer (badRequest (msg ''spec.pod is required (or pick a preset template)''))
           | Some pw \<Rightarrow> (case RequireLimits (pw_Spec pw) of Some e \<Rightarrow> answer (badRequest e) | None \<Rightarrow> go_on ()))"

definition handleCreateDevPod ::
  "'s kube \<Rightarrow> 's libs \<Rightarrow> server \<Rightarrow> string option \<Rightarrow> go_error + create_request \<Rightarrow> ('s, response) prog" where
  "handleCreateDevPod K L sv tok body = written (
     andThen (sessionFrom K L sv tok) (\<lambda>sess.
     andThen (lift_sum malformedBody body) (\<lambda>req.
     andThen (lift_sum id (buildDevPod L sv sess req)) (\<lambda>dp.
     andThen (rejectKore sess dp) (\<lambda>_.
     andThen (stampTemplate K L sv (cr_TemplateRef req) dp) (\<lambda>dp'.
     andThen (meterable sess dp') (\<lambda>_.
     andThen (checkQuotaFor K L sv sess dp' []) (\<lambda>_. do {
       r \<leftarrow> api (EvCreateDevPod dp') (k_create_devpod K dp');
       go_on (case r of
         Inl e \<Rightarrow> writeErr 400 ''BAD_REQUEST'' (msg ''create rejected'') (ErrText (ErrApi e))
       | Inr dp'' \<Rightarrow> writeJSON 201 (DevPodBody dp'')) }))))))))"

subsection \<open>Changing and deleting\<close>

definition setRunningFlag :: "bool \<Rightarrow> devpod \<Rightarrow> devpod" where
  "setRunningFlag b dp = dp\<lparr>dp_Spec := (dp_Spec dp)\<lparr>ds_Running := b\<rparr>\<rparr>"

definition handlePatchDevPod ::
  "'s kube \<Rightarrow> 's libs \<Rightarrow> server \<Rightarrow> string option \<Rightarrow> string \<Rightarrow> go_error + bool option \<Rightarrow> ('s, response) prog" where
  "handlePatchDevPod K L sv tok name body = written (
     andThen (sessionFrom K L sv tok) (\<lambda>sess.
     andThen (getOwned K sv sess name) (\<lambda>dp.
     andThen (lift_sum malformedBody body) (\<lambda>req.
       if req = None \<or> req = Some (ds_Running (dp_Spec dp)) then go_on (writeJSON 200 (DevPodBody dp))
       else let dp' = setRunningFlag (the req) dp in
            andThen (if the req then checkQuotaFor K L sv sess dp' (dp_Name dp') else go_on ()) (\<lambda>_. do {
              r \<leftarrow> api (EvUpdateDevPod dp') (k_update_devpod K dp');
              go_on (case r of
                Inl e \<Rightarrow> writeErr 400 ''BAD_REQUEST'' (msg ''update rejected'') (ErrText (ErrApi e))
              | Inr dp'' \<Rightarrow> writeJSON 200 (DevPodBody dp'')) })))))"

definition handleDeleteDevPod :: "'s kube \<Rightarrow> 's libs \<Rightarrow> server \<Rightarrow> string option \<Rightarrow> string \<Rightarrow> ('s, response) prog" where
  "handleDeleteDevPod K L sv tok name = written (
     andThen (sessionFrom K L sv tok) (\<lambda>sess.
     andThen (getOwned K sv sess name) (\<lambda>dp. do {
       r \<leftarrow> api (EvDeleteDevPod (meta_Namespace (dp_Meta dp), dp_Name dp)) (k_delete_devpod K (meta_Namespace (dp_Meta dp), dp_Name dp));
       (case r of
          Inl e \<Rightarrow> if e = NotFound then go_on (writeJSON 204 NoBody) else answer (internalError e)
        | Inr _ \<Rightarrow> go_on (writeJSON 204 NoBody)) })))"

end
