(* ===== verification/Webui_Users.thy ===== *)
theory Webui_Users
  imports Webui_Server
begin

section \<open>Web UI: logins, users and the administrator's views\<close>

text \<open>
  \<open>password.go\<close>, \<open>oauth.go\<close>, \<open>api_users.go\<close>, \<open>api_admin_users.go\<close>, \<open>api_admin_devpods.go\<close>
  and \<open>api_templates.go\<close> of \<open>src/internal/webui\<close>.  The sleep that pads a failed password login is left
  out: it changes neither the answer nor the cluster.
\<close>

subsection \<open>password.go\<close>

definition HashPassword :: "'s libs \<Rightarrow> string \<Rightarrow> int \<Rightarrow> ('s, go_error + string) prog" where
  "HashPassword L pw minLen =
     (if int (length pw) < minLen
      then State_Monad.return (Inl (Errorf ''password must be at least %d characters'' [Itoa minLen] None))
      else sys (lib_GenerateFromPassword L pw))"

definition VerifyPassword :: "'s libs \<Rightarrow> string \<Rightarrow> string \<Rightarrow> bool" where
  "VerifyPassword L hash pw \<longleftrightarrow> lib_CompareHashAndPassword L hash pw = None"

definition adminFor :: "server \<Rightarrow> string \<Rightarrow> user option \<Rightarrow> bool" where
  "adminFor sv username u \<longleftrightarrow>
     username \<in> set (sv_Admins sv) \<or> (case u of None \<Rightarrow> False | Some u' \<Rightarrow> us_Admin (u_Spec u'))"

text \<open>\<open>int(d.Seconds())\<close> drops the fraction.\<close>

definition wholeSeconds :: "duration \<Rightarrow> int" where
  "wholeSeconds d = (if d < 0 then - ((- d) div Second) else d div Second)"

definition sessionCookie :: "string \<Rightarrow> int \<Rightarrow> bool \<Rightarrow> cookie" where
  "sessionCookie v age secure = \<lparr>ck_Name = SessionCookie, ck_Value = v, ck_Path = ''/'', ck_MaxAge = age, ck_Secure = secure\<rparr>"

definition addCookies :: "cookie list \<Rightarrow> response \<Rightarrow> response" where
  "addCookies cs r = r\<lparr>rs_Cookies := cs @ rs_Cookies r\<rparr>"

definition setSession :: "'s kube \<Rightarrow> 's libs \<Rightarrow> server \<Rightarrow> string \<Rightarrow> bool \<Rightarrow> ('s, cookie) prog" where
  "setSession K L sv username admin = do {
     now \<leftarrow> api EvNow (k_now K);
     State_Monad.return (sessionCookie (Mint (lib_hmac L) (sv_Sessions sv) username admin now)
       (wholeSeconds (TTL (sv_Sessions sv))) (sv_SecureCookies sv)) }"

definition handleLogout :: "server \<Rightarrow> response" where
  "handleLogout sv = addCookies [sessionCookie [] (- 1) (sv_SecureCookies sv)] (writeJSON 204 NoBody)"

definition handleAuthConfig :: "server \<Rightarrow> response" where
  "handleAuthConfig sv = writeJSON 200 (AuthConfigBody (sv_PasswordAuth sv) (sv_OAuth sv \<noteq> None))"

definition loginFailed :: response where
  "loginFailed = writeErr 401 ''UNAUTHORIZED'' (msg ''invalid username or password'') NoDetail"

definition handlePasswordLogin ::
  "'s kube \<Rightarrow> 's libs \<Rightarrow> server \<Rightarrow> go_error + string \<times> string \<Rightarrow> ('s, response) prog" where
  "handlePasswordLogin K L sv body = written (
     andThen (guard_ok (sv_PasswordAuth sv) (writeErr 404 ''NOT_FOUND'' (msg ''password login is disabled'') NoDetail)) (\<lambda>_.
     andThen (lift_sum malformedBody body) (\<lambda>(username, password). do {
       start \<leftarrow> api EvNow (k_now K);
       r \<leftarrow> api (EvGetUser username) (k_get_user K username);
       (case r of
          Inl _ \<Rightarrow> answer loginFailed
        | Inr u \<Rightarrow>
            if us_PasswordHash (u_Spec u) = [] \<or> \<not> VerifyPassword L (us_PasswordHash (u_Spec u)) password
            then answer loginFailed
            else do {
              c \<leftarrow> setSession K L sv username (adminFor sv username (Some u));
              go_on (addCookies [c] (writeJSON 200 (UserBody username))) }) })))"

definition setPasswordHash :: "string \<Rightarrow> user \<Rightarrow> user" where
  "setPasswordHash h u = u\<lparr>u_Spec := (u_Spec u)\<lparr>us_PasswordHash := h\<rparr>\<rparr>"

definition handleChangePassword ::
  "'s kube \<Rightarrow> 's libs \<Rightarrow> server \<Rightarrow> string option \<Rightarrow> go_error + string \<times> string \<Rightarrow> ('s, response) prog" where
  "handleChangePassword K L sv tok body = written (
     andThen (sessionFrom K L sv tok) (\<lambda>sess.
     andThen (guard_ok (sv_PasswordAuth sv) (writeErr 403 ''FORBIDDEN'' (msg ''password login is disabled'') NoDetail)) (\<lambda>_.
     andThen (lift_sum malformedBody body) (\<lambda>(old, new). do {
       r \<leftarrow> api (EvGetUser (se_User sess)) (k_get_user K (se_User sess));
       andThen (lift_sum internalError r) (\<lambda>u.
       andThen (guard_ok (us_PasswordHash (u_Spec u) \<noteq> [])
                  (writeErr 409 ''NO_PASSWORD'' (msg ''this account has no password (OAuth-only)'') NoDetail)) (\<lambda>_.
       andThen (guard_ok (VerifyPassword L (us_PasswordHash (u_Spec u)) old)
                  (writeErr 401 ''UNAUTHORIZED'' (msg ''current password is incorrect'') NoDetail)) (\<lambda>_. do {
         h \<leftarrow> HashPassword L new (sv_PasswordMinLength sv);
         andThen (lift_sum badRequest h) (\<lambda>hash. do {
           let u' = setPasswordHash hash u;
           w \<leftarrow> api (EvUpdateUser u') (k_update_user K u');
           go_on (case w of Inl e \<Rightarrow> internalError e | Inr _ \<Rightarrow> writeJSON 204 NoBody) }) }))) }))))"

subsection \<open>oauth.go\<close>

record oauth_config =
  oc_IssuerURL :: string
  oc_UserPrefix :: string
  oc_Admins :: "string list"

text \<open>
  The result of OIDC discovery and the parsed redirect URL's scheme are arguments; the provider's
  endpoints and verifier stay inside \<open>libs\<close>.
\<close>

definition NewOAuth :: "go_error option \<Rightarrow> go_error + string \<Rightarrow> oauth_config \<Rightarrow> session_manager \<Rightarrow> go_error + oauth" where
  "NewOAuth discovery redirectScheme cfg sm =
     (case discovery of
        Some e \<Rightarrow> Inl (Errorf ''oidc discovery %s: %w'' [oc_IssuerURL cfg] (Some e))
      | None \<Rightarrow>
          (case redirectScheme of
             Inl e \<Rightarrow> Inl (Errorf ''redirect url: %w'' [] (Some e))
           | Inr scheme \<Rightarrow> Inr \<lparr>oa_prefix = oc_UserPrefix cfg, oa_admins = oc_Admins cfg, oa_sessions = sm,
                                oa_secure = (scheme = ''https'')\<rparr>))"

definition stateCookie :: string where "stateCookie = ''devpod_oauth_state''"
definition pkceCookie :: string where "pkceCookie = ''devpod_oauth_pkce''"

definition randToken :: "'s libs \<Rightarrow> ('s, string) prog" where
  "randToken L = do { b \<leftarrow> sys (lib_rand L); State_Monad.return (rawurl_EncodeToString b) }"

definition flowCookie :: "oauth \<Rightarrow> string \<Rightarrow> string \<Rightarrow> int \<Rightarrow> cookie" where
  "flowCookie oa name v age = \<lparr>ck_Name = name, ck_Value = v, ck_Path = ''/auth'', ck_MaxAge = age, ck_Secure = oa_secure oa\<rparr>"

definition HandleLogin :: "'s libs \<Rightarrow> oauth \<Rightarrow> ('s, response) prog" where
  "HandleLogin L oa = do {
     state \<leftarrow> randToken L;
     pkce \<leftarrow> sys (lib_GenerateVerifier L);
     State_Monad.return (addCookies [flowCookie oa stateCookie state 600, flowCookie oa pkceCookie pkce 600]
       (writeJSON 302 (RedirectTo (lib_AuthCodeURL L state pkce)))) }"

definition ensureUser :: "'s kube \<Rightarrow> string \<Rightarrow> ('s, go_error option) prog" where
  "ensureUser K name =
     (let u = user0\<lparr>u_Meta := object_meta0\<lparr>meta_Name := name\<rparr>\<rparr>
      in do {
        r \<leftarrow> api (EvCreateUser u) (k_create_user K u);
        State_Monad.return (case r of Inl e \<Rightarrow> if e = AlreadyExists then None else Some (ErrApi e) | Inr _ \<Rightarrow> None) })"

definition oauthAdmin :: "'s kube \<Rightarrow> oauth \<Rightarrow> string \<Rightarrow> string \<Rightarrow> ('s, bool) prog" where
  "oauthAdmin K oa preferred mapped =
     (if preferred \<in> set (oa_admins oa) then State_Monad.return True
      else do {
        r \<leftarrow> api (EvGetUser mapped) (k_get_user K mapped);
        State_Monad.return (case r of Inl _ \<Rightarrow> False | Inr u \<Rightarrow> us_Admin (u_Spec u)) })"

definition httpError :: "string \<Rightarrow> go_error option \<Rightarrow> nat \<Rightarrow> response" where
  "httpError text e status = writeJSON status (TextBody text e)"

definition finishLogin :: "'s kube \<Rightarrow> 's libs \<Rightarrow> oauth \<Rightarrow> string \<Rightarrow> ('s, response + response) prog" where
  "finishLogin K L oa preferred =
     andThen (lift_sum (\<lambda>e. httpError ''login refused: '' (Some e) 403) (MapUsername (oa_prefix oa) preferred)) (\<lambda>mapped. do {
       e \<leftarrow> ensureUser K mapped;
       (case e of
          Some _ \<Rightarrow> answer (httpError ''user provisioning failed'' None 500)
        | None \<Rightarrow> do {
            admin \<leftarrow> oauthAdmin K oa preferred mapped;
            now \<leftarrow> api EvNow (k_now K);
            go_on (addCookies [sessionCookie (Mint (lib_hmac L) (oa_sessions oa) mapped admin now)
                                 (wholeSeconds (TTL (oa_sessions oa))) (oa_secure oa)]
                     (writeJSON 302 (RedirectTo ''/''))) }) })"

definition HandleCallback ::
  "'s kube \<Rightarrow> 's libs \<Rightarrow> oauth \<Rightarrow> string option \<Rightarrow> string option \<Rightarrow> string \<Rightarrow> string \<Rightarrow> ('s, response) prog" where
  "HandleCallback K L oa stateC pkceC qstate code =
     (case (stateC, pkceC) of
        (Some st, Some pkce) \<Rightarrow>
          if qstate \<noteq> st then State_Monad.return (httpError ''OAuth state mismatch - restart login'' None 400)
          else do {
            r \<leftarrow> written (do {
              t \<leftarrow> sys (lib_Exchange L code pkce);
              andThen (lift_sum (\<lambda>_. httpError ''token exchange with GitLab failed'' None 502) t) (\<lambda>extra.
                case extra of
                  None \<Rightarrow> answer (httpError ''GitLab response missing id_token'' None 502)
                | Some rawID \<Rightarrow> do {
                    v \<leftarrow> sys (lib_VerifyIDToken L rawID);
                    andThen (lift_sum (\<lambda>_. httpError ''invalid id_token'' None 502) v) (\<lambda>claims.
                    andThen (lift_sum (\<lambda>_. httpError ''malformed claims'' None 502) claims) (\<lambda>preferred.
                    finishLogin K L oa preferred)) }) });
            State_Monad.return (addCookies [flowCookie oa stateCookie [] (- 1), flowCookie oa pkceCookie [] (- 1)] r) }
      | _ \<Rightarrow> State_Monad.return (httpError ''OAuth state mismatch - restart login'' None 400))"

subsection \<open>api_users.go\<close>

text \<open>The loop of \<open>handleMe\<close>: running DevPods, their summed limits, and the storage of all.\<close>

record usage_sum =
  us_running :: nat
  us_compute :: resource_list
  us_storage :: quantity

definition usageStep :: "devpod \<Rightarrow> usage_sum \<Rightarrow> usage_sum" where
  "usageStep dp a =
     (let a1 = (case ds_Persistence (dp_Spec dp) of None \<Rightarrow> a | Some p \<Rightarrow> a\<lparr>us_storage := us_storage a + per_Size p\<rparr>)
      in case ds_Pod (dp_Spec dp) of
           None \<Rightarrow> a1
         | Some pw \<Rightarrow>
             if ds_Running (dp_Spec dp)
             then a1\<lparr>us_running := us_running a1 + 1, us_compute := fold addQty (PodLimits (pw_Spec pw)) (us_compute a1)\<rparr>
             else a1)"

definition usage_sum0 :: usage_sum where
  "usage_sum0 = \<lparr>us_running = 0, us_compute = [], us_storage = 0\<rparr>"

definition handleMe :: "'s kube \<Rightarrow> 's libs \<Rightarrow> server \<Rightarrow> string option \<Rightarrow> ('s, response) prog" where
  "handleMe K L sv tok = written (
     andThen (sessionFrom K L sv tok) (\<lambda>sess. do {
       u \<leftarrow> api (EvGetUser (se_User sess)) (k_get_user K (se_User sess));
       o' \<leftarrow> ownedDevPods K sv (se_User sess);
       andThen (lift_sum internalError o') (\<lambda>owned.
         let s = fold usageStep owned usage_sum0;
             usage = \<lparr>ui_DevPods = length owned, ui_Running = us_running s,
                      ui_Compute = map (\<lambda>(n, q). (n, lib_QuantityString L q)) (us_compute s),
                      ui_Storage = lib_QuantityString L (us_storage s)\<rparr>
         in go_on (writeJSON 200 (MeBody \<lparr>me_User = se_User sess, me_Admin = se_Admin sess,
              me_NameBudget = NameBudget (se_User sess),
              me_Quota = EffectiveQuota (userPtr u) (sv_DefaultQuota sv), me_Usage = usage,
              me_HasPassword = (case u of Inl _ \<Rightarrow> False | Inr u' \<Rightarrow> us_PasswordHash (u_Spec u') \<noteq> [])\<rparr>))) }))"

definition handleGetPubkeys :: "'s kube \<Rightarrow> 's libs \<Rightarrow> server \<Rightarrow> string option \<Rightarrow> ('s, response) prog" where
  "handleGetPubkeys K L sv tok = written (
     andThen (sessionFrom K L sv tok) (\<lambda>sess. do {
       r \<leftarrow> api (EvGetUser (se_User sess)) (k_get_user K (se_User sess));
       (case r of
          Inl e \<Rightarrow> if e = NotFound then go_on (writeJSON 200 (PubkeysBody [])) else answer (internalError e)
        | Inr u \<Rightarrow> go_on (writeJSON 200 (PubkeysBody (us_Pubkeys (u_Spec u))))) }))"

text \<open>The first key that does not parse, with its position.\<close>

fun badPubkey :: "'s libs \<Rightarrow> nat \<Rightarrow> string list \<Rightarrow> (nat \<times> go_error) option" where
  "badPubkey L i [] = None"
| "badPubkey L i (k # ks) = (case lib_ParseAuthorizedKey L k of Some e \<Rightarrow> Some (i, e) | None \<Rightarrow> badPubkey L (i + 1) ks)"

definition handlePutPubkeys ::
  "'s kube \<Rightarrow> 's libs \<Rightarrow> server \<Rightarrow> string option \<Rightarrow> go_error + string list \<Rightarrow> ('s, response) prog" where
  "handlePutPubkeys K L sv tok body = written (
     andThen (sessionFrom K L sv tok) (\<lambda>sess.
     andThen (guard_ok (sv_PubkeySelfService sv)
                (writeErr 403 ''FORBIDDEN'' (msg ''pubkey self-service is disabled on this deployment (keys are managed externally)'') NoDetail)) (\<lambda>_.
     andThen (lift_sum malformedBody body) (\<lambda>keys.
       case badPubkey L 0 keys of
         Some (i, e) \<Rightarrow> answer (writeErr 400 ''BAD_REQUEST''
                          (Errorf ''pubkey #%d is not a valid OpenSSH authorized key'' [Itoa (int i + 1)] None) (ErrText e))
       | None \<Rightarrow> do {
           r \<leftarrow> api (EvGetUser (se_User sess)) (k_get_user K (se_User sess));
           andThen (lift_sum internalError r) (\<lambda>u. do {
             let u' = u\<lparr>u_Spec := (u_Spec u)\<lparr>us_Pubkeys := keys\<rparr>\<rparr>;
             w \<leftarrow> api (EvUpdateUser u') (k_update_user K u');
             go_on (case w of
               Inl e \<Rightarrow> writeErr 400 ''BAD_REQUEST'' (msg ''update rejected'') (ErrText (ErrApi e))
             | Inr u'' \<Rightarrow> writeJSON 200 (PubkeysBody (us_Pubkeys (u_Spec u'')))) }) }))))"

subsection \<open>api_admin_users.go\<close>

definition requireAdmin :: "'s kube \<Rightarrow> 's libs \<Rightarrow> server \<Rightarrow> string option \<Rightarrow> ('s, response + session) prog" where
  "requireAdmin K L sv tok =
     andThen (sessionFrom K L sv tok) (\<lambda>sess.
       if se_Admin sess then go_on sess else answer (writeErr 403 ''FORBIDDEN'' (msg ''admin only'') NoDetail))"

definition resourceGPU :: string where "resourceGPU = ''nvidia.com/gpu''"

record agg =
  ag_total :: nat
  ag_running :: nat
  ag_compute :: resource_list
  ag_storage :: quantity

definition agg0 :: agg where
  "agg0 = \<lparr>ag_total = 0, ag_running = 0, ag_compute = [], ag_storage = 0\<rparr>"

definition aggStep :: "devpod \<Rightarrow> (string \<times> agg) list \<Rightarrow> (string \<times> agg) list" where
  "aggStep dp byOwner =
     (let a = (case map_of byOwner (dp_Owner dp) of None \<Rightarrow> agg0 | Some a \<Rightarrow> a);
          a = a\<lparr>ag_total := ag_total a + 1\<rparr>;
          a = (case ds_Persistence (dp_Spec dp) of None \<Rightarrow> a | Some p \<Rightarrow> a\<lparr>ag_storage := ag_storage a + per_Size p\<rparr>);
          a = (case ds_Pod (dp_Spec dp) of
                 None \<Rightarrow> a
               | Some pw \<Rightarrow>
                   if ds_Running (dp_Spec dp)
                   then a\<lparr>ag_running := ag_running a + 1, ag_compute := fold addQty (PodLimits (pw_Spec pw)) (ag_compute a)\<rparr>
                   else a)
      in AList.update (dp_Owner dp) a byOwner)"

definition shown :: "'s libs \<Rightarrow> quantity \<Rightarrow> string" where
  "shown L q = (if q = 0 then [] else lib_QuantityString L q)"

definition adminUserOf :: "'s libs \<Rightarrow> (string \<times> agg) list \<Rightarrow> user \<Rightarrow> admin_user" where
  "adminUserOf L byOwner u =
     (let au = \<lparr>au_Name = u_Name u, au_DisplayName = us_DisplayName (u_Spec u), au_Admin = us_Admin (u_Spec u),
                au_HasPassword = (us_PasswordHash (u_Spec u) \<noteq> []), au_DevPods = 0, au_Running = 0,
                au_CPU = [], au_Memory = [], au_GPU = [], au_Storage = [], au_Quota = us_Quota (u_Spec u)\<rparr>
      in case map_of byOwner (u_Name u) of
           None \<Rightarrow> au
         | Some a \<Rightarrow> au\<lparr>au_DevPods := ag_total a, au_Running := ag_running a,
                        au_CPU := shown L (qty (ag_compute a) ''cpu''), au_Memory := shown L (qty (ag_compute a) ''memory''),
                        au_GPU := shown L (qty (ag_compute a) resourceGPU), au_Storage := shown L (ag_storage a)\<rparr>)"

definition handleListUsers :: "'s kube \<Rightarrow> 's libs \<Rightarrow> server \<Rightarrow> string option \<Rightarrow> ('s, response) prog" where
  "handleListUsers K L sv tok = written (
     andThen (requireAdmin K L sv tok) (\<lambda>_. do {
       us \<leftarrow> api EvListUsers (k_list_users K);
       andThen (lift_sum internalError us) (\<lambda>users. do {
         ds \<leftarrow> api (EvListDevPods (Some (sv_NS sv))) (k_list_devpods K (Some (sv_NS sv)));
         andThen (lift_sum internalError ds) (\<lambda>dps.
           go_on (writeJSON 200 (UsersBody (sort_key au_Name (map (adminUserOf L (fold aggStep dps [])) users)) (sv_DefaultQuota sv)))) }) }))"

record create_user_request =
  cu_Username :: string
  cu_DisplayName :: string
  cu_Password :: string

definition handleCreateUser ::
  "'s kube \<Rightarrow> 's libs \<Rightarrow> server \<Rightarrow> string option \<Rightarrow> go_error + create_user_request \<Rightarrow> ('s, response) prog" where
  "handleCreateUser K L sv tok body = written (
     andThen (requireAdmin K L sv tok) (\<lambda>_.
     andThen (guard_ok (sv_PasswordAuth sv)
                (writeErr 403 ''FORBIDDEN'' (msg ''creating users requires password login to be enabled'') NoDetail)) (\<lambda>_.
     andThen (lift_sum malformedBody body) (\<lambda>req.
     andThen (lift_sum badRequest (MapUsername [] (cu_Username req))) (\<lambda>_. do {
       h \<leftarrow> HashPassword L (cu_Password req) (sv_PasswordMinLength sv);
       andThen (lift_sum badRequest h) (\<lambda>hash. do {
         let u = user0\<lparr>u_Meta := object_meta0\<lparr>meta_Name := cu_Username req\<rparr>,
                       u_Spec := user_spec0\<lparr>us_DisplayName := cu_DisplayName req, us_PasswordHash := hash\<rparr>\<rparr>;
         r \<leftarrow> api (EvCreateUser u) (k_create_user K u);
         (case r of
            Inl e \<Rightarrow>
              if e = AlreadyExists then answer (writeErr 409 ''ALREADY_EXISTS'' (msg ''user already exists'') NoDetail)
              else answer (writeErr 400 ''BAD_REQUEST'' (msg ''create rejected'') (ErrText (ErrApi e)))
          | Inr u' \<Rightarrow> go_on (writeJSON 201 (AdminUserBody ((adminUserOf L [] user0)\<lparr>au_Name := u_Name u',
                        au_DisplayName := us_DisplayName (u_Spec u'), au_HasPassword := True\<rparr>)))) }) })))))"

record quota_patch =
  qp_MaxDevPods :: "int32 option"
  qp_CPU :: string
  qp_Memory :: string
  qp_GPU :: string
  qp_Storage :: string

fun parseQuota :: "'s libs \<Rightarrow> (string \<times> string) list \<Rightarrow> resource_list \<Rightarrow> go_error + resource_list" where
  "parseQuota L [] compute = Inr compute"
| "parseQuota L ((name, val) # nvs) compute =
     (if val = [] then parseQuota L nvs compute
      else case lib_ParseQuantity L val of
             Inl _ \<Rightarrow> Inl (Errorf ''invalid %s quota %q'' [name, val] None)
           | Inr q \<Rightarrow> parseQuota L nvs (AList.update name q compute))"

text \<open>The result \<open>Inr None\<close> clears the quota.\<close>

definition quotaPatch_build :: "'s libs \<Rightarrow> quota_patch \<Rightarrow> go_error + user_quota option" where
  "quotaPatch_build L p =
     (case parseQuota L [(''cpu'', qp_CPU p), (''memory'', qp_Memory p), (resourceGPU, qp_GPU p)] [] of
        Inl e \<Rightarrow> Inl e
      | Inr compute \<Rightarrow>
          (case (if qp_Storage p = [] then Inr None
                 else case lib_ParseQuantity L (qp_Storage p) of
                        Inl _ \<Rightarrow> Inl (Errorf ''invalid storage quota %q'' [qp_Storage p] None)
                      | Inr q \<Rightarrow> Inr (Some q)) of
             Inl e \<Rightarrow> Inl e
           | Inr storage \<Rightarrow>
               if qp_MaxDevPods p = None \<and> compute = [] \<and> storage = None then Inr None
               else Inr (Some \<lparr>q_MaxDevPods = qp_MaxDevPods p, q_Compute = (if compute = [] then None else Some compute),
                               q_Storage = storage\<rparr>)))"

record patch_user_request =
  pu_Password :: "string option"
  pu_DisplayName :: "string option"
  pu_Quota :: "quota_patch option"

definition patchPassword :: "'s libs \<Rightarrow> server \<Rightarrow> string option \<Rightarrow> user \<Rightarrow> ('s, response + user) prog" where
  "patchPassword L sv pw u =
     (case pw of
        None \<Rightarrow> go_on u
      | Some p \<Rightarrow>
          andThen (guard_ok (sv_PasswordAuth sv) (writeErr 403 ''FORBIDDEN'' (msg ''password login is disabled'') NoDetail)) (\<lambda>_. do {
            h \<leftarrow> HashPassword L p (sv_PasswordMinLength sv);
            andThen (lift_sum badRequest h) (\<lambda>hash. go_on (setPasswordHash hash u)) }))"

definition patchQuota :: "'s libs \<Rightarrow> quota_patch option \<Rightarrow> user \<Rightarrow> response + user" where
  "patchQuota L qp u =
     (case qp of
        None \<Rightarrow> Inr u
      | Some p \<Rightarrow> (case quotaPatch_build L p of
                    Inl e \<Rightarrow> Inl (badRequest e)
                  | Inr q \<Rightarrow> Inr (u\<lparr>u_Spec := (u_Spec u)\<lparr>us_Quota := q\<rparr>\<rparr>)))"

definition handlePatchUser ::
  "'s kube \<Rightarrow> 's libs \<Rightarrow> server \<Rightarrow> string option \<Rightarrow> string \<Rightarrow> go_error + patch_user_request \<Rightarrow> ('s, response) prog" where
  "handlePatchUser K L sv tok name body = written (
     andThen (requireAdmin K L sv tok) (\<lambda>_.
     andThen (lift_sum malformedBody body) (\<lambda>req. do {
       r \<leftarrow> api (EvGetUser name) (k_get_user K name);
       andThen (lift_sum (\<lambda>e. if e = NotFound then writeErr 404 ''NOT_FOUND'' (msg ''user not found'') NoDetail else internalError e) r) (\<lambda>u.
       andThen (patchPassword L sv (pu_Password req) u) (\<lambda>u1.
       andThen (lift_sum id (patchQuota L (pu_Quota req)
                  (case pu_DisplayName req of None \<Rightarrow> u1 | Some d \<Rightarrow> u1\<lparr>u_Spec := (u_Spec u1)\<lparr>us_DisplayName := d\<rparr>\<rparr>))) (\<lambda>u2. do {
         w \<leftarrow> api (EvUpdateUser u2) (k_update_user K u2);
         go_on (case w of Inl e \<Rightarrow> internalError e | Inr _ \<Rightarrow> writeJSON 204 NoBody) }))) })))"

definition handleDeleteUser :: "'s kube \<Rightarrow> 's libs \<Rightarrow> server \<Rightarrow> string option \<Rightarrow> string \<Rightarrow> ('s, response) prog" where
  "handleDeleteUser K L sv tok name = written (
     andThen (requireAdmin K L sv tok) (\<lambda>_. do {
       r \<leftarrow> api (EvDeleteUser name) (k_delete_user K name);
       (case r of
          Inl e \<Rightarrow>
            if e = NotFound then go_on (writeJSON 204 NoBody)
            else answer (writeErr 400 ''BAD_REQUEST'' (msg ''delete rejected'') (ErrText (ErrApi e)))
        | Inr _ \<Rightarrow> go_on (writeJSON 204 NoBody)) }))"

subsection \<open>api_admin_devpods.go and api_templates.go\<close>

definition adminDevPodOf :: "'s libs \<Rightarrow> devpod \<Rightarrow> admin_devpod" where
  "adminDevPodOf L dp =
     \<lparr>ad_Name = dp_Name dp, ad_Owner = dp_Owner dp, ad_Phase = phase_str (dst_Phase (dp_Status dp)),
      ad_Running = ds_Running (dp_Spec dp),
      ad_CPU = (case ds_Pod (dp_Spec dp) of None \<Rightarrow> [] | Some pw \<Rightarrow> shown L (qty (PodLimits (pw_Spec pw)) ''cpu'')),
      ad_Memory = (case ds_Pod (dp_Spec dp) of None \<Rightarrow> [] | Some pw \<Rightarrow> shown L (qty (PodLimits (pw_Spec pw)) ''memory'')),
      ad_Storage = (case ds_Persistence (dp_Spec dp) of None \<Rightarrow> [] | Some p \<Rightarrow> lib_QuantityString L (per_Size p))\<rparr>"

definition handleAdminListDevPods :: "'s kube \<Rightarrow> 's libs \<Rightarrow> server \<Rightarrow> string option \<Rightarrow> ('s, response) prog" where
  "handleAdminListDevPods K L sv tok = written (
     andThen (requireAdmin K L sv tok) (\<lambda>_. do {
       l \<leftarrow> api (EvListDevPods (Some (sv_NS sv))) (k_list_devpods K (Some (sv_NS sv)));
       andThen (lift_sum internalError l) (\<lambda>ds.
         go_on (writeJSON 200 (AdminDevPodsBody (sort_key ad_Owner (sort_key ad_Name (map (adminDevPodOf L) ds)))))) }))"

definition handleListTemplates :: "'s kube \<Rightarrow> 's libs \<Rightarrow> server \<Rightarrow> string option \<Rightarrow> ('s, response) prog" where
  "handleListTemplates K L sv tok = written (
     andThen (sessionFrom K L sv tok) (\<lambda>_. do {
       l \<leftarrow> api EvListTemplates (k_list_templates K);
       andThen (lift_sum internalError l) (\<lambda>ts.
         go_on (writeJSON 200 (TemplatesBody
           (sort_key tpl_Name (filter (\<lambda>t. sv_KoreEnabled sv \<or> ts_Binding (tpl_Spec t) = None) ts))))) }))"

end
