(* ===== verification/Webui_Routes.thy ===== *)
theory Webui_Routes
  imports Webui_Users Mem_Cluster
begin

section \<open>Web UI: routes, and who may write what\<close>

text \<open>
  \<open>src/internal/webui/server.go\<close>: the origin check in front of the table of routes.  A request is a value of
  \<open>call\<close>, one constructor per route with its path value and decoded body, next to its cookies and its
  \<open>Origin\<close> header.  How a method and a path select one of
  them, and the views that only read, are in \<open>Webui_Mux\<close>.

  The theorems speak about every write of every request: \<open>lawful P E m R\<close> says that each call \<open>m\<close> makes is
  allowed by \<open>P\<close> given what was read before it, starting from the knowledge \<open>E\<close>.
\<close>

datatype call =
    AuthLogin
  | AuthCallback string string
  | AuthLogout
  | AuthConfig
  | AuthPassword "go_error + string \<times> string"
  | Me
  | MePassword "go_error + string \<times> string"
  | MeGetPubkeys
  | MePutPubkeys "go_error + string list"
  | AdminListUsers
  | AdminCreateUser "go_error + create_user_request"
  | AdminPatchUser string "go_error + patch_user_request"
  | AdminDeleteUser string
  | AdminListDevPods
  | ListTemplates
  | ListDevPods
  | CreateDevPod "go_error + create_request"
  | GetDevPod string
  | PatchDevPod string "go_error + bool option"
  | DeleteDevPod string
  | NoEndpoint

record http_request =
  rq_Method :: string
  rq_Origin :: string
  rq_Cookie :: "string \<Rightarrow> string option"
  rq_Call :: call

definition staticFiles :: response where
  "staticFiles = writeJSON 200 (TextBody ''index.html'' None)"

definition mux :: "'s kube \<Rightarrow> 's libs \<Rightarrow> server \<Rightarrow> (string \<Rightarrow> string option) \<Rightarrow> call \<Rightarrow> ('s, response) prog" where
  "mux K L sv cookies c =
     (let tok = cookies SessionCookie
      in case c of
        AuthLogin \<Rightarrow> (case sv_OAuth sv of None \<Rightarrow> State_Monad.return staticFiles | Some oa \<Rightarrow> HandleLogin L oa)
      | AuthCallback qstate code \<Rightarrow>
          (case sv_OAuth sv of
             None \<Rightarrow> State_Monad.return staticFiles
           | Some oa \<Rightarrow> HandleCallback K L oa (cookies stateCookie) (cookies pkceCookie) qstate code)
      | AuthLogout \<Rightarrow> State_Monad.return (handleLogout sv)
      | AuthConfig \<Rightarrow> State_Monad.return (handleAuthConfig sv)
      | AuthPassword body \<Rightarrow> handlePasswordLogin K L sv body
      | Me \<Rightarrow> handleMe K L sv tok
      | MePassword body \<Rightarrow> handleChangePassword K L sv tok body
      | MeGetPubkeys \<Rightarrow> handleGetPubkeys K L sv tok
      | MePutPubkeys body \<Rightarrow> handlePutPubkeys K L sv tok body
      | AdminListUsers \<Rightarrow> handleListUsers K L sv tok
      | AdminCreateUser body \<Rightarrow> handleCreateUser K L sv tok body
      | AdminPatchUser name body \<Rightarrow> handlePatchUser K L sv tok name body
      | AdminDeleteUser name \<Rightarrow> handleDeleteUser K L sv tok name
      | AdminListDevPods \<Rightarrow> handleAdminListDevPods K L sv tok
      | ListTemplates \<Rightarrow> handleListTemplates K L sv tok
      | ListDevPods \<Rightarrow> handleListDevPods K L sv tok
      | CreateDevPod body \<Rightarrow> handleCreateDevPod K L sv tok body
      | GetDevPod name \<Rightarrow> handleGetDevPod K L sv tok name
      | PatchDevPod name body \<Rightarrow> handlePatchDevPod K L sv tok name body
      | DeleteDevPod name \<Rightarrow> handleDeleteDevPod K L sv tok name
      | NoEndpoint \<Rightarrow> State_Monad.return (writeErr 404 ''NOT_FOUND'' (msg ''no such endpoint'') NoDetail))"

text \<open>What an answer is to the handler behind the check is left open: \<open>reply\<close> makes it from a response.\<close>

definition originGuard :: "server \<Rightarrow> string \<Rightarrow> string \<Rightarrow> (response \<Rightarrow> 'a) \<Rightarrow> ('s, 'a) prog \<Rightarrow> ('s, 'a) prog" where
  "originGuard sv meth origin reply next =
     (if meth \<in> {''POST'', ''PUT'', ''PATCH'', ''DELETE''} \<and> origin \<noteq> [] \<and> sv_Origin sv \<noteq> [] \<and> origin \<noteq> sv_Origin sv
      then State_Monad.return (reply (writeErr 403 ''FORBIDDEN'' (msg ''cross-origin request rejected'') NoDetail))
      else next)"

definition Routes :: "'s kube \<Rightarrow> 's libs \<Rightarrow> server \<Rightarrow> http_request \<Rightarrow> ('s, response) prog" where
  "Routes K L sv rq = originGuard sv (rq_Method rq) (rq_Origin rq) (\<lambda>r. r) (mux K L sv (rq_Cookie rq) (rq_Call rq))"

text \<open>Answers without cookies: all but those of the logins.\<close>

lemma no_cookies [simp]:
  "rs_Cookies (writeJSON st b) = []" "rs_Cookies (writeErr st cd m d) = []" "rs_Cookies (badRequest e) = []"
  "rs_Cookies (malformedBody e) = []" "rs_Cookies (internalError a) = []" "rs_Cookies (httpError t e' st) = []"
  "rs_Cookies loginFailed = []" "rs_Cookies staticFiles = []"
  by (simp_all add: writeJSON_def writeErr_def badRequest_def malformedBody_def internalError_def httpError_def
      loginFailed_def staticFiles_def)

lemma no_cookies_case [simp]:
  "rs_Cookies (case r of Inl x \<Rightarrow> f x | Inr y \<Rightarrow> g y) = [] \<longleftrightarrow>
     (\<forall>x. r = Inl x \<longrightarrow> rs_Cookies (f x) = []) \<and> (\<forall>y. r = Inr y \<longrightarrow> rs_Cookies (g y) = [])"
  by (cases r) simp_all

subsection \<open>A logic of what is known when a call is made\<close>

fun obeys :: "(event set \<Rightarrow> event \<Rightarrow> bool) \<Rightarrow> event set \<Rightarrow> event list \<Rightarrow> bool" where
  "obeys P E [] = True"
| "obeys P E (e # es) = (P E e \<and> obeys P (insert e E) es)"

lemma obeys_append: "obeys P E (es @ es') \<longleftrightarrow> obeys P E es \<and> obeys P (E \<union> set es) es'"
  by (induction es arbitrary: E) simp_all

lemma obeysD: "obeys P E (pre @ e # post) \<Longrightarrow> P (E \<union> set pre) e"
  by (simp add: obeys_append)

definition lawful :: "(event set \<Rightarrow> event \<Rightarrow> bool) \<Rightarrow> event set \<Rightarrow> ('s, 'a) prog \<Rightarrow> ('a \<Rightarrow> event set \<Rightarrow> bool) \<Rightarrow> bool" where
  "lawful P E m R \<longleftrightarrow> ensures m (\<lambda>a es. obeys P E es \<and> R a (E \<union> set es))"

named_theorems lawful_intros "one rule per program constructor"

lemma lawful_return [lawful_intros]: "R a E \<Longrightarrow> lawful P E (State_Monad.return a) R"
  by (simp add: lawful_def ensures_return)

lemma lawful_api [lawful_intros]: "(\<And>a. P E (ev a)) \<Longrightarrow> (\<And>a. R a (insert (ev a) E)) \<Longrightarrow> lawful P E (api ev f) R"
  by (simp add: lawful_def ensures_api)

lemma lawful_sys [lawful_intros]: "(\<And>a. a \<in> answers f \<Longrightarrow> R a E) \<Longrightarrow> lawful P E (sys f) R"
  by (auto simp: lawful_def ensures_def answers_def)

lemma lawful_bind [lawful_intros]:
  "lawful P E m (\<lambda>a E'. lawful P E' (f a) R) \<Longrightarrow> lawful P E (State_Monad.bind m f) R"
  unfolding lawful_def
  by (rule ensures_bind, erule ensures_mono) (auto simp: obeys_append Un_assoc elim: ensures_mono)

lemma lawful_mono: "lawful P E m R \<Longrightarrow> (\<And>a E'. R a E' \<Longrightarrow> S a E') \<Longrightarrow> lawful P E m S"
  unfolding lawful_def by (erule ensures_mono) simp

lemma lawful_answer [lawful_intros]: "R (Inl r) E \<Longrightarrow> lawful P E (answer r) R"
  by (simp add: answer_def lawful_return)

lemma lawful_go_on [lawful_intros]: "R (Inr a) E \<Longrightarrow> lawful P E (go_on a) R"
  by (simp add: go_on_def lawful_return)

lemma lawful_if [lawful_intros]:
  "(b \<Longrightarrow> lawful P E m R) \<Longrightarrow> (\<not> b \<Longrightarrow> lawful P E n R) \<Longrightarrow> lawful P E (if b then m else n) R"
  by simp

lemma lawful_case_sum [lawful_intros]:
  "(\<And>x. r = Inl x \<Longrightarrow> lawful P E (f x) R) \<Longrightarrow> (\<And>y. r = Inr y \<Longrightarrow> lawful P E (g y) R) \<Longrightarrow>
   lawful P E (case r of Inl x \<Rightarrow> f x | Inr y \<Rightarrow> g y) R"
  by (cases r) auto

lemma lawful_case_option [lawful_intros]:
  "(r = None \<Longrightarrow> lawful P E m R) \<Longrightarrow> (\<And>y. r = Some y \<Longrightarrow> lawful P E (g y) R) \<Longrightarrow>
   lawful P E (case r of None \<Rightarrow> m | Some y \<Rightarrow> g y) R"
  by (cases r) auto

lemma lawful_case_prod [lawful_intros]:
  "(\<And>x y. r = (x, y) \<Longrightarrow> lawful P E (f x y) R) \<Longrightarrow> lawful P E (case r of (x, y) \<Rightarrow> f x y) R"
  by (cases r) auto

lemma lawful_let [lawful_intros]: "lawful P E (f t) R \<Longrightarrow> lawful P E (let x = t in f x) R"
  by simp

lemma lawful_guard_ok [lawful_intros]:
  "(b \<Longrightarrow> R (Inr ()) E) \<Longrightarrow> (\<not> b \<Longrightarrow> R (Inl r) E) \<Longrightarrow> lawful P E (guard_ok b r) R"
  by (simp add: guard_ok_def lawful_answer lawful_go_on)

lemma lawful_lift_sum [lawful_intros]:
  "(\<And>e. r = Inl e \<Longrightarrow> R (Inl (f e)) E) \<Longrightarrow> (\<And>a. r = Inr a \<Longrightarrow> R (Inr a) E) \<Longrightarrow> lawful P E (lift_sum f r) R"
  by (cases r) (simp_all add: lift_sum_def lawful_answer lawful_go_on)

text \<open>After a step that may have answered: either the answer stands, or the program goes on.\<close>

definition go_or :: "('e \<Rightarrow> event set \<Rightarrow> bool) \<Rightarrow> ('a \<Rightarrow> event set \<Rightarrow> bool) \<Rightarrow> 'e + 'a \<Rightarrow> event set \<Rightarrow> bool" where
  "go_or A G r E = (case r of Inl x \<Rightarrow> A x E | Inr a \<Rightarrow> G a E)"

lemma go_or_simps [simp]: "go_or A G (Inl x) E = A x E" "go_or A G (Inr a) E = G a E"
  by (simp_all add: go_or_def)

lemma lawful_andThen [lawful_intros]:
  "lawful P E m (go_or (\<lambda>x. R (Inl x)) (\<lambda>a E'. lawful P E' (f a) R)) \<Longrightarrow> lawful P E (andThen m f) R"
  unfolding andThen_def
  by (rule lawful_bind, erule lawful_mono) (auto simp: go_or_def lawful_return split: sum.splits)

lemma lawful_written [lawful_intros]:
  "lawful P E m (\<lambda>r. R (case r of Inl x \<Rightarrow> x | Inr x \<Rightarrow> x)) \<Longrightarrow> lawful P E (written m) R"
  unfolding written_def by (rule lawful_bind, erule lawful_mono) (simp add: lawful_return)

lemma lawfulD: "lawful P {} m R \<Longrightarrow> made m w = pre @ e # post \<Longrightarrow> P (set pre) e"
  unfolding lawful_def using ensuresD [of m _ w] obeysD [of P "{}" pre e post] by fastforce

lemma lawful_result: "lawful P {} m R \<Longrightarrow> R (result m w) (set (made m w))"
  unfolding lawful_def using ensuresD [of m _ w] by fastforce

subsection \<open>The licence of a write\<close>

text \<open>
  The session a request has is known from its cookie and a reading of the clock.
\<close>

definition session_of :: "'s libs \<Rightarrow> server \<Rightarrow> string option \<Rightarrow> event set \<Rightarrow> session \<Rightarrow> bool" where
  "session_of L sv tok E s \<longleftrightarrow>
     (\<exists>t now. tok = Some t \<and> EvNow now \<in> E \<and> Verify (lib_hmac L) (sv_Sessions sv) t now = Inr s)"

definition quota_passed :: "'s libs \<Rightarrow> server \<Rightarrow> event set \<Rightarrow> string \<Rightarrow> devpod \<Rightarrow> string \<Rightarrow> bool" where
  "quota_passed L sv E owner d exclude \<longleftrightarrow>
     (\<exists>r ds. EvGetUser owner r \<in> E \<and> EvListDevPods (Some (sv_NS sv)) (Inr ds) \<in> E \<and>
        CheckQuota (lib_QuantityString L) (EffectiveQuota (userPtr r) (sv_DefaultQuota sv))
          (filter (\<lambda>x. dp_Name x \<noteq> exclude) (ownedOf owner ds)) d = [])"

definition kore_stamped :: "event set \<Rightarrow> devpod \<Rightarrow> bool" where
  "kore_stamped E d \<longleftrightarrow>
     KoreAnnotationKeys (meta_Annotations (dp_Meta d)) = [] \<and>
     (\<forall>k\<in>podAnnotations d. HasPrefix k KorePrefix \<longrightarrow>
        (\<exists>n tpl. EvGetTemplate n (Inr tpl) \<in> E \<and> k \<in> templateAnnotations tpl))"

definition may_create :: "'s libs \<Rightarrow> server \<Rightarrow> event set \<Rightarrow> session \<Rightarrow> devpod \<Rightarrow> bool" where
  "may_create L sv E s d \<longleftrightarrow>
     meta_Namespace (dp_Meta d) = sv_NS sv \<and>
     (se_Admin s \<or>
      dp_Owner d = se_User s \<and> HasPrefix (dp_Name d) (se_User s @ ''-'') \<and> ds_VM (dp_Spec d) = None \<and>
      (\<exists>pw. ds_Pod (dp_Spec d) = Some pw \<and> RequireLimits (pw_Spec pw) = None) \<and>
      kore_stamped E d \<and> quota_passed L sv E (se_User s) d [])"

text \<open>The DevPod was read, and belongs to the session's user or the session is an administrator's.\<close>

definition read_owned :: "server \<Rightarrow> event set \<Rightarrow> session \<Rightarrow> string \<Rightarrow> devpod \<Rightarrow> bool" where
  "read_owned sv E s name d \<longleftrightarrow>
     EvGetDevPod (sv_NS sv, name) (Inr d) \<in> E \<and> (dp_Owner d = se_User s \<or> se_Admin s)"

definition may_update :: "'s libs \<Rightarrow> server \<Rightarrow> event set \<Rightarrow> session \<Rightarrow> devpod \<Rightarrow> bool" where
  "may_update L sv E s d \<longleftrightarrow>
     (\<exists>name d0. read_owned sv E s name d0 \<and> d = setRunningFlag (\<not> ds_Running (dp_Spec d0)) d0 \<and>
        (se_Admin s \<or> \<not> ds_Running (dp_Spec d) \<or> quota_passed L sv E (se_User s) d (dp_Name d)))"

definition may_delete :: "server \<Rightarrow> event set \<Rightarrow> session \<Rightarrow> namespaced_name \<Rightarrow> bool" where
  "may_delete sv E s k \<longleftrightarrow> (\<exists>name d. read_owned sv E s name d \<and> k = (meta_Namespace (dp_Meta d), dp_Name d))"

text \<open>
  A User is rewritten by itself, in its keys or, knowing the old one, its password; by an administrator in its
  password, display name and quota.
\<close>

definition own_edit :: "'s libs \<Rightarrow> server \<Rightarrow> user \<Rightarrow> user \<Rightarrow> bool" where
  "own_edit L sv u u' \<longleftrightarrow>
     (\<exists>ks. sv_PubkeySelfService sv \<and> badPubkey L 0 ks = None \<and> u' = u\<lparr>u_Spec := (u_Spec u)\<lparr>us_Pubkeys := ks\<rparr>\<rparr>) \<or>
     (\<exists>old h. sv_PasswordAuth sv \<and> us_PasswordHash (u_Spec u) \<noteq> [] \<and>
        VerifyPassword L (us_PasswordHash (u_Spec u)) old \<and> u' = setPasswordHash h u)"

definition admin_edit :: "user \<Rightarrow> user \<Rightarrow> bool" where
  "admin_edit u u' \<longleftrightarrow>
     u_Meta u' = u_Meta u \<and> u_Status u' = u_Status u \<and> us_Pubkeys (u_Spec u') = us_Pubkeys (u_Spec u) \<and>
     us_OIDCSubject (u_Spec u') = us_OIDCSubject (u_Spec u) \<and> us_Admin (u_Spec u') = us_Admin (u_Spec u)"

definition may_edit :: "'s libs \<Rightarrow> server \<Rightarrow> event set \<Rightarrow> session \<Rightarrow> user \<Rightarrow> bool" where
  "may_edit L sv E s u' \<longleftrightarrow>
     (\<exists>n u. EvGetUser n (Inr u) \<in> E \<and> (n = se_User s \<and> own_edit L sv u u' \<or> se_Admin s \<and> admin_edit u u'))"

text \<open>New Users: by an administrator with a password, or keyless on a first OAuth login.\<close>

definition newcomer :: "server \<Rightarrow> user \<Rightarrow> bool" where
  "newcomer sv u \<longleftrightarrow>
     (\<exists>oa preferred name. sv_OAuth sv = Some oa \<and> MapUsername (oa_prefix oa) preferred = Inr name \<and>
        u = user0\<lparr>u_Meta := object_meta0\<lparr>meta_Name := name\<rparr>\<rparr>)"

definition by_admin :: "server \<Rightarrow> session \<Rightarrow> user \<Rightarrow> bool" where
  "by_admin sv s u \<longleftrightarrow> se_Admin s \<and> sv_PasswordAuth sv \<and>
     (\<exists>name d h. MapUsername [] name = Inr name \<and>
        u = user0\<lparr>u_Meta := object_meta0\<lparr>meta_Name := name\<rparr>, u_Spec := user_spec0\<lparr>us_DisplayName := d, us_PasswordHash := h\<rparr>\<rparr>)"

fun licensed :: "'s libs \<Rightarrow> server \<Rightarrow> string option \<Rightarrow> event set \<Rightarrow> event \<Rightarrow> bool" where
  "licensed L sv tok E (EvCreateDevPod d r) = (\<exists>s. session_of L sv tok E s \<and> may_create L sv E s d)"
| "licensed L sv tok E (EvUpdateDevPod d r) = (\<exists>s. session_of L sv tok E s \<and> may_update L sv E s d)"
| "licensed L sv tok E (EvDeleteDevPod k r) = (\<exists>s. session_of L sv tok E s \<and> may_delete sv E s k)"
| "licensed L sv tok E (EvUpdateUser u r) = (\<exists>s. session_of L sv tok E s \<and> may_edit L sv E s u)"
| "licensed L sv tok E (EvCreateUser u r) = (newcomer sv u \<or> (\<exists>s. session_of L sv tok E s \<and> by_admin sv s u))"
| "licensed L sv tok E (EvDeleteUser n r) = (\<exists>s. session_of L sv tok E s \<and> se_Admin s)"
| "licensed L sv tok E (EvGetDevPod k r) = True"
| "licensed L sv tok E (EvListDevPods n r) = True"
| "licensed L sv tok E (EvGetPod k r) = True"
| "licensed L sv tok E (EvGetUser n r) = True"
| "licensed L sv tok E (EvListUsers r) = True"
| "licensed L sv tok E (EvGetTemplate n r) = True"
| "licensed L sv tok E (EvListTemplates r) = True"
| "licensed L sv tok E (EvNow t) = True"
| "licensed L sv tok E _ = False"

subsection \<open>Every handler keeps to it\<close>

lemma session_of_insert [intro]: "session_of L sv tok E s \<Longrightarrow> session_of L sv tok (insert e E) s"
  by (auto simp: session_of_def)

text \<open>The session check first: afterwards the session is known.\<close>

lemma lawful_sessionFrom [lawful_intros]:
  assumes "\<And>r E'. rs_Cookies r = [] \<Longrightarrow> R (Inl r) E'" "\<And>s now. session_of L sv tok (insert (EvNow now) E) s \<Longrightarrow> R (Inr s) (insert (EvNow now) E)"
  shows "lawful (licensed L sv tok) E (sessionFrom K L sv tok) R"
  unfolding sessionFrom_def by (intro lawful_intros assms) (auto simp: session_of_def)

lemma lawful_requireAdmin [lawful_intros]:
  assumes "\<And>r E'. rs_Cookies r = [] \<Longrightarrow> R (Inl r) E'"
    "\<And>s now. session_of L sv tok (insert (EvNow now) E) s \<Longrightarrow> se_Admin s \<Longrightarrow> R (Inr s) (insert (EvNow now) E)"
  shows "lawful (licensed L sv tok) E (requireAdmin K L sv tok) R"
  unfolding requireAdmin_def by (intro lawful_intros) (auto intro!: lawful_intros assms)

lemma lawful_ownedDevPods [lawful_intros]:
  assumes "\<And>e r. R (Inl e) (insert (EvListDevPods (Some (sv_NS sv)) r) E)"
    "\<And>ds. R (Inr (ownedOf owner ds)) (insert (EvListDevPods (Some (sv_NS sv)) (Inr ds)) E)"
  shows "lawful (licensed L sv tok) E (ownedDevPods K sv owner) R"
  unfolding ownedDevPods_def by (intro lawful_intros) (auto intro: assms split: sum.splits)

lemma lawful_getOwned [lawful_intros]:
  assumes "\<And>r E'. rs_Cookies r = [] \<Longrightarrow> R (Inl r) E'"
    "\<And>d E'. E' = insert (EvGetDevPod (sv_NS sv, name) (Inr d)) E \<Longrightarrow> read_owned sv E' s name d \<Longrightarrow> R (Inr d) E'"
  shows "lawful (licensed L sv tok) E (getOwned K sv s name) R"
  unfolding getOwned_def by (intro lawful_intros assms) (auto simp: read_owned_def intro: assms)

lemma lawful_checkQuotaFor [lawful_intros]:
  assumes "\<And>r E'. rs_Cookies r = [] \<Longrightarrow> R (Inl r) E'"
    "\<And>E'. E \<subseteq> E' \<Longrightarrow> se_Admin s \<or> quota_passed L sv E' (se_User s) d exclude \<Longrightarrow> R (Inr ()) E'"
  shows "lawful (licensed L sv tok) E (checkQuotaFor K L sv s d exclude) R"
  unfolding checkQuotaFor_def
  by (intro lawful_intros assms) (auto simp: quota_passed_def intro!: assms)

text \<open>One rule per licence, for a session and reads known earlier.\<close>

lemma session_of_mono: "session_of L sv tok E s \<Longrightarrow> E \<subseteq> E' \<Longrightarrow> session_of L sv tok E' s"
  by (auto simp: session_of_def)

lemma read_owned_mono: "read_owned sv E s n d \<Longrightarrow> E \<subseteq> E' \<Longrightarrow> read_owned sv E' s n d"
  by (auto simp: read_owned_def)

lemma licence_delete:
  "session_of L sv tok E s \<Longrightarrow> read_owned sv E' s n d \<Longrightarrow> E \<subseteq> E' \<Longrightarrow>
   licensed L sv tok E' (EvDeleteDevPod (meta_Namespace (dp_Meta d), dp_Name d) r)"
  by (auto simp: may_delete_def intro: session_of_mono)

lemma licence_update:
  "session_of L sv tok E s \<Longrightarrow> read_owned sv E' s n d \<Longrightarrow> E \<subseteq> E' \<Longrightarrow> E' \<subseteq> E'' \<Longrightarrow> b = (\<not> ds_Running (dp_Spec d)) \<Longrightarrow>
   b \<longrightarrow> se_Admin s \<or> quota_passed L sv E'' (se_User s) (setRunningFlag b d) (dp_Name (setRunningFlag b d)) \<Longrightarrow>
   licensed L sv tok E'' (EvUpdateDevPod (setRunningFlag b d) r)"
  unfolding licensed.simps may_update_def
  by (intro exI conjI, erule session_of_mono, blast, erule (1) read_owned_mono) (auto simp: setRunningFlag_def)

lemma licence_edit:
  "session_of L sv tok E s \<Longrightarrow> EvGetUser n (Inr u) \<in> E' \<Longrightarrow> E \<subseteq> E' \<Longrightarrow>
   n = se_User s \<and> own_edit L sv u u' \<or> se_Admin s \<and> admin_edit u u' \<Longrightarrow> licensed L sv tok E' (EvUpdateUser u' r)"
  by (auto simp: may_edit_def intro: session_of_mono)

lemma licence_new:
  "session_of L sv tok E s \<Longrightarrow> by_admin sv s u \<Longrightarrow> E \<subseteq> E' \<Longrightarrow> licensed L sv tok E' (EvCreateUser u r)"
  by (auto intro: session_of_mono)

abbreviation keeps_law :: "'s libs \<Rightarrow> server \<Rightarrow> string option \<Rightarrow> ('s, response) prog \<Rightarrow> bool" where
  "keeps_law L sv tok m \<equiv> lawful (licensed L sv tok) {} m (\<lambda>r _. rs_Cookies r = [])"

lemmas write_licences = licensed.simps(1-6)

lemma law_handleListDevPods: "keeps_law L sv tok (handleListDevPods K L sv tok)"
  unfolding handleListDevPods_def by (auto intro!: lawful_intros)

lemma law_handleGetDevPod: "keeps_law L sv tok (handleGetDevPod K L sv tok name)"
  unfolding handleGetDevPod_def bindingInfo_def by (auto intro!: lawful_intros)

lemma law_handleDeleteDevPod: "keeps_law L sv tok (handleDeleteDevPod K L sv tok name)"
  unfolding handleDeleteDevPod_def
  by (auto intro!: lawful_intros simp del: write_licences) (erule (1) licence_delete; auto)

lemma law_handlePatchDevPod: "keeps_law L sv tok (handlePatchDevPod K L sv tok name body)"
  unfolding handlePatchDevPod_def
  by (auto intro!: lawful_intros simp del: write_licences) (erule (1) licence_update; auto)+

lemma law_handlePutPubkeys: "keeps_law L sv tok (handlePutPubkeys K L sv tok body)"
  unfolding handlePutPubkeys_def
  by (auto intro!: lawful_intros simp del: write_licences) (erule licence_edit, rule insertI1, auto simp: own_edit_def)

lemma law_handleChangePassword: "keeps_law L sv tok (handleChangePassword K L sv tok body)"
  unfolding handleChangePassword_def HashPassword_def
  by (auto intro!: lawful_intros simp del: write_licences) (erule licence_edit, rule insertI1, auto simp: own_edit_def)

lemma law_reading:
  "keeps_law L sv tok (handleMe K L sv tok)" "keeps_law L sv tok (handleGetPubkeys K L sv tok)"
  "keeps_law L sv tok (handleListUsers K L sv tok)" "keeps_law L sv tok (handleAdminListDevPods K L sv tok)"
  "keeps_law L sv tok (handleListTemplates K L sv tok)"
  unfolding handleMe_def handleGetPubkeys_def handleListUsers_def handleAdminListDevPods_def handleListTemplates_def
  by (auto intro!: lawful_intros)

lemma law_handlePasswordLogin: "lawful (licensed L sv tok) {} (handlePasswordLogin K L sv body) (\<lambda>_ _. True)"
  unfolding handlePasswordLogin_def setSession_def by (auto intro!: lawful_intros)

lemma law_handleDeleteUser: "keeps_law L sv tok (handleDeleteUser K L sv tok name)"
  unfolding handleDeleteUser_def by (auto intro!: lawful_intros simp del: write_licences) auto

lemma by_admin_new:
  assumes "se_Admin s" "sv_PasswordAuth sv" "MapUsername [] n = Inr x"
  shows "by_admin sv s (user0\<lparr>u_Meta := object_meta0\<lparr>meta_Name := n\<rparr>,
    u_Spec := user_spec0\<lparr>us_DisplayName := d, us_PasswordHash := h\<rparr>\<rparr>)"
proof -
  from assms(3) have "MapUsername [] n = Inr n" by (auto simp: MapUsername_def Let_def split: if_splits)
  with assms show ?thesis by (auto simp: by_admin_def)
qed

lemma law_handleCreateUser: "keeps_law L sv tok (handleCreateUser K L sv tok body)"
  unfolding handleCreateUser_def HashPassword_def
  by (auto intro!: lawful_intros simp del: write_licences)
    (erule licence_new, auto intro: by_admin_new)

lemma lawful_patchPassword [lawful_intros]:
  assumes "\<And>r. rs_Cookies r = [] \<Longrightarrow> R (Inl r) E" "\<And>u'. admin_edit u u' \<Longrightarrow> R (Inr u') E"
  shows "lawful P E (patchPassword L sv pw u) R"
  unfolding patchPassword_def HashPassword_def by (auto intro!: lawful_intros assms simp: admin_edit_def setPasswordHash_def)

lemma admin_patch:
  assumes "admin_edit u u1"
    "patchQuota L qp (case d of None \<Rightarrow> u1 | Some d' \<Rightarrow> u1\<lparr>u_Spec := (u_Spec u1)\<lparr>us_DisplayName := d'\<rparr>\<rparr>) = Inr u2"
  shows "admin_edit u u2"
  using assms by (auto simp: patchQuota_def admin_edit_def split: option.splits sum.splits)

lemma patchQuota_Inl [dest!]: "patchQuota L qp u = Inl r \<Longrightarrow> rs_Cookies r = []"
  by (auto simp: patchQuota_def split: option.splits sum.splits)

lemma law_handlePatchUser: "keeps_law L sv tok (handlePatchUser K L sv tok name body)"
  unfolding handlePatchUser_def
  by (auto intro!: lawful_intros simp del: write_licences)
    (erule licence_edit, rule insertI1, auto dest: admin_patch)

lemma law_HandleCallback:
  assumes "sv_OAuth sv = Some oa"
  shows "lawful (licensed L sv tok) {} (HandleCallback K L oa stateC pkceC qstate code) (\<lambda>_ _. True)"
  unfolding HandleCallback_def finishLogin_def ensureUser_def oauthAdmin_def
  by (auto intro!: lawful_intros split: option.splits simp: newcomer_def assms) blast+

subsection \<open>Creating a DevPod\<close>

lemma KoreAnnotationKeys_Nil: "KoreAnnotationKeys m = [] \<longleftrightarrow> (\<forall>k\<in>fst ` set m. \<not> HasPrefix k KorePrefix)"
proof -
  have "KoreAnnotationKeys m = [] \<longleftrightarrow> set (KoreAnnotationKeys m) = {}" by simp
  then show ?thesis by (auto simp: KoreAnnotationKeys_def)
qed

lemma buildDevPod_spec:
  assumes "buildDevPod L sv s req = Inr dp"
  shows "meta_Namespace (dp_Meta dp) = sv_NS sv"
    and "se_Admin s \<or> dp_Owner dp = se_User s \<and> HasPrefix (dp_Name dp) (se_User s @ ''-'')"
  using assms
  by (auto simp: buildDevPod_def buildFromYAML_def buildFromForm_def Let_def HasPrefix_iff split: if_splits sum.splits)

definition stamped :: "event set \<Rightarrow> devpod \<Rightarrow> devpod \<Rightarrow> bool" where
  "stamped E dp dp' \<longleftrightarrow> dp_Meta dp' = dp_Meta dp \<and> dp_Owner dp' = dp_Owner dp \<and>
     (\<forall>k\<in>podAnnotations dp'. k \<in> podAnnotations dp \<or> (\<exists>n tpl. EvGetTemplate n (Inr tpl) \<in> E \<and> k \<in> templateAnnotations tpl))"

lemma lawful_stampTemplate [lawful_intros]:
  assumes "\<And>r E'. rs_Cookies r = [] \<Longrightarrow> R (Inl r) E'" "\<And>dp' E'. E \<subseteq> E' \<Longrightarrow> stamped E' dp dp' \<Longrightarrow> R (Inr dp') E'"
  shows "lawful (licensed L sv tok) E (stampTemplate K L sv ref dp) R"
  unfolding stampTemplate_def
  by (intro lawful_intros assms) (auto simp: stamped_def dest: ApplyTemplate_spec intro!: assms)

lemma lawful_meterable [lawful_intros]:
  assumes "\<And>r. rs_Cookies r = [] \<Longrightarrow> R (Inl r) E"
    "se_Admin s \<or> ds_VM (dp_Spec dp) = None \<and> (\<exists>pw. ds_Pod (dp_Spec dp) = Some pw \<and> RequireLimits (pw_Spec pw) = None) \<Longrightarrow> R (Inr ()) E"
  shows "lawful P E (meterable s dp) R"
  unfolding meterable_def by (intro lawful_intros assms) auto

lemma lawful_rejectKore [lawful_intros]:
  assumes "\<And>r. rs_Cookies r = [] \<Longrightarrow> R (Inl r) E" "se_Admin s \<or> offendingKeys dp = [] \<Longrightarrow> R (Inr ()) E"
  shows "lawful P E (rejectKore s dp) R"
  unfolding rejectKore_def by (intro lawful_intros assms) auto

lemma stamped_kore:
  assumes "stamped E dp dp'" "offendingKeys dp = []" "E \<subseteq> E'"
  shows "kore_stamped E' dp'"
proof -
  have "KoreAnnotationKeys (meta_Annotations (dp_Meta dp)) = []" "\<forall>k\<in>podAnnotations dp. \<not> HasPrefix k KorePrefix"
    using assms(2) by (auto simp: offendingKeys_def podAnnotations_def KoreAnnotationKeys_Nil split: option.splits)
  with assms(1,3) show ?thesis unfolding stamped_def kore_stamped_def by auto blast
qed

lemma licence_create:
  "session_of L sv tok E s \<Longrightarrow> stamped E' dp dp' \<Longrightarrow> buildDevPod L sv s req = Inr dp \<Longrightarrow> E \<subseteq> E' \<Longrightarrow> E' \<subseteq> E'' \<Longrightarrow>
   se_Admin s \<or> offendingKeys dp = [] \<and> ds_VM (dp_Spec dp') = None \<and>
     (\<exists>pw. ds_Pod (dp_Spec dp') = Some pw \<and> RequireLimits (pw_Spec pw) = None) \<and> quota_passed L sv E'' (se_User s) dp' [] \<Longrightarrow>
   licensed L sv tok E'' (EvCreateDevPod dp' r)"
  unfolding licensed.simps
  by (rule exI [of _ s]) (use buildDevPod_spec [of L sv s req dp] stamped_kore [of E' dp dp' E''] session_of_mono [of L sv tok E s E''] in
      \<open>auto simp: may_create_def stamped_def\<close>)

lemma parseLimits_Inl [dest!]: "parseLimits L rvs l = Inl r \<Longrightarrow> rs_Cookies r = []"
  by (induction L rvs l rule: parseLimits.induct) (auto split: if_splits sum.splits)

lemma buildDevPod_Inl [dest!]: "buildDevPod L sv s req = Inl r \<Longrightarrow> rs_Cookies r = []"
  by (auto simp: buildDevPod_def buildFromYAML_def buildFromForm_def Let_def split: if_splits sum.splits)

lemma law_handleCreateDevPod: "keeps_law L sv tok (handleCreateDevPod K L sv tok body)"
  unfolding handleCreateDevPod_def
  by (auto intro!: lawful_intros simp del: write_licences) (erule (2) licence_create; auto)+

subsection \<open>Every request\<close>

fun login :: "call \<Rightarrow> bool" where
  "login AuthLogin = True" | "login (AuthCallback s c) = True" | "login AuthLogout = True" | "login (AuthPassword b) = True"
| "login _ = False"

lemma law_other:
  assumes "\<not> login c"
  shows "keeps_law L sv (cookies SessionCookie) (mux K L sv cookies c)"
  using assms
  by (cases c) (auto simp: mux_def handleAuthConfig_def law_handleListDevPods law_handleGetDevPod law_handleDeleteDevPod law_handlePatchDevPod
    law_handlePutPubkeys law_handleChangePassword law_reading law_handleDeleteUser
    law_handleCreateUser law_handlePatchUser law_handleCreateDevPod intro!: lawful_intros)

lemma law_mux: "lawful (licensed L sv (cookies SessionCookie)) {} (mux K L sv cookies c) (\<lambda>_ _. True)"
proof (cases "login c")
  case True
  then show ?thesis
    by (cases c) (auto simp: mux_def HandleLogin_def randToken_def law_HandleCallback law_handlePasswordLogin
        split: option.splits intro!: lawful_intros)
qed (blast intro: lawful_mono law_other)

lemma law_Routes: "lawful (licensed L sv (rq_Cookie rq SessionCookie)) {} (Routes K L sv rq) (\<lambda>_ _. True)"
  unfolding Routes_def originGuard_def by (intro lawful_intros law_mux) simp_all

lemma Routes_licensed:
  "made (Routes K L sv rq) w = pre @ e # post \<Longrightarrow> licensed L sv (rq_Cookie rq SessionCookie) (set pre) e"
  by (rule lawfulD [OF law_Routes])

subsection \<open>Sessions that logins hand out\<close>

text \<open>
  A session cookie is justified by a password that matches the stored hash of the user read, or by an
  identity the provider vouched for in the flow that this browser started.
\<close>

definition by_password :: "'s libs \<Rightarrow> server \<Rightarrow> event set \<Rightarrow> call \<Rightarrow> string \<Rightarrow> bool \<Rightarrow> bool" where
  "by_password L sv E c name admin \<longleftrightarrow>
     (\<exists>pw u. c = AuthPassword (Inr (name, pw)) \<and> sv_PasswordAuth sv \<and> EvGetUser name (Inr u) \<in> E \<and>
        us_PasswordHash (u_Spec u) \<noteq> [] \<and> VerifyPassword L (us_PasswordHash (u_Spec u)) pw \<and>
        admin = (name \<in> set (sv_Admins sv) \<or> us_Admin (u_Spec u)))"

definition by_oauth :: "'s libs \<Rightarrow> oauth \<Rightarrow> (string \<Rightarrow> string option) \<Rightarrow> event set \<Rightarrow> call \<Rightarrow> string \<Rightarrow> bool \<Rightarrow> bool" where
  "by_oauth L oa cookies E c name admin \<longleftrightarrow>
     (\<exists>st code rawID preferred. c = AuthCallback st code \<and> cookies stateCookie = Some st \<and>
        Inr (Inr preferred) \<in> answers (lib_VerifyIDToken L rawID) \<and> MapUsername (oa_prefix oa) preferred = Inr name \<and>
        (admin \<longrightarrow> preferred \<in> set (oa_admins oa) \<or> (\<exists>u. EvGetUser name (Inr u) \<in> E \<and> us_Admin (u_Spec u))))"

definition justified :: "'s libs \<Rightarrow> server \<Rightarrow> (string \<Rightarrow> string option) \<Rightarrow> call \<Rightarrow> event set \<Rightarrow> cookie \<Rightarrow> bool" where
  "justified L sv cookies c E ck \<longleftrightarrow>
     (\<exists>name admin now. EvNow now \<in> E \<and>
        (by_password L sv E c name admin \<and> ck_Value ck = Mint (lib_hmac L) (sv_Sessions sv) name admin now \<or>
         (\<exists>oa. sv_OAuth sv = Some oa \<and> by_oauth L oa cookies E c name admin \<and>
            ck_Value ck = Mint (lib_hmac L) (oa_sessions oa) name admin now)))"

definition cookies_ok :: "'s libs \<Rightarrow> server \<Rightarrow> (string \<Rightarrow> string option) \<Rightarrow> call \<Rightarrow> response \<Rightarrow> event set \<Rightarrow> bool" where
  "cookies_ok L sv cookies c r E \<longleftrightarrow>
     (\<forall>ck\<in>set (rs_Cookies r). ck_Name ck = SessionCookie \<longrightarrow> ck_Value ck = [] \<or> justified L sv cookies c E ck)"

lemma cookie_names [simp]:
  "ck_Name (sessionCookie v a b) = SessionCookie" "ck_Value (sessionCookie v a b) = v"
  "ck_Name (flowCookie oa n v a) = n" "stateCookie \<noteq> SessionCookie" "pkceCookie \<noteq> SessionCookie"
  by (simp_all add: sessionCookie_def flowCookie_def stateCookie_def pkceCookie_def SessionCookie_def)

lemma cookies_addCookies [simp]: "rs_Cookies (addCookies cs r) = cs @ rs_Cookies r"
  by (simp add: addCookies_def)

lemma justified_password:
  assumes "EvGetUser name (Inr u) \<in> E" "EvNow now \<in> E" "sv_PasswordAuth sv" "us_PasswordHash (u_Spec u) \<noteq> []"
    "VerifyPassword L (us_PasswordHash (u_Spec u)) pw"
  shows "justified L sv cookies (AuthPassword (Inr (name, pw))) E
    (sessionCookie (Mint (lib_hmac L) (sv_Sessions sv) name (adminFor sv name (Some u)) now) age secure)"
  unfolding justified_def by_password_def
  by (rule exI [of _ name], rule exI [of _ "adminFor sv name (Some u)"], rule exI [of _ now]) (use assms in \<open>auto simp: adminFor_def\<close>)

lemma justified_oauth:
  assumes "Inr (Inr preferred) \<in> answers (lib_VerifyIDToken L rawID)" "MapUsername (oa_prefix oa) preferred = Inr name"
    "sv_OAuth sv = Some oa" "cookies stateCookie = Some st" "EvNow now \<in> E"
    "admin \<longrightarrow> preferred \<in> set (oa_admins oa) \<or> (\<exists>u. EvGetUser name (Inr u) \<in> E \<and> us_Admin (u_Spec u))"
  shows "justified L sv cookies (AuthCallback st code) E
    (sessionCookie (Mint (lib_hmac L) (oa_sessions oa) name admin now) age secure)"
  unfolding justified_def by_oauth_def
  by (rule exI [of _ name], rule exI [of _ admin], rule exI [of _ now]) (use assms in auto)

lemma cookies_ok_none [simp]: "rs_Cookies r = [] \<Longrightarrow> cookies_ok L sv cookies c r E"
  by (simp add: cookies_ok_def)

lemma cookies_ok_add [simp]:
  "cookies_ok L sv cookies c (addCookies cks r) E \<longleftrightarrow>
     (\<forall>ck\<in>set cks. ck_Name ck = SessionCookie \<longrightarrow> ck_Value ck = [] \<or> justified L sv cookies c E ck) \<and> cookies_ok L sv cookies c r E"
  by (auto simp: cookies_ok_def)

lemma password_cookies:
  "lawful (\<lambda>_ _. True) {} (handlePasswordLogin K L sv body) (cookies_ok L sv cookies (AuthPassword body))"
  unfolding handlePasswordLogin_def setSession_def
  by (auto intro!: lawful_intros justified_password)

lemma callback_cookies:
  assumes "sv_OAuth sv = Some oa"
  shows "lawful (\<lambda>_ _. True) {} (HandleCallback K L oa (cookies stateCookie) pkceC qstate code) (cookies_ok L sv cookies (AuthCallback qstate code))"
  unfolding HandleCallback_def finishLogin_def ensureUser_def oauthAdmin_def
  by (auto intro!: lawful_intros split: option.splits simp: assms)
    (erule notE, erule (1) justified_oauth, auto simp: assms split: sum.splits)+

lemma mux_cookies: "cookies_ok L sv cookies c (result (mux K L sv cookies c) w) (set (made (mux K L sv cookies c) w))"
proof (cases "login c")
  case False
  then show ?thesis by (intro cookies_ok_none lawful_result [OF law_other])
next
  case True
  then have "lawful (\<lambda>_ _. True) {} (mux K L sv cookies c) (cookies_ok L sv cookies c)"
    by (cases c) (auto simp: mux_def HandleLogin_def randToken_def handleLogout_def callback_cookies password_cookies
        split: option.splits intro!: lawful_intros)
  then show ?thesis by (rule lawful_result)
qed

subsection \<open>Usage, as shown and as metered\<close>

definition sums_up :: "devpod list \<Rightarrow> nat \<Rightarrow> resource_list \<Rightarrow> quantity \<Rightarrow> bool" where
  "sums_up ds running compute storage \<longleftrightarrow>
     running = length (filter computes ds) \<and> (\<forall>n. qty compute n = sum_list (map (computeOf n) ds)) \<and>
     storage = sum_list (map sizeOf ds)"

lemma sums_up_snoc:
  assumes "sums_up ds r c s"
  shows "sums_up (ds @ [d]) (if computes d then r + 1 else r)
    (if computes d then fold addQty (PodLimits (pw_Spec (the (ds_Pod (dp_Spec d))))) c else c) (s + sizeOf d)"
  using assms
  by (auto simp: sums_up_def computes_def computeOf_def qty_fold_addQty amount_PodLimits split: option.splits)

lemma sums_up_Nil: "sums_up [] 0 [] 0"
  by (simp add: sums_up_def qty_def)

lemma usageStep_eq:
  "usageStep d a =
     \<lparr>us_running = (if computes d then us_running a + 1 else us_running a),
      us_compute = (if computes d then fold addQty (PodLimits (pw_Spec (the (ds_Pod (dp_Spec d))))) (us_compute a) else us_compute a),
      us_storage = us_storage a + sizeOf d\<rparr>"
  by (cases a) (auto simp: usageStep_def Let_def computes_def sizeOf_def split: option.splits)

lemma fold_usageStep: "sums_up ds (us_running (fold usageStep ds usage_sum0)) (us_compute (fold usageStep ds usage_sum0)) (us_storage (fold usageStep ds usage_sum0))"
proof (induction ds rule: rev_induct)
  case Nil
  then show ?case by (simp add: usage_sum0_def sums_up_Nil)
next
  case (snoc d ds)
  from sums_up_snoc [OF this, of d] show ?case by (simp add: usageStep_eq [of d])
qed

lemma map_of_aggStep:
  "map_of (aggStep d m) o' =
     (if dp_Owner d = o'
      then let a = (case map_of m o' of None \<Rightarrow> agg0 | Some a \<Rightarrow> a) in
        Some \<lparr>ag_total = ag_total a + 1, ag_running = (if computes d then ag_running a + 1 else ag_running a),
              ag_compute = (if computes d then fold addQty (PodLimits (pw_Spec (the (ds_Pod (dp_Spec d))))) (ag_compute a) else ag_compute a),
              ag_storage = ag_storage a + sizeOf d\<rparr>
      else map_of m o')"
  by (cases "map_of m o'") (auto simp: aggStep_def Let_def computes_def sizeOf_def agg0_def split: option.splits)

lemma fold_aggStep:
  "case map_of (fold aggStep ds []) o' of
     None \<Rightarrow> filter (\<lambda>d. dp_Owner d = o') ds = []
   | Some a \<Rightarrow> filter (\<lambda>d. dp_Owner d = o') ds \<noteq> [] \<and> ag_total a = length (filter (\<lambda>d. dp_Owner d = o') ds) \<and>
       sums_up (filter (\<lambda>d. dp_Owner d = o') ds) (ag_running a) (ag_compute a) (ag_storage a)"
proof (induction ds rule: rev_induct)
  case (snoc d ds)
  let ?mine = "filter (\<lambda>d. dp_Owner d = o') ds"
  show ?case
  proof (cases "dp_Owner d = o'")
    case True
    show ?thesis
    proof (cases "map_of (fold aggStep ds []) o'")
      case None
      with snoc True sums_up_snoc [OF sums_up_Nil, of d] show ?thesis by (simp add: map_of_aggStep agg0_def Let_def split: if_splits)
    next
      case (Some a)
      with snoc have "sums_up ?mine (ag_running a) (ag_compute a) (ag_storage a)" "ag_total a = length ?mine" by simp_all
      with sums_up_snoc [OF this(1), of d] Some True show ?thesis by (simp add: map_of_aggStep Let_def)
    qed
  qed (use snoc in \<open>simp add: map_of_aggStep split: option.splits\<close>)
qed simp

subsection \<open>Properties\<close>

text \<open>
  C1. Whatever the API server answers, a DevPod is created only for a request whose cookie verifies to a session, in the
  configured namespace.  Unless that session is an administrator's, the DevPod is owned by and named after
  its user, is no virtual machine, declares its limits, passed the quota check against the DevPods
  listed, and carries a CPU-binding annotation only if a template read for this request has it.
\<close>

theorem web_create_authorised:
  assumes "made (Routes K L sv rq) w = pre @ EvCreateDevPod d r # post"
  shows "\<exists>s. session_of L sv (rq_Cookie rq SessionCookie) (set pre) s \<and> may_create L sv (set pre) s d"
  using Routes_licensed [OF assms] by simp

text \<open>
  C2. A DevPod is changed or deleted only after it was read and found to belong to the session's user or the session to
  be an administrator's.  A change flips the running flag and nothing else, and waking passes the quota check.
\<close>

theorem web_change_needs_ownership:
  assumes "made (Routes K L sv rq) w = pre @ e # post" "e = EvUpdateDevPod d r \<or> e = EvDeleteDevPod k r'"
  shows "\<exists>s name d0. session_of L sv (rq_Cookie rq SessionCookie) (set pre) s \<and> read_owned sv (set pre) s name d0 \<and>
    (e = EvDeleteDevPod (meta_Namespace (dp_Meta d0), dp_Name d0) r' \<or>
     e = EvUpdateDevPod (setRunningFlag (\<not> ds_Running (dp_Spec d0)) d0) r \<and>
       (se_Admin s \<or> ds_Running (dp_Spec d0) \<or>
        quota_passed L sv (set pre) (se_User s) (setRunningFlag True d0) (dp_Name d0)))"
  using Routes_licensed [OF assms(1)] assms(2)
  by (auto simp: may_update_def may_delete_def setRunningFlag_def) metis+

text \<open>
  C28. No request grants the administrator bit: Users are created without it, and a rewritten User keeps the bit of the
  User read.  A User is rewritten for its own session or an administrator's, its SSH keys only for its own and
  only where self-service is on, and is deleted only for an administrator.  No other object is written.
\<close>

theorem web_never_grants_admin:
  assumes "made (Routes K L sv rq) w = pre @ e # post"
  shows "case e of
      EvCreateUser u _ \<Rightarrow> \<not> us_Admin (u_Spec u) \<and> us_Pubkeys (u_Spec u) = []
    | EvUpdateUser u' _ \<Rightarrow>
        (\<exists>s n u. session_of L sv (rq_Cookie rq SessionCookie) (set pre) s \<and> EvGetUser n (Inr u) \<in> set pre \<and>
           (n = se_User s \<or> se_Admin s) \<and> us_Admin (u_Spec u') = us_Admin (u_Spec u) \<and>
           (us_Pubkeys (u_Spec u') = us_Pubkeys (u_Spec u) \<or> n = se_User s \<and> sv_PubkeySelfService sv))
    | EvDeleteUser _ _ \<Rightarrow> (\<exists>s. session_of L sv (rq_Cookie rq SessionCookie) (set pre) s \<and> se_Admin s)
    | EvPatchDevPodStatus _ _ _ \<Rightarrow> False | EvDeletePod _ _ \<Rightarrow> False | EvApply _ _ \<Rightarrow> False | EvPatchPVC _ _ _ \<Rightarrow> False
    | EvDeleteNetPol _ _ \<Rightarrow> False | EvCreateSecret _ _ \<Rightarrow> False | EvUpdateUserStatus _ _ \<Rightarrow> False
    | EvUpdateSnapshot _ _ \<Rightarrow> False | EvPatchSnapshotStatus _ _ _ \<Rightarrow> False | EvCreateJob _ _ \<Rightarrow> False
    | _ \<Rightarrow> True"
proof (cases e)
  case (EvCreateUser u r)
  with Routes_licensed [OF assms] show ?thesis
    by (auto simp: newcomer_def by_admin_def user0_def user_spec0_def)
next
  case (EvUpdateUser u' r)
  with Routes_licensed [OF assms] obtain s n u where "session_of L sv (rq_Cookie rq SessionCookie) (set pre) s"
    "EvGetUser n (Inr u) \<in> set pre" "n = se_User s \<and> own_edit L sv u u' \<or> se_Admin s \<and> admin_edit u u'"
    by (auto simp: may_edit_def)
  moreover from this(3) have "n = se_User s \<or> se_Admin s" "us_Admin (u_Spec u') = us_Admin (u_Spec u)"
    "us_Pubkeys (u_Spec u') = us_Pubkeys (u_Spec u) \<or> n = se_User s \<and> sv_PubkeySelfService sv"
    by (auto simp: own_edit_def admin_edit_def setPasswordHash_def)
  ultimately show ?thesis using EvUpdateUser by auto
qed (use Routes_licensed [OF assms] in auto)

text \<open>Every session cookie a request is answered with is justified.\<close>

lemma Routes_cookies:
  assumes "ck \<in> set (rs_Cookies (result (Routes K L sv rq) w))" "ck_Name ck = SessionCookie" "ck_Value ck \<noteq> []"
  shows "justified L sv (rq_Cookie rq) (rq_Call rq) (set (made (Routes K L sv rq) w)) ck"
proof (cases "Routes K L sv rq = mux K L sv (rq_Cookie rq) (rq_Call rq)")
  case True
  with mux_cookies [of L sv "rq_Cookie rq" "rq_Call rq" K w] assms show ?thesis by (auto simp: cookies_ok_def)
next
  case False
  then have "rs_Cookies (result (Routes K L sv rq) w) = []"
    by (auto simp: Routes_def originGuard_def result_def split: if_splits)
  with assms(1) show ?thesis by simp
qed

text \<open>
  The figures the UI shows are the ones the quota is metered by: for a user's own page, and for the administrator's
  table computed in one pass over all DevPods, the number of DevPods, of running ones, each resource and
  the storage are the sums over that owner's DevPods that the quota check compares with the limits.
\<close>

theorem usage_mirrors_quota:
  defines "mine ds owner \<equiv> filter (\<lambda>d. dp_Owner d = owner) ds"
  shows "sums_up (ownedOf owner ds) (us_running (fold usageStep (ownedOf owner ds) usage_sum0))
      (us_compute (fold usageStep (ownedOf owner ds) usage_sum0)) (us_storage (fold usageStep (ownedOf owner ds) usage_sum0)) \<and>
    (case map_of (fold aggStep ds []) owner of
       None \<Rightarrow> mine ds owner = []
     | Some a \<Rightarrow> mine ds owner \<noteq> [] \<and> ag_total a = length (mine ds owner) \<and>
         sums_up (mine ds owner) (ag_running a) (ag_compute a) (ag_storage a))"
  unfolding mine_def by (intro conjI fold_usageStep fold_aggStep)

subsection \<open>Examples\<close>

definition ex_libs :: "mem libs" where
  "ex_libs = \<lparr>lib_hmac = (\<lambda>k p. k), lib_QuantityString = (\<lambda>_. []), lib_ParseQuantity = (\<lambda>_. Inr 1),
     lib_yamlUnmarshalStrict = (\<lambda>_. Inl (ErrSentinel [])), lib_GenerateFromPassword = (\<lambda>pw s. (Inr pw, s)),
     lib_CompareHashAndPassword = (\<lambda>h pw. if h = pw then None else Some (ErrSentinel [])), lib_ParseAuthorizedKey = (\<lambda>_. None),
     lib_rand = (\<lambda>s. ([], s)), lib_GenerateVerifier = (\<lambda>s. ([], s)), lib_AuthCodeURL = (\<lambda>_ _. []),
     lib_Exchange = (\<lambda>_ _ s. (Inr None, s)), lib_VerifyIDToken = (\<lambda>_ s. (Inl (ErrSentinel []), s))\<rparr>"

definition ex_sv :: server where
  "ex_sv = \<lparr>sv_NS = ''ns'', sv_Sessions = \<lparr>sm_key = ''key'', sm_ttl = 3600 * Second\<rparr>, sv_OAuth = None,
     sv_DefaultQuota = \<lparr>q_MaxDevPods = None, q_Compute = None, q_Storage = None\<rparr>, sv_KoreEnabled = False,
     sv_Origin = [], sv_PubkeySelfService = True, sv_SSHHost = [], sv_SSHPort = 22, sv_SSHLoginSuffix = [],
     sv_PasswordAuth = True, sv_PasswordMinLength = 1, sv_Admins = [], sv_SecureCookies = True\<rparr>"

definition ex_token :: string where
  "ex_token = Mint (\<lambda>k p. k) (sv_Sessions ex_sv) ''bob'' False 0"

definition ex_sess :: session where
  "ex_sess = \<lparr>se_User = ''bob'', se_Admin = False, se_Expiry = 3600\<rparr>"

definition ex_rq :: "call \<Rightarrow> http_request" where
  "ex_rq c = \<lparr>rq_Method = ''POST'', rq_Origin = [], rq_Cookie = (\<lambda>n. if n = SessionCookie then Some ex_token else None), rq_Call = c\<rparr>"

definition ex_create :: create_request where
  "ex_create = \<lparr>cr_Name = ''x'', cr_TemplateRef = [], cr_YAML = [], cr_Image = ''img'', cr_CPU = ''1'', cr_Memory = ''1'',
     cr_Shell = [], cr_Persistence = None\<rparr>"

definition ex_created :: devpod where
  "ex_created = devpod0\<lparr>dp_Meta := object_meta0\<lparr>meta_Name := ''bob-x'', meta_Namespace := ''ns''\<rparr>,
     dp_Spec := devpod_spec0\<lparr>ds_Owner := ''bob'', ds_Running := True, ds_Pod := Some (formPod ex_create [(''cpu'', 1), (''memory'', 1)])\<rparr>\<rparr>"

definition ex_bob :: user where
  "ex_bob = user0\<lparr>u_Meta := object_meta0\<lparr>meta_Name := ''bob''\<rparr>, u_Spec := user_spec0\<lparr>us_PasswordHash := ''pw''\<rparr>\<rparr>"

lemma ex_verify: "Verify (lib_hmac ex_libs) (sv_Sessions ex_sv) ex_token 1000 = Inr ex_sess"
  using Verify_Mint [of "sv_Sessions ex_sv" 0 "\<lambda>k p. k" "''bob''" False 1000]
  by (simp add: ex_token_def ex_libs_def ex_sess_def ex_sv_def expires_def datable_def time_Unix_def)

lemma ex_routes:
  "Routes mem_kube ex_libs ex_sv (ex_rq c) = mux mem_kube ex_libs ex_sv (\<lambda>n. if n = SessionCookie then Some ex_token else None) c"
  by (simp add: Routes_def originGuard_def ex_rq_def)

text \<open>The trace of a request of this session, from the point where the session is known.\<close>

definition ex_world :: "devpod list \<Rightarrow> mem world" where
  "ex_world ds = mem_world (mem0\<lparr>m_users := [ex_bob], m_devpods := ds\<rparr>)"

lemma ex_session:
  assumes "sv_Sessions sv = sv_Sessions ex_sv" "calls w = []" "m_clock (cluster w) = 1000"
  shows "run_state (sessionFrom mem_kube ex_libs sv (Some ex_token)) w = (Inr ex_sess, w\<lparr>calls := [EvNow 1000]\<rparr>)"
  using assms by (simp add: sessionFrom_def ex_verify lift_sum_def go_on_def)

lemma ex_made:
  assumes "calls w = []" "m_clock (cluster w) = 1000"
  shows "made (written (andThen (sessionFrom mem_kube ex_libs ex_sv (Some ex_token)) f)) w =
     calls (snd (run_state (written (f ex_sess)) (w\<lparr>calls := [EvNow 1000]\<rparr>)))"
  using assms by (simp add: made_def written_def andThen_def ex_session case_prod_beta)

lemma ex_world_fresh [simp]: "calls (ex_world ds) = []" "m_clock (cluster (ex_world ds)) = 1000"
  by (simp_all add: ex_world_def mem_world_def mem0_def)

lemma ex_create_trace:
  "made (Routes mem_kube ex_libs ex_sv (ex_rq (CreateDevPod (Inr ex_create)))) (ex_world []) =
     [EvNow 1000, EvGetUser ''bob'' (Inr ex_bob), EvListDevPods (Some ''ns'') (Inr [])] @ EvCreateDevPod ex_created (Inr ex_created) # []"
  unfolding ex_routes by (simp add: mux_def handleCreateDevPod_def ex_made) code_simp

lemma ex_delete_trace:
  "made (Routes mem_kube ex_libs ex_sv (ex_rq (DeleteDevPod ''bob-x''))) (ex_world [ex_created]) =
     [EvNow 1000, EvGetDevPod (''ns'', ''bob-x'') (Inr ex_created)] @ EvDeleteDevPod (''ns'', ''bob-x'') (Inr ()) # []"
  unfolding ex_routes by (simp add: mux_def handleDeleteDevPod_def ex_made) code_simp

definition ex_keyed :: user where
  "ex_keyed = ex_bob\<lparr>u_Spec := (u_Spec ex_bob)\<lparr>us_Pubkeys := [''k'']\<rparr>\<rparr>"

lemma ex_pubkeys_trace:
  "made (Routes mem_kube ex_libs ex_sv (ex_rq (MePutPubkeys (Inr [''k''])))) (ex_world []) =
     [EvNow 1000, EvGetUser ''bob'' (Inr ex_bob)] @ EvUpdateUser ex_keyed (Inr ex_keyed) # []"
  unfolding ex_routes by (simp add: mux_def handlePutPubkeys_def ex_made) code_simp

lemma ex_login_cookies:
  "rs_Cookies (result (Routes mem_kube ex_libs ex_sv (ex_rq (AuthPassword (Inr (''bob'', ''pw''))))) (ex_world [])) =
     [sessionCookie (Mint (\<lambda>k p. k) (sv_Sessions ex_sv) ''bob'' False 1000) 3600 True]"
  unfolding ex_routes
  by (simp add: mux_def handlePasswordLogin_def setSession_def result_def written_def andThen_def guard_ok_def lift_sum_def go_on_def
      answer_def ex_sv_def ex_world_def mem_world_def mem0_def mem_kube_def ex_bob_def user0_def user_spec0_def object_meta0_def
      VerifyPassword_def ex_libs_def adminFor_def TTL_def wholeSeconds_def)

theorem web_create_authorised_witness:
  "\<exists>s. session_of ex_libs ex_sv (rq_Cookie (ex_rq (CreateDevPod (Inr ex_create))) SessionCookie)
       (set [EvNow 1000, EvGetUser ''bob'' (Inr ex_bob), EvListDevPods (Some ''ns'') (Inr [])]) s \<and>
     may_create ex_libs ex_sv (set [EvNow 1000, EvGetUser ''bob'' (Inr ex_bob), EvListDevPods (Some ''ns'') (Inr [])]) s ex_created"
  by (rule web_create_authorised [OF ex_create_trace])

theorem web_change_needs_ownership_witness:
  "\<exists>s name d0. session_of ex_libs ex_sv (Some ex_token) (set [EvNow 1000, EvGetDevPod (''ns'', ''bob-x'') (Inr ex_created)]) s \<and>
     read_owned ex_sv (set [EvNow 1000, EvGetDevPod (''ns'', ''bob-x'') (Inr ex_created)]) s name d0 \<and>
     (''ns'', ''bob-x'') = (meta_Namespace (dp_Meta d0), dp_Name d0)"
  using web_change_needs_ownership [OF ex_delete_trace, of _ _ "(''ns'', ''bob-x'')" "Inr ()"] by (auto simp: ex_rq_def)

theorem web_never_grants_admin_witness:
  "\<exists>s n u. session_of ex_libs ex_sv (Some ex_token) (set [EvNow 1000, EvGetUser ''bob'' (Inr ex_bob)]) s \<and>
     EvGetUser n (Inr u) \<in> set [EvNow 1000, EvGetUser ''bob'' (Inr ex_bob)] \<and> (n = se_User s \<or> se_Admin s) \<and>
     us_Admin (u_Spec ex_keyed) = us_Admin (u_Spec u)"
  using web_never_grants_admin [OF ex_pubkeys_trace] by (auto simp: ex_rq_def)

end
