(* ===== verification/Webui_Main.thy ===== *)
theory Webui_Main
  imports Webui_Routes Gateway_Login
begin

section \<open>Web UI: start-up\<close>

text \<open>
  \<open>src/cmd/webui/main.go\<close> up to the server it starts: the checks on the flags, the keys and files it reads,
  and the record \<open>server\<close> it builds.  Files, the YAML of the default quota, API discovery, OIDC discovery
  and URL parsing are the record \<open>web_env\<close>; \<open>fatal(err)\<close> is the result \<open>Inl err\<close>.  The manager, its cache
  and the listener are not modelled.
\<close>

record web_flags =
  wf_issuerURL :: string
  wf_clientID :: string
  wf_clientSecretFile :: string
  wf_redirectURL :: string
  wf_userPrefix :: string
  wf_admins :: string
  wf_sessionKeyFile :: string
  wf_defaultQuotaFile :: string
  wf_devpodNamespace :: string
  wf_koreMode :: string
  wf_pubkeySelfService :: bool
  wf_sshAdvertise :: string
  wf_passwordAuth :: bool
  wf_passwordMinLength :: int
  wf_externalURL :: string
  wf_sshLoginSuffix :: string

record web_env =
  we_ReadFile :: "string \<Rightarrow> go_error + string"
  we_quotaYAML :: "string \<Rightarrow> go_error + user_quota"
  we_koreServed :: bool
  we_oidcDiscovery :: "string \<Rightarrow> go_error option"
  we_urlScheme :: "string \<Rightarrow> go_error + string"

definition originOf :: "string \<Rightarrow> string" where
  "originOf redirectURL =
     (case Index redirectURL ''://'' of
        None \<Rightarrow> redirectURL
      | Some i \<Rightarrow>
          if i = 0 then redirectURL
          else let rest = drop (i + 3) redirectURL
               in case Index rest ''/'' of
                    None \<Rightarrow> redirectURL
                  | Some j \<Rightarrow> if j = 0 then redirectURL else take (i + 3) redirectURL @ take j rest)"

definition splitNonEmpty :: "string \<Rightarrow> string list" where
  "splitNonEmpty s = filter (\<lambda>p. p \<noteq> []) (map TrimSpace (Split (CHR '','') s))"

definition missingOAuthFlag :: "web_flags \<Rightarrow> string option" where
  "missingOAuthFlag fl =
     map_option fst (find (\<lambda>nv. snd nv = [])
       [(''--oauth-client-id'', wf_clientID fl), (''--oauth-client-secret-file'', wf_clientSecretFile fl), (''--redirect-url'', wf_redirectURL fl)])"

definition checkFlags :: "web_flags \<Rightarrow> go_error option" where
  "checkFlags fl =
     (let oauthEnabled = (wf_issuerURL fl \<noteq> [])
      in if \<not> oauthEnabled \<and> \<not> wf_passwordAuth fl
         then Some (ErrSentinel ''no login method enabled: set --password-auth and/or --gitlab-issuer-url'')
         else if wf_sessionKeyFile fl = [] then Some (ErrSentinel ''--session-key-file is required'')
         else if oauthEnabled
         then map_option (\<lambda>n. Errorf ''%s is required when OAuth is enabled'' [n] None) (missingOAuthFlag fl)
         else None)"

definition sessionKeyFrom :: "web_flags \<Rightarrow> web_env \<Rightarrow> go_error + string" where
  "sessionKeyFrom fl env =
     (let e = Errorf ''session key: need >= 32 bytes from %s'' [wf_sessionKeyFile fl] None
      in case we_ReadFile env (wf_sessionKeyFile fl) of
           Inl _ \<Rightarrow> Inl e
         | Inr key \<Rightarrow> if length key < 32 then Inl e else Inr key)"

definition defaultQuotaFrom :: "web_flags \<Rightarrow> web_env \<Rightarrow> go_error + user_quota" where
  "defaultQuotaFrom fl env =
     (if wf_defaultQuotaFile fl = [] then Inr \<lparr>q_MaxDevPods = None, q_Compute = None, q_Storage = None\<rparr>
      else case we_ReadFile env (wf_defaultQuotaFile fl) of
             Inl e \<Rightarrow> Inl (Errorf ''default quota: %w'' [] (Some e))
           | Inr raw \<Rightarrow> (case we_quotaYAML env raw of Inl e \<Rightarrow> Inl (Errorf ''default quota: %w'' [] (Some e)) | Inr q \<Rightarrow> Inr q))"

definition koreEnabled :: "web_flags \<Rightarrow> web_env \<Rightarrow> go_error + bool" where
  "koreEnabled fl env =
     (if wf_koreMode fl = ''on'' then Inr True
      else if wf_koreMode fl = ''off'' then Inr False
      else if wf_koreMode fl = ''auto'' then Inr (we_koreServed env)
      else Inl (Errorf ''--kore must be auto|on|off, got %q'' [wf_koreMode fl] None))"

definition sshAdvertised :: "string \<Rightarrow> string \<times> int" where
  "sshAdvertised adv =
     (case SplitHostPort adv of
        Inl _ \<Rightarrow> (adv, 22)
      | Inr (h, p) \<Rightarrow> (h, case Atoi p of Some n \<Rightarrow> n | None \<Rightarrow> 22))"

definition originFlag :: "web_flags \<Rightarrow> string" where
  "originFlag fl = (let o' = originOf (wf_externalURL fl) in if o' = [] then originOf (wf_redirectURL fl) else o')"

definition oauthFrom :: "web_flags \<Rightarrow> web_env \<Rightarrow> session_manager \<Rightarrow> go_error + oauth option" where
  "oauthFrom fl env sm =
     (if wf_issuerURL fl = [] then Inr None
      else case NewOAuth (we_oidcDiscovery env (wf_issuerURL fl)) (we_urlScheme env (wf_redirectURL fl))
                  \<lparr>oc_IssuerURL = wf_issuerURL fl, oc_UserPrefix = wf_userPrefix fl, oc_Admins = splitNonEmpty (wf_admins fl)\<rparr> sm of
             Inl e \<Rightarrow> Inl e
           | Inr oa \<Rightarrow> Inr (Some oa))"

definition clientSecretFrom :: "web_flags \<Rightarrow> web_env \<Rightarrow> go_error option" where
  "clientSecretFrom fl env =
     (if wf_issuerURL fl = [] then None
      else case we_ReadFile env (wf_clientSecretFile fl) of Inl e \<Rightarrow> Some (Errorf ''client secret: %w'' [] (Some e)) | Inr _ \<Rightarrow> None)"

definition serverOf :: "web_flags \<Rightarrow> session_manager \<Rightarrow> user_quota \<Rightarrow> bool \<Rightarrow> oauth option \<Rightarrow> server" where
  "serverOf fl sm quota kore oa =
     (case sshAdvertised (wf_sshAdvertise fl) of (host, port) \<Rightarrow>
        \<lparr>sv_NS = wf_devpodNamespace fl, sv_Sessions = sm, sv_OAuth = oa, sv_DefaultQuota = quota,
         sv_KoreEnabled = kore, sv_Origin = originFlag fl, sv_PubkeySelfService = wf_pubkeySelfService fl,
         sv_SSHHost = host, sv_SSHPort = port, sv_SSHLoginSuffix = wf_sshLoginSuffix fl,
         sv_PasswordAuth = wf_passwordAuth fl, sv_PasswordMinLength = wf_passwordMinLength fl,
         sv_Admins = splitNonEmpty (wf_admins fl), sv_SecureCookies = HasPrefix (originFlag fl) ''https://''\<rparr>)"

definition startServer :: "web_flags \<Rightarrow> web_env \<Rightarrow> go_error + server" where
  "startServer fl env =
     (case checkFlags fl of Some e \<Rightarrow> Inl e
      | None \<Rightarrow> (case sessionKeyFrom fl env of Inl e \<Rightarrow> Inl e
      | Inr key \<Rightarrow> (case clientSecretFrom fl env of Some e \<Rightarrow> Inl e
      | None \<Rightarrow> (case defaultQuotaFrom fl env of Inl e \<Rightarrow> Inl e
      | Inr quota \<Rightarrow> (case koreEnabled fl env of Inl e \<Rightarrow> Inl e
      | Inr kore \<Rightarrow>
          (let sm = NewSessionManager key (24 * 60 * Minute)
           in case oauthFrom fl env sm of Inl e \<Rightarrow> Inl e | Inr oa \<Rightarrow> Inr (serverOf fl sm quota kore oa)))))))"

subsection \<open>What a started server is\<close>

lemma startServer_InrD:
  assumes "startServer fl env = Inr sv"
  obtains key quota kore oa where "checkFlags fl = None" "sessionKeyFrom fl env = Inr key"
    "oauthFrom fl env (NewSessionManager key (24 * 60 * Minute)) = Inr oa"
    "sv = serverOf fl (NewSessionManager key (24 * 60 * Minute)) quota kore oa"
  using assms by (auto simp: startServer_def Let_def split: option.splits sum.splits)

lemma serverOf_sel [simp]:
  "sv_Sessions (serverOf fl sm q k oa) = sm" "sv_OAuth (serverOf fl sm q k oa) = oa"
  "sv_PasswordAuth (serverOf fl sm q k oa) = wf_passwordAuth fl" "sv_Admins (serverOf fl sm q k oa) = splitNonEmpty (wf_admins fl)"
  "sv_Origin (serverOf fl sm q k oa) = originFlag fl" "sv_SecureCookies (serverOf fl sm q k oa) = HasPrefix (originFlag fl) ''https://''"
  by (simp_all add: serverOf_def split: prod.splits)

lemma oauthFrom_Inr:
  "oauthFrom fl env sm = Inr oa \<Longrightarrow>
     (oa = None \<longleftrightarrow> wf_issuerURL fl = []) \<and>
     (\<forall>o'. oa = Some o' \<longrightarrow> oa_sessions o' = sm \<and> oa_admins o' = splitNonEmpty (wf_admins fl) \<and> oa_prefix o' = wf_userPrefix fl)"
  by (auto simp: oauthFrom_def NewOAuth_def split: if_splits option.splits sum.splits)

definition oneday :: duration where "oneday = 24 * 60 * Minute"

lemma started:
  assumes "startServer fl env = Inr sv"
  shows "32 \<le> length (sm_key (sv_Sessions sv))" "sm_ttl (sv_Sessions sv) = oneday"
    "sv_PasswordAuth sv \<or> sv_OAuth sv \<noteq> None" "sv_Admins sv = splitNonEmpty (wf_admins fl)"
    "\<And>oa. sv_OAuth sv = Some oa \<Longrightarrow> oa_sessions oa = sv_Sessions sv \<and> oa_admins oa = sv_Admins sv \<and> oa_prefix oa = wf_userPrefix fl"
  using assms
  by (auto elim!: startServer_InrD dest!: oauthFrom_Inr
      simp: NewSessionManager_def sessionKeyFrom_def checkFlags_def oneday_def Let_def split: sum.splits if_splits)

subsection \<open>Properties\<close>

text \<open>
  A server starts only in a sound configuration: with a session key of at least 32 bytes, one day of session life,
  and a login method.  Where OAuth is on, its logins mint with the same session manager the requests are
  checked with, and its allowlist of administrators is the server's.
\<close>

theorem web_startup_sound:
  assumes "startServer fl env = Inr sv"
  shows "32 \<le> length (sm_key (sv_Sessions sv)) \<and> sm_ttl (sv_Sessions sv) = oneday \<and> (sv_PasswordAuth sv \<or> sv_OAuth sv \<noteq> None) \<and>
    (case sv_OAuth sv of None \<Rightarrow> True | Some oa \<Rightarrow> oa_sessions oa = sv_Sessions sv \<and> oa_admins oa = sv_Admins sv)"
  using started [OF assms] by (simp split: option.splits)

text \<open>
  C30. From login to request: a session cookie of a started server comes from a password that matched or from a verified
  OAuth callback of the same browser, and for one day from then, and no longer, the server takes it for
  exactly that user with exactly that administrator bit.
\<close>

theorem login_session_usable:
  assumes "startServer fl env = Inr sv" "ck \<in> set (rs_Cookies (result (Routes K L sv rq) w))"
    "ck_Name ck = SessionCookie" "ck_Value ck \<noteq> []"
  shows "\<exists>name admin now. EvNow now \<in> set (made (Routes K L sv rq) w) \<and>
    (by_password L sv (set (made (Routes K L sv rq) w)) (rq_Call rq) name admin \<or>
     (\<exists>oa. sv_OAuth sv = Some oa \<and> by_oauth L oa (rq_Cookie rq) (set (made (Routes K L sv rq) w)) (rq_Call rq) name admin)) \<and>
    (datable (expires oneday now) \<longrightarrow>
     (\<forall>t. Verify (lib_hmac L) (sv_Sessions sv) (ck_Value ck) t =
        (if expires oneday now \<le> time_Unix t then Inl (ErrSession ''session expired'')
         else Inr \<lparr>se_User = name, se_Admin = admin, se_Expiry = expires oneday now\<rparr>)))"
proof -
  from Routes_cookies [OF assms(2-4)] started(5) [OF assms(1)]
  obtain name admin now where now: "EvNow now \<in> set (made (Routes K L sv rq) w)"
    and how: "by_password L sv (set (made (Routes K L sv rq) w)) (rq_Call rq) name admin \<or>
      (\<exists>oa. sv_OAuth sv = Some oa \<and> by_oauth L oa (rq_Cookie rq) (set (made (Routes K L sv rq) w)) (rq_Call rq) name admin)"
    and ck: "ck_Value ck = Mint (lib_hmac L) (sv_Sessions sv) name admin now"
    unfolding justified_def by metis
  have "\<forall>t. Verify (lib_hmac L) (sv_Sessions sv) (ck_Value ck) t =
      (if expires oneday now \<le> time_Unix t then Inl (ErrSession ''session expired'')
       else Inr \<lparr>se_User = name, se_Admin = admin, se_Expiry = expires oneday now\<rparr>)"
    if "datable (expires oneday now)"
    using that tok.verify_mint [of "sv_Sessions sv" now "lib_hmac L" name admin] by (simp add: ck started(2) [OF assms(1)])
  with now how show ?thesis by blast
qed

text \<open>
  The allowlist of administrators names two different sets of people: a password login compares it with the DevPod
  user name, an OAuth login with the GitLab name before the prefix.  With a prefix, the DevPod user \<open>n\<close> of a
  listed name is administrator by password, and is not the user the listed GitLab account \<open>n\<close> logs in as.
\<close>

theorem admins_flag_two_names:
  assumes "startServer fl env = Inr sv" "n \<in> set (splitNonEmpty (wf_admins fl))" "wf_userPrefix fl \<noteq> []" "sv_OAuth sv = Some oa"
  shows "adminFor sv n u \<and> n \<in> set (oa_admins oa) \<and> MapUsername (oa_prefix oa) n \<noteq> Inr n"
  using started(4,5) [OF assms(1)] assms by (auto simp: adminFor_def MapUsername_def Let_def)

subsection \<open>Examples\<close>

definition ex_flags :: web_flags where
  "ex_flags = \<lparr>wf_issuerURL = ''i'', wf_clientID = ''c'', wf_clientSecretFile = ''s'', wf_redirectURL = ''https://h/auth'',
     wf_userPrefix = ''gl-'', wf_admins = ''al'', wf_sessionKeyFile = ''k'', wf_defaultQuotaFile = [], wf_devpodNamespace = ''ns'',
     wf_koreMode = ''off'', wf_pubkeySelfService = True, wf_sshAdvertise = [], wf_passwordAuth = True, wf_passwordMinLength = 1,
     wf_externalURL = [], wf_sshLoginSuffix = []\<rparr>"

definition ex_env :: web_env where
  "ex_env = \<lparr>we_ReadFile = (\<lambda>_. Inr (replicate 32 (CHR ''k''))), we_quotaYAML = (\<lambda>_. Inl (ErrSentinel [])), we_koreServed = False,
     we_oidcDiscovery = (\<lambda>_. None), we_urlScheme = (\<lambda>_. Inr ''https'')\<rparr>"

definition ex_sm :: session_manager where
  "ex_sm = \<lparr>sm_key = replicate 32 (CHR ''k''), sm_ttl = oneday\<rparr>"

definition ex_oauth :: oauth where
  "ex_oauth = \<lparr>oa_prefix = ''gl-'', oa_admins = [''al''], oa_sessions = ex_sm, oa_secure = True\<rparr>"

definition ex_started :: server where
  "ex_started = serverOf ex_flags ex_sm \<lparr>q_MaxDevPods = None, q_Compute = None, q_Storage = None\<rparr> False (Some ex_oauth)"

lemma ex_admins: "splitNonEmpty ''al'' = [''al'']"
  by code_simp

lemma ex_start: "startServer ex_flags ex_env = Inr ex_started"
  by (simp add: startServer_def checkFlags_def missingOAuthFlag_def sessionKeyFrom_def clientSecretFrom_def defaultQuotaFrom_def
      koreEnabled_def oauthFrom_def NewOAuth_def NewSessionManager_def ex_flags_def ex_env_def ex_started_def ex_oauth_def ex_sm_def
      oneday_def ex_admins Let_def)

lemma ex_started_login:
  "rs_Cookies (result (Routes mem_kube ex_libs ex_started (ex_rq (AuthPassword (Inr (''bob'', ''pw''))))) (ex_world [])) =
     [sessionCookie (Mint (\<lambda>k p. k) ex_sm ''bob'' False 1000) 86400 True]"
proof -
  have o: "originFlag ex_flags = ''https://h''" by code_simp
  have "sv_PasswordAuth ex_started" "sv_Admins ex_started = [''al'']" "sv_Sessions ex_started = ex_sm" "sv_SecureCookies ex_started"
    "TTL ex_sm = oneday" "wholeSeconds oneday = 86400"
    by (simp_all add: ex_started_def ex_flags_def ex_admins o [unfolded ex_flags_def] HasPrefix_def ex_sm_def TTL_def wholeSeconds_def oneday_def)
  then show ?thesis
    by (simp add: Routes_def originGuard_def ex_rq_def mux_def handlePasswordLogin_def setSession_def result_def written_def andThen_def
        guard_ok_def lift_sum_def go_on_def answer_def ex_world_def mem_world_def mem0_def mem_kube_def ex_bob_def user0_def
        user_spec0_def object_meta0_def VerifyPassword_def ex_libs_def adminFor_def)
qed

theorem web_startup_sound_witness: "32 \<le> length (sm_key (sv_Sessions ex_started))"
  using web_startup_sound [OF ex_start] by simp

theorem login_session_usable_witness:
  "\<exists>name admin now. EvNow now \<in> set (made (Routes mem_kube ex_libs ex_started (ex_rq (AuthPassword (Inr (''bob'', ''pw''))))) (ex_world [])) \<and>
    (by_password ex_libs ex_started (set (made (Routes mem_kube ex_libs ex_started (ex_rq (AuthPassword (Inr (''bob'', ''pw''))))) (ex_world [])))
       (rq_Call (ex_rq (AuthPassword (Inr (''bob'', ''pw''))))) name admin \<or>
     (\<exists>oa. sv_OAuth ex_started = Some oa \<and>
        by_oauth ex_libs oa (rq_Cookie (ex_rq (AuthPassword (Inr (''bob'', ''pw''))))) (set (made (Routes mem_kube ex_libs ex_started (ex_rq (AuthPassword (Inr (''bob'', ''pw''))))) (ex_world [])))
       (rq_Call (ex_rq (AuthPassword (Inr (''bob'', ''pw''))))) name admin))"
  using login_session_usable [OF ex_start, of "sessionCookie (Mint (\<lambda>k p. k) ex_sm ''bob'' False 1000) 86400 True"
      mem_kube ex_libs "ex_rq (AuthPassword (Inr (''bob'', ''pw'')))" "ex_world []"] ex_started_login
  by (simp add: Mint_def Let_def) blast

theorem admins_flag_two_names_witness: "adminFor ex_started ''al'' None \<and> MapUsername ''gl-'' ''al'' \<noteq> Inr ''al''"
  using admins_flag_two_names [OF ex_start, of "''al''" ex_oauth None]
  by (simp add: ex_flags_def ex_admins ex_started_def ex_oauth_def)

end
