(* ===== verification/Webui_Stream.thy ===== *)
theory Webui_Stream
  imports Webui_Server "HOL-Library.Sublist"
begin

section \<open>Web UI: server-sent events\<close>

text \<open>
  \<open>src/internal/webui/watch.go\<close> and \<open>watch_stream.go\<close>.  Each connection registers a handler with the shared
  informer: the handler filters what it is given and puts it into a bounded channel without ever
  blocking, and the connection's own loop takes messages out and writes them.  The two run concurrently: a
  run of a connection is a list of \<open>stream_input\<close>, in which arrivals and turns of the loop are interleaved in
  any way.  Whether the connection can stream, and whether the informers could be had, are arguments.
\<close>

record core_event =
  ke_Namespace :: string
  ke_InvolvedName :: string
  ke_Message :: string
  ke_LastTimestamp :: timestamp

text \<open>What an informer delivers: an object, or the tombstone of one whose deletion it missed.\<close>

datatype informed = InfDevPod devpod | InfEvent core_event | Tombstone informed | InfOther

fun unwrap :: "informed \<Rightarrow> informed" where
  "unwrap (Tombstone obj) = obj"
| "unwrap obj = obj"

record watch_event =
  wev_Type :: string
  wev_DevPod :: devpod

datatype stream_msg = MsgDevPod string devpod "binding_info option" | MsgEvent string core_event

subsection \<open>Opening a stream\<close>

definition internalText :: "go_error \<Rightarrow> response" where
  "internalText e = writeErr 500 ''INTERNAL'' e NoDetail"

definition ok_or :: "go_error option \<Rightarrow> ('s, response + unit) prog" where
  "ok_or e = (case e of None \<Rightarrow> go_on () | Some x \<Rightarrow> answer (internalText x))"

definition openWatch ::
  "'s kube \<Rightarrow> 's libs \<Rightarrow> server \<Rightarrow> string option \<Rightarrow> bool \<Rightarrow> go_error option \<Rightarrow> go_error option \<Rightarrow> ('s, response + session) prog" where
  "openWatch K L sv tok flusher informer reg =
     andThen (sessionFrom K L sv tok) (\<lambda>sess.
     andThen (guard_ok flusher (internalText (msg ''streaming unsupported''))) (\<lambda>_.
     andThen (ok_or informer) (\<lambda>_.
     andThen (ok_or reg) (\<lambda>_. go_on sess))))"

definition openStream ::
  "'s kube \<Rightarrow> 's libs \<Rightarrow> server \<Rightarrow> string option \<Rightarrow> string \<Rightarrow> bool \<Rightarrow> go_error option \<Rightarrow> go_error option \<Rightarrow>
   go_error option \<Rightarrow> go_error option \<Rightarrow> ('s, response + string) prog" where
  "openStream K L sv tok path flusher dpInformer evInformer dpReg evReg =
     andThen (sessionFrom K L sv tok) (\<lambda>sess.
     andThen (getOwned K sv sess path) (\<lambda>dp.
     andThen (guard_ok flusher (internalText (msg ''streaming unsupported''))) (\<lambda>_.
     andThen (ok_or dpInformer) (\<lambda>_.
     andThen (ok_or evInformer) (\<lambda>_.
     andThen (ok_or dpReg) (\<lambda>_.
     andThen (ok_or evReg) (\<lambda>_. go_on (dp_Name dp))))))))"

subsection \<open>The filters of the handlers\<close>

definition watchFilter :: "server \<Rightarrow> session \<Rightarrow> string \<Rightarrow> informed \<Rightarrow> watch_event option" where
  "watchFilter sv sess typ obj =
     (case unwrap obj of
        InfDevPod dp \<Rightarrow>
          if meta_Namespace (dp_Meta dp) \<noteq> sv_NS sv \<or> dp_Owner dp \<noteq> se_User sess then None
          else Some \<lparr>wev_Type = typ, wev_DevPod = dp\<rparr>
      | _ \<Rightarrow> None)"

text \<open>\<open>binding\<close> is the readback at the moment of the event, \<open>bindingInfo\<close> of the DevPod API.\<close>

definition pushDevPod :: "server \<Rightarrow> (devpod \<Rightarrow> binding_info option) \<Rightarrow> string \<Rightarrow> string \<Rightarrow> informed \<Rightarrow> stream_msg option" where
  "pushDevPod sv binding name typ obj =
     (case unwrap obj of
        InfDevPod got \<Rightarrow>
          if meta_Namespace (dp_Meta got) \<noteq> sv_NS sv \<or> dp_Name got \<noteq> name then None
          else Some (MsgDevPod typ got (binding got))
      | _ \<Rightarrow> None)"

definition pushEvent :: "server \<Rightarrow> string \<Rightarrow> string \<Rightarrow> informed \<Rightarrow> stream_msg option" where
  "pushEvent sv name typ obj =
     (case unwrap obj of
        InfEvent ev \<Rightarrow> if ke_Namespace ev \<noteq> sv_NS sv \<or> ke_InvolvedName ev \<noteq> name then None else Some (MsgEvent typ ev)
      | _ \<Rightarrow> None)"

text \<open>The two handlers of one detail page: DevPods go to the first, Events to the second.\<close>

definition streamFilter :: "server \<Rightarrow> (devpod \<Rightarrow> binding_info option) \<Rightarrow> string \<Rightarrow> string \<Rightarrow> informed \<Rightarrow> stream_msg option" where
  "streamFilter sv binding name typ obj =
     (case pushDevPod sv binding name typ obj of Some m \<Rightarrow> Some m | None \<Rightarrow> pushEvent sv name typ obj)"

subsection \<open>The channel between handler and loop\<close>

record 'm stream =
  st_buf :: "'m list"
  st_sent :: "'m list"

definition stream0 :: "'m stream" where
  "stream0 = \<lparr>st_buf = [], st_sent = []\<rparr>"

definition watchCap :: nat where "watchCap = 64"
definition streamCap :: nat where "streamCap = 128"

text \<open>A send that never blocks: with a full buffer the message is dropped.\<close>

definition send :: "nat \<Rightarrow> 'm \<Rightarrow> 'm stream \<Rightarrow> 'm stream" where
  "send cap m st = (if length (st_buf st) < cap then st\<lparr>st_buf := st_buf st @ [m]\<rparr> else st)"

datatype stream_input = Arrives string informed | LoopTurn

text \<open>One turn of the loop takes a message out and writes it; a message that does not marshal is skipped.\<close>

fun stream_step :: "(string \<Rightarrow> informed \<Rightarrow> 'm option) \<Rightarrow> ('m \<Rightarrow> bool) \<Rightarrow> nat \<Rightarrow> stream_input \<Rightarrow> 'm stream \<Rightarrow> 'm stream" where
  "stream_step filt marshals cap (Arrives typ obj) st = (case filt typ obj of None \<Rightarrow> st | Some m \<Rightarrow> send cap m st)"
| "stream_step filt marshals cap LoopTurn st =
     (case st_buf st of
        [] \<Rightarrow> st
      | m # ms \<Rightarrow> st\<lparr>st_buf := ms, st_sent := (if marshals m then st_sent st @ [m] else st_sent st)\<rparr>)"

definition stream_run :: "(string \<Rightarrow> informed \<Rightarrow> 'm option) \<Rightarrow> ('m \<Rightarrow> bool) \<Rightarrow> nat \<Rightarrow> stream_input list \<Rightarrow> 'm stream" where
  "stream_run filt marshals cap xs = fold (stream_step filt marshals cap) xs stream0"

subsection \<open>Lemmas\<close>

text \<open>The messages that arrived and passed the filter.\<close>

definition offered :: "(string \<Rightarrow> informed \<Rightarrow> 'm option) \<Rightarrow> stream_input list \<Rightarrow> 'm list" where
  "offered filt xs = List.map_filter (\<lambda>x. case x of Arrives typ obj \<Rightarrow> filt typ obj | LoopTurn \<Rightarrow> None) xs"

lemma offered_snoc [simp]:
  "offered filt (xs @ [Arrives typ obj]) = offered filt xs @ (case filt typ obj of None \<Rightarrow> [] | Some m \<Rightarrow> [m])"
  "offered filt (xs @ [LoopTurn]) = offered filt xs"
  by (simp_all add: offered_def map_filter_def split: option.splits)

lemma stream_run_snoc: "stream_run filt marshals cap (xs @ [x]) = stream_step filt marshals cap x (stream_run filt marshals cap xs)"
  by (simp add: stream_run_def)

definition never_full :: "(string \<Rightarrow> informed \<Rightarrow> 'm option) \<Rightarrow> ('m \<Rightarrow> bool) \<Rightarrow> nat \<Rightarrow> stream_input list \<Rightarrow> bool" where
  "never_full filt marshals cap xs \<longleftrightarrow> (\<forall>i<length xs. length (st_buf (stream_run filt marshals cap (take i xs))) < cap)"

lemma never_full_snoc:
  "never_full filt marshals cap (xs @ [x]) \<longleftrightarrow>
     never_full filt marshals cap xs \<and> length (st_buf (stream_run filt marshals cap xs)) < cap"
  by (auto simp: never_full_def nth_append less_Suc_eq)

lemma stream_bounded: "length (st_buf (stream_run filt marshals cap xs)) \<le> cap"
proof (induction xs rule: rev_induct)
  case (snoc x xs)
  then show ?case
    by (cases x) (auto simp: stream_run_snoc send_def split: option.splits list.splits)
qed (simp add: stream_run_def stream0_def)

lemma stream_subseq:
  "subseq (st_sent (stream_run filt marshals cap xs) @ st_buf (stream_run filt marshals cap xs)) (offered filt xs)"
proof (induction xs rule: rev_induct)
  case Nil
  then show ?case by (simp add: stream_run_def stream0_def)
next
  case (snoc x xs)
  let ?st = "stream_run filt marshals cap xs"
  show ?case
  proof (cases x)
    case (Arrives ty obj)
    with snoc show ?thesis
      by (auto simp: stream_run_snoc send_def simp flip: append_assoc split: option.splits intro: list_emb_append_mono list_emb_prefix)
  next
    case LoopTurn
    have "subseq (st_sent ?st @ ms) (offered filt xs)" if "st_buf ?st = m # ms" for m ms
      using snoc by (rule subseq_order.trans [rotated]) (simp add: that list_emb_append_mono list_emb_Cons)
    with snoc LoopTurn show ?thesis by (auto simp: stream_run_snoc split: list.splits)
  qed
qed

lemma stream_lossless:
  assumes "never_full filt (\<lambda>_. True) cap xs"
  shows "st_sent (stream_run filt (\<lambda>_. True) cap xs) @ st_buf (stream_run filt (\<lambda>_. True) cap xs) = offered filt xs"
  using assms
proof (induction xs rule: rev_induct)
  case Nil
  then show ?case by (simp add: stream_run_def stream0_def offered_def map_filter_def)
next
  case (snoc x xs)
  then have IH: "st_sent (stream_run filt (\<lambda>_. True) cap xs) @ st_buf (stream_run filt (\<lambda>_. True) cap xs) = offered filt xs"
    and room: "length (st_buf (stream_run filt (\<lambda>_. True) cap xs)) < cap" by (simp_all add: never_full_snoc)
  show ?case
  proof (cases x)
    case (Arrives ty obj)
    with room show ?thesis by (auto simp: stream_run_snoc send_def simp flip: IH split: option.splits)
  next
    case LoopTurn
    then show ?thesis by (auto simp: stream_run_snoc simp flip: IH split: list.splits)
  qed
qed

lemma offered_filter: "m \<in> set (offered filt xs) \<Longrightarrow> \<exists>typ obj. Arrives typ obj \<in> set xs \<and> filt typ obj = Some m"
  by (auto simp: offered_def map_filter_def split: stream_input.splits) (metis option.sel)

lemma watchFilter_Some:
  "watchFilter sv sess ty obj = Some m \<Longrightarrow>
     dp_Owner (wev_DevPod m) = se_User sess \<and> meta_Namespace (dp_Meta (wev_DevPod m)) = sv_NS sv"
  by (cases "unwrap obj") (auto simp: watchFilter_def split: if_splits)

subsection \<open>Properties\<close>

text \<open>
  C37. However arrivals and writes interleave, a watch carries only DevPods of the session's user in the configured
  namespace, in the order the informer reported them, and holds back at most 64; as long as the buffer
  never fills, none is lost.
\<close>

theorem watch_own_in_order:
  fixes sv sess xs
  defines "run \<equiv> stream_run (watchFilter sv sess) (\<lambda>_. True) watchCap xs"
  shows "subseq (st_sent run) (offered (watchFilter sv sess) xs) \<and> length (st_buf run) \<le> 64 \<and>
    list_all (\<lambda>m. dp_Owner (wev_DevPod m) = se_User sess \<and> meta_Namespace (dp_Meta (wev_DevPod m)) = sv_NS sv) (st_sent run) \<and>
    (never_full (watchFilter sv sess) (\<lambda>_. True) watchCap xs \<longrightarrow> st_sent run @ st_buf run = offered (watchFilter sv sess) xs)"
proof -
  have sub: "subseq (st_sent run) (offered (watchFilter sv sess) xs)"
    unfolding run_def by (rule subseq_order.trans [OF _ stream_subseq [of _ "\<lambda>_. True" watchCap]]) (intro list_emb_prefix, simp)
  have "dp_Owner (wev_DevPod m) = se_User sess \<and> meta_Namespace (dp_Meta (wev_DevPod m)) = sv_NS sv" if "m \<in> set (st_sent run)" for m
  proof -
    from sub that have "m \<in> set (offered (watchFilter sv sess) xs)" by (auto elim: list_emb_set)
    from offered_filter [OF this] show ?thesis by (auto dest: watchFilter_Some)
  qed
  with sub stream_bounded [of "watchFilter sv sess" "\<lambda>_. True" watchCap xs] stream_lossless [of "watchFilter sv sess" watchCap xs]
  show ?thesis unfolding run_def by (simp add: watchCap_def list_all_iff)
qed

text \<open>A stream of one DevPod carries that DevPod and the events about it, and nothing else.\<close>

lemma stream_only_named:
  assumes "m \<in> set (st_sent (stream_run (streamFilter sv binding name) marshals streamCap xs))"
  shows "case m of MsgDevPod _ d b \<Rightarrow> dp_Name d = name \<and> b = binding d | MsgEvent _ e \<Rightarrow> ke_InvolvedName e = name"
proof -
  have "subseq (st_sent (stream_run (streamFilter sv binding name) marshals streamCap xs)) (offered (streamFilter sv binding name) xs)"
    by (rule subseq_order.trans [OF _ stream_subseq [of _ marshals streamCap]]) (intro list_emb_prefix, simp)
  with assms have "m \<in> set (offered (streamFilter sv binding name) xs)" by (auto elim: list_emb_set)
  from offered_filter [OF this] obtain ty obj where "streamFilter sv binding name ty obj = Some m" by blast
  then show ?thesis
    by (cases "unwrap obj") (auto simp: streamFilter_def pushDevPod_def pushEvent_def split: if_splits)
qed

subsection \<open>Example\<close>

definition ex_watch_sv :: server where
  "ex_watch_sv = \<lparr>sv_NS = ''ns'', sv_Sessions = \<lparr>sm_key = [], sm_ttl = 0\<rparr>, sv_OAuth = None,
     sv_DefaultQuota = \<lparr>q_MaxDevPods = None, q_Compute = None, q_Storage = None\<rparr>, sv_KoreEnabled = False,
     sv_Origin = [], sv_PubkeySelfService = True, sv_SSHHost = [], sv_SSHPort = 22, sv_SSHLoginSuffix = [],
     sv_PasswordAuth = True, sv_PasswordMinLength = 1, sv_Admins = [], sv_SecureCookies = True\<rparr>"

definition ex_watched :: devpod where
  "ex_watched = devpod0\<lparr>dp_Meta := object_meta0\<lparr>meta_Namespace := ''ns''\<rparr>, dp_Spec := devpod_spec0\<lparr>ds_Owner := ''bob''\<rparr>\<rparr>"

definition ex_inputs :: "stream_input list" where
  "ex_inputs = [Arrives ''ADDED'' (InfDevPod ex_watched), Arrives ''ADDED'' (InfDevPod devpod0), LoopTurn]"

definition ex_watcher :: session where
  "ex_watcher = \<lparr>se_User = ''bob'', se_Admin = False, se_Expiry = 1\<rparr>"

lemma ex_never_full: "never_full (watchFilter ex_watch_sv ex_watcher) (\<lambda>_. True) watchCap ex_inputs"
  by (simp add: never_full_def ex_inputs_def less_Suc_eq stream_run_def stream0_def watchFilter_def ex_watch_sv_def ex_watcher_def
      ex_watched_def object_meta0_def devpod_spec0_def devpod0_def send_def watchCap_def)

theorem watch_own_in_order_witness:
  "st_sent (stream_run (watchFilter ex_watch_sv ex_watcher) (\<lambda>_. True) watchCap ex_inputs) @
   st_buf (stream_run (watchFilter ex_watch_sv ex_watcher) (\<lambda>_. True) watchCap ex_inputs) =
   offered (watchFilter ex_watch_sv ex_watcher) ex_inputs"
  using watch_own_in_order [of ex_watch_sv ex_watcher ex_inputs] ex_never_full by blast

end
