(* ===== verification/Webui_Topology.thy ===== *)
theory Webui_Topology
  imports Webui_Routes
begin

section \<open>Web UI: the CPU topology views\<close>

text \<open>
  \<open>src/internal/webui/kore_topology.go\<close>.  The status of a \<open>KoreNodeTopology\<close> object belongs to another project: it is
  an opaque value of type \<open>'r\<close>, read through the argument \<open>decode\<close>, which stands for the JSON round trip
  into the local mirror and fails when that does.  The answers of the uncached reader for these
  objects are arguments too.
\<close>

record kore_device =
  kd_Name :: string
  kd_Type :: string

record kore_zone =
  kz_ID :: int
  kz_Cpus :: string
  kz_FreeCpus :: string
  kz_SMTSiblings :: "int list list"
  kz_Memory :: string
  kz_Devices :: "kore_device list"

record kore_alloc =
  ka_Pod :: string
  ka_Container :: string
  ka_Cpuset :: string
  ka_DevPod :: string

record kore_pool =
  kp_Name :: string
  kp_Cpuset :: string
  kp_NUMA :: "int list"
  kp_Members :: "string list"

record node_topology =
  nt_Node :: string
  nt_ReservedCpus :: string
  nt_Zones :: "kore_zone list"
  nt_Allocations :: "kore_alloc list"
  nt_Pools :: "kore_pool list"

text \<open>A raw zone differs from a shown one in the name of the memory field only.\<close>

record kore_status =
  ks_ReservedSystemCpus :: string
  ks_Zones :: "kore_zone list"
  ks_Allocations :: "kore_alloc list"
  ks_Pools :: "kore_pool list"

definition markDevPod :: "string \<Rightarrow> kore_alloc \<Rightarrow> kore_alloc" where
  "markDevPod devpodNS a =
     (case Cut (ka_Pod a) (CHR ''/'') of
        Some (ns, name) \<Rightarrow> if ns = devpodNS then a\<lparr>ka_DevPod := name\<rparr> else a
      | None \<Rightarrow> a)"

definition nodeOf :: "string \<Rightarrow> string \<Rightarrow> kore_status \<Rightarrow> node_topology" where
  "nodeOf devpodNS name st =
     \<lparr>nt_Node = name, nt_ReservedCpus = ks_ReservedSystemCpus st, nt_Zones = ks_Zones st,
      nt_Allocations = map (markDevPod devpodNS) (ks_Allocations st), nt_Pools = ks_Pools st\<rparr>"

definition koreTopologyFromList :: "('r \<Rightarrow> kore_status option) \<Rightarrow> (string \<times> 'r) list \<Rightarrow> string \<Rightarrow> node_topology list" where
  "koreTopologyFromList decode items devpodNS =
     sort_key nt_Node (List.map_filter (\<lambda>(name, raw). map_option (nodeOf devpodNS name) (decode raw)) items)"

definition renameMember :: "smap \<Rightarrow> string \<Rightarrow> string" where
  "renameMember uid2name m = (case map_of uid2name m of Some name \<Rightarrow> name | None \<Rightarrow> m)"

definition renamePools :: "smap \<Rightarrow> node_topology \<Rightarrow> node_topology" where
  "renamePools uid2name n =
     n\<lparr>nt_Pools := map (\<lambda>p. p\<lparr>kp_Members := map (renameMember uid2name) (kp_Members p)\<rparr>) (nt_Pools n)\<rparr>"

text \<open>Later pods of the list win, as they overwrite the entry of the map.\<close>

definition uid2nameOf :: "pod list \<Rightarrow> smap" where
  "uid2nameOf pods = fold (\<lambda>p m. AList.update (meta_UID (pod_Meta p)) (meta_Name (pod_Meta p)) m) pods []"

definition resolvePoolMembers :: "'s kube \<Rightarrow> server \<Rightarrow> node_topology list \<Rightarrow> ('s, node_topology list) prog" where
  "resolvePoolMembers K sv nodes = do {
     r \<leftarrow> api (EvListPods (sv_NS sv) None) (k_list_pods K (sv_NS sv) None);
     State_Monad.return (case r of Inl _ \<Rightarrow> nodes | Inr pods \<Rightarrow> map (renamePools (uid2nameOf pods)) nodes) }"

definition handleKoreTopology ::
  "'s kube \<Rightarrow> 's libs \<Rightarrow> server \<Rightarrow> ('r \<Rightarrow> kore_status option) \<Rightarrow> string option \<Rightarrow> api_error + (string \<times> 'r) list \<Rightarrow>
   ('s, response + node_topology list) prog" where
  "handleKoreTopology K L sv decode tok listed =
     andThen (guard_ok (sv_KoreEnabled sv) (writeErr 404 ''NOT_FOUND'' (msg ''Kore integration is not enabled'') NoDetail)) (\<lambda>_.
     andThen (requireAdmin K L sv tok) (\<lambda>_.
     andThen (lift_sum internalError listed) (\<lambda>items. do {
       nodes \<leftarrow> resolvePoolMembers K sv (koreTopologyFromList decode items (sv_NS sv));
       go_on nodes })))"

text \<open>
  The cores of one DevPod: the last allocation that names it, else the last pool it is a member of.
\<close>

definition allocatedTo :: "string \<Rightarrow> kore_alloc list \<Rightarrow> string" where
  "allocatedTo name as = fold (\<lambda>a mine. if ka_DevPod a = name then ka_Cpuset a else mine) as []"

definition pooledFor :: "string \<Rightarrow> kore_pool list \<Rightarrow> string" where
  "pooledFor name ps = fold (\<lambda>p. fold (\<lambda>m mine. if m = name then kp_Cpuset p else mine) (kp_Members p)) ps []"

definition coresOf :: "string \<Rightarrow> node_topology \<Rightarrow> string" where
  "coresOf name node =
     (let mine = allocatedTo name (nt_Allocations node) in if mine = [] then pooledFor name (nt_Pools node) else mine)"

text \<open>\<open>Inr None\<close> is the answer without a node.\<close>

definition handleDevPodTopology ::
  "'s kube \<Rightarrow> 's libs \<Rightarrow> server \<Rightarrow> ('r \<Rightarrow> kore_status option) \<Rightarrow> string option \<Rightarrow> string \<Rightarrow> (string \<Rightarrow> api_error + 'r) \<Rightarrow>
   ('s, response + (node_topology \<times> string) option) prog" where
  "handleDevPodTopology K L sv decode tok path getTopology =
     andThen (sessionFrom K L sv tok) (\<lambda>sess.
     andThen (getOwned K sv sess path) (\<lambda>dp.
       case dst_WorkloadRef (dp_Status dp) of
         None \<Rightarrow> go_on None
       | Some ref \<Rightarrow>
           if \<not> sv_KoreEnabled sv \<or> wr_Kind ref \<noteq> ''Pod'' then go_on None
           else do {
             p \<leftarrow> api (EvGetPod (sv_NS sv, wr_Name ref)) (k_get_pod K (sv_NS sv, wr_Name ref));
             (case p of
                Inl _ \<Rightarrow> go_on None
              | Inr pod \<Rightarrow>
                  if ps_NodeName (pod_Spec pod) = [] then go_on None
                  else case getTopology (ps_NodeName (pod_Spec pod)) of
                         Inl _ \<Rightarrow> go_on None
                       | Inr raw \<Rightarrow> do {
                           nodes \<leftarrow> resolvePoolMembers K sv (koreTopologyFromList decode [(ps_NodeName (pod_Spec pod), raw)] (sv_NS sv));
                           (case nodes of
                              [] \<Rightarrow> go_on None
                            | node # _ \<Rightarrow>
                                let mine = coresOf (dp_Name dp) node
                                in if mine = [] then go_on None else go_on (Some (node, mine))) }) }))"

section \<open>What an owner is shown\<close>

lemma koreTopology_single:
  "koreTopologyFromList decode [(name, raw)] ns =
     (case decode raw of None \<Rightarrow> [] | Some st \<Rightarrow> [nodeOf ns name st])"
  by (simp add: koreTopologyFromList_def List.map_filter_def split: option.splits)

lemma markDevPod_Pod [simp]: "ka_Pod (markDevPod ns a) = ka_Pod a" "ka_Cpuset (markDevPod ns a) = ka_Cpuset a"
  by (simp_all add: markDevPod_def split: option.splits)

text \<open>Renaming pool members leaves everything else of a node as it is.\<close>

definition same_layout :: "node_topology \<Rightarrow> node_topology \<Rightarrow> bool" where
  "same_layout n n' \<longleftrightarrow>
     nt_Node n' = nt_Node n \<and> nt_Zones n' = nt_Zones n \<and> nt_Allocations n' = nt_Allocations n \<and>
     map kp_Cpuset (nt_Pools n') = map kp_Cpuset (nt_Pools n)"

lemma same_layout_rename [simp]: "same_layout n n" "same_layout n (renamePools m n)"
  by (simp_all add: same_layout_def renamePools_def)

lemma lawful_resolvePoolMembers:
  assumes "\<And>ns' a. list_all2 same_layout ns ns' \<Longrightarrow> R ns' (insert (EvListPods (sv_NS sv) None a) E)"
  shows "lawful (\<lambda>_ _. True) E (resolvePoolMembers K sv ns) R"
  unfolding resolvePoolMembers_def
  by (intro lawful_bind lawful_api lawful_return assms) (auto simp: list_all2_map2 list_all2_same split: sum.splits)

text \<open>The node whose layout is answered: the one the DevPod's pod runs on, decoded whole.\<close>

definition shown_node ::
  "('r \<Rightarrow> kore_status option) \<Rightarrow> (string \<Rightarrow> api_error + 'r) \<Rightarrow> server \<Rightarrow> event set \<Rightarrow> devpod \<Rightarrow> node_topology \<Rightarrow> bool" where
  "shown_node decode getTopology sv E dp node \<longleftrightarrow>
     (\<exists>ref pod raw st. dst_WorkloadRef (dp_Status dp) = Some ref \<and> wr_Kind ref = ''Pod'' \<and>
        EvGetPod (sv_NS sv, wr_Name ref) (Inr pod) \<in> E \<and> getTopology (ps_NodeName (pod_Spec pod)) = Inr raw \<and>
        decode raw = Some st \<and> same_layout (nodeOf (sv_NS sv) (ps_NodeName (pod_Spec pod)) st) node)"

definition topology_answer ::
  "('r \<Rightarrow> kore_status option) \<Rightarrow> (string \<Rightarrow> api_error + 'r) \<Rightarrow> 's libs \<Rightarrow> server \<Rightarrow> string option \<Rightarrow> string \<Rightarrow>
   (node_topology \<times> string) option \<Rightarrow> event set \<Rightarrow> bool" where
  "topology_answer decode getTopology L sv tok path r E \<longleftrightarrow>
     (case r of None \<Rightarrow> True | Some (node, mine) \<Rightarrow>
        sv_KoreEnabled sv \<and> mine \<noteq> [] \<and>
        (\<exists>s dp. session_of L sv tok E s \<and> read_owned sv E s path dp \<and> shown_node decode getTopology sv E dp node \<and>
           mine = coresOf (dp_Name dp) node))"

lemma lawful_sessionFrom_True:
  assumes "\<And>r E'. E \<subseteq> E' \<Longrightarrow> R (Inl r) E'" "\<And>s E'. E \<subseteq> E' \<Longrightarrow> session_of L sv tok E' s \<Longrightarrow> R (Inr s) E'"
  shows "lawful (\<lambda>_ _. True) E (sessionFrom K L sv tok) R"
  unfolding sessionFrom_def by (intro lawful_intros assms) (auto simp: session_of_def)

lemma lawful_getOwned_True:
  assumes "\<And>r E'. E \<subseteq> E' \<Longrightarrow> R (Inl r) E'" "\<And>dp E'. E \<subseteq> E' \<Longrightarrow> read_owned sv E' s name dp \<Longrightarrow> R (Inr dp) E'"
  shows "lawful (\<lambda>_ _. True) E (getOwned K sv s name) R"
  unfolding getOwned_def by (intro lawful_intros assms) (auto simp: read_owned_def)

lemma lawful_case_list [lawful_intros]:
  "(r = [] \<Longrightarrow> lawful P E m R) \<Longrightarrow> (\<And>y ys. r = y # ys \<Longrightarrow> lawful P E (g y ys) R) \<Longrightarrow>
   lawful P E (case r of [] \<Rightarrow> m | y # ys \<Rightarrow> g y ys) R"
  by (cases r) auto

lemma topology_answer_None: "topology_answer decode getTopology L sv tok path None E"
  by (simp add: topology_answer_def)

lemma topology_answer_Some:
  assumes "session_of L sv tok E s" "read_owned sv E s path dp" "dst_WorkloadRef (dp_Status dp) = Some ref" "wr_Kind ref = ''Pod''"
    "EvGetPod (sv_NS sv, wr_Name ref) (Inr pod) \<in> E" "getTopology (ps_NodeName (pod_Spec pod)) = Inr raw" "decode raw = Some st"
    "same_layout (nodeOf (sv_NS sv) (ps_NodeName (pod_Spec pod)) st) node" "sv_KoreEnabled sv" "coresOf (dp_Name dp) node \<noteq> []"
  shows "topology_answer decode getTopology L sv tok path (Some (node, coresOf (dp_Name dp) node)) E"
  unfolding topology_answer_def shown_node_def option.case prod.case
  by (rule conjI [OF assms(9)], rule conjI [OF assms(10)], intro exI conjI, rule assms(1), rule assms(2))
    (rule refl assms)+

lemma handleDevPodTopology_shows:
  "lawful (\<lambda>_ _. True) {} (handleDevPodTopology K L sv decode tok path getTopology)
     (go_or (\<lambda>_ _. True) (topology_answer decode getTopology L sv tok path))"
  unfolding handleDevPodTopology_def
  apply (auto intro!: lawful_intros lawful_sessionFrom_True lawful_getOwned_True lawful_resolvePoolMembers
      simp: topology_answer_None koreTopology_single split: option.splits)
  by (rule topology_answer_Some) (auto elim: session_of_mono read_owned_mono)

text \<open>The loops over allocations and pools keep an entry that names the DevPod.\<close>

lemma allocatedTo_names: "allocatedTo name as = [] \<or> (\<exists>a\<in>set as. ka_DevPod a = name \<and> allocatedTo name as = ka_Cpuset a)"
proof -
  have "fold (\<lambda>a mine. if ka_DevPod a = name then ka_Cpuset a else mine) as z = z \<or>
    (\<exists>a\<in>set as. ka_DevPod a = name \<and> fold (\<lambda>a mine. if ka_DevPod a = name then ka_Cpuset a else mine) as z = ka_Cpuset a)" for z
    by (induction as arbitrary: z) auto
  then show ?thesis by (simp add: allocatedTo_def)
qed

lemma pooled_one: "fold (\<lambda>m mine. if m = name then c else mine) ms = (\<lambda>z. if name \<in> set ms then c else z)"
  by (induction ms) auto

lemma pooledFor_names: "pooledFor name ps = [] \<or> (\<exists>p\<in>set ps. name \<in> set (kp_Members p) \<and> pooledFor name ps = kp_Cpuset p)"
proof -
  have "fold (\<lambda>p z. if name \<in> set (kp_Members p) then kp_Cpuset p else z) ps z = z \<or>
    (\<exists>p\<in>set ps. name \<in> set (kp_Members p) \<and> fold (\<lambda>p z. if name \<in> set (kp_Members p) then kp_Cpuset p else z) ps z = kp_Cpuset p)" for z
    by (induction ps arbitrary: z) auto
  then show ?thesis unfolding pooledFor_def pooled_one .
qed

text \<open>
  C40. What the owner of a DevPod is shown of the node it runs on.  A layout is answered only to a session that
  may read the DevPod, and the cores it reports are those of an allocation or a pool of that node that names the
  DevPod.  The layout is the whole one: the allocations carry the names of every pod bound on the node,
  whoever owns it, although the comment on the handler says that the identities of other pods are not exposed.
\<close>

theorem topology_exposes_others:
  assumes "result (handleDevPodTopology K L sv decode tok path getTopology) w = Inr (Some (node, mine))"
  shows "\<exists>s dp ref pod raw st. let E = set (made (handleDevPodTopology K L sv decode tok path getTopology) w) in
    session_of L sv tok E s \<and> read_owned sv E s path dp \<and>
    dst_WorkloadRef (dp_Status dp) = Some ref \<and> EvGetPod (sv_NS sv, wr_Name ref) (Inr pod) \<in> E \<and>
    getTopology (ps_NodeName (pod_Spec pod)) = Inr raw \<and> decode raw = Some st \<and>
    map ka_Pod (nt_Allocations node) = map ka_Pod (ks_Allocations st) \<and>
    ((\<exists>a\<in>set (nt_Allocations node). ka_DevPod a = dp_Name dp \<and> mine = ka_Cpuset a) \<or>
     (\<exists>p\<in>set (nt_Pools node). dp_Name dp \<in> set (kp_Members p) \<and> mine = kp_Cpuset p))"
proof -
  let ?E = "set (made (handleDevPodTopology K L sv decode tok path getTopology) w)"
  have "topology_answer decode getTopology L sv tok path (Some (node, mine)) ?E"
    using lawful_result [OF handleDevPodTopology_shows [of K L sv decode tok path getTopology], of w] by (simp add: assms)
  then obtain s dp where *: "mine \<noteq> []" "session_of L sv tok ?E s" "read_owned sv ?E s path dp"
    "shown_node decode getTopology sv ?E dp node" "mine = coresOf (dp_Name dp) node"
    by (auto simp: topology_answer_def)
  have "(\<exists>a\<in>set (nt_Allocations node). ka_DevPod a = dp_Name dp \<and> mine = ka_Cpuset a) \<or>
     (\<exists>p\<in>set (nt_Pools node). dp_Name dp \<in> set (kp_Members p) \<and> mine = kp_Cpuset p)"
    using *(1,5) allocatedTo_names [of "dp_Name dp" "nt_Allocations node"] pooledFor_names [of "dp_Name dp" "nt_Pools node"]
    by (auto simp: coresOf_def Let_def split: if_splits)
  moreover from *(4) obtain ref pod raw st where "dst_WorkloadRef (dp_Status dp) = Some ref"
    "EvGetPod (sv_NS sv, wr_Name ref) (Inr pod) \<in> ?E" "getTopology (ps_NodeName (pod_Spec pod)) = Inr raw" "decode raw = Some st"
    "map ka_Pod (nt_Allocations node) = map ka_Pod (ks_Allocations st)"
    by (auto simp: shown_node_def same_layout_def nodeOf_def comp_def)
  ultimately show ?thesis using *(2,3) unfolding Let_def by blast
qed

definition ex_layout :: kore_status where
  "ex_layout = \<lparr>ks_ReservedSystemCpus = [], ks_Zones = [],
     ks_Allocations = [\<lparr>ka_Pod = ''ns/bob-x'', ka_Container = ''dev'', ka_Cpuset = ''0-3'', ka_DevPod = []\<rparr>,
                       \<lparr>ka_Pod = ''ns/eve-y'', ka_Container = ''dev'', ka_Cpuset = ''4-7'', ka_DevPod = []\<rparr>], ks_Pools = []\<rparr>"

definition ex_bound :: devpod where
  "ex_bound = ex_created\<lparr>dp_Status := (dp_Status ex_created)\<lparr>dst_WorkloadRef := Some \<lparr>wr_APIVersion = ''v1'', wr_Kind = ''Pod'', wr_Name = ''bob-x''\<rparr>\<rparr>\<rparr>"

definition ex_placed :: pod where
  "ex_placed = \<lparr>pod_Meta = object_meta0\<lparr>meta_Name := ''bob-x'', meta_Namespace := ''ns''\<rparr>,
     pod_Spec = pod_spec0\<lparr>ps_NodeName := ''n1''\<rparr>, pod_Status = pod_status0\<rparr>"

definition ex_topology :: "(mem, response + (node_topology \<times> string) option) prog" where
  "ex_topology = handleDevPodTopology mem_kube ex_libs (ex_sv\<lparr>sv_KoreEnabled := True\<rparr>) Some (Some ex_token) ''bob-x'' (\<lambda>_. Inr ex_layout)"

lemma ex_topology_shown:
  "result ex_topology (mem_world (mem0\<lparr>m_devpods := [ex_bound], m_pods := [ex_placed]\<rparr>)) =
     Inr (Some (nodeOf ''ns'' ''n1'' ex_layout, ''0-3''))"
proof -
  let ?w = "mem_world (mem0\<lparr>m_devpods := [ex_bound], m_pods := [ex_placed]\<rparr>)"
  have "calls ?w = []" "m_clock (cluster ?w) = 1000" by (simp_all add: mem_world_def mem0_def)
  then show ?thesis
    unfolding ex_topology_def handleDevPodTopology_def result_def andThen_def
    by (simp add: ex_session) code_simp
qed

theorem topology_exposes_others_witness:
  "\<exists>s dp. session_of ex_libs (ex_sv\<lparr>sv_KoreEnabled := True\<rparr>) (Some ex_token)
       (set (made ex_topology (mem_world (mem0\<lparr>m_devpods := [ex_bound], m_pods := [ex_placed]\<rparr>)))) s \<and>
     read_owned (ex_sv\<lparr>sv_KoreEnabled := True\<rparr>) (set (made ex_topology (mem_world (mem0\<lparr>m_devpods := [ex_bound], m_pods := [ex_placed]\<rparr>)))) s ''bob-x'' dp \<and>
     map ka_Pod (nt_Allocations (nodeOf ''ns'' ''n1'' ex_layout)) = [''ns/bob-x'', ''ns/eve-y'']"
  using topology_exposes_others [OF ex_topology_shown [unfolded ex_topology_def], folded ex_topology_def]
  by (auto simp: Let_def ex_layout_def)

end
