(* ===== verification/Webui_Mux.thy ===== *)
theory Webui_Mux
  imports Webui_Routes Webui_Stream Webui_Topology
begin

section \<open>Web UI: from a request line to a handler\<close>

text \<open>
  \<open>Routes\<close> of \<open>src/internal/webui/server.go\<close>: the table of patterns and what the request multiplexer of package
  \<open>net/http\<close> makes of it, from the method and the path as it was sent, down to the handlers.  The handlers that
  change objects are those of \<open>Webui_Routes\<close>; the list of a DevPod's events, the streams and the topology views are
  added here.  A decoded body is given once per type it may be decoded into; the answers of the uncached reader
  and of the informers are arguments.  The embedded files behind a path with a dot are not modelled.
\<close>

subsection \<open>Package net/http: patterns\<close>

datatype seg = Lit string | Wild string | Multi

definition parseSeg :: "string \<Rightarrow> seg" where
  "parseSeg s = (if HasPrefix s ''{'' then Wild (butlast (tl s)) else Lit s)"

text \<open>A pattern is an optional method and a path; a path that ends in a slash stands for all paths below it.\<close>

definition parsePath :: "string \<Rightarrow> seg list" where
  "parsePath p =
     (let parts = Split (CHR ''/'') (tl p)
      in if last parts = [] then map parseSeg (butlast parts) @ [Multi] else map parseSeg parts)"

definition parsePattern :: "string \<Rightarrow> string \<times> seg list" where
  "parsePattern s = (case Cut s (CHR '' '') of Some (meth, p) \<Rightarrow> (meth, parsePath p) | None \<Rightarrow> ([], parsePath s))"

definition hexVal :: "char \<Rightarrow> nat option" where
  "hexVal c =
     (let v = (of_char c :: nat)
      in if 48 \<le> v \<and> v \<le> 57 then Some (v - 48) else if 65 \<le> v \<and> v \<le> 70 then Some (v - 55)
         else if 97 \<le> v \<and> v \<le> 102 then Some (v - 87) else None)"

fun percentDecode :: "string \<Rightarrow> string option" where
  "percentDecode [] = Some []"
| "percentDecode (c # cs) =
     (if c \<noteq> CHR ''%'' then map_option (Cons c) (percentDecode cs)
      else case cs of
             h # l # rest \<Rightarrow>
               (case (hexVal h, hexVal l) of
                  (Some x, Some y) \<Rightarrow> map_option (Cons (char_of (16 * x + y))) (percentDecode rest)
                | _ \<Rightarrow> None)
           | _ \<Rightarrow> None)"

definition pathUnescape :: "string \<Rightarrow> string" where
  "pathUnescape s = (case percentDecode s of Some t \<Rightarrow> t | None \<Rightarrow> s)"

text \<open>The segments of a path, unescaped one by one; a slash at the end is a segment of its own.\<close>

definition pathSegs :: "string \<Rightarrow> string list" where
  "pathSegs p =
     (if p = [] then []
      else let parts = Split (CHR ''/'') (tl p)
           in if last parts = [] then map pathUnescape (butlast parts) @ [''/''] else map pathUnescape parts)"

definition cleanPath :: "string \<Rightarrow> string" where
  "cleanPath p =
     (if p = [] then ''/''
      else let p' = (if HasPrefix p ''/'' then p else ''/'' @ p); np = filepath_Clean p'
           in if last p' = CHR ''/'' \<and> np \<noteq> ''/'' then np @ ''/'' else np)"

subsection \<open>Package net/http: matching\<close>

text \<open>The subtree below a literal, and below a wildcard.\<close>

definition belowLit :: "string \<Rightarrow> (seg list \<times> 't) list \<Rightarrow> (seg list \<times> 't) list" where
  "belowLit s ps = List.map_filter (\<lambda>(q, t). case q of Lit s' # q' \<Rightarrow> if s' = s then Some (q', t) else None | _ \<Rightarrow> None) ps"

definition belowWild :: "(seg list \<times> 't) list \<Rightarrow> (seg list \<times> 't) list" where
  "belowWild ps = List.map_filter (\<lambda>(q, t). case q of Wild _ # q' \<Rightarrow> Some (q', t) | _ \<Rightarrow> None) ps"

definition leaf :: "seg list \<Rightarrow> (seg list \<times> 't) list \<Rightarrow> 't option" where
  "leaf q ps = map_option snd (List.find (\<lambda>p. fst p = q) ps)"

text \<open>A literal first, then a wildcard, then the rest of the path at once, with backtracking.\<close>

fun matchPath :: "(seg list \<times> 't) list \<Rightarrow> string list \<Rightarrow> ('t \<times> string list) option" where
  "matchPath ps [] = map_option (\<lambda>t. (t, [])) (leaf [] ps)"
| "matchPath ps (s # ss) =
     (case matchPath (belowLit s ps) ss of
        Some r \<Rightarrow> Some r
      | None \<Rightarrow>
          (case (if s = ''/'' then None else matchPath (belowWild ps) ss) of
             Some (t, vals) \<Rightarrow> Some (t, s # vals)
           | None \<Rightarrow> map_option (\<lambda>t. (t, [])) (leaf [Multi] ps)))"

type_synonym 't table = "((string \<times> seg list) \<times> 't) list"

definition forMethod :: "string \<Rightarrow> 't table \<Rightarrow> (seg list \<times> seg list \<times> 't) list" where
  "forMethod m tbl = List.map_filter (\<lambda>((m', q), t). if m' = m then Some (q, q, t) else None) tbl"

definition orElse :: "'a option \<Rightarrow> 'a option \<Rightarrow> 'a option" where
  "orElse a b = (case a of Some x \<Rightarrow> Some x | None \<Rightarrow> b)"

text \<open>Patterns with the request's method, for \<open>HEAD\<close> those with \<open>GET\<close> next, and last those with none.\<close>

definition matchTree :: "'t table \<Rightarrow> string \<Rightarrow> string \<Rightarrow> ((seg list \<times> 't) \<times> string list) option" where
  "matchTree tbl meth path =
     orElse (matchPath (forMethod meth tbl) (pathSegs path))
       (orElse (if meth = ''HEAD'' then matchPath (forMethod ''GET'' tbl) (pathSegs path) else None)
          (matchPath (forMethod [] tbl) (pathSegs path)))"

definition exactMatch :: "((seg list \<times> 't) \<times> string list) option \<Rightarrow> string \<Rightarrow> bool" where
  "exactMatch m path =
     (case m of
        None \<Rightarrow> False
      | Some ((q, _), _) \<Rightarrow>
          last q \<noteq> Multi \<or> (path = [] \<or> last path = CHR ''/'') \<and> length q = count_list path (CHR ''/''))"

datatype 't dispatch = Redirect string | Dispatch 't "string list" | Unmatched

text \<open>
  A path without its last slash is redirected where only the one with it is known, a path that is not clean to
  the clean one.  No pattern names a host, so the host of the request plays no part.
\<close>

definition findHandler :: "'t table \<Rightarrow> string \<Rightarrow> string \<Rightarrow> 't dispatch" where
  "findHandler tbl meth escaped =
     (let path = (if meth = ''CONNECT'' then escaped else cleanPath escaped); m = matchTree tbl meth path
      in if \<not> exactMatch m path \<and> exactMatch (matchTree tbl meth (path @ ''/'')) (path @ ''/'')
         then Redirect (cleanPath (pathUnescape escaped) @ ''/'')
         else if path \<noteq> escaped then Redirect path
         else case m of Some ((_, t), vals) \<Rightarrow> Dispatch t vals | None \<Rightarrow> Unmatched)"

subsection \<open>The table\<close>

datatype target =
    THealthz | TLogin | TCallback | TLogout | TAuthConfig | TPassword | TMe | TMePassword | TGetPubkeys | TPutPubkeys
  | TListUsers | TCreateUser | TPatchUser | TDeleteUser | TAdminDevPods | TKoreTopology | TTemplates | TDevPods
  | TCreateDevPod | TGetDevPod | TPatchDevPod | TDeleteDevPod | TEvents | TStream | TTopology | TNoEndpoint | TFiles

definition patterns :: "server \<Rightarrow> (string \<times> target) list" where
  "patterns sv =
     [(''GET /healthz'', THealthz)] @
     (if sv_OAuth sv \<noteq> None then [(''GET /auth/login'', TLogin), (''GET /auth/callback'', TCallback)] else []) @
     [(''POST /auth/logout'', TLogout),
      (''GET /api/auth/config'', TAuthConfig),
      (''POST /api/auth/password'', TPassword),
      (''GET /api/me'', TMe),
      (''PUT /api/me/password'', TMePassword),
      (''GET /api/me/pubkeys'', TGetPubkeys),
      (''PUT /api/me/pubkeys'', TPutPubkeys),
      (''GET /api/admin/users'', TListUsers),
      (''POST /api/admin/users'', TCreateUser),
      (''PATCH /api/admin/users/{name}'', TPatchUser),
      (''DELETE /api/admin/users/{name}'', TDeleteUser),
      (''GET /api/admin/devpods'', TAdminDevPods),
      (''GET /api/kore/topology'', TKoreTopology),
      (''GET /api/templates'', TTemplates),
      (''GET /api/devpods'', TDevPods),
      (''POST /api/devpods'', TCreateDevPod),
      (''GET /api/devpods/{name}'', TGetDevPod),
      (''PATCH /api/devpods/{name}'', TPatchDevPod),
      (''DELETE /api/devpods/{name}'', TDeleteDevPod),
      (''GET /api/devpods/{name}/events'', TEvents),
      (''GET /api/devpods/{name}/stream'', TStream),
      (''GET /api/devpods/{name}/topology'', TTopology),
      (''/api/'', TNoEndpoint),
      (''/'', TFiles)]"

definition routeTable :: "server \<Rightarrow> target table" where
  "routeTable sv = map (\<lambda>(p, t). (parsePattern p, t)) (patterns sv)"

subsection \<open>The request and its answer\<close>

record json_body =
  jb_Login :: "go_error + string \<times> string"
  jb_ChangePassword :: "go_error + string \<times> string"
  jb_Pubkeys :: "go_error + string list"
  jb_CreateUser :: "go_error + create_user_request"
  jb_PatchUser :: "go_error + patch_user_request"
  jb_CreateDevPod :: "go_error + create_request"
  jb_PatchDevPod :: "go_error + bool option"

record raw_request =
  rr_Method :: string
  rr_Path :: string
  rr_Query :: "(string \<times> string) list"
  rr_Origin :: string
  rr_Cookie :: "string \<Rightarrow> string option"
  rr_Body :: json_body

definition Query_Get :: "(string \<times> string) list \<Rightarrow> string \<Rightarrow> string" where
  "Query_Get q k = (case map_of q k of Some v \<Rightarrow> v | None \<Rightarrow> [])"

record 'r views =
  vw_listEvents :: "string \<Rightarrow> api_error + core_event list"
  vw_sortSlice :: "(core_event \<Rightarrow> core_event \<Rightarrow> bool) \<Rightarrow> core_event list \<Rightarrow> core_event list"
  vw_listTopologies :: "api_error + (string \<times> 'r) list"
  vw_getTopology :: "string \<Rightarrow> api_error + 'r"
  vw_decode :: "'r \<Rightarrow> kore_status option"
  vw_flusher :: bool
  vw_dpInformer :: "go_error option"
  vw_evInformer :: "go_error option"
  vw_dpReg :: "go_error option"
  vw_evReg :: "go_error option"

text \<open>What goes to the client: a response, or one of the views.\<close>

datatype reply =
    Plain response
  | EventItems "core_event list"
  | NodeViews "node_topology list"
  | NodeView "(node_topology \<times> string) option"
  | Watching session
  | Streaming string
  | Asset string
  | IndexPage
  | Moved string

text \<open>Latest first; the sort is not stable, so how it orders events of one moment is open.\<close>

definition laterEvent :: "core_event \<Rightarrow> core_event \<Rightarrow> bool" where
  "laterEvent i j = (ke_LastTimestamp j < ke_LastTimestamp i)"

definition handleDevPodEvents ::
  "'s kube \<Rightarrow> 's libs \<Rightarrow> server \<Rightarrow> 'r views \<Rightarrow> string option \<Rightarrow> string \<Rightarrow> ('s, response + core_event list) prog" where
  "handleDevPodEvents K L sv V tok path =
     andThen (sessionFrom K L sv tok) (\<lambda>sess.
     andThen (getOwned K sv sess path) (\<lambda>dp.
     andThen (lift_sum internalError (vw_listEvents V (dp_Name dp))) (\<lambda>items.
       go_on (vw_sortSlice V laterEvent items))))"

definition replying :: "('a \<Rightarrow> reply) \<Rightarrow> ('s, response + 'a) prog \<Rightarrow> ('s, reply) prog" where
  "replying f m = State_Monad.bind m (\<lambda>r. State_Monad.return (case r of Inl x \<Rightarrow> Plain x | Inr a \<Rightarrow> f a))"

text \<open>The handlers of \<open>Webui_Routes\<close>, with the path value, query and body each takes.\<close>

definition callOf :: "target \<Rightarrow> string \<Rightarrow> raw_request \<Rightarrow> call" where
  "callOf t name rq =
     (case t of
        TLogin \<Rightarrow> AuthLogin
      | TCallback \<Rightarrow> AuthCallback (Query_Get (rr_Query rq) ''state'') (Query_Get (rr_Query rq) ''code'')
      | TLogout \<Rightarrow> AuthLogout
      | TAuthConfig \<Rightarrow> AuthConfig
      | TPassword \<Rightarrow> AuthPassword (jb_Login (rr_Body rq))
      | TMe \<Rightarrow> Me
      | TMePassword \<Rightarrow> MePassword (jb_ChangePassword (rr_Body rq))
      | TGetPubkeys \<Rightarrow> MeGetPubkeys
      | TPutPubkeys \<Rightarrow> MePutPubkeys (jb_Pubkeys (rr_Body rq))
      | TListUsers \<Rightarrow> AdminListUsers
      | TCreateUser \<Rightarrow> AdminCreateUser (jb_CreateUser (rr_Body rq))
      | TPatchUser \<Rightarrow> AdminPatchUser name (jb_PatchUser (rr_Body rq))
      | TDeleteUser \<Rightarrow> AdminDeleteUser name
      | TAdminDevPods \<Rightarrow> AdminListDevPods
      | TTemplates \<Rightarrow> ListTemplates
      | TDevPods \<Rightarrow> ListDevPods
      | TCreateDevPod \<Rightarrow> CreateDevPod (jb_CreateDevPod (rr_Body rq))
      | TGetDevPod \<Rightarrow> GetDevPod name
      | TPatchDevPod \<Rightarrow> PatchDevPod name (jb_PatchDevPod (rr_Body rq))
      | TDeleteDevPod \<Rightarrow> DeleteDevPod name
      | _ \<Rightarrow> NoEndpoint)"

definition viewWatch :: "'s kube \<Rightarrow> 's libs \<Rightarrow> server \<Rightarrow> 'r views \<Rightarrow> string option \<Rightarrow> ('s, reply) prog" where
  "viewWatch K L sv V tok = replying Watching (openWatch K L sv tok (vw_flusher V) (vw_dpInformer V) (vw_dpReg V))"

definition viewStream :: "'s kube \<Rightarrow> 's libs \<Rightarrow> server \<Rightarrow> 'r views \<Rightarrow> string option \<Rightarrow> string \<Rightarrow> ('s, reply) prog" where
  "viewStream K L sv V tok name =
     replying Streaming
       (openStream K L sv tok name (vw_flusher V) (vw_dpInformer V) (vw_evInformer V) (vw_dpReg V) (vw_evReg V))"

definition serveTarget ::
  "'s kube \<Rightarrow> 's libs \<Rightarrow> server \<Rightarrow> 'r views \<Rightarrow> raw_request \<Rightarrow> target \<Rightarrow> string \<Rightarrow> ('s, reply) prog" where
  "serveTarget K L sv V rq t name =
     (let tok = rr_Cookie rq SessionCookie
      in if t = THealthz then State_Monad.return (Plain (writeJSON 200 (TextBody ''ok'' None)))
         else if t = TDevPods \<and> Query_Get (rr_Query rq) ''watch'' = ''true'' then viewWatch K L sv V tok
         else if t = TEvents then replying EventItems (handleDevPodEvents K L sv V tok name)
         else if t = TStream then viewStream K L sv V tok name
         else if t = TTopology then replying NodeView (handleDevPodTopology K L sv (vw_decode V) tok name (vw_getTopology V))
         else if t = TKoreTopology then replying NodeViews (handleKoreTopology K L sv (vw_decode V) tok (vw_listTopologies V))
         else if t = TFiles
           then State_Monad.return (if Contains (pathUnescape (rr_Path rq)) ''.'' then Asset (pathUnescape (rr_Path rq)) else IndexPage)
         else do { r \<leftarrow> mux K L sv (rr_Cookie rq) (callOf t name rq); State_Monad.return (Plain r) })"

text \<open>No pattern has two wildcards; a pattern without one has no path value to read.\<close>

definition pathValue :: "string list \<Rightarrow> string" where
  "pathValue vals = (case vals of [] \<Rightarrow> [] | v # _ \<Rightarrow> v)"

definition serveMux :: "'s kube \<Rightarrow> 's libs \<Rightarrow> server \<Rightarrow> 'r views \<Rightarrow> raw_request \<Rightarrow> ('s, reply) prog" where
  "serveMux K L sv V rq =
     (case findHandler (routeTable sv) (rr_Method rq) (rr_Path rq) of
        Redirect p \<Rightarrow> State_Monad.return (Moved p)
      | Dispatch t vals \<Rightarrow> serveTarget K L sv V rq t (pathValue vals)
      | Unmatched \<Rightarrow> State_Monad.return (Plain (httpError ''404 page not found'' None 404)))"

definition serveRequest :: "'s kube \<Rightarrow> 's libs \<Rightarrow> server \<Rightarrow> 'r views \<Rightarrow> raw_request \<Rightarrow> ('s, reply) prog" where
  "serveRequest K L sv V rq = originGuard sv (rr_Method rq) (rr_Origin rq) Plain (serveMux K L sv V rq)"

section \<open>What the multiplexer selects\<close>

text \<open>A pattern fits a path, with the values of its wildcards.\<close>

fun fits :: "seg list \<Rightarrow> string list \<Rightarrow> string list \<Rightarrow> bool" where
  "fits [] [] vals = (vals = [])"
| "fits (Lit s # q) (x # xs) vals = (x = s \<and> fits q xs vals)"
| "fits (Wild _ # q) (x # xs) vals = (x \<noteq> ''/'' \<and> (\<exists>vs. vals = x # vs \<and> fits q xs vs))"
| "fits [Multi] (x # xs) vals = (vals = [])"
| "fits _ _ _ = False"

lemma in_map_filter: "y \<in> set (List.map_filter f xs) \<longleftrightarrow> (\<exists>x\<in>set xs. f x = Some y)"
  by (induction xs) (auto simp: map_filter_def)

lemma in_belowLit: "(q, t) \<in> set (belowLit s ps) \<longleftrightarrow> (Lit s # q, t) \<in> set ps"
  unfolding belowLit_def in_map_filter by (fastforce split: list.splits seg.splits if_splits prod.splits)

lemma in_belowWild: "(q, t) \<in> set (belowWild ps) \<longleftrightarrow> (\<exists>n. (Wild n # q, t) \<in> set ps)"
  unfolding belowWild_def in_map_filter by (fastforce split: list.splits seg.splits prod.splits)

lemma leaf_Some: "leaf q ps = Some t \<Longrightarrow> (q, t) \<in> set ps"
  by (auto simp: leaf_def find_Some_iff) (metis fst_conv nth_mem)

lemma leaf_in: "(q, t) \<in> set ps \<Longrightarrow> \<exists>t'. leaf q ps = Some t'"
  by (cases "leaf q ps") (auto simp: leaf_def find_None_iff)

lemma matchPath_sound: "matchPath ps ss = Some (t, vals) \<Longrightarrow> \<exists>q. (q, t) \<in> set ps \<and> fits q ss vals"
proof (induction ps ss arbitrary: t vals rule: matchPath.induct)
  case (1 ps)
  then show ?case by (force dest: leaf_Some)
next
  case (2 ps s ss)
  show ?case
  proof (cases "matchPath (belowLit s ps) ss")
    case (Some r)
    with "2.prems" "2.IH"(1) show ?thesis by (cases r) (force simp: in_belowLit)
  next
    case lit: None
    show ?thesis
    proof (cases "if s = ''/'' then None else matchPath (belowWild ps) ss")
      case (Some r)
      with "2.prems" "2.IH"(2) lit show ?thesis by (cases r) (fastforce simp: in_belowWild split: if_splits)
    qed (use "2.prems" lit in \<open>force dest: leaf_Some\<close>)
  qed
qed

lemma matchPath_complete: "(q, t) \<in> set ps \<Longrightarrow> fits q ss vals \<Longrightarrow> matchPath ps ss \<noteq> None"
proof (induction q ss vals arbitrary: ps rule: fits.induct)
  case (2 s q x xs vals)
  then have "matchPath (belowLit x ps) xs \<noteq> None" by (simp add: in_belowLit)
  then show ?case by (auto split: option.splits)
next
  case (3 n q x xs vals)
  from "3.prems"(1) have "(q, t) \<in> set (belowWild ps)" by (auto simp: in_belowWild)
  with 3 have "matchPath (belowWild ps) xs \<noteq> None" "x \<noteq> ''/''" by fastforce+
  then show ?case by (auto split: option.splits)
qed (auto split: option.splits dest: leaf_in)

lemma in_forMethod: "(p, q, t) \<in> set (forMethod m tbl) \<longleftrightarrow> p = q \<and> ((m, q), t) \<in> set tbl"
  unfolding forMethod_def in_map_filter by (force split: if_splits)

definition method_fits :: "string \<Rightarrow> string \<Rightarrow> bool" where
  "method_fits m meth \<longleftrightarrow> m = meth \<or> m = ''GET'' \<and> meth = ''HEAD'' \<or> m = []"

lemma matchTree_sound:
  assumes "matchTree tbl meth path = Some ((q, t), vals)"
  shows "\<exists>m. ((m, q), t) \<in> set tbl \<and> method_fits m meth \<and> fits q (pathSegs path) vals"
  using assms
  by (auto simp: matchTree_def orElse_def method_fits_def in_forMethod split: option.splits if_splits dest!: matchPath_sound)

lemma matchTree_complete:
  assumes "((m, q), t) \<in> set tbl" "method_fits m meth" "fits q (pathSegs path) vals"
  shows "matchTree tbl meth path \<noteq> None"
  using assms matchPath_complete [of q "(q, t)" "forMethod m tbl" "pathSegs path" vals]
  by (auto simp: matchTree_def orElse_def method_fits_def in_forMethod split: option.splits)

lemma findHandler_sound:
  assumes "findHandler tbl meth escaped = Dispatch t vals"
  shows "\<exists>m q. ((m, q), t) \<in> set tbl \<and> method_fits m meth \<and> fits q (pathSegs escaped) vals"
  using assms by (fastforce simp: findHandler_def Let_def split: if_splits option.splits dest: matchTree_sound)

text \<open>Every request meets a pattern: none is answered that no handler exists or that the method is wrong.\<close>

lemma routeTable_catches: "(([], [Multi]), TFiles) \<in> set (routeTable sv)"
proof -
  have "parsePattern ''/'' = ([], [Multi])" by code_simp
  moreover have "(''/'', TFiles) \<in> set (patterns sv)" by (simp add: patterns_def)
  ultimately show ?thesis unfolding routeTable_def by force
qed

lemma pathSegs_Cons: "p \<noteq> [] \<Longrightarrow> \<exists>x xs. pathSegs p = x # xs"
  using Split_nonempty [of "CHR ''/''" "tl p"] by (cases "pathSegs p") (auto simp: pathSegs_def Let_def split: if_splits)

lemma matchTree_total: "p \<noteq> [] \<Longrightarrow> matchTree (routeTable sv) meth p \<noteq> None"
  using pathSegs_Cons [of p] by (auto intro!: matchTree_complete [OF routeTable_catches, simplified] simp: method_fits_def)

section \<open>Requests that only read\<close>

fun is_read :: "event \<Rightarrow> bool" where
  "is_read (EvGetDevPod _ _) = True"
| "is_read (EvListDevPods _ _) = True"
| "is_read (EvGetPod _ _) = True"
| "is_read (EvListPods _ _ _) = True"
| "is_read (EvGetUser _ _) = True"
| "is_read (EvListUsers _) = True"
| "is_read (EvGetTemplate _ _) = True"
| "is_read (EvListTemplates _) = True"
| "is_read (EvNow _) = True"
| "is_read _ = False"

lemma only_andThen [only_intros]: "only P m \<Longrightarrow> (\<And>a. only P (f a)) \<Longrightarrow> only P (andThen m f)"
  unfolding andThen_def by (intro only_bind only_intros) auto

lemma only_andThen_lift [only_intros]: "(\<And>a. r = Inr a \<Longrightarrow> only P (f a)) \<Longrightarrow> only P (andThen (lift_sum g r) f)"
  by (cases r) (simp_all add: andThen_def lift_sum_def answer_def go_on_def only_return)

lemma only_steps [only_intros]:
  "only P (answer r)" "only P (go_on a)" "only P (guard_ok b r)" "only P (lift_sum f x)" "only P (ok_or e)"
  by (simp_all add: answer_def go_on_def guard_ok_def lift_sum_def ok_or_def only_return split: sum.splits option.splits)

lemma only_written [only_intros]: "only P m \<Longrightarrow> only P (written m)"
  unfolding written_def by (intro only_bind only_intros) auto

lemma only_replying [only_intros]: "only P m \<Longrightarrow> only P (replying f m)"
  unfolding replying_def by (intro only_bind only_intros) auto

lemma only_case_list [only_intros]:
  "(r = [] \<Longrightarrow> only P m) \<Longrightarrow> (\<And>y ys. r = y # ys \<Longrightarrow> only P (g y ys)) \<Longrightarrow> only P (case r of [] \<Rightarrow> m | y # ys \<Rightarrow> g y ys)"
  by (cases r) auto

lemma reads_guards [only_intros]:
  "only is_read (sessionFrom K L sv tok)" "only is_read (requireAdmin K L sv tok)"
  "only is_read (ownedDevPods K sv owner)" "only is_read (getOwned K sv s name)"
  "only is_read (resolvePoolMembers K sv ns)" "only is_read (bindingInfo K sv d)"
  unfolding sessionFrom_def requireAdmin_def ownedDevPods_def getOwned_def resolvePoolMembers_def bindingInfo_def sessionFrom_def
  by (intro only_intros; simp)+

lemma reads_views [only_intros]:
  "only is_read (handleDevPodEvents K L sv V tok name)" "only is_read (viewWatch K L sv V tok)"
  "only is_read (viewStream K L sv V tok name)" "only is_read (handleKoreTopology K L sv dec tok items)"
  unfolding handleDevPodEvents_def viewWatch_def viewStream_def openWatch_def openStream_def handleKoreTopology_def
  by (intro only_intros only_bind; simp)+

lemma reads_topology [only_intros]: "only is_read (handleDevPodTopology K L sv dec tok name getT)"
  unfolding handleDevPodTopology_def by (intro only_intros only_bind) (simp_all add: only_intros)

lemma reads_pages [only_intros]:
  "only is_read (handleMe K L sv tok)" "only is_read (handleGetPubkeys K L sv tok)"
  "only is_read (handleListUsers K L sv tok)" "only is_read (handleAdminListDevPods K L sv tok)"
  "only is_read (handleListTemplates K L sv tok)" "only is_read (handleListDevPods K L sv tok)"
  "only is_read (handleGetDevPod K L sv tok name)" "only is_read (HandleLogin L oa)"
  unfolding handleMe_def handleGetPubkeys_def handleListUsers_def handleAdminListDevPods_def handleListTemplates_def
    handleListDevPods_def handleGetDevPod_def HandleLogin_def randToken_def
  by (intro only_intros only_bind; simp)+

text \<open>The handlers that need a method the origin check looks at: all that write, and the password login.\<close>

definition changes :: "target \<Rightarrow> bool" where
  "changes t \<longleftrightarrow> t \<in> {TPassword, TMePassword, TPutPubkeys, TCreateUser, TPatchUser, TDeleteUser, TCreateDevPod, TPatchDevPod, TDeleteDevPod}"

definition guarded_row :: "(string \<times> seg list) \<times> target \<Rightarrow> bool" where
  "guarded_row row =
     (case row of ((m, q), t) \<Rightarrow>
        (changes t \<longrightarrow> m \<in> {''POST'', ''PUT'', ''PATCH'', ''DELETE''}) \<and>
        (t = TCallback \<longrightarrow> m = ''GET'' \<and> q = [Lit ''auth'', Lit ''callback'']))"

lemma rows_guarded: "list_all guarded_row (routeTable sv)"
proof (cases "sv_OAuth sv = None")
  case True
  then show ?thesis unfolding routeTable_def patterns_def by (simp only: not_True_eq_False if_False append_Nil append_Cons) code_simp
next
  case False
  then show ?thesis unfolding routeTable_def patterns_def by (simp only: not_False_eq_True if_True append_Nil append_Cons) code_simp
qed

text \<open>What a request may do without being looked at by the origin check: read, or sign up a newcomer.\<close>

definition unguarded :: "server \<Rightarrow> raw_request \<Rightarrow> event \<Rightarrow> bool" where
  "unguarded sv rq e \<longleftrightarrow> is_read e \<or>
     (\<exists>u r. e = EvCreateUser u r \<and> newcomer sv u \<and>
        (\<exists>vals. findHandler (routeTable sv) (rr_Method rq) (rr_Path rq) = Dispatch TCallback vals) \<and>
        rr_Cookie rq stateCookie = Some (Query_Get (rr_Query rq) ''state''))"

lemma only_unguarded: "only is_read m \<Longrightarrow> only (unguarded sv rq) m"
  by (erule only_mono) (simp add: unguarded_def)

lemma unguarded_callback:
  assumes "sv_OAuth sv = Some oa" "findHandler (routeTable sv) (rr_Method rq) (rr_Path rq) = Dispatch TCallback vals"
  shows "only (unguarded sv rq)
     (HandleCallback K L oa (rr_Cookie rq stateCookie) pkceC (Query_Get (rr_Query rq) ''state'') code)"
  unfolding HandleCallback_def finishLogin_def ensureUser_def oauthAdmin_def Let_def
  using assms by (intro only_intros only_bind) (auto simp: unguarded_def newcomer_def)

lemma unguarded_target:
  assumes "\<not> changes t" "findHandler (routeTable sv) (rr_Method rq) (rr_Path rq) = Dispatch t vals"
  shows "only (unguarded sv rq) (serveTarget K L sv V rq t name)"
proof (cases "t = TCallback")
  case True
  with assms(2) show ?thesis
    by (auto simp: serveTarget_def callOf_def mux_def Let_def intro!: only_bind only_intros unguarded_callback)
next
  case False
  with assms(1) have "only is_read (serveTarget K L sv V rq t name)"
    by (cases t) (auto simp: serveTarget_def callOf_def mux_def Let_def changes_def split: option.splits intro!: only_bind only_intros)
  then show ?thesis by (rule only_unguarded)
qed

text \<open>A pattern of its method is where a request is dispatched to, so a request that changes something is looked at.\<close>

lemma dispatched_row:
  assumes "findHandler (routeTable sv) meth p = Dispatch t vals"
  obtains m q where "guarded_row ((m, q), t)" "method_fits m meth" "fits q (pathSegs p) vals"
  using findHandler_sound [OF assms] rows_guarded [of sv] by (auto simp: list_all_iff)

lemma changes_guarded:
  assumes "findHandler (routeTable sv) meth p = Dispatch t vals" "changes t"
  shows "meth \<in> {''POST'', ''PUT'', ''PATCH'', ''DELETE''}"
  using assms(2) by (rule_tac dispatched_row [OF assms(1)]) (auto simp: guarded_row_def method_fits_def)

lemma callback_path:
  assumes "findHandler (routeTable sv) meth p = Dispatch TCallback vals"
  shows "meth \<in> {''GET'', ''HEAD''} \<and> pathSegs p = [''auth'', ''callback'']"
proof -
  have "xs = [''auth'', ''callback'']" if "fits [Lit ''auth'', Lit ''callback''] xs vals" for xs
    using that by (auto elim!: fits.elims)
  then show ?thesis by (rule_tac dispatched_row [OF assms]) (auto simp: guarded_row_def method_fits_def)
qed

definition foreign :: "server \<Rightarrow> raw_request \<Rightarrow> bool" where
  "foreign sv rq \<longleftrightarrow> rr_Origin rq \<noteq> [] \<and> sv_Origin sv \<noteq> [] \<and> rr_Origin rq \<noteq> sv_Origin sv"

lemma foreign_unguarded:
  assumes "foreign sv rq"
  shows "only (unguarded sv rq) (serveRequest K L sv V rq)"
proof (cases "findHandler (routeTable sv) (rr_Method rq) (rr_Path rq)")
  case (Dispatch t vals)
  show ?thesis
  proof (cases "changes t")
    case True
    with changes_guarded [OF Dispatch] assms show ?thesis by (auto simp: serveRequest_def originGuard_def foreign_def only_return)
  next
    case False
    with Dispatch show ?thesis
      by (auto simp: serveRequest_def originGuard_def serveMux_def intro!: only_intros unguarded_target)
  qed
qed (simp_all add: serveRequest_def originGuard_def serveMux_def only_return)

text \<open>The writes of a request are those of the handler it reaches, so the licences of \<open>Webui_Routes\<close> cover them.\<close>

lemma lawful_reads: "only is_read m \<Longrightarrow> lawful (\<lambda>E e. is_read e \<or> Q E e) E0 m (\<lambda>_ _. True)"
proof -
  have "list_all is_read es \<Longrightarrow> obeys (\<lambda>E e. is_read e \<or> Q E e) E0 es" for es
    by (induction es arbitrary: E0) simp_all
  then show "only is_read m \<Longrightarrow> ?thesis" unfolding lawful_def only_def by (erule_tac ensures_mono) simp
qed

lemma lawful_weaken: "lawful P E m R \<Longrightarrow> (\<And>E e. P E e \<Longrightarrow> Q E e) \<Longrightarrow> lawful Q E m R"
proof -
  assume *: "\<And>E e. P E e \<Longrightarrow> Q E e"
  then have "obeys P E es \<Longrightarrow> obeys Q E es" for es by (induction es arbitrary: E) auto
  then show "lawful P E m R \<Longrightarrow> lawful Q E m R" unfolding lawful_def by (erule_tac ensures_mono) auto
qed

abbreviation licensed_or_read :: "'s libs \<Rightarrow> server \<Rightarrow> raw_request \<Rightarrow> event set \<Rightarrow> event \<Rightarrow> bool" where
  "licensed_or_read L sv rq \<equiv> (\<lambda>E e. is_read e \<or> licensed L sv (rr_Cookie rq SessionCookie) E e)"

lemma law_muxed: "lawful (licensed_or_read L sv rq) {} (do { r \<leftarrow> mux K L sv (rr_Cookie rq) c; State_Monad.return (Plain r) }) (\<lambda>_ _. True)"
proof (rule lawful_bind)
  have "lawful (licensed_or_read L sv rq) {} (mux K L sv (rr_Cookie rq) c) (\<lambda>_ _. True)"
    by (rule lawful_weaken [OF law_mux]) simp
  then show "lawful (licensed_or_read L sv rq) {} (mux K L sv (rr_Cookie rq) c)
      (\<lambda>r E. lawful (licensed_or_read L sv rq) E (State_Monad.return (Plain r)) (\<lambda>_ _. True))"
    by (rule lawful_mono) (simp add: lawful_return)
qed

lemma law_serveTarget: "lawful (licensed_or_read L sv rq) {} (serveTarget K L sv V rq t name) (\<lambda>_ _. True)"
  unfolding serveTarget_def Let_def by (auto intro!: lawful_reads only_intros lawful_return law_muxed)

lemma law_ServeHTTP: "lawful (licensed_or_read L sv rq) {} (serveRequest K L sv V rq) (\<lambda>_ _. True)"
  unfolding serveRequest_def originGuard_def serveMux_def
  by (auto intro!: lawful_return law_serveTarget split: dispatch.splits)

lemma serveRequest_licensed:
  assumes "made (serveRequest K L sv V rq) w = pre @ e # post"
  shows "is_read e \<or> licensed L sv (rr_Cookie rq SessionCookie) (set pre) e"
proof -
  have "obeys (licensed_or_read L sv rq) {} (made (serveRequest K L sv V rq) w)"
    using ensuresD [OF law_ServeHTTP [unfolded lawful_def]] by fast
  with assms show ?thesis using obeysD by fastforce
qed

section \<open>Properties\<close>

text \<open>
  C29. A page of another origin can make a browser do nothing but read: a request that carries a foreign origin writes no
  object, whatever its method, path, body and cookies.  The one exception is the return from an OAuth login, which
  is a \<open>GET\<close>: it may sign up a newcomer, with no rights and no keys, if the state it brings is the one in the cookie.
\<close>

theorem cross_origin_harmless:
  assumes "rr_Origin rq \<noteq> []" "sv_Origin sv \<noteq> []" "rr_Origin rq \<noteq> sv_Origin sv" "e \<in> set (made (serveRequest K L sv V rq) w)"
  shows "is_read e \<or>
    (\<exists>u r. e = EvCreateUser u r \<and> newcomer sv u \<and> \<not> us_Admin (u_Spec u) \<and> us_Pubkeys (u_Spec u) = [] \<and>
       rr_Method rq \<in> {''GET'', ''HEAD''} \<and> pathSegs (rr_Path rq) = [''auth'', ''callback''] \<and>
       rr_Cookie rq stateCookie = Some (Query_Get (rr_Query rq) ''state''))"
proof -
  have "foreign sv rq" using assms by (simp add: foreign_def)
  then have "unguarded sv rq e" using assms(4) by (rule onlyD [OF foreign_unguarded])
  moreover have "\<not> us_Admin (u_Spec u) \<and> us_Pubkeys (u_Spec u) = []" if "newcomer sv u" for u
    using that by (auto simp: newcomer_def user0_def user_spec0_def)
  ultimately show ?thesis using callback_path by (auto simp: unguarded_def)
qed

text \<open>
  Every request is either redirected to the path it should have asked for or reaches a handler registered for its
  method and path, and what it writes is licensed by the session of its cookie and by what was read before.
\<close>

theorem front_door_licensed:
  assumes "made (serveRequest K L sv V rq) w = pre @ e # post" "\<not> is_read e"
  shows "\<exists>t vals m q. findHandler (routeTable sv) (rr_Method rq) (rr_Path rq) = Dispatch t vals \<and>
    ((m, q), t) \<in> set (routeTable sv) \<and> method_fits m (rr_Method rq) \<and> fits q (pathSegs (rr_Path rq)) vals \<and>
    licensed L sv (rr_Cookie rq SessionCookie) (set pre) e"
proof -
  have nil: "made (State_Monad.return a) w = []" for a by (simp add: made_def)
  obtain t vals where d: "findHandler (routeTable sv) (rr_Method rq) (rr_Path rq) = Dispatch t vals"
    using assms(1) by (auto simp: serveRequest_def originGuard_def serveMux_def nil split: dispatch.splits if_splits)
  with findHandler_sound [OF d] serveRequest_licensed [OF assms(1)] assms(2) show ?thesis by blast
qed

subsection \<open>Examples\<close>

definition ex_body :: json_body where
  "ex_body = \<lparr>jb_Login = Inl (msg []), jb_ChangePassword = Inl (msg []), jb_Pubkeys = Inl (msg []), jb_CreateUser = Inl (msg []),
     jb_PatchUser = Inl (msg []), jb_CreateDevPod = Inl (msg []), jb_PatchDevPod = Inl (msg [])\<rparr>"

definition ex_views :: "unit views" where
  "ex_views = \<lparr>vw_listEvents = (\<lambda>_. Inr []), vw_sortSlice = (\<lambda>_ xs. xs), vw_listTopologies = Inr [], vw_getTopology = (\<lambda>_. Inr ()),
     vw_decode = (\<lambda>_. None), vw_flusher = True, vw_dpInformer = None, vw_evInformer = None, vw_dpReg = None, vw_evReg = None\<rparr>"

definition ex_raw :: "string \<Rightarrow> string \<Rightarrow> string \<Rightarrow> raw_request" where
  "ex_raw meth p origin = \<lparr>rr_Method = meth, rr_Path = p, rr_Query = [], rr_Origin = origin,
     rr_Cookie = (\<lambda>n. if n = SessionCookie then Some ex_token else None), rr_Body = ex_body\<rparr>"

lemma ex_delete_route:
  "findHandler (routeTable ex_sv) ''DELETE'' ''/api/devpods/bob-x'' = Dispatch TDeleteDevPod [''bob-x'']"
  by code_simp

lemma ex_get_route: "findHandler (routeTable ex_sv) ''GET'' ''/api/devpods'' = Dispatch TDevPods []"
  by code_simp

lemma ex_table: "routeTable (ex_sv\<lparr>sv_Origin := o'\<rparr>) = routeTable ex_sv"
  by (simp add: routeTable_def patterns_def)

lemma ex_made_bind: "made (do { r \<leftarrow> m; State_Monad.return (f r) }) w = made m w"
  by (simp add: made_def split_beta)

lemma ex_delete_served:
  "made (serveRequest mem_kube ex_libs ex_sv ex_views (ex_raw ''DELETE'' ''/api/devpods/bob-x'' [])) (ex_world [ex_created]) =
     [EvNow 1000, EvGetDevPod (''ns'', ''bob-x'') (Inr ex_created)] @ EvDeleteDevPod (''ns'', ''bob-x'') (Inr ()) # []"
proof -
  have "made (mux mem_kube ex_libs ex_sv (\<lambda>n. if n = SessionCookie then Some ex_token else None) (DeleteDevPod ''bob-x'')) (ex_world [ex_created]) =
     [EvNow 1000, EvGetDevPod (''ns'', ''bob-x'') (Inr ex_created)] @ EvDeleteDevPod (''ns'', ''bob-x'') (Inr ()) # []"
    using ex_delete_trace unfolding ex_routes .
  then show ?thesis
    by (simp add: serveRequest_def originGuard_def serveMux_def ex_raw_def ex_delete_route serveTarget_def callOf_def pathValue_def ex_made_bind)
qed

lemma ex_list_served:
  "made (serveRequest mem_kube ex_libs (ex_sv\<lparr>sv_Origin := ''https://ui''\<rparr>) ex_views (ex_raw ''GET'' ''/api/devpods'' ''https://evil'')) (ex_world [ex_created]) =
     [EvNow 1000, EvListDevPods (Some ''ns'') (Inr [ex_created])]"
proof -
  have "made (mux mem_kube ex_libs (ex_sv\<lparr>sv_Origin := ''https://ui''\<rparr>) (\<lambda>n. if n = SessionCookie then Some ex_token else None) ListDevPods) (ex_world [ex_created]) =
     [EvNow 1000, EvListDevPods (Some ''ns'') (Inr [ex_created])]"
    by (simp add: mux_def handleListDevPods_def made_def written_def andThen_def ex_session case_prod_beta) code_simp
  then show ?thesis
    by (simp add: serveRequest_def originGuard_def serveMux_def ex_raw_def ex_table ex_get_route serveTarget_def callOf_def Query_Get_def ex_made_bind)
qed

definition ex_evil :: raw_request where "ex_evil = ex_raw ''GET'' ''/api/devpods'' ''https://evil''"
definition ex_ui :: server where "ex_ui = ex_sv\<lparr>sv_Origin := ''https://ui''\<rparr>"
definition ex_listed :: event where "ex_listed = EvListDevPods (Some ''ns'') (Inr [ex_created])"

theorem cross_origin_harmless_witness:
  "is_read ex_listed \<or>
    (\<exists>u r. ex_listed = EvCreateUser u r \<and> newcomer ex_ui u \<and> \<not> us_Admin (u_Spec u) \<and> us_Pubkeys (u_Spec u) = [] \<and>
       rr_Method ex_evil \<in> {''GET'', ''HEAD''} \<and> pathSegs (rr_Path ex_evil) = [''auth'', ''callback''] \<and>
       rr_Cookie ex_evil stateCookie = Some (Query_Get (rr_Query ex_evil) ''state''))"
proof (rule cross_origin_harmless)
  show "ex_listed \<in> set (made (serveRequest mem_kube ex_libs ex_ui ex_views ex_evil) (ex_world [ex_created]))"
    unfolding ex_ui_def ex_evil_def ex_listed_def ex_list_served by simp
qed (simp_all add: ex_evil_def ex_ui_def ex_raw_def)

theorem front_door_licensed_witness:
  "\<exists>t vals m q. findHandler (routeTable ex_sv) ''DELETE'' ''/api/devpods/bob-x'' = Dispatch t vals \<and>
     ((m, q), t) \<in> set (routeTable ex_sv) \<and> method_fits m ''DELETE'' \<and> fits q (pathSegs ''/api/devpods/bob-x'') vals \<and>
     licensed ex_libs ex_sv (Some ex_token) (set [EvNow 1000, EvGetDevPod (''ns'', ''bob-x'') (Inr ex_created)])
       (EvDeleteDevPod (''ns'', ''bob-x'') (Inr ()))"
  using front_door_licensed [OF ex_delete_served] unfolding ex_raw_def by simp

end
