(* ===== verification/Spec2Isabelle.thy ===== *)
theory Spec2Isabelle
  imports DevPod_Failures Controller_Main Controller_Watch Gateway_Main Gateway_Connection
    Supervisor_Boot Supervisor_Bootstrap Webui_Main Webui_Mux
begin

text \<open>
  \<^bold>\<open>Verification of the DevPod operator.\<close>

  \<^bold>\<open>The program.\<close> A DevPod is a user's development container in a Kubernetes cluster. Three programs work on the
  custom resources of \<open>src/api/v1alpha1\<close>; they share no memory and meet only in the API server:
  \<^item> the \<^emph>\<open>controller\<close> (\<open>src/internal/controllers\<close>, \<open>src/internal/render\<close>) turns DevPods into Pods,
    Services, claims, Secrets and NetworkPolicies and writes where a DevPod is reached into its status;
  \<^item> the \<^emph>\<open>gateway\<close> (\<open>src/internal/gateway\<close>, \<open>src/cmd/gateway\<close>) authenticates SSH logins against User
    objects and LDAP, reads the status and bridges the connection to the Pod, and proxies HTTP by subdomain;
  \<^item> the \<^emph>\<open>web UI\<close> (\<open>src/internal/webui\<close>, \<open>src/cmd/webui\<close>) lets users create, stop and delete their
    DevPods within a quota, and administrators manage users;
  \<^item> inside each Pod the \<^emph>\<open>supervisor\<close> (\<open>src/cmd/supervisor\<close>) is process 1.

  \<^bold>\<open>Foundations.\<close>
  \<^item> \<open>Prelude\<close>: the Go values the sources use (strings, errors with their wrapping, 64-bit durations and times,
    maps as association lists), the standard-library functions on them, and the shared lemmas and collections.
  \<^item> \<open>Encoding\<close>: hexadecimal, two base64 alphabets and JSON with their decoders. Locale \<open>string_codec\<close> says that a decoder
    inverts its encoder, \<open>char_codec\<close> gives that from one character's law (a \<open>sublocale\<close>); interpreted for hex, base64,
    JSON strings and LDAP filters. The fuel of a scanner is the length of its text, of which each round takes a character.
  \<^item> \<open>Kube_Types\<close>: the types of \<open>src/api/v1alpha1\<close> and the Kubernetes objects, one record each, and the admission rules.
  \<^item> \<open>Kube_Client\<close>: a program is a \<open>State_Monad\<close> computation over the cluster, with a log of its calls and their answers. The client
    is a record of functions, an argument of every definition, so the theorems hold for any server, any interference and
    any failure; \<open>kube_laws\<close> states what is documented of the helpers of controller-runtime. \<open>ensures\<close> and
    \<open>only\<close> are the two logics for the calls of a program. \<open>Mem_Cluster\<close> is one concrete client, used by the closed examples.

  \<^bold>\<open>Controller.\<close>
  \<^item> \<open>Render\<close> (\<open>internal/render\<close>): all rendered objects. \<open>render.Pod\<close>, a series of edits in place, equals a one-pass
    reference; the user's labels, containers and volumes are kept, reserved labels win.
  \<^item> \<open>Finalizer\<close>: locale \<open>finalizer_discipline\<close>, what is written for an object before its finalizer is there and when it is
    cleared; interpreted for both reconcilers in \<open>User_Controller\<close>.
  \<^item> \<open>DevPod_Controller\<close>, \<open>DevPod_Failures\<close> (\<open>devpod_controller.go\<close>): every method of the reconciler. A pass writes only
    objects of its own DevPod; the finalizer goes last; a stopped DevPod is hibernated; a Pod is applied only over
    nothing or over a living Pod of the same specification; the status settles; and the failure record is erased in
    the pass that makes it. The doubling loop of the backoff has its termination proof.
  \<^item> \<open>Controller_Main\<close> (\<open>cmd/controller/main.go\<close>): the reconcilers the flags give; they never install the policies that
    \<open>GatewayConfig.spec.isolateNetwork\<close> promises.
  \<^item> \<open>User_Controller\<close> (\<open>user_controller.go\<close>), with the 32-bit count.
  \<^item> \<open>Snapshot_Controller\<close> (\<open>snapshot_controller.go\<close>): refinement of a life cycle given as a step relation, an invariant
    over any history of passes, and when a Job may be created.
  \<^item> \<open>Controller_Watch\<close> (the three \<open>SetupWithManager\<close>): what wakes a reconciler. No wake-up of a User that waits for its last
    DevPod is lost; every object of a DevPod but its network policies brings its reconciler back.

  \<^bold>\<open>Gateway.\<close>
  \<^item> \<open>Gateway_Login\<close> (\<open>login_name.go\<close>, \<open>httpproxy.go\<close>, \<open>ldap_escape.go\<close>), \<open>Gateway_Auth\<close> (\<open>identity.go\<close>, \<open>auth.go\<close>,
    \<open>audit.go\<close>): \<open>Authenticate\<close> refines an abstract access policy. Locale \<open>identity_sources\<close> is what it relies on in its
    sources; it is interpreted for any list of sources and, in \<open>Gateway_Session\<close>, for the chain the configuration builds.
  \<^item> \<open>Ldap_Source\<close> (\<open>ldap.go\<close>): cache, single retry, warning limiter and metrics; concurrent callers as a step relation over
    singleflight, which a single call refines. Returned keys are of bounded age in every interleaving.
  \<^item> \<open>Gateway_Proxy\<close> (\<open>proxy.go\<close>): the goroutines of one channel as a step relation; order, completeness and progress. The
    measure \<open>chan_fuel\<close> falls with every step of the gateway, so a run of it ends.
  \<^item> \<open>Gateway_Connection\<close> (\<open>proxy.go\<close>: \<open>Proxy\<close>; \<open>dialer.go\<close>): the loops over channels and global requests between two connections
    as a step relation. After either connection ends it returns, with that end's reason and everything passed on; the
    measure is \<open>px_weight\<close>.
  \<^item> \<open>Gateway_Session\<close> (\<open>cmd/gateway/main.go\<close>, \<open>events.go\<close>, \<open>proxyproto.go\<close>): an accepted session dials the DevPod its login
    names, with a key that is vouched for, and is audited once.
  \<^item> \<open>Gateway_Main\<close> (\<open>cmd/gateway/main.go\<close>: \<open>main\<close>, \<open>newCachedClient\<close>, \<open>run\<close>): fail-fast start-up, the accept loop with its 64-bit
    counter, and the end. What a started process admits follows from the configuration it read.

  \<^bold>\<open>Supervisor.\<close> \<open>Supervisor\<close> (\<open>cmd/supervisor\<close>): the wait loop over the results of \<open>wait4\<close>, which ends and returns the
    documented code; the rewriting of \<open>/etc/passwd\<close>; the environment line, which sshd's quoting rules read back.
    \<open>Supervisor_Boot\<close>: \<open>main\<close> as a list of actions; the shell announced to sessions is root's shell when sshd starts, and the
    process ends with sshd.
    \<open>Supervisor_Bootstrap\<close>: the copy of the init container into a POSIX file system (links followed at most 40 times, as the
    kernel does), any call of which may fail; a failed copy is completed by the next one.

  \<^bold>\<open>Web UI.\<close>
  \<^item> \<open>Webui_Quota\<close> (\<open>mapping.go\<close>, \<open>quota.go\<close>, \<open>kore.go\<close>, \<open>template_apply.go\<close>): the quota check is exact, and keeps an owner within
    the quota over any history as long as limits are not negative (which the code does not check).
  \<^item> \<open>Webui_Session\<close> (\<open>session.go\<close>): locale \<open>session_tokens\<close>, the contract of minting and verifying, interpreted for the two
    functions; only issued sessions are accepted if the keyed hash cannot be forged.
  \<^item> \<open>Webui_Server\<close> (\<open>api_devpods.go\<close>), \<open>Webui_Users\<close> (\<open>password.go\<close>, \<open>oauth.go\<close>, \<open>api_users.go\<close>, \<open>api_admin_users.go\<close>,
    \<open>api_admin_devpods.go\<close>, \<open>api_templates.go\<close>): the handlers. A handler's early return is the left side of a sum.
  \<^item> \<open>Webui_Routes\<close> (\<open>server.go\<close>): the origin check and the routes. The logic \<open>lawful\<close> says of each call what was
    known from earlier answers when it was made; from one licence for all writes follow the theorems on creation, on changes
    and on administrator rights.
  \<^item> \<open>Webui_Main\<close> (\<open>cmd/webui/main.go\<close>): the server the flags give, and the life of a login.
  \<^item> \<open>Webui_Stream\<close> (\<open>watch.go\<close>, \<open>watch_stream.go\<close>): the streams with their bounded buffers.
  \<^item> \<open>Webui_Topology\<close> (\<open>kore_topology.go\<close>): the CPU layouts, and what an owner sees of other pods.
  \<^item> \<open>Webui_Mux\<close> (\<open>server.go\<close>: \<open>Routes\<close>): patterns and the multiplexer of \<open>net/http\<close>, sound and complete for the patterns that
    fit; a request from another origin only reads.

  \<^bold>\<open>This theory\<close> has the theorems that span the programs: what the web UI builds is admitted and rendered, its
  CPU bindings on a Pod come from templates, sshd listens where the controller says, the supervisor a Pod starts is the
  one the init container copied, and the gateway reaches what the controller published.

  \<^bold>\<open>Arguments of the model.\<close> The API server, the clock, key generation and parsing (\<open>x/crypto/ssh\<close>), go-ldap, bcrypt, HMAC, OAuth and
  OpenID, YAML and the printing of quantities are arguments; quantities are integers in one unit. What a theorem
  needs of them is a hypothesis, and its example shows an instance.

  \<^bold>\<open>Not modelled.\<close> Listeners, informers and caches, signal delivery and process start (I/O); the managers of controller
  and web UI, and the registration of collectors (calls of libraries); generated deep copies (values here
  are immutable); the browser application with its embedded files, the deployment files and the tests.
\<close>

section \<open>From the form to the Pod\<close>

lemma keys_mergeStrings: "fst ` set (mergeStrings dst src) \<subseteq> fst ` set dst \<union> fst ` set src"
proof
  fix k
  assume "k \<in> fst ` set (mergeStrings dst src)"
  then have "map_of (mergeStrings dst src) k \<noteq> None" by (simp add: map_of_eq_None_iff)
  then show "k \<in> fst ` set dst \<union> fst ` set src"
    unfolding map_of_mergeStrings by (force dest: map_of_SomeD split: option.splits)
qed

lemma Pod_annotations:
  assumes "Pod dp cfg = Inr p"
  shows "fst ` set (meta_Annotations (pod_Meta p)) \<subseteq> podAnnotations dp"
proof -
  from assms obtain pw where "ds_Pod (dp_Spec dp) = Some pw"
    "meta_Annotations (pod_Meta p) = mergeStrings [] (pm_Annotations (pw_Metadata pw))"
    by (auto simp: Pod_def Let_def ObjectMeta_def object_meta0_def mergeStringsCopy_Nil
        split: option.splits sum.splits if_splits)
  then show ?thesis using keys_mergeStrings [of "[]"] by (simp add: podAnnotations_def)
qed




text \<open>
  From the request to the Pod: a CPU-binding annotation on the Pod that \<open>render.Pod\<close> renders for a DevPod created
  through the web UI was put there by a template read in that request, unless the session is an administrator's.
\<close>

theorem kore_annotations_from_template:
  assumes "made (Routes K L sv rq) w = pre @ EvCreateDevPod d r # post" "Pod d cfg = Inr p"
    "k \<in> fst ` set (meta_Annotations (pod_Meta p))" "HasPrefix k KorePrefix"
  shows "\<exists>s. session_of L sv (rq_Cookie rq SessionCookie) (set pre) s \<and>
    (se_Admin s \<or> (\<exists>n tpl. EvGetTemplate n (Inr tpl) \<in> set pre \<and> k \<in> templateAnnotations tpl))"
proof -
  from Routes_licensed [OF assms(1)] obtain s where s: "session_of L sv (rq_Cookie rq SessionCookie) (set pre) s"
    "may_create L sv (set pre) s d" by auto
  moreover have "k \<in> podAnnotations d" using Pod_annotations [OF assms(2)] assms(3) by blast
  ultimately show ?thesis using assms(4) unfolding may_create_def kore_stamped_def by blast
qed

section \<open>From the Pod to sshd\<close>





section \<open>From the init container to the supervisor\<close>



section \<open>From the status to the gateway\<close>

lemma Itoa_hostport: "CHR '':'' \<notin> set (Itoa n)" "CHR ''['' \<notin> set (Itoa n)" "CHR '']'' \<notin> set (Itoa n)"
proof -
  have "Itoa n = CHR ''-'' # Itoa (- n)" if "n < 0" using that by (simp add: Itoa_def)
  then show "CHR '':'' \<notin> set (Itoa n)" "CHR ''['' \<notin> set (Itoa n)" "CHR '']'' \<notin> set (Itoa n)"
    using Itoa_clean [of n] Itoa_clean [of "- n"] by (cases "n < 0"; simp)+
qed

text \<open>
  C33. From the reconciler to the gateway: when the stored status is the one \<open>updateStatus\<close> builds for a running Pod,
  the HTTP proxy sends a request for the DevPod and port of its host name to that Pod's address at that port. The
  address of an IPv6 Pod has no brackets in the endpoint, and the gateway answers it with an error.
\<close>

theorem endpoint_reaches_pod:
  assumes "subdomainOf hp rHost = Some sub" "parseSubdomain sub = Inr (name, pt)"
    and pod: "pst_Phase (pod_Status p) = PodRunning" "pst_PodIP (pod_Status p) = ip" "ip \<noteq> []"
      "CHR ''['' \<notin> set ip" "CHR '']'' \<notin> set ip"
    and stored: "fst (k_get_devpod K (hp_dpNS hp, name) (cluster w)) = Inr dp" "dp_Status dp = desired_found r dp0 p"
  shows "result (ServeHTTP K hp rHost) w =
    (if CHR '':'' \<in> set ip then HttpError 500 ''invalid endpoint'' else ProxyTo (ip @ '':'' @ Itoa pt))"
proof -
  let ?port = "Itoa (sint (BackendPort dp0 (GwConfig r)))"
  have ep: "dst_Phase (dp_Status dp) = DevPodRunning" "dst_Endpoint (dp_Status dp) = ip @ '':'' @ ?port"
    using stored pod by (simp_all add: desired_found_def Let_def)
  have "SplitHostPort (ip @ '':'' @ ?port) =
      (if CHR '':'' \<in> set ip then Inl (tooManyColons (ip @ '':'' @ ?port)) else Inr (ip, ?port))"
    using SplitHostPort_colons [of ip ?port] SplitHostPort_plain [of ip ?port] pod(4,5) Itoa_hostport by auto
  with ep assms(1,2) stored(1) show ?thesis
    by (simp add: ServeHTTP_def result_def JoinHostPort_def)
qed

section \<open>The theorems at work\<close>



definition ex_pool_pod :: pod_workload_spec where
  "ex_pool_pod = (formPod ex_create [(''cpu'', 1), (''memory'', 1)])\<lparr>pw_Metadata :=
     (pw_Metadata (formPod ex_create []))\<lparr>pm_Annotations := [(''kore.zjusct.io/pool'', ''lab'')]\<rparr>\<rparr>"

definition ex_template :: devpod_template where
  "ex_template = \<lparr>tpl_Meta = object_meta0\<lparr>meta_Name := ''t''\<rparr>,
     tpl_Spec = \<lparr>ts_DisplayName = [], ts_Description = [], ts_Binding = None,
       ts_PodPreset = Some \<lparr>pp_Pod = ex_pool_pod, pp_Shell = [], pp_Persistence = None\<rparr>\<rparr>\<rparr>"

definition ex_pick :: create_request where
  "ex_pick = ex_create\<lparr>cr_Image := [], cr_TemplateRef := ''t''\<rparr>"

definition ex_pooled :: devpod where
  "ex_pooled = ex_created\<lparr>dp_Spec := (dp_Spec ex_created)\<lparr>ds_Pod := Some ex_pool_pod\<rparr>\<rparr>"

abbreviation ex_lab :: "mem world" where
  "ex_lab \<equiv> mem_world (mem0\<lparr>m_users := [ex_bob], m_templates := [ex_template]\<rparr>)"

lemma ex_lab_fresh [simp]: "calls ex_lab = []" "m_clock (cluster ex_lab) = 1000"
  by (simp_all add: mem_world_def mem0_def)

lemma ex_pick_trace:
  "made (Routes mem_kube ex_libs ex_sv (ex_rq (CreateDevPod (Inr ex_pick)))) ex_lab =
     [EvNow 1000, EvGetTemplate ''t'' (Inr ex_template), EvGetUser ''bob'' (Inr ex_bob), EvListDevPods (Some ''ns'') (Inr [])] @
     EvCreateDevPod ex_pooled (Inr ex_pooled) # []"
  unfolding ex_routes by (simp add: mux_def handleCreateDevPod_def ex_made) code_simp

lemma ex_pooled_pod:
  "\<exists>p. Pod ex_pooled gateway_config0 = Inr p \<and> ''kore.zjusct.io/pool'' \<in> fst ` set (meta_Annotations (pod_Meta p))"
proof -
  have "case Pod ex_pooled gateway_config0 of Inl _ \<Rightarrow> False | Inr p \<Rightarrow> ''kore.zjusct.io/pool'' \<in> fst ` set (meta_Annotations (pod_Meta p))"
    by code_simp
  then show ?thesis by (auto split: sum.splits)
qed

theorem kore_annotations_from_template_witness:
  "\<exists>s n tpl. session_of ex_libs ex_sv (rq_Cookie (ex_rq (CreateDevPod (Inr ex_pick))) SessionCookie)
       (set [EvNow 1000, EvGetTemplate ''t'' (Inr ex_template), EvGetUser ''bob'' (Inr ex_bob), EvListDevPods (Some ''ns'') (Inr [])]) s \<and>
     (se_Admin s \<or> ''kore.zjusct.io/pool'' \<in> templateAnnotations ex_template)"
proof -
  from ex_pooled_pod obtain p where p: "Pod ex_pooled gateway_config0 = Inr p"
    "''kore.zjusct.io/pool'' \<in> fst ` set (meta_Annotations (pod_Meta p))" by blast
  have "HasPrefix ''kore.zjusct.io/pool'' KorePrefix" by (simp add: HasPrefix_iff KorePrefix_def)
  from kore_annotations_from_template [OF ex_pick_trace p this] show ?thesis by auto
qed

definition ex_up :: "string \<Rightarrow> pod" where
  "ex_up ip = \<lparr>pod_Meta = object_meta0, pod_Spec = pod_spec0, pod_Status = pod_status0\<lparr>pst_Phase := PodRunning, pst_PodIP := ip\<rparr>\<rparr>"

definition ex_up_cluster :: "string \<Rightarrow> mem" where
  "ex_up_cluster ip = mem0\<lparr>m_devpods := [ex_dp\<lparr>dp_Status := desired_found ex_r ex_dp (ex_up ip)\<rparr>]\<rparr>"

theorem endpoint_reaches_pod_witness:
  "result (ServeHTTP mem_kube ex_proxy ''alice-dev-80-dev.x.io:443'') (mem_world (ex_up_cluster ''fd00::7'')) =
     HttpError 500 ''invalid endpoint''"
proof -
  let ?dp = "ex_dp\<lparr>dp_Status := desired_found ex_r ex_dp (ex_up ''fd00::7'')\<rparr>"
  have "fst (k_get_devpod mem_kube (hp_dpNS ex_proxy, ''alice-dev'') (cluster (mem_world (ex_up_cluster ''fd00::7'')))) = Inr ?dp"
    by (simp add: ex_proxy_def ex_up_cluster_def mem_world_def mem0_def meta_key_def ex_defs)
  with ex_subdomain show ?thesis
    using endpoint_reaches_pod [of ex_proxy "''alice-dev-80-dev.x.io:443''" "''alice-dev-80''" "''alice-dev''" 80 "ex_up ''fd00::7''"
        "''fd00::7''" mem_kube "mem_world (ex_up_cluster ''fd00::7'')" ?dp ex_r ex_dp]
    by (simp add: ex_up_def)
qed









end
